(* ===== verification/Prelude.thy ===== *)
theory Prelude
  imports Main "HOL-Library.Finite_Map" "HOL-Library.List_Lexorder" "HOL-Library.Char_ord"
begin

text \<open>
  Shared vocabulary of the development: the collections of automation facts, Go's 64-bit
  \<open>int\<close> arithmetic, Go maps as finite maps together with the iteration orders a
  \<open>range\<close> loop may choose, and the generic list and map lemmas the components use.
\<close>

section \<open>Collections\<close>

named_theorems store_defs \<open>definitions of the operations of the store\<close>
named_theorems handler_defs \<open>definitions of the HTTP handlers\<close>
named_theorems frame_simps \<open>what an operation leaves unchanged\<close>
named_theorems wf_intros \<open>preservation of invariants\<close>

section \<open>Go's int\<close>

text \<open>
  On the platforms the program is built for, \<open>int\<close> is a 64-bit two's complement integer.
  A value is an \<open>int\<close> in that range and every arithmetic operation of the source is
  followed by \<open>s64\<close>, the wrap-around.
\<close>

definition s64 :: "int \<Rightarrow> int" where
  "s64 n = (n + 2 ^ 63) mod 2 ^ 64 - 2 ^ 63"

definition max_int :: int where
  "max_int = 2 ^ 63 - 1"

definition min_int :: int where
  "min_int = - (2 ^ 63)"

lemma s64_id: "min_int \<le> n \<Longrightarrow> n \<le> max_int \<Longrightarrow> s64 n = n"
  by (simp add: s64_def min_int_def max_int_def)

lemma s64_range: "min_int \<le> s64 n \<and> s64 n \<le> max_int"
proof -
  have "0 \<le> (n + 2 ^ 63) mod 2 ^ 64" "(n + 2 ^ 63) mod 2 ^ 64 < 2 ^ 64"
    by (simp_all only: pos_mod_sign pos_mod_bound zero_less_numeral zero_less_power)
  then show ?thesis by (simp add: s64_def min_int_def max_int_def)
qed

lemma s64_succ: "0 \<le> n \<Longrightarrow> n < max_int \<Longrightarrow> s64 (n + 1) = n + 1"
  by (rule s64_id) (simp_all add: min_int_def)

lemma s64_overflow: "s64 (max_int + 1) = min_int"
  by (simp add: s64_def max_int_def min_int_def)

section \<open>Go maps\<close>

text \<open>
  A Go map with string keys is a finite map. A \<open>range\<close> loop visits every key once, in an
  order the runtime chooses afresh for every loop, so an operation that iterates takes the
  order as an argument; \<open>iter_order\<close> says which lists are possible orders.
\<close>

type_synonym 'v gomap = "(string, 'v) fmap"

definition iter_order :: "string list \<Rightarrow> 'v gomap \<Rightarrow> bool" where
  "iter_order ord m \<longleftrightarrow> distinct ord \<and> set ord = fmdom' m"

definition range_values :: "string list \<Rightarrow> 'v gomap \<Rightarrow> 'v list" where
  "range_values ord m = List.map_filter (fmlookup m) ord"

text \<open>A missing key reads as the zero value, as in \<open>m[k]\<close>.\<close>

definition lookup_or :: "'v \<Rightarrow> 'v gomap \<Rightarrow> string \<Rightarrow> 'v" where
  "lookup_or z m k = (case fmlookup m k of Some v \<Rightarrow> v | None \<Rightarrow> z)"

text \<open>The copy loops \<open>for k, v := range m { out[k] = f(v) }\<close>.\<close>

fun copy_map :: "('v \<Rightarrow> 'w) \<Rightarrow> string list \<Rightarrow> 'v gomap \<Rightarrow> 'w gomap" where
  "copy_map f [] m = fmempty"
| "copy_map f (k # ks) m =
     (case fmlookup m k of
        Some v \<Rightarrow> fmupd k (f v) (copy_map f ks m)
      | None \<Rightarrow> copy_map f ks m)"

lemma iter_order_exists: "\<exists>ord. iter_order ord m"
proof -
  obtain ord where "set ord = fmdom' m" "distinct ord"
    using finite_distinct_list [OF finite_fmdom' [of m]] by blast
  then show ?thesis by (auto simp: iter_order_def)
qed

lemma iter_order_mem: "iter_order ord m \<Longrightarrow> k \<in> set ord \<longleftrightarrow> (\<exists>v. fmlookup m k = Some v)"
  by (simp add: iter_order_def fmlookup_dom'_iff)

lemma set_range_values: "set (range_values ord m) = {v. \<exists>k \<in> set ord. fmlookup m k = Some v}"
  unfolding range_values_def List.map_filter_def by force

lemma set_range_values_order:
  assumes "iter_order ord m"
  shows "set (range_values ord m) = {v. \<exists>k. fmlookup m k = Some v}"
  using assms by (auto simp: set_range_values iter_order_mem)

lemma length_range_values:
  assumes "iter_order ord m"
  shows "length (range_values ord m) = fcard (fmdom m)"
proof -
  have all: "\<forall>k \<in> set ord. \<exists>v. fmlookup m k = Some v"
    using assms by (simp add: iter_order_mem)
  have "length (List.map_filter (fmlookup m) ks) = length ks"
    if "\<forall>k \<in> set ks. \<exists>v. fmlookup m k = Some v" for ks
    using that by (induction ks) (auto simp: List.map_filter_def)
  then have "length (range_values ord m) = length ord"
    using all by (simp add: range_values_def)
  also have "length ord = card (set ord)"
    using assms unfolding iter_order_def by (metis distinct_card)
  also have "\<dots> = fcard (fmdom m)"
    using assms by (simp add: iter_order_def fcard.rep_eq fmdom'_alt_def)
  finally show ?thesis .
qed

lemma map_range_values:
  assumes "iter_order ord m" and "\<And>k v. fmlookup m k = Some v \<Longrightarrow> key v = k"
  shows "map key (range_values ord m) = ord"
proof -
  have "map key (List.map_filter (fmlookup m) ks) = ks"
    if "\<forall>k \<in> set ks. \<exists>v. fmlookup m k = Some v" for ks
    using that assms(2) by (induction ks) (auto simp: List.map_filter_def)
  then show ?thesis using assms(1) by (simp add: range_values_def iter_order_mem)
qed

lemma distinct_range_values:
  assumes "iter_order ord m" and "\<And>k v. fmlookup m k = Some v \<Longrightarrow> key v = k"
  shows "distinct (range_values ord m)"
proof -
  have "distinct (map key (range_values ord m))"
    using map_range_values [of ord m key, OF assms] assms(1) by (simp add: iter_order_def)
  then show ?thesis by (simp add: distinct_map)
qed

lemma range_values_fmmap: "range_values ord (fmmap f m) = map f (range_values ord m)"
  unfolding range_values_def List.map_filter_def by (induction ord) auto

lemma lookup_copy_map:
  "fmlookup (copy_map f ks m) k = (if k \<in> set ks then map_option f (fmlookup m k) else None)"
  by (induction ks) (auto split: option.splits)

lemma copy_map_order: "iter_order ord m \<Longrightarrow> copy_map f ord m = fmmap f m"
  by (rule fmap_ext) (auto simp: lookup_copy_map iter_order_def fmlookup_dom'_iff)

lemma fmmap_ident: "(\<And>v. f v = v) \<Longrightarrow> fmmap f m = m"
  by (rule fmap_ext) (simp add: option.map_ident_strong)

lemma fmlookup_upd_cases:
  "fmlookup (fmupd k v m) k' = Some w \<Longrightarrow> k' = k \<and> w = v \<or> k' \<noteq> k \<and> fmlookup m k' = Some w"
  by (simp split: if_splits)

lemma fmupd_same: "fmlookup m k = Some v \<Longrightarrow> fmupd k v m = m"
  by (rule fmap_ext) auto

text \<open>Every entry of one map is still in the other, changed at most as \<open>R\<close> allows.\<close>

definition fm_keeps :: "('v \<Rightarrow> 'v \<Rightarrow> bool) \<Rightarrow> 'v gomap \<Rightarrow> 'v gomap \<Rightarrow> bool" where
  "fm_keeps R m m' \<longleftrightarrow>
     (\<forall>k v. fmlookup m k = Some v \<longrightarrow> (\<exists>v'. fmlookup m' k = Some v' \<and> R v v'))"

lemma fm_keepsD: "fm_keeps R m m' \<Longrightarrow> fmlookup m k = Some v \<Longrightarrow> \<exists>v'. fmlookup m' k = Some v' \<and> R v v'"
  by (simp add: fm_keeps_def)

lemma fm_keeps_refl: "(\<And>v. R v v) \<Longrightarrow> fm_keeps R m m"
  by (auto simp: fm_keeps_def)

lemma fm_keeps_trans:
  assumes "fm_keeps R a b" "fm_keeps R b c" and "\<And>x y z. R x y \<Longrightarrow> R y z \<Longrightarrow> R x z"
  shows "fm_keeps R a c"
  using assms unfolding fm_keeps_def by meson

lemma fm_keeps_new: "(\<And>v. R v v) \<Longrightarrow> fmlookup m k = None \<Longrightarrow> fm_keeps R m (fmupd k v m)"
  by (auto simp: fm_keeps_def)

lemma fm_keeps_upd:
  "(\<And>v. R v v) \<Longrightarrow> fmlookup m k = Some v \<Longrightarrow> R v v' \<Longrightarrow> fm_keeps R m (fmupd k v' m)"
  by (auto simp: fm_keeps_def)

lemma fm_keeps_map: "(\<And>v. R v (f v)) \<Longrightarrow> fm_keeps R m (fmmap f m)"
  by (auto simp: fm_keeps_def)

section \<open>Lists\<close>

lemma distinct_map_filter: "distinct (map f xs) \<Longrightarrow> distinct (map f (filter P xs))"
  by (induction xs) auto

lemma map_of_map_key: "map_of (map (\<lambda>x. (key x, x)) xs) k = find (\<lambda>x. key x = k) xs"
  by (induction xs) auto

lemma find_Some_mem: "find P xs = Some x \<Longrightarrow> x \<in> set xs \<and> P x"
  by (auto simp: find_Some_iff)

lemma find_None_all: "find P xs = None \<longleftrightarrow> (\<forall>x \<in> set xs. \<not> P x)"
  by (auto simp: find_None_iff)

lemma find_append:
  "find P (xs @ ys) = (case find P xs of None \<Rightarrow> find P ys | Some x \<Rightarrow> Some x)"
  by (induction xs) auto

lemma option_ext: "(\<And>q. a = Some q \<longleftrightarrow> b = Some q) \<Longrightarrow> a = b"
  by (cases a; cases b) auto

lemma filter_length_append:
  "length (filter P (xs @ [x])) = length (filter P xs) + (if P x then 1 else 0)"
  by simp

end
