(* ===== verification/Go_Fmt.thy ===== *)
theory Go_Fmt
  imports Prelude
begin

text \<open>
  The parts of \<open>fmt\<close> and \<open>strconv\<close> the program uses: the verbs \<open>%d\<close>, \<open>%03d\<close> and
  \<open>%q\<close>, and \<open>strconv.ParseInt\<close> in base 10. The lemmas show that the decimal rendering
  can be read back, so that it is injective: this is what makes the generated
  identifiers distinct.
\<close>

section \<open>Decimal digits\<close>

definition digit_char :: "nat \<Rightarrow> char" where
  "digit_char d = ''0123456789'' ! d"

definition is_digit :: "char \<Rightarrow> bool" where
  "is_digit c \<longleftrightarrow> 48 \<le> (of_char c :: nat) \<and> (of_char c :: nat) \<le> 57"

definition digit_val :: "char \<Rightarrow> nat" where
  "digit_val c = of_char c - 48"

fun nat_digits :: "nat \<Rightarrow> string" where
  "nat_digits n =
     (if n < 10 then [digit_char n] else nat_digits (n div 10) @ [digit_char (n mod 10)])"

declare nat_digits.simps [simp del]

definition digits_value :: "string \<Rightarrow> nat" where
  "digits_value s = foldl (\<lambda>a c. 10 * a + digit_val c) 0 s"

lemma less_ten_cases: "d < 10 \<Longrightarrow> d \<in> {0, 1, 2, 3, 4, 5, 6, 7, 8, 9 :: nat}"
  by auto

lemma digit_char_val [simp]: "d < 10 \<Longrightarrow> digit_val (digit_char d) = d"
  by (drule less_ten_cases) (auto simp: digit_val_def digit_char_def)

lemma digit_char_is_digit [simp]: "d < 10 \<Longrightarrow> is_digit (digit_char d)"
  by (drule less_ten_cases) (auto simp: is_digit_def digit_char_def)

lemma digits_value_Nil [simp]: "digits_value [] = 0"
  by (simp add: digits_value_def)

lemma digits_value_snoc [simp]: "digits_value (s @ [c]) = 10 * digits_value s + digit_val c"
  by (simp add: digits_value_def)

lemma digits_value_nat_digits [simp]: "digits_value (nat_digits n) = n"
proof (induction n rule: nat_digits.induct)
  case (1 n)
  show ?case
  proof (cases "n < 10")
    case True
    then have "nat_digits n = [] @ [digit_char n]" by (simp add: nat_digits.simps)
    then have "digits_value (nat_digits n) = 10 * digits_value [] + digit_val (digit_char n)"
      by (simp only: digits_value_snoc)
    with True show ?thesis by simp
  next
    case False
    then have "nat_digits n = nat_digits (n div 10) @ [digit_char (n mod 10)]"
      by (simp add: nat_digits.simps [of n])
    with False "1" show ?thesis by simp
  qed
qed

lemma nat_digits_nonempty [simp]: "nat_digits n \<noteq> []"
  by (subst nat_digits.simps) simp

lemma nat_digits_are_digits: "\<forall>c \<in> set (nat_digits n). is_digit c"
proof (induction n rule: nat_digits.induct)
  case (1 n)
  then show ?case by (cases "n < 10") (simp_all add: nat_digits.simps [of n])
qed

lemma nat_digits_small: "n < 10 \<Longrightarrow> nat_digits n = [digit_char n]"
  by (simp add: nat_digits.simps)

lemma nat_digits_step: "10 \<le> n \<Longrightarrow> nat_digits n = nat_digits (n div 10) @ [digit_char (n mod 10)]"
  by (simp add: nat_digits.simps [of n])

text \<open>The equations that evaluate the rendering of a numeral.\<close>

lemmas digits_eval = nat_digits_small nat_digits_step digit_char_def

section \<open>The verbs %d and %03d\<close>

definition pad_zero :: "nat \<Rightarrow> string \<Rightarrow> string" where
  "pad_zero w s = replicate (w - length s) (CHR ''0'') @ s"

definition fmt_d :: "int \<Rightarrow> string" where
  "fmt_d n = (if n < 0 then ''-'' @ nat_digits (nat (- n)) else nat_digits (nat n))"

text \<open>With the zero flag the sign counts towards the width, as in \<open>fmt.fmtInteger\<close>.\<close>

definition fmt_03d :: "int \<Rightarrow> string" where
  "fmt_03d n =
     (if n < 0 then ''-'' @ pad_zero 2 (nat_digits (nat (- n)))
      else pad_zero 3 (nat_digits (nat n)))"

lemma digit_val_zero [simp]: "digit_val (CHR ''0'') = 0"
  by (simp add: digit_val_def)

lemma is_digit_zero [simp]: "is_digit (CHR ''0'')"
  by (simp add: is_digit_def)

lemma not_digit_minus [simp]: "\<not> is_digit (CHR ''-'')"
  by (simp add: is_digit_def)

lemma digits_value_zeros: "digits_value (replicate k (CHR ''0'') @ s) = digits_value s"
proof (induction s rule: rev_induct)
  case Nil
  have "foldl (\<lambda>a c. 10 * a + digit_val c) 0 (replicate k (CHR ''0'')) = 0"
    by (induction k) simp_all
  then show ?case by (simp add: digits_value_def)
next
  case (snoc c s)
  then show ?case by (simp flip: append_assoc)
qed

lemma digits_value_pad [simp]: "digits_value (pad_zero w s) = digits_value s"
  by (simp add: pad_zero_def digits_value_zeros)

lemma pad_zero_digits: "\<forall>c \<in> set s. is_digit c \<Longrightarrow> \<forall>c \<in> set (pad_zero w s). is_digit c"
  by (auto simp: pad_zero_def)

lemma pad_zero_nonempty [simp]: "s \<noteq> [] \<Longrightarrow> pad_zero w s \<noteq> []"
  by (simp add: pad_zero_def)

lemma pad_zero_nat_digits:
  "\<forall>c \<in> set (pad_zero w (nat_digits n)). is_digit c" "pad_zero w (nat_digits n) \<noteq> []"
  using pad_zero_digits [OF nat_digits_are_digits] by simp_all

definition sign_value :: "string \<Rightarrow> int" where
  "sign_value s =
     (if s \<noteq> [] \<and> hd s = CHR ''-'' then - int (digits_value (tl s)) else int (digits_value s))"

lemma hd_not_minus: "\<forall>c \<in> set s. is_digit c \<Longrightarrow> s \<noteq> [] \<Longrightarrow> hd s \<noteq> CHR ''-''"
  using hd_in_set not_digit_minus by metis

lemma sign_value_fmt_03d [simp]: "sign_value (fmt_03d n) = n"
  using hd_not_minus [OF pad_zero_nat_digits]
  by (simp add: sign_value_def fmt_03d_def)

lemma sign_value_fmt_d [simp]: "sign_value (fmt_d n) = n"
  using hd_not_minus [OF nat_digits_are_digits nat_digits_nonempty]
  by (simp add: sign_value_def fmt_d_def)

lemma fmt_03d_inject [simp]: "fmt_03d m = fmt_03d n \<longleftrightarrow> m = n"
  using sign_value_fmt_03d by metis

lemma fmt_d_inject [simp]: "fmt_d m = fmt_d n \<longleftrightarrow> m = n"
  using sign_value_fmt_d by metis

lemma fmt_03d_nonneg_digits: "0 \<le> n \<Longrightarrow> \<forall>c \<in> set (fmt_03d n). is_digit c"
  by (simp add: fmt_03d_def pad_zero_nat_digits)

lemma fmt_03d_nonempty [simp]: "fmt_03d n \<noteq> []"
  by (simp add: fmt_03d_def)

lemmas fmt_eval = fmt_d_def fmt_03d_def pad_zero_def digits_eval

section \<open>strconv.ParseInt(s, 10, 64) and strconv.Atoi\<close>

definition parse_digits :: "string \<Rightarrow> nat option" where
  "parse_digits s = (if s \<noteq> [] \<and> list_all is_digit s then Some (digits_value s) else None)"

definition in_int64 :: "int \<Rightarrow> bool" where
  "in_int64 n \<longleftrightarrow> min_int \<le> n \<and> n \<le> max_int"

definition parse_int :: "string \<Rightarrow> int option" where
  "parse_int s =
     (case s of
        [] \<Rightarrow> None
      | c # rest \<Rightarrow>
          (case (if c = CHR ''-'' then map_option (\<lambda>d. - int d) (parse_digits rest)
                 else if c = CHR ''+'' then map_option int (parse_digits rest)
                 else map_option int (parse_digits s)) of
             None \<Rightarrow> None
           | Some n \<Rightarrow> if in_int64 n then Some n else None))"

lemma not_digit_plus [simp]: "\<not> is_digit (CHR ''+'')"
  by (simp add: is_digit_def)

lemma parse_digits_nat_digits [simp]: "parse_digits (nat_digits n) = Some n"
  by (simp add: parse_digits_def list_all_iff nat_digits_are_digits)

lemma parse_int_range: "parse_int s = Some n \<Longrightarrow> in_int64 n"
  by (auto simp: parse_int_def split: list.splits option.splits if_splits)

text \<open>What \<open>%d\<close> prints, \<open>ParseInt\<close> reads back.\<close>

lemma parse_int_fmt_d:
  assumes "in_int64 n"
  shows "parse_int (fmt_d n) = Some n"
proof (cases "n < 0")
  case True
  then show ?thesis using assms by (simp add: fmt_d_def parse_int_def)
next
  case False
  obtain c cs where ds: "nat_digits (nat n) = c # cs"
    using nat_digits_nonempty [of "nat n"] by (cases "nat_digits (nat n)") auto
  have "is_digit c" using nat_digits_are_digits [of "nat n"] ds by simp
  then have "c \<noteq> CHR ''-''" "c \<noteq> CHR ''+''" by auto
  moreover have "parse_digits (c # cs) = Some (nat n)"
    using parse_digits_nat_digits [of "nat n"] ds by simp
  ultimately show ?thesis using assms False ds by (simp add: fmt_d_def parse_int_def)
qed

section \<open>The verb %q\<close>

text \<open>
  \<open>strconv.Quote\<close> on bytes: the quote, the backslash and the control characters are
  escaped. Bytes from 128 on are the parts of multi-byte characters, which \<open>Quote\<close> copies
  when they form a printable character; the non-printable ones and invalid encodings,
  which it would escape, are copied too.
\<close>

definition hex_digit :: "nat \<Rightarrow> char" where
  "hex_digit d = ''0123456789abcdef'' ! d"

definition quote_char :: "char \<Rightarrow> string" where
  "quote_char c =
     (let n = (of_char c :: nat) in
      if n = 34 then [CHR 0x5C, CHR 0x22]
      else if n = 92 then [CHR 0x5C, CHR 0x5C]
      else if n = 7 then [CHR 0x5C, CHR ''a'']
      else if n = 8 then [CHR 0x5C, CHR ''b'']
      else if n = 12 then [CHR 0x5C, CHR ''f'']
      else if n = 10 then [CHR 0x5C, CHR ''n'']
      else if n = 13 then [CHR 0x5C, CHR ''r'']
      else if n = 9 then [CHR 0x5C, CHR ''t'']
      else if n = 11 then [CHR 0x5C, CHR ''v'']
      else if n < 32 \<or> n = 127 then [CHR 0x5C, CHR ''x'', hex_digit (n div 16), hex_digit (n mod 16)]
      else [c])"

definition go_quote :: "string \<Rightarrow> string" where
  "go_quote s = [CHR 0x22] @ concat (map quote_char s) @ [CHR 0x22]"

end
