(* ===== verification/Ids.thy ===== *)
theory Ids
  imports Go_Fmt
begin

text \<open>
  The identifiers of \<open>internal/ids/ids.go\<close> and the interface the store relies on: a
  numbering whose identifiers are distinct and non-empty, so that a table filled with
  consecutive numbers never overwrites an entry.
\<close>

definition ids_Agent :: "string \<Rightarrow> string \<Rightarrow> int \<Rightarrow> string" where
  "ids_Agent environment role n = ''agent-'' @ environment @ ''-'' @ role @ ''-'' @ fmt_03d n"

definition ids_Command :: "int \<Rightarrow> string" where
  "ids_Command n = ''cmd-'' @ fmt_03d n"

definition ids_Deployment :: "int \<Rightarrow> string" where
  "ids_Deployment n = ''dep-'' @ fmt_03d n"

definition ids_Route :: "int \<Rightarrow> string" where
  "ids_Route n = ''route-'' @ fmt_03d n"

section \<open>Tables filled by a counter\<close>

text \<open>
  \<open>numbered mk c m\<close>: every key of \<open>m\<close> is the identifier of a number the counter, now at
  \<open>c\<close>, has passed.
\<close>

definition numbered :: "(int \<Rightarrow> string) \<Rightarrow> int \<Rightarrow> 'v gomap \<Rightarrow> bool" where
  "numbered mk c m \<longleftrightarrow>
     0 \<le> c \<and> (\<forall>k v. fmlookup m k = Some v \<longrightarrow> (\<exists>n. 1 \<le> n \<and> n \<le> c \<and> k = mk n))"

lemma numbered_empty [intro]: "numbered mk 0 fmempty"
  by (simp add: numbered_def)

lemma numbered_nonneg: "numbered mk c m \<Longrightarrow> 0 \<le> c"
  by (simp add: numbered_def)

lemma numbered_same_keys:
  "numbered mk c m \<Longrightarrow> fmdom' m' \<subseteq> fmdom' m \<Longrightarrow> numbered mk c m'"
  unfolding numbered_def by (meson fmdom'I fmlookup_dom'_iff subsetD)

lemma numbered_upd_existing:
  "numbered mk c m \<Longrightarrow> fmlookup m k = Some v \<Longrightarrow> numbered mk c (fmupd k w m)"
  by (erule numbered_same_keys) (auto intro: fmdom'I)

lemma numbered_insert:
  "numbered mk c m \<Longrightarrow> numbered mk (c + 1) (fmupd (mk (c + 1)) v m)"
  unfolding numbered_def by (force split: if_splits)

lemma numbered_mono: "numbered mk c m \<Longrightarrow> c \<le> d \<Longrightarrow> numbered mk d m"
  unfolding numbered_def by (meson order_trans)

locale fresh_ids =
  fixes mk :: "int \<Rightarrow> string"
  assumes mk_inject: "mk m = mk n \<Longrightarrow> m = n"
    and mk_nonempty: "mk n \<noteq> []"
begin

lemma next_fresh: "numbered mk c m \<Longrightarrow> fmlookup m (mk (c + 1)) = None"
proof (cases "fmlookup m (mk (c + 1))")
  case (Some v)
  moreover assume "numbered mk c m"
  ultimately obtain n where "n \<le> c" "mk (c + 1) = mk n"
    unfolding numbered_def by blast
  then show ?thesis using mk_inject [of "c + 1" n] by simp
qed simp

lemma numbered_key_nonempty: "numbered mk c m \<Longrightarrow> fmlookup m k = Some v \<Longrightarrow> k \<noteq> []"
  unfolding numbered_def using mk_nonempty by metis

lemma insert_keeps_old:
  "numbered mk c m \<Longrightarrow> fmlookup m k = Some v \<Longrightarrow> fmlookup (fmupd (mk (c + 1)) w m) k = Some v"
  using next_fresh [of c m] by auto

end

interpretation cmd_ids: fresh_ids ids_Command
  by unfold_locales (simp_all add: ids_Command_def)

interpretation dep_ids: fresh_ids ids_Deployment
  by unfold_locales (simp_all add: ids_Deployment_def)

interpretation route_ids: fresh_ids ids_Route
  by unfold_locales (simp_all add: ids_Route_def)

interpretation agent_ids: fresh_ids "ids_Agent environment role"
  by unfold_locales (simp_all add: ids_Agent_def)

section \<open>Agent identifiers across environments and roles\<close>

text \<open>
  The counter of agents is kept per \<open>environment-role\<close>, a string that does not determine
  the two parts (\<open>a-b\<close> and \<open>c\<close> give the same string as \<open>a\<close> and \<open>b-c\<close>). The identifiers
  are distinct all the same: the number is what follows the last dash, and what precedes it
  is that very string.
\<close>

definition env_role_key :: "string \<Rightarrow> string \<Rightarrow> string" where
  "env_role_key environment role = environment @ ''-'' @ role"

lemma ids_Agent_key: "ids_Agent e r n = ''agent-'' @ env_role_key e r @ ''-'' @ fmt_03d n"
  by (simp add: ids_Agent_def env_role_key_def)

lemma first_split_unique:
  assumes "as @ d # bs = cs @ d # es" and "d \<notin> set as" and "d \<notin> set cs"
  shows "as = cs \<and> bs = es"
  using assms
proof (induction as arbitrary: cs)
  case Nil
  then show ?case by (cases cs) auto
next
  case (Cons a as)
  then show ?case by (cases cs) auto
qed

lemma last_dash_unique:
  assumes "xs @ CHR ''-'' # ds = ys @ CHR ''-'' # es"
    and "\<forall>c \<in> set ds. is_digit c" and "\<forall>c \<in> set es. is_digit c"
  shows "xs = ys \<and> ds = es"
proof -
  have 1: "CHR ''-'' \<notin> set ds" and 2: "CHR ''-'' \<notin> set es"
    using assms(2,3) not_digit_minus by blast+
  have "rev ds @ CHR ''-'' # rev xs = rev es @ CHR ''-'' # rev ys"
    using arg_cong [OF assms(1), of rev] by simp
  then have "rev ds = rev es \<and> rev xs = rev ys"
    using 1 2 by (intro first_split_unique) simp_all
  then show ?thesis by simp
qed

lemma ids_Agent_inject:
  assumes "ids_Agent e r n = ids_Agent e' r' n'" and "0 \<le> n" and "0 \<le> n'"
  shows "env_role_key e r = env_role_key e' r' \<and> n = n'"
proof -
  have "env_role_key e r @ CHR ''-'' # fmt_03d n = env_role_key e' r' @ CHR ''-'' # fmt_03d n'"
    using assms(1) by (simp add: ids_Agent_key)
  from last_dash_unique [OF this fmt_03d_nonneg_digits fmt_03d_nonneg_digits] assms(2,3)
  show ?thesis by simp
qed

end
