(* ===== verification/Json.thy ===== *)
theory Json
  imports Go_Fmt
begin

text \<open>
  \<open>encoding/json\<close> as the program uses it: the abstract syntax of a JSON document, decoding
  into a Go struct and encoding of Go values. A \<open>json.RawMessage\<close> holds a document, so it
  is a \<open>json option\<close>, \<open>None\<close> for the nil message; the text of a document is not modelled.

  Decoding follows \<open>encoding/json/decode.go\<close>: a member is matched to a field by its exact
  name first and by its folded name otherwise, members without a field are skipped,
  \<open>null\<close> leaves a string, number, bool or struct as it was, and a value of the wrong type
  leaves its field as it was, is remembered as an error and does not stop the decoding of
  the members after it. A decoder therefore takes the value to decode into and returns
  whether no type error occurred, with the new value.
\<close>

datatype json =
    JNull
  | JBool bool
  | JNum string \<comment> \<open>the literal, as written\<close>
  | JStr string
  | JArr "json list"
  | JObj "(string \<times> json) list"

section \<open>UTF-8\<close>

text \<open>
  The encoder replaces every byte of a string that is not part of a well-formed UTF-8
  sequence by the replacement character. \<open>utf8_seq s\<close> is the length of the well-formed
  sequence \<open>s\<close> starts with, 0 when there is none.
\<close>

definition in_range :: "nat \<Rightarrow> nat \<Rightarrow> char \<Rightarrow> bool" where
  "in_range lo hi c \<longleftrightarrow> lo \<le> of_char c \<and> of_char c \<le> hi"

definition is_ascii :: "char \<Rightarrow> bool" where
  "is_ascii c \<longleftrightarrow> (of_char c :: nat) < 128"

fun utf8_seq :: "string \<Rightarrow> nat" where
  "utf8_seq [] = 0"
| "utf8_seq (c # cs) =
     (if is_ascii c then 1
      else case cs of
        [] \<Rightarrow> 0
      | c1 # cs1 \<Rightarrow>
          (if in_range 0xC2 0xDF c then (if in_range 0x80 0xBF c1 then 2 else 0)
           else case cs1 of
             [] \<Rightarrow> 0
           | c2 # cs2 \<Rightarrow>
               (if in_range 0xE0 0xEF c
                then (let lo = (if of_char c = (0xE0::nat) then 0xA0 else 0x80);
                          hi = (if of_char c = (0xED::nat) then 0x9F else 0xBF) in
                      if in_range lo hi c1 \<and> in_range 0x80 0xBF c2 then 3 else 0)
                else case cs2 of
                  [] \<Rightarrow> 0
                | c3 # _ \<Rightarrow>
                    (if in_range 0xF0 0xF4 c
                     then (let lo = (if of_char c = (0xF0::nat) then 0x90 else 0x80);
                               hi = (if of_char c = (0xF4::nat) then 0x8F else 0xBF) in
                           if in_range lo hi c1 \<and> in_range 0x80 0xBF c2 \<and> in_range 0x80 0xBF c3
                           then 4 else 0)
                     else 0))))"

function coerce_utf8 :: "string \<Rightarrow> string" where
  "coerce_utf8 [] = []"
| "coerce_utf8 (c # cs) =
     (let k = utf8_seq (c # cs) in
      if k = 0 then [CHR 0xEF, CHR 0xBF, CHR 0xBD] @ coerce_utf8 cs
      else take k (c # cs) @ coerce_utf8 (drop (k - 1) cs))"
  by pat_completeness auto
termination
  by (relation "measure length") auto

lemma utf8_seq_ascii [simp]: "is_ascii c \<Longrightarrow> utf8_seq (c # cs) = 1"
  by simp

declare utf8_seq.simps(2) [simp del]

lemma coerce_utf8_ascii: "list_all is_ascii s \<Longrightarrow> coerce_utf8 s = s"
  by (induction s) (simp_all add: Let_def)

lemma is_ascii_Char [simp]: "is_ascii (Char b0 b1 b2 b3 b4 b5 b6 b7) \<longleftrightarrow> \<not> b7"
  by (cases b0; cases b1; cases b2; cases b3; cases b4; cases b5; cases b6; cases b7)
    (simp_all add: is_ascii_def)

section \<open>Decoding\<close>

type_synonym 'a decoder = "'a \<Rightarrow> json \<Rightarrow> bool \<times> 'a"

definition dec_string :: "string decoder" where
  "dec_string old j =
     (case j of JStr s \<Rightarrow> (True, s) | JNull \<Rightarrow> (True, old) | _ \<Rightarrow> (False, old))"

definition dec_bool :: "bool decoder" where
  "dec_bool old j =
     (case j of JBool b \<Rightarrow> (True, b) | JNull \<Rightarrow> (True, old) | _ \<Rightarrow> (False, old))"

text \<open>An \<open>int\<close> field takes a literal \<open>ParseInt\<close> accepts: no fraction, no exponent, in range.\<close>

definition dec_int :: "int decoder" where
  "dec_int old j =
     (case j of
        JNum lit \<Rightarrow> (case parse_int lit of Some n \<Rightarrow> (True, n) | None \<Rightarrow> (False, old))
      | JNull \<Rightarrow> (True, old)
      | _ \<Rightarrow> (False, old))"

definition dec_raw :: "json option decoder" where
  "dec_raw old j = (True, Some j)"

text \<open>
  \<open>any\<close>: the document itself. The conversion of a number literal to \<open>float64\<close> is not
  modelled: the program never reads the values it stores as \<open>any\<close>.
\<close>

definition dec_any :: "json decoder" where
  "dec_any old j = (True, j)"

text \<open>A pointer: \<open>null\<close> is nil, anything else is decoded into the target, allocated when nil.\<close>

definition dec_ptr :: "'a \<Rightarrow> 'a decoder \<Rightarrow> 'a option decoder" where
  "dec_ptr z d old j =
     (case j of
        JNull \<Rightarrow> (True, None)
      | _ \<Rightarrow> (let (ok, v) = d (case old of None \<Rightarrow> z | Some v \<Rightarrow> v) j in (ok, Some v)))"

text \<open>A map: the members are added to the existing map, each decoded from the zero value.\<close>

fun dec_entries :: "'v \<Rightarrow> 'v decoder \<Rightarrow> (string \<times> json) list \<Rightarrow> bool \<times> 'v gomap \<Rightarrow> bool \<times> 'v gomap" where
  "dec_entries z d [] acc = acc"
| "dec_entries z d ((k, j) # kvs) (ok, m) =
     (let (ok', v) = d z j in dec_entries z d kvs (ok \<and> ok', fmupd k v m))"

definition dec_map :: "'v \<Rightarrow> 'v decoder \<Rightarrow> 'v gomap option decoder" where
  "dec_map z d old j =
     (case j of
        JNull \<Rightarrow> (True, None)
      | JObj kvs \<Rightarrow>
          (let (ok, m) = dec_entries z d kvs (True, case old of None \<Rightarrow> fmempty | Some m \<Rightarrow> m)
           in (ok, Some m))
      | _ \<Rightarrow> (False, old))"

subsection \<open>Structs\<close>

text \<open>
  Field names are matched up to case: ASCII letters, and the two characters outside ASCII
  that fold to an ASCII letter, the long s (bytes C5 BF) and the Kelvin sign (E2 84 AA).
\<close>

definition upper_ascii :: "char \<Rightarrow> char" where
  "upper_ascii c =
     (let n = (of_char c :: nat) in if 97 \<le> n \<and> n \<le> 122 then char_of (n - 32) else c)"

fun fold_name :: "string \<Rightarrow> string" where
  "fold_name [] = []"
| "fold_name [c] = [upper_ascii c]"
| "fold_name [c, c1] =
     (if c = CHR 0xC5 \<and> c1 = CHR 0xBF then ''S'' else upper_ascii c # fold_name [c1])"
| "fold_name (c # c1 # c2 # cs) =
     (if c = CHR 0xC5 \<and> c1 = CHR 0xBF then CHR ''S'' # fold_name (c2 # cs)
      else if c = CHR 0xE2 \<and> c1 = CHR 0x84 \<and> c2 = CHR 0xAA then CHR ''K'' # fold_name cs
      else upper_ascii c # fold_name (c1 # c2 # cs))"

type_synonym 'a fields = "(string \<times> 'a decoder) list"

definition field :: "string \<Rightarrow> ('a \<Rightarrow> 'f) \<Rightarrow> (('f \<Rightarrow> 'f) \<Rightarrow> 'a \<Rightarrow> 'a) \<Rightarrow> 'f decoder \<Rightarrow> string \<times> 'a decoder" where
  "field name get upd d =
     (name, \<lambda>r j. let (ok, v) = d (get r) j in (ok, upd (\<lambda>_. v) r))"

definition find_field :: "'a fields \<Rightarrow> string \<Rightarrow> 'a decoder option" where
  "find_field fs k =
     (case map_of fs k of
        Some d \<Rightarrow> Some d
      | None \<Rightarrow> map_of (map (\<lambda>(n, d). (fold_name n, d)) fs) (fold_name k))"

fun dec_members :: "'a fields \<Rightarrow> (string \<times> json) list \<Rightarrow> bool \<times> 'a \<Rightarrow> bool \<times> 'a" where
  "dec_members fs [] acc = acc"
| "dec_members fs ((k, j) # kvs) (ok, r) =
     (case find_field fs k of
        None \<Rightarrow> dec_members fs kvs (ok, r)
      | Some d \<Rightarrow> (let (ok', r') = d r j in dec_members fs kvs (ok \<and> ok', r')))"

definition dec_struct :: "'a fields \<Rightarrow> 'a decoder" where
  "dec_struct fs old j =
     (case j of
        JNull \<Rightarrow> (True, old)
      | JObj kvs \<Rightarrow> dec_members fs kvs (True, old)
      | _ \<Rightarrow> (False, old))"

text \<open>\<open>json.Unmarshal(raw, &v)\<close> with the error dropped; the nil message is a syntax error.\<close>

definition unmarshal_lax :: "'a decoder \<Rightarrow> 'a \<Rightarrow> json option \<Rightarrow> 'a" where
  "unmarshal_lax d z raw = (case raw of None \<Rightarrow> z | Some j \<Rightarrow> snd (d z j))"

section \<open>Encoding\<close>

definition enc_string :: "string \<Rightarrow> json" where
  "enc_string s = JStr (coerce_utf8 s)"

definition enc_int :: "int \<Rightarrow> json" where
  "enc_int n = JNum (fmt_d n)"

definition enc_raw :: "json option \<Rightarrow> json" where
  "enc_raw r = (case r of None \<Rightarrow> JNull | Some j \<Rightarrow> j)"

text \<open>A map is written in the order of its keys.\<close>

definition enc_map :: "('v \<Rightarrow> json) \<Rightarrow> 'v gomap \<Rightarrow> json" where
  "enc_map f m = JObj (map (\<lambda>(k, v). (coerce_utf8 k, f v)) (sorted_list_of_fmap m))"

text \<open>A struct member, and a member with \<open>omitempty\<close>.\<close>

definition member :: "string \<Rightarrow> json \<Rightarrow> (string \<times> json) list" where
  "member k j = [(k, j)]"

definition member_omit :: "bool \<Rightarrow> string \<Rightarrow> json \<Rightarrow> (string \<times> json) list" where
  "member_omit is_empty k j = (if is_empty then [] else [(k, j)])"

section \<open>Codecs\<close>

text \<open>
  The interface of a type that is written and read back: on the values \<open>ok\<close> describes, the
  decoder recovers what the encoder wrote, whatever it decodes into.
\<close>

locale go_codec =
  fixes enc :: "'a \<Rightarrow> json" and dec :: "'a decoder" and ok :: "'a \<Rightarrow> bool"
  assumes dec_enc: "ok x \<Longrightarrow> dec old (enc x) = (True, x)"
begin

lemma enc_inject: "ok x \<Longrightarrow> ok y \<Longrightarrow> enc x = enc y \<Longrightarrow> x = y"
  using dec_enc by (metis prod.inject)

lemma unmarshal_enc: "ok x \<Longrightarrow> unmarshal_lax dec z (Some (enc x)) = x"
  by (simp add: unmarshal_lax_def dec_enc)

lemma dec_entries_map:
  "\<forall>(k, v) \<in> set kvs. ok v \<Longrightarrow>
   dec_entries z dec (map (\<lambda>(k, v). (k, enc v)) kvs) (True, m) =
     (True, fold (\<lambda>(k, v). fmupd k v) kvs m)"
  by (induction kvs arbitrary: m) (auto simp: dec_enc)

end

interpretation string_codec: go_codec enc_string dec_string "\<lambda>s. coerce_utf8 s = s"
  by unfold_locales (simp add: enc_string_def dec_string_def)

interpretation int_codec: go_codec enc_int dec_int in_int64
  by unfold_locales (simp add: enc_int_def dec_int_def parse_int_fmt_d)

interpretation bool_codec: go_codec JBool dec_bool "\<lambda>_. True"
  by unfold_locales (simp add: dec_bool_def)

interpretation raw_codec: go_codec enc_raw dec_raw "\<lambda>r. r \<noteq> None"
  by unfold_locales (auto simp: enc_raw_def dec_raw_def)

end
