(* ===== verification/Models.thy ===== *)
theory Models
  imports Json
begin

text \<open>
  The data of \<open>internal/store/models.go\<close> and the store of \<open>internal/store/store.go\<close>. The
  structs are records whose fields carry a prefix for their struct; a \<open>*string\<close> or
  \<open>*time.Time\<close> is an \<open>option\<close>. The store's maps hold pointers that nothing outside the
  store's lock writes through, so an entry is the record itself and a write through the
  pointer is an update of the entry.
\<close>

text \<open>A \<open>time.Time\<close> is the number of nanoseconds since Go's zero time.\<close>

type_synonym time = int

section \<open>Data\<close>

record agent =
  ag_ID :: string
  ag_Mode :: string
  ag_Environment :: string
  ag_Role :: string
  ag_Hostname :: string
  ag_InstanceID :: string
  ag_PrivateIP :: string
  ag_PublicIP :: "string option"
  ag_Version :: string
  ag_Status :: string
  ag_Capabilities :: "json gomap option"
  ag_LastHeartbeat :: "json option"
  ag_RegisteredAt :: time
  ag_LastSeenAt :: time

record command =
  cmd_ID :: string
  cmd_Type :: string
  cmd_DeploymentID :: string
  cmd_TargetAgentID :: string
  cmd_Status :: string
  cmd_TimeoutSeconds :: int
  cmd_Payload :: "json option"
  cmd_CreatedAt :: time
  cmd_ClaimedAt :: "time option"
  cmd_StartedAt :: "time option"
  cmd_FinishedAt :: "time option"
  cmd_ClaimedBy :: string

record deployment =
  dep_ID :: string
  dep_Application :: string
  dep_Environment :: string
  dep_Image :: string
  dep_Host :: string
  dep_Status :: string
  dep_TargetAgentID :: string
  dep_CommandID :: string
  dep_ContainerName :: string
  dep_ContainerInternalPort :: int
  dep_HealthCheckPath :: string
  dep_RequiresRoute :: bool
  dep_RuntimePrivateIP :: string
  dep_HostPort :: int
  dep_RouteID :: string
  dep_CreatedAt :: time
  dep_UpdatedAt :: time

record route =
  rt_ID :: string
  rt_Environment :: string
  rt_Host :: string
  rt_Path :: string
  rt_Upstream :: string
  rt_DeploymentID :: string
  rt_HealthCheckPath :: string

record desired_state =
  ds_Version :: int
  ds_Type :: string
  ds_Environment :: string
  ds_Routes :: "route list"

record report_error =
  re_Code :: string
  re_Message :: string
  re_Operation :: string
  re_Retryable :: bool

record command_report =
  cr_CommandID :: string
  cr_DeploymentID :: string
  cr_AgentID :: string
  cr_Status :: string
  cr_Result :: "json option"
  cr_Error :: "report_error option"
  cr_ReceivedAt :: time

record desired_state_report =
  dr_AgentID :: string
  dr_DesiredStateVersion :: int
  dr_CurrentDesiredStateVersion :: int
  dr_Stale :: bool
  dr_Invalid :: bool
  dr_Environment :: string
  dr_Type :: string
  dr_Status :: string
  dr_RoutesTotal :: int
  dr_ValidatedRoutes :: int
  dr_FailedRoutes :: int
  dr_Error :: "report_error option"
  dr_ReceivedAt :: time

record counters =
  AgentByEnvironmentRole :: "int gomap"
  CommandCount :: int
  DeploymentCount :: int
  RouteCount :: int
  DesiredStateVersionByEnvironment :: "int gomap"

section \<open>Payloads of commands\<close>

text \<open>A nil and an empty map of strings are both omitted from the payload and not told apart.\<close>

record deploy_payload =
  dpl_Application :: string
  dpl_Environment :: string
  dpl_Image :: string
  dpl_ContainerName :: string
  dpl_ContainerInternalPort :: int
  dpl_HealthCheckPath :: string
  dpl_RequiresRoute :: bool
  dpl_EnvironmentVariables :: "string gomap"
  dpl_Labels :: "string gomap"

record stop_payload =
  spl_DeploymentID :: string
  spl_ContainerName :: string
  spl_StopTimeoutSeconds :: int

record remove_payload =
  rpl_DeploymentID :: string
  rpl_ContainerName :: string
  rpl_ReleasePort :: bool

record cleanup_payload =
  cpl_Environment :: string
  cpl_OlderThanSeconds :: int

definition enc_deploy_payload :: "deploy_payload \<Rightarrow> json" where
  "enc_deploy_payload p = JObj (
     member ''application'' (enc_string (dpl_Application p)) @
     member ''environment'' (enc_string (dpl_Environment p)) @
     member ''image'' (enc_string (dpl_Image p)) @
     member ''container_name'' (enc_string (dpl_ContainerName p)) @
     member ''container_internal_port'' (enc_int (dpl_ContainerInternalPort p)) @
     member ''health_check_path'' (enc_string (dpl_HealthCheckPath p)) @
     member ''requires_route'' (JBool (dpl_RequiresRoute p)) @
     member_omit (dpl_EnvironmentVariables p = fmempty) ''environment_variables''
       (enc_map enc_string (dpl_EnvironmentVariables p)) @
     member_omit (dpl_Labels p = fmempty) ''labels'' (enc_map enc_string (dpl_Labels p)))"

definition enc_stop_payload :: "stop_payload \<Rightarrow> json" where
  "enc_stop_payload p = JObj (
     member ''deployment_id'' (enc_string (spl_DeploymentID p)) @
     member ''container_name'' (enc_string (spl_ContainerName p)) @
     member ''stop_timeout_seconds'' (enc_int (spl_StopTimeoutSeconds p)))"

definition enc_remove_payload :: "remove_payload \<Rightarrow> json" where
  "enc_remove_payload p = JObj (
     member ''deployment_id'' (enc_string (rpl_DeploymentID p)) @
     member ''container_name'' (enc_string (rpl_ContainerName p)) @
     member ''release_port'' (JBool (rpl_ReleasePort p)))"

definition enc_cleanup_payload :: "cleanup_payload \<Rightarrow> json" where
  "enc_cleanup_payload p = JObj (
     member ''environment'' (enc_string (cpl_Environment p)) @
     member ''older_than_seconds'' (enc_int (cpl_OlderThanSeconds p)))"

section \<open>The store\<close>

record store =
  Agents :: "agent gomap"
  AgentIndex :: "string gomap"
  Commands :: "command gomap"
  Deployments :: "deployment gomap"
  CommandReports :: "command_report list"
  DesiredStates :: "desired_state gomap"
  DesiredStateReports :: "desired_state_report list"
  Counters :: counters

definition zero_counters :: counters where
  "zero_counters =
     \<lparr>AgentByEnvironmentRole = fmempty, CommandCount = 0, DeploymentCount = 0, RouteCount = 0,
      DesiredStateVersionByEnvironment = fmempty\<rparr>"

definition store_New :: store where
  "store_New =
     \<lparr>Agents = fmempty, AgentIndex = fmempty, Commands = fmempty, Deployments = fmempty,
      CommandReports = [], DesiredStates = fmempty, DesiredStateReports = [],
      Counters = zero_counters\<rparr>"

definition buildUpstream :: "string \<Rightarrow> int \<Rightarrow> string" where
  "buildUpstream privateIP hostPort = privateIP @ '':'' @ fmt_d hostPort"

text \<open>
  The errors, each with the detail \<open>fmt.Errorf\<close> appends to the wrapped sentinel.
  \<open>errors.Is\<close> is the constructor; \<open>err_text\<close> is \<open>err.Error()\<close>.
\<close>

datatype store_error =
    ErrNotFound
  | ErrConflict string
  | ErrInvalidState string
  | ErrFutureVersion string

fun err_text :: "store_error \<Rightarrow> string" where
  "err_text ErrNotFound = ''not found''"
| "err_text (ErrConflict d) = ''conflict: '' @ d"
| "err_text (ErrInvalidState d) = ''invalid state: '' @ d"
| "err_text (ErrFutureVersion d) = ''future version: '' @ d"

text \<open>A nil pointer dereference panics; the model returns the panic as a value.\<close>

datatype panic = NilDereference

text \<open>
  The writes through a pointer held by the store: the update of the entry under its key.
\<close>

definition put_agent :: "string \<Rightarrow> agent \<Rightarrow> store \<Rightarrow> store" where
  "put_agent k a s = s\<lparr>Agents := fmupd k a (Agents s)\<rparr>"

definition put_command :: "string \<Rightarrow> command \<Rightarrow> store \<Rightarrow> store" where
  "put_command k c s = s\<lparr>Commands := fmupd k c (Commands s)\<rparr>"

definition put_deployment :: "string \<Rightarrow> deployment \<Rightarrow> store \<Rightarrow> store" where
  "put_deployment k d s = s\<lparr>Deployments := fmupd k d (Deployments s)\<rparr>"

definition put_desired :: "string \<Rightarrow> desired_state \<Rightarrow> store \<Rightarrow> store" where
  "put_desired k d s = s\<lparr>DesiredStates := fmupd k d (DesiredStates s)\<rparr>"

lemmas put_defs = put_agent_def put_command_def put_deployment_def put_desired_def

lemma put_frames [simp]:
  "Agents (put_command k c s) = Agents s" "AgentIndex (put_command k c s) = AgentIndex s"
  "Deployments (put_command k c s) = Deployments s"
  "CommandReports (put_command k c s) = CommandReports s"
  "DesiredStates (put_command k c s) = DesiredStates s"
  "DesiredStateReports (put_command k c s) = DesiredStateReports s"
  "Counters (put_command k c s) = Counters s"
  "Agents (put_deployment k d s) = Agents s" "AgentIndex (put_deployment k d s) = AgentIndex s"
  "Commands (put_deployment k d s) = Commands s"
  "CommandReports (put_deployment k d s) = CommandReports s"
  "DesiredStates (put_deployment k d s) = DesiredStates s"
  "DesiredStateReports (put_deployment k d s) = DesiredStateReports s"
  "Counters (put_deployment k d s) = Counters s"
  "Agents (put_desired k e s) = Agents s" "AgentIndex (put_desired k e s) = AgentIndex s"
  "Commands (put_desired k e s) = Commands s" "Deployments (put_desired k e s) = Deployments s"
  "CommandReports (put_desired k e s) = CommandReports s"
  "DesiredStateReports (put_desired k e s) = DesiredStateReports s"
  "Counters (put_desired k e s) = Counters s"
  "AgentIndex (put_agent k a s) = AgentIndex s" "Commands (put_agent k a s) = Commands s"
  "Deployments (put_agent k a s) = Deployments s"
  "CommandReports (put_agent k a s) = CommandReports s"
  "DesiredStates (put_agent k a s) = DesiredStates s"
  "DesiredStateReports (put_agent k a s) = DesiredStateReports s"
  "Counters (put_agent k a s) = Counters s"
  by (simp_all add: put_defs)

lemma put_selects [simp]:
  "Agents (put_agent k a s) = fmupd k a (Agents s)"
  "Commands (put_command k c s) = fmupd k c (Commands s)"
  "Deployments (put_deployment k d s) = fmupd k d (Deployments s)"
  "DesiredStates (put_desired k e s) = fmupd k e (DesiredStates s)"
  by (simp_all add: put_defs)

end
