(* ===== verification/Agents.thy ===== *)
theory Agents
  imports Ids Models
begin

text \<open>
  The agent registry, \<open>internal/store/agents.go\<close>: registration with the index from
  \<open>instance:mode:environment:role\<close> to the agent, heartbeats and the look-ups.
\<close>

section \<open>Operations\<close>

record register_input =
  ri_Mode :: string
  ri_Environment :: string
  ri_Role :: string
  ri_Hostname :: string
  ri_InstanceID :: string
  ri_PrivateIP :: string
  ri_PublicIP :: "string option"
  ri_Version :: string
  ri_Capabilities :: "json gomap option"

definition agentKey :: "string \<Rightarrow> string \<Rightarrow> string \<Rightarrow> string \<Rightarrow> string" where
  "agentKey instanceID mode environment role =
     instanceID @ '':'' @ mode @ '':'' @ environment @ '':'' @ role"

definition RegisterAgent ::
  "register_input \<Rightarrow> time \<Rightarrow> store \<Rightarrow> store \<times> (panic + agent)" where
  "RegisterAgent inp now s =
     (let key = agentKey (ri_InstanceID inp) (ri_Mode inp) (ri_Environment inp) (ri_Role inp) in
      case fmlookup (AgentIndex s) key of
        Some agentID \<Rightarrow>
          (case fmlookup (Agents s) agentID of
             None \<Rightarrow> (s, Inl NilDereference)
           | Some a \<Rightarrow>
               (let a' = a\<lparr>ag_Hostname := ri_Hostname inp, ag_Version := ri_Version inp,
                          ag_PrivateIP := ri_PrivateIP inp, ag_PublicIP := ri_PublicIP inp,
                          ag_Capabilities := ri_Capabilities inp, ag_Status := ''online'',
                          ag_LastSeenAt := now\<rparr>
                in (put_agent agentID a' s, Inr a')))
      | None \<Rightarrow>
          (let envRoleKey = env_role_key (ri_Environment inp) (ri_Role inp);
               c = Counters s;
               n = s64 (lookup_or 0 (AgentByEnvironmentRole c) envRoleKey + 1);
               agentID = ids_Agent (ri_Environment inp) (ri_Role inp) n;
               a = \<lparr>ag_ID = agentID, ag_Mode = ri_Mode inp, ag_Environment = ri_Environment inp,
                    ag_Role = ri_Role inp, ag_Hostname = ri_Hostname inp,
                    ag_InstanceID = ri_InstanceID inp, ag_PrivateIP = ri_PrivateIP inp,
                    ag_PublicIP = ri_PublicIP inp, ag_Version = ri_Version inp,
                    ag_Status = ''online'', ag_Capabilities = ri_Capabilities inp,
                    ag_LastHeartbeat = None, ag_RegisteredAt = now, ag_LastSeenAt = now\<rparr>
           in (s\<lparr>Counters := c\<lparr>AgentByEnvironmentRole :=
                                 fmupd envRoleKey n (AgentByEnvironmentRole c)\<rparr>,
                 Agents := fmupd agentID a (Agents s),
                 AgentIndex := fmupd key agentID (AgentIndex s)\<rparr>,
               Inr a)))"

record heartbeat_core =
  hb_Status :: string
  hb_Version :: string
  hb_PrivateIP :: string

definition zero_heartbeat :: heartbeat_core where
  "zero_heartbeat = \<lparr>hb_Status = '''', hb_Version = '''', hb_PrivateIP = ''''\<rparr>"

definition heartbeat_fields :: "heartbeat_core fields" where
  "heartbeat_fields =
     [field ''status'' hb_Status hb_Status_update dec_string,
      field ''version'' hb_Version hb_Version_update dec_string,
      field ''private_ip'' hb_PrivateIP hb_PrivateIP_update dec_string]"

definition Heartbeat ::
  "string \<Rightarrow> json option \<Rightarrow> time \<Rightarrow> store \<Rightarrow> store \<times> (store_error + agent)" where
  "Heartbeat agentID raw now s =
     (case fmlookup (Agents s) agentID of
        None \<Rightarrow> (s, Inl ErrNotFound)
      | Some a \<Rightarrow>
          (let core = unmarshal_lax (dec_struct heartbeat_fields) zero_heartbeat raw;
               a1 = a\<lparr>ag_LastHeartbeat := raw, ag_LastSeenAt := now\<rparr>;
               a2 = (if hb_Status core \<noteq> '''' then a1\<lparr>ag_Status := hb_Status core\<rparr> else a1);
               a3 = (if hb_Version core \<noteq> '''' then a2\<lparr>ag_Version := hb_Version core\<rparr> else a2);
               a4 = (if hb_PrivateIP core \<noteq> ''''
                     then a3\<lparr>ag_PrivateIP := hb_PrivateIP core\<rparr> else a3)
           in (put_agent agentID a4 s, Inr a4)))"

definition GetAgent :: "string \<Rightarrow> store \<Rightarrow> agent option" where
  "GetAgent agentID s = fmlookup (Agents s) agentID"

definition ListAgents :: "string list \<Rightarrow> store \<Rightarrow> agent list" where
  "ListAgents ord s = range_values ord (Agents s)"

definition FindAgentByEnvironmentRole ::
  "string list \<Rightarrow> string \<Rightarrow> string \<Rightarrow> store \<Rightarrow> agent option" where
  "FindAgentByEnvironmentRole ord environment role s =
     find (\<lambda>a. ag_Environment a = environment \<and> ag_Role a = role) (range_values ord (Agents s))"

lemmas agent_ops = RegisterAgent_def Heartbeat_def GetAgent_def ListAgents_def
  FindAgentByEnvironmentRole_def

section \<open>The invariant of the registry\<close>

definition key_of_agent :: "agent \<Rightarrow> string" where
  "key_of_agent a = agentKey (ag_InstanceID a) (ag_Mode a) (ag_Environment a) (ag_Role a)"

definition key_of_input :: "register_input \<Rightarrow> string" where
  "key_of_input i = agentKey (ri_InstanceID i) (ri_Mode i) (ri_Environment i) (ri_Role i)"

definition role_count :: "store \<Rightarrow> string \<Rightarrow> int" where
  "role_count s k = lookup_or 0 (AgentByEnvironmentRole (Counters s)) k"

definition agent_ok :: "store \<Rightarrow> string \<Rightarrow> agent \<Rightarrow> bool" where
  "agent_ok s k a \<longleftrightarrow>
     ag_ID a = k \<and> fmlookup (AgentIndex s) (key_of_agent a) = Some k \<and>
     (\<exists>n. 1 \<le> n \<and> n \<le> role_count s (env_role_key (ag_Environment a) (ag_Role a)) \<and>
          k = ids_Agent (ag_Environment a) (ag_Role a) n)"

definition agents_ok :: "store \<Rightarrow> bool" where
  "agents_ok s \<longleftrightarrow>
     (\<forall>k a. fmlookup (Agents s) k = Some a \<longrightarrow> agent_ok s k a) \<and>
     (\<forall>key k. fmlookup (AgentIndex s) key = Some k \<longrightarrow>
        (\<exists>a. fmlookup (Agents s) k = Some a \<and> key_of_agent a = key)) \<and>
     (\<forall>key. 0 \<le> role_count s key)"

lemma agents_okD:
  assumes "agents_ok s"
  shows "fmlookup (Agents s) k = Some a \<Longrightarrow> agent_ok s k a"
    and "fmlookup (AgentIndex s) key = Some k \<Longrightarrow>
           \<exists>a. fmlookup (Agents s) k = Some a \<and> key_of_agent a = key"
    and "0 \<le> role_count s key"
  using assms by (auto simp: agents_ok_def)

lemma agents_ok_New [wf_intros]: "agents_ok store_New"
  by (simp add: agents_ok_def store_New_def zero_counters_def role_count_def lookup_or_def)

lemma agents_ok_cong:
  "Agents s' = Agents s \<Longrightarrow> AgentIndex s' = AgentIndex s \<Longrightarrow>
   AgentByEnvironmentRole (Counters s') = AgentByEnvironmentRole (Counters s) \<Longrightarrow>
   agents_ok s' = agents_ok s"
  by (simp add: agents_ok_def agent_ok_def role_count_def)

text \<open>Updating an agent without touching what identifies it keeps the invariant.\<close>

lemma agents_ok_put:
  assumes "agents_ok s" and "fmlookup (Agents s) k = Some a"
    and "ag_ID a' = ag_ID a" "key_of_agent a' = key_of_agent a"
    and "ag_Environment a' = ag_Environment a" "ag_Role a' = ag_Role a"
  shows "agents_ok (put_agent k a' s)"
proof -
  have "agent_ok s k a" using assms(1,2) by (rule agents_okD)
  then have "agent_ok s k a'" using assms(3-6) by (simp add: agent_ok_def)
  then show ?thesis
    using assms(1,2,4) unfolding agents_ok_def agent_ok_def role_count_def
    by (auto split: if_splits) (metis option.inject)
qed

lemma next_agent_fresh:
  assumes ok: "agents_ok s" and n: "role_count s (env_role_key e r) < n"
  shows "fmlookup (Agents s) (ids_Agent e r n) = None"
proof (cases "fmlookup (Agents s) (ids_Agent e r n)")
  case (Some a)
  with ok have "agent_ok s (ids_Agent e r n) a" by (rule agents_okD)
  then obtain m where m: "1 \<le> m" "m \<le> role_count s (env_role_key (ag_Environment a) (ag_Role a))"
      "ids_Agent e r n = ids_Agent (ag_Environment a) (ag_Role a) m"
    by (auto simp: agent_ok_def)
  have "0 \<le> n" using n agents_okD(3) [OF ok, of "env_role_key e r"] by simp
  then have "env_role_key e r = env_role_key (ag_Environment a) (ag_Role a) \<and> n = m"
    using m by (intro ids_Agent_inject) simp_all
  then show ?thesis using m n by simp
qed simp

section \<open>Registration\<close>

definition registered :: "register_input \<Rightarrow> time \<Rightarrow> store \<Rightarrow> store" where
  "registered i now s = fst (RegisterAgent i now s)"

text \<open>The three branches of \<open>RegisterAgent\<close>.\<close>

lemma register_known:
  assumes "fmlookup (AgentIndex s) (key_of_input i) = Some k" and "fmlookup (Agents s) k = Some a"
  shows "RegisterAgent i now s =
    (let a' = a\<lparr>ag_Hostname := ri_Hostname i, ag_Version := ri_Version i,
               ag_PrivateIP := ri_PrivateIP i, ag_PublicIP := ri_PublicIP i,
               ag_Capabilities := ri_Capabilities i, ag_Status := ''online'',
               ag_LastSeenAt := now\<rparr>
     in (put_agent k a' s, Inr a'))"
  using assms by (simp add: RegisterAgent_def key_of_input_def)

lemma register_index:
  "fmlookup (AgentIndex (registered i now s)) key =
     (if key = key_of_input i \<and> fmlookup (AgentIndex s) key = None
      then Some (ids_Agent (ri_Environment i) (ri_Role i)
             (s64 (role_count s (env_role_key (ri_Environment i) (ri_Role i)) + 1)))
      else fmlookup (AgentIndex s) key)"
  by (auto simp: registered_def RegisterAgent_def key_of_input_def Let_def role_count_def
      split: option.splits)

lemma register_frame [frame_simps]:
  "Commands (registered i now s) = Commands s"
  "Deployments (registered i now s) = Deployments s"
  "CommandReports (registered i now s) = CommandReports s"
  "DesiredStates (registered i now s) = DesiredStates s"
  "DesiredStateReports (registered i now s) = DesiredStateReports s"
  "CommandCount (Counters (registered i now s)) = CommandCount (Counters s)"
  "DeploymentCount (Counters (registered i now s)) = DeploymentCount (Counters s)"
  "RouteCount (Counters (registered i now s)) = RouteCount (Counters s)"
  "DesiredStateVersionByEnvironment (Counters (registered i now s)) =
     DesiredStateVersionByEnvironment (Counters s)"
  by (auto simp: registered_def RegisterAgent_def Let_def split: option.splits)

lemma register_new_ok:
  assumes ok: "agents_ok s" and new: "fmlookup (AgentIndex s) (key_of_input i) = None"
    and room: "role_count s (env_role_key (ri_Environment i) (ri_Role i)) < max_int"
  shows "agents_ok (registered i now s)"
proof -
  let ?key = "env_role_key (ri_Environment i) (ri_Role i)"
  let ?n = "role_count s ?key + 1"
  let ?id = "ids_Agent (ri_Environment i) (ri_Role i) ?n"
  let ?t = "registered i now s"
  have n: "s64 (role_count s ?key + 1) = ?n"
    using agents_okD(3) [OF ok] room by (intro s64_succ)
  have fresh: "fmlookup (Agents s) ?id = None" by (rule next_agent_fresh [OF ok]) simp
  obtain a where a: "Agents ?t = fmupd ?id a (Agents s)" "ag_ID a = ?id"
      "key_of_agent a = key_of_input i" "ag_Environment a = ri_Environment i"
      "ag_Role a = ri_Role i"
    using new n by (simp add: registered_def RegisterAgent_def key_of_input_def key_of_agent_def
        Let_def role_count_def)
  have idx: "AgentIndex ?t = fmupd (key_of_input i) ?id (AgentIndex s)"
    using new n by (simp add: registered_def RegisterAgent_def key_of_input_def Let_def
        role_count_def)
  have cnt: "role_count ?t k = (if k = ?key then ?n else role_count s k)" for k
    using new n by (auto simp: registered_def RegisterAgent_def key_of_input_def Let_def
        role_count_def lookup_or_def)
  have mono: "role_count s k \<le> role_count ?t k" for k by (simp add: cnt)
  have nonneg: "0 \<le> role_count ?t k" for k
    using agents_okD(3) [OF ok, of k] mono [of k] by linarith
  have old: "agent_ok ?t k b" if "fmlookup (Agents s) k = Some b" for k b
  proof -
    have "agent_ok s k b" using ok that by (rule agents_okD)
    moreover from this new have "key_of_agent b \<noteq> key_of_input i" by (auto simp: agent_ok_def)
    ultimately show ?thesis
      unfolding agent_ok_def idx using mono by (fastforce intro: order_trans)
  qed
  have new_ok: "agent_ok ?t ?id a"
    unfolding agent_ok_def idx using a agents_okD(3) [OF ok, of ?key]
    by (auto simp: cnt intro!: exI [of _ ?n])
  have "\<exists>b. fmlookup (Agents ?t) k = Some b \<and> key_of_agent b = key"
    if "fmlookup (AgentIndex ?t) key = Some k" for key k
  proof (cases "key = key_of_input i")
    case True
    with that a show ?thesis by (auto simp: idx)
  next
    case False
    with that have "fmlookup (AgentIndex s) key = Some k" by (simp add: idx)
    from agents_okD(2) [OF ok this] obtain b
      where b: "fmlookup (Agents s) k = Some b" "key_of_agent b = key" by blast
    with fresh have "k \<noteq> ?id" by auto
    with b show ?thesis by (simp add: a)
  qed
  then show ?thesis using old new_ok nonneg by (auto simp: agents_ok_def a split: if_splits)
qed

lemma register_known_ok:
  assumes ok: "agents_ok s" and known: "fmlookup (AgentIndex s) (key_of_input i) = Some k"
  shows "agents_ok (registered i now s)"
proof -
  obtain a where a: "fmlookup (Agents s) k = Some a" using agents_okD(2) [OF ok known] by blast
  show ?thesis
    unfolding registered_def register_known [OF known a] Let_def fst_conv
    by (rule agents_ok_put [OF ok a]) (simp_all add: key_of_agent_def)
qed

lemma register_ok [wf_intros]:
  assumes "agents_ok s" and "role_count s (env_role_key (ri_Environment i) (ri_Role i)) < max_int"
  shows "agents_ok (registered i now s)"
  using assms by (cases "fmlookup (AgentIndex s) (key_of_input i)")
    (auto intro: register_new_ok register_known_ok)

section \<open>The registry as an interface\<close>

text \<open>
  What a client of the registry relies on: a registration creates an entry for the key of
  its input when there is none and touches no other entry.
\<close>

locale registry =
  fixes look :: "'s \<Rightarrow> 'k \<Rightarrow> 'id option"
    and enter :: "'i \<Rightarrow> 's \<Rightarrow> 's"
    and key :: "'i \<Rightarrow> 'k"
  assumes enter_known: "look s (key i) = Some d \<Longrightarrow> look (enter i s) (key i) = Some d"
    and enter_found: "look (enter i s) (key i) \<noteq> None"
    and enter_other: "k \<noteq> key i \<Longrightarrow> look (enter i s) k = look s k"
begin

lemma enter_keeps: "look s k = Some d \<Longrightarrow> look (enter i s) k = Some d"
  by (cases "k = key i") (simp_all add: enter_known enter_other)

lemma run_keeps: "look s k = Some d \<Longrightarrow> look (fold enter is s) k = Some d"
  by (induction "is" arbitrary: s) (auto intro: enter_keeps)

lemma run_found:
  assumes "i \<in> set is"
  shows "\<exists>d. look (fold enter is s) (key i) = Some d"
  using assms
proof (induction "is" arbitrary: s)
  case (Cons j js)
  show ?case
  proof (cases "i = j")
    case True
    obtain d where "look (enter i s) (key i) = Some d" using enter_found [of i s] by blast
    with True show ?thesis using run_keeps by fastforce
  next
    case False
    with Cons show ?thesis by simp
  qed
qed simp

lemma run_stable:
  assumes "i \<in> set is"
  shows "look (fold enter (is @ js) s) (key i) = look (fold enter is s) (key i)"
proof -
  obtain d where d: "look (fold enter is s) (key i) = Some d" using run_found [OF assms] by blast
  then have "look (fold enter js (fold enter is s)) (key i) = Some d" by (rule run_keeps)
  with d show ?thesis by simp
qed

end

interpretation agent_registry: registry
  "\<lambda>s k. fmlookup (AgentIndex s) k" "\<lambda>(i, now). registered i now" "\<lambda>(i, now). key_of_input i"
  by unfold_locales (auto simp: register_index)

section \<open>Heartbeats\<close>

definition beaten :: "string \<Rightarrow> json option \<Rightarrow> time \<Rightarrow> store \<Rightarrow> store" where
  "beaten k raw now s = fst (Heartbeat k raw now s)"

lemma beaten_frame [frame_simps]:
  "AgentIndex (beaten k raw now s) = AgentIndex s"
  "Commands (beaten k raw now s) = Commands s"
  "Deployments (beaten k raw now s) = Deployments s"
  "CommandReports (beaten k raw now s) = CommandReports s"
  "DesiredStates (beaten k raw now s) = DesiredStates s"
  "DesiredStateReports (beaten k raw now s) = DesiredStateReports s"
  "Counters (beaten k raw now s) = Counters s"
  by (auto simp: beaten_def Heartbeat_def Let_def split: option.splits)

lemma heartbeat_ok [wf_intros]: "agents_ok s \<Longrightarrow> agents_ok (beaten k raw now s)"
  unfolding beaten_def Heartbeat_def Let_def
  by (auto split: option.splits intro!: agents_ok_put simp: key_of_agent_def)

section \<open>Look-ups\<close>

lemma find_agent_sound:
  "FindAgentByEnvironmentRole ord e r s = Some a \<Longrightarrow>
   \<exists>k. fmlookup (Agents s) k = Some a \<and> ag_Environment a = e \<and> ag_Role a = r"
  unfolding FindAgentByEnvironmentRole_def by (drule find_Some_mem) (auto simp: set_range_values)

lemma find_agent_complete:
  assumes "iter_order ord (Agents s)" and "FindAgentByEnvironmentRole ord e r s = None"
    and "fmlookup (Agents s) k = Some a"
  shows "\<not> (ag_Environment a = e \<and> ag_Role a = r)"
  using assms unfolding FindAgentByEnvironmentRole_def
  by (auto simp: find_None_all set_range_values_order [OF assms(1)])

end
