(* ===== verification/Desired_State.thy ===== *)
theory Desired_State
  imports Ids Models
begin

text \<open>
  The desired state of the gateways, \<open>internal/store/desired_state.go\<close>: one versioned
  table of routes per environment, its internal operations, and the reports in which a
  gateway says which version it has applied.
\<close>

section \<open>Reading\<close>

definition empty_desired_state :: "string \<Rightarrow> desired_state" where
  "empty_desired_state environment =
     \<lparr>ds_Version = 0, ds_Type = ''gateway_routes'', ds_Environment = environment,
      ds_Routes = []\<rparr>"

definition copyDesiredState :: "desired_state \<Rightarrow> desired_state" where
  "copyDesiredState ds =
     \<lparr>ds_Version = ds_Version ds, ds_Type = ds_Type ds, ds_Environment = ds_Environment ds,
      ds_Routes = ds_Routes ds\<rparr>"

definition GetDesiredState :: "string \<Rightarrow> store \<Rightarrow> desired_state" where
  "GetDesiredState environment s =
     (case fmlookup (DesiredStates s) environment of
        Some ds \<Rightarrow> copyDesiredState ds
      | None \<Rightarrow> empty_desired_state environment)"

definition GetAllDesiredStates :: "string list \<Rightarrow> store \<Rightarrow> desired_state gomap" where
  "GetAllDesiredStates ord s = copy_map copyDesiredState ord (DesiredStates s)"

definition ListDesiredStateReports :: "store \<Rightarrow> desired_state_report list" where
  "ListDesiredStateReports s = DesiredStateReports s"

section \<open>Internal operations\<close>

definition getOrCreateDesiredState :: "string \<Rightarrow> store \<Rightarrow> store \<times> desired_state" where
  "getOrCreateDesiredState environment s =
     (case fmlookup (DesiredStates s) environment of
        Some ds \<Rightarrow> (s, ds)
      | None \<Rightarrow>
          (let ds = empty_desired_state environment in (put_desired environment ds s, ds)))"

text \<open>The loop of \<open>upsertRoute\<close>: the first route of the host is written in place.\<close>

fun update_host_route ::
  "string \<Rightarrow> string \<Rightarrow> string \<Rightarrow> route list \<Rightarrow> (route list \<times> route) option" where
  "update_host_route host upstream deploymentID [] = None"
| "update_host_route host upstream deploymentID (r # rs) =
     (if rt_Host r = host
      then (let r' = r\<lparr>rt_Upstream := upstream, rt_DeploymentID := deploymentID\<rparr>
            in Some (r' # rs, r'))
      else (case update_host_route host upstream deploymentID rs of
              None \<Rightarrow> None
            | Some (rs', r') \<Rightarrow> Some (r # rs', r')))"

definition upsertRoute ::
  "string \<Rightarrow> string \<Rightarrow> string \<Rightarrow> string \<Rightarrow> string \<Rightarrow> string \<Rightarrow> store \<Rightarrow> store \<times> route" where
  "upsertRoute environment host path upstream deploymentID healthCheckPath s =
     (case (case fmlookup (DesiredStates s) environment of
              None \<Rightarrow> None
            | Some ds \<Rightarrow> map_option (\<lambda>(rs, r). (ds\<lparr>ds_Routes := rs\<rparr>, r))
                           (update_host_route host upstream deploymentID (ds_Routes ds))) of
        Some (ds', r) \<Rightarrow> (put_desired environment ds' s, r)
      | None \<Rightarrow>
          (let n = s64 (RouteCount (Counters s) + 1);
               s1 = s\<lparr>Counters := (Counters s)\<lparr>RouteCount := n\<rparr>\<rparr>;
               route = \<lparr>rt_ID = ids_Route n, rt_Environment = environment, rt_Host = host,
                        rt_Path = path, rt_Upstream = upstream, rt_DeploymentID = deploymentID,
                        rt_HealthCheckPath = healthCheckPath\<rparr>;
               (s2, ds) = getOrCreateDesiredState environment s1
           in (put_desired environment (ds\<lparr>ds_Routes := ds_Routes ds @ [route]\<rparr>) s2, route)))"

definition removeRoute :: "string \<Rightarrow> string \<Rightarrow> store \<Rightarrow> store" where
  "removeRoute environment routeID s =
     (case fmlookup (DesiredStates s) environment of
        None \<Rightarrow> s
      | Some ds \<Rightarrow>
          put_desired environment
            (ds\<lparr>ds_Routes := filter (\<lambda>r. rt_ID r \<noteq> routeID) (ds_Routes ds)\<rparr>) s)"

definition incrementDesiredState :: "string \<Rightarrow> store \<Rightarrow> store" where
  "incrementDesiredState environment s =
     (let (s1, ds) = getOrCreateDesiredState environment s;
          v = s64 (ds_Version ds + 1);
          s2 = put_desired environment (ds\<lparr>ds_Version := v\<rparr>) s1
      in s2\<lparr>Counters := (Counters s2)\<lparr>DesiredStateVersionByEnvironment :=
             fmupd environment v (DesiredStateVersionByEnvironment (Counters s2))\<rparr>\<rparr>)"

section \<open>Reports\<close>

record report_input =
  dri_AgentID :: string
  dri_DesiredStateVersion :: int
  dri_Type :: string
  dri_Environment :: string
  dri_Status :: string
  dri_RoutesTotal :: int
  dri_ValidatedRoutes :: int
  dri_FailedRoutes :: int
  dri_Error :: "report_error option"

text \<open>The body of the loop over the deployments, and the loop in the order \<open>ord\<close>.\<close>

definition settle_deployment :: "string \<Rightarrow> string \<Rightarrow> time \<Rightarrow> deployment \<Rightarrow> deployment" where
  "settle_deployment environment status now dep =
     (if dep_Environment dep \<noteq> environment \<or> dep_Status dep \<noteq> ''route_pending'' then dep
      else if status = ''applied''
      then dep\<lparr>dep_Status := ''route_active'', dep_UpdatedAt := now\<rparr>
      else if status = ''failed''
      then dep\<lparr>dep_Status := ''route_failed'', dep_UpdatedAt := now\<rparr>
      else dep)"

fun settle_loop ::
  "string list \<Rightarrow> string \<Rightarrow> string \<Rightarrow> time \<Rightarrow> deployment gomap \<Rightarrow> deployment gomap" where
  "settle_loop [] environment status now m = m"
| "settle_loop (k # ks) environment status now m =
     (case fmlookup m k of
        None \<Rightarrow> settle_loop ks environment status now m
      | Some dep \<Rightarrow>
          settle_loop ks environment status now
            (fmupd k (settle_deployment environment status now dep) m))"

definition current_version :: "string \<Rightarrow> store \<Rightarrow> int" where
  "current_version environment s =
     (case fmlookup (DesiredStates s) environment of None \<Rightarrow> 0 | Some ds \<Rightarrow> ds_Version ds)"

definition ApplyDesiredStateReport ::
  "string list \<Rightarrow> report_input \<Rightarrow> time \<Rightarrow> time \<Rightarrow> store \<Rightarrow>
   store \<times> desired_state_report \<times> store_error option" where
  "ApplyDesiredStateReport ord inp received now s =
     (let currentVersion = current_version (dri_Environment inp) s;
          reported = dri_DesiredStateVersion inp;
          report =
            \<lparr>dr_AgentID = dri_AgentID inp, dr_DesiredStateVersion = reported,
             dr_CurrentDesiredStateVersion = currentVersion, dr_Stale = False,
             dr_Invalid = False, dr_Environment = dri_Environment inp, dr_Type = dri_Type inp,
             dr_Status = dri_Status inp, dr_RoutesTotal = dri_RoutesTotal inp,
             dr_ValidatedRoutes = dri_ValidatedRoutes inp,
             dr_FailedRoutes = dri_FailedRoutes inp, dr_Error = dri_Error inp,
             dr_ReceivedAt = received\<rparr>
      in if reported > currentVersion
         then (let r = report\<lparr>dr_Invalid := True\<rparr> in
               (s\<lparr>DesiredStateReports := DesiredStateReports s @ [r]\<rparr>, r,
                Some (ErrFutureVersion (''reported '' @ fmt_d reported @ '' but current is '' @
                        fmt_d currentVersion))))
         else if reported < currentVersion
         then (let r = report\<lparr>dr_Stale := True\<rparr> in
               (s\<lparr>DesiredStateReports := DesiredStateReports s @ [r]\<rparr>, r, None))
         else
           (s\<lparr>DesiredStateReports := DesiredStateReports s @ [report],
              Deployments := settle_loop ord (dri_Environment inp) (dri_Status inp) now
                               (Deployments s)\<rparr>, report, None))"

lemmas desired_internal = getOrCreateDesiredState_def upsertRoute_def removeRoute_def
  incrementDesiredState_def

section \<open>Observing the table\<close>

definition routes_of :: "store \<Rightarrow> string \<Rightarrow> route list" where
  "routes_of s e = (case fmlookup (DesiredStates s) e of None \<Rightarrow> [] | Some ds \<Rightarrow> ds_Routes ds)"

definition route_for :: "store \<Rightarrow> string \<Rightarrow> string \<Rightarrow> route option" where
  "route_for s e h = find (\<lambda>r. rt_Host r = h) (routes_of s e)"

text \<open>What identifies a route: no update of a route in place changes it.\<close>

definition route_sig :: "route \<Rightarrow> string \<times> string \<times> string" where
  "route_sig r = (rt_ID r, rt_Host r, rt_Environment r)"

definition route_sigs :: "store \<Rightarrow> string \<Rightarrow> (string \<times> string \<times> string) list" where
  "route_sigs s e = map route_sig (routes_of s e)"

lemma GetDesiredState_routes: "ds_Routes (GetDesiredState e s) = routes_of s e"
  by (simp add: GetDesiredState_def routes_of_def copyDesiredState_def empty_desired_state_def
      split: option.splits)

lemma GetDesiredState_version: "ds_Version (GetDesiredState e s) = current_version e s"
  by (simp add: GetDesiredState_def current_version_def copyDesiredState_def
      empty_desired_state_def split: option.splits)

lemma copyDesiredState_id [simp]: "copyDesiredState ds = ds"
  by (simp add: copyDesiredState_def)

lemma update_host_route_None:
  "update_host_route h u d rs = None \<longleftrightarrow> (\<forall>r \<in> set rs. rt_Host r \<noteq> h)"
  by (induction rs) (auto simp: Let_def split: option.splits)

lemma update_host_route_Some:
  "update_host_route h u d rs = Some (rs', r') \<Longrightarrow>
   \<exists>pre r post. rs = pre @ r # post \<and> (\<forall>x \<in> set pre. rt_Host x \<noteq> h) \<and> rt_Host r = h \<and>
     r' = r\<lparr>rt_Upstream := u, rt_DeploymentID := d\<rparr> \<and> rs' = pre @ r' # post"
proof (induction rs arbitrary: rs' r')
  case (Cons x xs)
  show ?case
  proof (cases "rt_Host x = h")
    case True
    with Cons.prems show ?thesis by (intro exI [of _ "[]"]) (auto simp: Let_def)
  next
    case False
    with Cons.prems obtain ys where ys: "update_host_route h u d xs = Some (ys, r')" "rs' = x # ys"
      by (auto split: option.splits)
    from Cons.IH [OF ys(1)] obtain pre r post where
      "xs = pre @ r # post" "\<forall>x \<in> set pre. rt_Host x \<noteq> h" "rt_Host r = h"
      "r' = r\<lparr>rt_Upstream := u, rt_DeploymentID := d\<rparr>" "ys = pre @ r' # post"
      by blast
    with False ys(2) show ?thesis by (intro exI [of _ "x # pre"]) auto
  qed
qed simp

section \<open>The operations on the table\<close>

text \<open>\<open>upsertRoute\<close> has two behaviours: the host has a route, or it has none.\<close>

lemma upsert_existing:
  assumes "route_for s e h = Some r"
  obtains pre post where
    "routes_of s e = pre @ r # post" "\<forall>x \<in> set pre. rt_Host x \<noteq> h" "rt_Host r = h"
    "routes_of (fst (upsertRoute e h p u d c s)) e =
       pre @ r\<lparr>rt_Upstream := u, rt_DeploymentID := d\<rparr> # post"
    "snd (upsertRoute e h p u d c s) = r\<lparr>rt_Upstream := u, rt_DeploymentID := d\<rparr>"
    "Counters (fst (upsertRoute e h p u d c s)) = Counters s"
proof -
  obtain ds where ds: "fmlookup (DesiredStates s) e = Some ds"
    using assms by (auto simp: route_for_def routes_of_def split: option.splits)
  have rs: "routes_of s e = ds_Routes ds" by (simp add: routes_of_def ds)
  obtain rs' r' where up: "update_host_route h u d (ds_Routes ds) = Some (rs', r')"
    using assms rs update_host_route_None [of h u d "ds_Routes ds"]
    by (cases "update_host_route h u d (ds_Routes ds)")
      (auto simp: route_for_def dest!: find_Some_mem)
  from update_host_route_Some [OF up] obtain pre r0 post where
    split: "ds_Routes ds = pre @ r0 # post" "\<forall>x \<in> set pre. rt_Host x \<noteq> h" "rt_Host r0 = h"
      "r' = r0\<lparr>rt_Upstream := u, rt_DeploymentID := d\<rparr>" "rs' = pre @ r' # post"
    by blast
  have "find (\<lambda>r. rt_Host r = h) pre = None" using split(2) by (auto simp: find_None_iff)
  then have "find (\<lambda>r. rt_Host r = h) (pre @ r0 # post) = Some r0"
    using split(3) by (induction pre) (auto split: if_splits)
  then have "r0 = r" using assms rs split(1) by (simp add: route_for_def)
  then show ?thesis
    using that [of pre post] split rs ds up by (simp add: upsertRoute_def routes_of_def)
qed

lemma upsert_new:
  assumes "route_for s e h = None"
  shows "routes_of (fst (upsertRoute e h p u d c s)) e =
           routes_of s e @ [snd (upsertRoute e h p u d c s)]"
    and "snd (upsertRoute e h p u d c s) =
           \<lparr>rt_ID = ids_Route (s64 (RouteCount (Counters s) + 1)), rt_Environment = e,
            rt_Host = h, rt_Path = p, rt_Upstream = u, rt_DeploymentID = d,
            rt_HealthCheckPath = c\<rparr>"
    and "Counters (fst (upsertRoute e h p u d c s)) =
           (Counters s)\<lparr>RouteCount := s64 (RouteCount (Counters s) + 1)\<rparr>"
proof -
  have none: "(case fmlookup (DesiredStates s) e of None \<Rightarrow> None
              | Some ds \<Rightarrow> map_option (\<lambda>(rs, r). (ds\<lparr>ds_Routes := rs\<rparr>, r))
                  (update_host_route h u d (ds_Routes ds))) = None"
    using assms by (auto simp: route_for_def routes_of_def update_host_route_None find_None_iff
        split: option.splits)
  show "routes_of (fst (upsertRoute e h p u d c s)) e =
          routes_of s e @ [snd (upsertRoute e h p u d c s)]"
    and "snd (upsertRoute e h p u d c s) =
          \<lparr>rt_ID = ids_Route (s64 (RouteCount (Counters s) + 1)), rt_Environment = e,
            rt_Host = h, rt_Path = p, rt_Upstream = u, rt_DeploymentID = d,
            rt_HealthCheckPath = c\<rparr>"
    and "Counters (fst (upsertRoute e h p u d c s)) =
          (Counters s)\<lparr>RouteCount := s64 (RouteCount (Counters s) + 1)\<rparr>"
    unfolding upsertRoute_def none
    by (auto simp: Let_def getOrCreateDesiredState_def routes_of_def empty_desired_state_def
        split: option.splits)
qed

lemma desired_other_env:
  assumes "e' \<noteq> e"
  shows "fmlookup (DesiredStates (fst (upsertRoute e h p u d c s))) e' =
           fmlookup (DesiredStates s) e'"
    and "fmlookup (DesiredStates (removeRoute e i s)) e' = fmlookup (DesiredStates s) e'"
    and "fmlookup (DesiredStates (incrementDesiredState e s)) e' = fmlookup (DesiredStates s) e'"
  using assms by (auto simp: desired_internal Let_def split: option.splits)

lemma routes_other_env:
  assumes "e' \<noteq> e"
  shows "routes_of (fst (upsertRoute e h p u d c s)) e' = routes_of s e'"
    and "routes_of (removeRoute e i s) e' = routes_of s e'"
  using assms by (simp_all add: routes_of_def desired_other_env)

lemma routes_remove: "routes_of (removeRoute e i s) e = filter (\<lambda>r. rt_ID r \<noteq> i) (routes_of s e)"
  by (simp add: removeRoute_def routes_of_def split: option.splits)

lemma routes_increment [simp]: "routes_of (incrementDesiredState e s) e' = routes_of s e'"
  by (cases "e' = e")
    (auto simp: incrementDesiredState_def getOrCreateDesiredState_def routes_of_def Let_def
      empty_desired_state_def split: option.splits)

lemma version_increment:
  "current_version e' (incrementDesiredState e s) =
     (if e' = e then s64 (current_version e s + 1) else current_version e' s)"
  by (cases "e' = e")
    (auto simp: incrementDesiredState_def getOrCreateDesiredState_def current_version_def Let_def
      empty_desired_state_def split: option.splits)

lemma version_frame [simp]:
  "current_version e' (fst (upsertRoute e h p u d c s)) = current_version e' s"
  "current_version e' (removeRoute e i s) = current_version e' s"
  by (cases "e' = e"; auto simp: upsertRoute_def removeRoute_def getOrCreateDesiredState_def Let_def
      current_version_def empty_desired_state_def split: option.splits)+

lemma desired_frame [frame_simps, simp]:
  "Agents (fst (upsertRoute e h p u d c s)) = Agents s"
  "AgentIndex (fst (upsertRoute e h p u d c s)) = AgentIndex s"
  "Commands (fst (upsertRoute e h p u d c s)) = Commands s"
  "Deployments (fst (upsertRoute e h p u d c s)) = Deployments s"
  "CommandReports (fst (upsertRoute e h p u d c s)) = CommandReports s"
  "DesiredStateReports (fst (upsertRoute e h p u d c s)) = DesiredStateReports s"
  "Agents (removeRoute e i s) = Agents s" "AgentIndex (removeRoute e i s) = AgentIndex s"
  "Commands (removeRoute e i s) = Commands s" "Deployments (removeRoute e i s) = Deployments s"
  "CommandReports (removeRoute e i s) = CommandReports s"
  "DesiredStateReports (removeRoute e i s) = DesiredStateReports s"
  "Counters (removeRoute e i s) = Counters s"
  "Agents (incrementDesiredState e s) = Agents s"
  "AgentIndex (incrementDesiredState e s) = AgentIndex s"
  "Commands (incrementDesiredState e s) = Commands s"
  "Deployments (incrementDesiredState e s) = Deployments s"
  "CommandReports (incrementDesiredState e s) = CommandReports s"
  "DesiredStateReports (incrementDesiredState e s) = DesiredStateReports s"
  by (auto simp: desired_internal Let_def split: option.splits)

lemma counters_frame [frame_simps, simp]:
  "AgentByEnvironmentRole (Counters (fst (upsertRoute e h p u d c s))) =
     AgentByEnvironmentRole (Counters s)"
  "CommandCount (Counters (fst (upsertRoute e h p u d c s))) = CommandCount (Counters s)"
  "DeploymentCount (Counters (fst (upsertRoute e h p u d c s))) = DeploymentCount (Counters s)"
  "DesiredStateVersionByEnvironment (Counters (fst (upsertRoute e h p u d c s))) =
     DesiredStateVersionByEnvironment (Counters s)"
  "AgentByEnvironmentRole (Counters (incrementDesiredState e s)) =
     AgentByEnvironmentRole (Counters s)"
  "CommandCount (Counters (incrementDesiredState e s)) = CommandCount (Counters s)"
  "DeploymentCount (Counters (incrementDesiredState e s)) = DeploymentCount (Counters s)"
  "RouteCount (Counters (incrementDesiredState e s)) = RouteCount (Counters s)"
  "DesiredStateVersionByEnvironment (Counters (incrementDesiredState e s)) =
     fmupd e (s64 (current_version e s + 1)) (DesiredStateVersionByEnvironment (Counters s))"
  by (auto simp: desired_internal Let_def current_version_def empty_desired_state_def
      split: option.splits)

section \<open>The invariant of the table\<close>

definition sigs_ok :: "int \<Rightarrow> string \<Rightarrow> (string \<times> string \<times> string) list \<Rightarrow> bool" where
  "sigs_ok c e sigs \<longleftrightarrow>
     distinct (map fst sigs) \<and> distinct (map (fst \<circ> snd) sigs) \<and>
     (\<forall>(i, h, e') \<in> set sigs. e' = e \<and> (\<exists>n. 1 \<le> n \<and> n \<le> c \<and> i = ids_Route n))"

definition routes_ok :: "store \<Rightarrow> bool" where
  "routes_ok s \<longleftrightarrow>
     0 \<le> RouteCount (Counters s) \<and>
     (\<forall>e ds. fmlookup (DesiredStates s) e = Some ds \<longrightarrow>
        ds_Environment ds = e \<and> ds_Type ds = ''gateway_routes'') \<and>
     (\<forall>e. sigs_ok (RouteCount (Counters s)) e (route_sigs s e)) \<and>
     (\<forall>e1 e2 i h1 h2 x1 x2. (i, h1, x1) \<in> set (route_sigs s e1) \<longrightarrow>
        (i, h2, x2) \<in> set (route_sigs s e2) \<longrightarrow> e1 = e2) \<and>
     (\<forall>e. 0 \<le> current_version e s) \<and>
     (\<forall>e. lookup_or 0 (DesiredStateVersionByEnvironment (Counters s)) e = current_version e s)"

definition desired_labels_ok :: "store \<Rightarrow> bool" where
  "desired_labels_ok s \<longleftrightarrow>
     (\<forall>e ds. fmlookup (DesiredStates s) e = Some ds \<longrightarrow>
        ds_Environment ds = e \<and> ds_Type ds = ''gateway_routes'')"

lemma routes_okD:
  assumes "routes_ok s"
  shows "0 \<le> RouteCount (Counters s)" "desired_labels_ok s"
    "sigs_ok (RouteCount (Counters s)) e (route_sigs s e)"
    "(i, h1, x1) \<in> set (route_sigs s e1) \<Longrightarrow> (i, h2, x2) \<in> set (route_sigs s e2) \<Longrightarrow> e1 = e2"
    "0 \<le> current_version e s"
    "lookup_or 0 (DesiredStateVersionByEnvironment (Counters s)) e = current_version e s"
  using assms unfolding routes_ok_def desired_labels_ok_def by blast+

lemma routes_okI:
  assumes "0 \<le> RouteCount (Counters s)" "desired_labels_ok s"
    "\<And>e. sigs_ok (RouteCount (Counters s)) e (route_sigs s e)"
    "\<And>e1 e2 i h1 h2 x1 x2. (i, h1, x1) \<in> set (route_sigs s e1) \<Longrightarrow>
       (i, h2, x2) \<in> set (route_sigs s e2) \<Longrightarrow> e1 = e2"
    "\<And>e. 0 \<le> current_version e s"
    "\<And>e. lookup_or 0 (DesiredStateVersionByEnvironment (Counters s)) e = current_version e s"
  shows "routes_ok s"
  using assms unfolding routes_ok_def desired_labels_ok_def by blast

lemma routes_ok_New [wf_intros]: "routes_ok store_New"
  by (simp add: routes_ok_def store_New_def zero_counters_def route_sigs_def routes_of_def
      sigs_ok_def current_version_def lookup_or_def)

lemma routes_ok_cong:
  assumes "DesiredStates s' = DesiredStates s"
    and "RouteCount (Counters s') = RouteCount (Counters s)"
    and "DesiredStateVersionByEnvironment (Counters s') =
           DesiredStateVersionByEnvironment (Counters s)"
  shows "routes_ok s' = routes_ok s"
  using assms
  by (simp add: routes_ok_def route_sigs_def routes_of_def current_version_def)

lemma route_hosts_distinct: "routes_ok s \<Longrightarrow> distinct (map rt_Host (routes_of s e))"
  using routes_okD(3) [of s e]
  by (simp add: sigs_ok_def route_sigs_def route_sig_def comp_def)

lemma route_ids_distinct: "routes_ok s \<Longrightarrow> distinct (map rt_ID (routes_of s e))"
  using routes_okD(3) [of s e]
  by (simp add: sigs_ok_def route_sigs_def route_sig_def comp_def)

lemma route_ids_global:
  assumes "routes_ok s" "r1 \<in> set (routes_of s e1)" "r2 \<in> set (routes_of s e2)"
    and "rt_ID r1 = rt_ID r2"
  shows "e1 = e2 \<and> r1 = r2"
proof -
  have "route_sig r1 \<in> set (route_sigs s e1)" "route_sig r2 \<in> set (route_sigs s e2)"
    using assms(2,3) by (simp_all add: route_sigs_def)
  then have "e1 = e2" using routes_okD(4) [OF assms(1)] assms(4) by (simp add: route_sig_def)
  moreover from this have "r1 = r2"
    using route_ids_distinct [OF assms(1), of e1] assms(2-4) by (auto dest: inj_onD simp: distinct_map)
  ultimately show ?thesis by simp
qed

lemma route_for_iff:
  assumes "routes_ok s"
  shows "route_for s e h = Some r \<longleftrightarrow> r \<in> set (routes_of s e) \<and> rt_Host r = h"
proof
  assume "route_for s e h = Some r"
  then show "r \<in> set (routes_of s e) \<and> rt_Host r = h"
    unfolding route_for_def by (rule find_Some_mem)
next
  assume r: "r \<in> set (routes_of s e) \<and> rt_Host r = h"
  show "route_for s e h = Some r"
  proof (cases "route_for s e h")
    case None
    with r show ?thesis by (auto simp: route_for_def find_None_iff)
  next
    case (Some q)
    then have "q \<in> set (routes_of s e) \<and> rt_Host q = h"
      unfolding route_for_def by (rule find_Some_mem)
    with r route_hosts_distinct [OF assms, of e] have "q = r"
      by (auto dest: inj_onD simp: distinct_map)
    with Some show ?thesis by simp
  qed
qed

lemma sigs_ok_mono: "sigs_ok c e sigs \<Longrightarrow> c \<le> c' \<Longrightarrow> sigs_ok c' e sigs"
  unfolding sigs_ok_def by fastforce

lemma labels_put:
  "desired_labels_ok s \<Longrightarrow> ds_Environment ds = e \<Longrightarrow> ds_Type ds = ''gateway_routes'' \<Longrightarrow>
   desired_labels_ok (put_desired e ds s)"
  by (simp add: desired_labels_ok_def)

lemma labels_desired [simp]:
  assumes "desired_labels_ok s"
  shows "desired_labels_ok (fst (upsertRoute e h p u d c s))"
    and "desired_labels_ok (removeRoute e i s)"
    and "desired_labels_ok (incrementDesiredState e s)"
  using assms
  by (auto simp: desired_internal Let_def desired_labels_ok_def empty_desired_state_def
      split: option.splits)

lemma sigs_ok_snoc:
  assumes "sigs_ok (c + 1) e sigs" and "0 \<le> c" and "ids_Route (c + 1) \<notin> set (map fst sigs)"
    and "h \<notin> set (map (fst \<circ> snd) sigs)"
  shows "sigs_ok (c + 1) e (sigs @ [(ids_Route (c + 1), h, e)])"
proof -
  have "1 \<le> c + 1 \<and> c + 1 \<le> c + 1 \<and> ids_Route (c + 1) = ids_Route (c + 1)"
    using assms(2) by simp
  then have "\<exists>n. 1 \<le> n \<and> n \<le> c + 1 \<and> ids_Route (c + 1) = ids_Route n" by blast
  with assms show ?thesis unfolding sigs_ok_def by simp
qed

subsection \<open>Updating, inserting and removing a route\<close>

lemma sigs_upsert_existing:
  assumes "route_for s e h = Some r"
  shows "route_sigs (fst (upsertRoute e h p u d c s)) e' = route_sigs s e'"
proof (cases "e' = e")
  case True
  from upsert_existing [OF assms] obtain pre post where
    "routes_of s e = pre @ r # post"
    "routes_of (fst (upsertRoute e h p u d c s)) e =
       pre @ r\<lparr>rt_Upstream := u, rt_DeploymentID := d\<rparr> # post"
    by metis
  with True show ?thesis by (simp add: route_sigs_def route_sig_def)
next
  case False
  then show ?thesis by (simp add: route_sigs_def routes_other_env)
qed

lemma upsert_existing_ok:
  assumes ok: "routes_ok s" and r: "route_for s e h = Some r"
  shows "routes_ok (fst (upsertRoute e h p u d c s))"
proof (rule routes_okI)
  have count: "Counters (fst (upsertRoute e h p u d c s)) = Counters s"
    using upsert_existing [OF r] by metis
  note sigs = sigs_upsert_existing [OF r]
  show "0 \<le> RouteCount (Counters (fst (upsertRoute e h p u d c s)))"
    using routes_okD(1) [OF ok] by (simp add: count)
  show "desired_labels_ok (fst (upsertRoute e h p u d c s))"
    using routes_okD(2) [OF ok] by simp
  show "sigs_ok (RouteCount (Counters (fst (upsertRoute e h p u d c s)))) e'
          (route_sigs (fst (upsertRoute e h p u d c s)) e')" for e'
    using routes_okD(3) [OF ok] by (simp add: count sigs)
  show "e1 = e2" if "(i, h1, x1) \<in> set (route_sigs (fst (upsertRoute e h p u d c s)) e1)"
    "(i, h2, x2) \<in> set (route_sigs (fst (upsertRoute e h p u d c s)) e2)" for e1 e2 i h1 h2 x1 x2
    using that routes_okD(4) [OF ok] by (simp add: sigs)
qed (use routes_okD(5,6) [OF ok] in simp_all)

lemma sigs_upsert_new:
  assumes "route_for s e h = None" and "0 \<le> RouteCount (Counters s)"
    and "RouteCount (Counters s) < max_int"
  shows "route_sigs (fst (upsertRoute e h p u d c s)) e' =
           (if e' = e then route_sigs s e @ [(ids_Route (RouteCount (Counters s) + 1), h, e)]
            else route_sigs s e')"
  using upsert_new(1,2) [OF assms(1)] s64_succ [OF assms(2,3)]
  by (auto simp: route_sigs_def routes_other_env route_sig_def)

lemma upsert_new_ok:
  assumes ok: "routes_ok s" and r: "route_for s e h = None"
    and room: "RouteCount (Counters s) < max_int"
  shows "routes_ok (fst (upsertRoute e h p u d c s))" (is "routes_ok ?t")
proof (rule routes_okI)
  let ?n = "RouteCount (Counters s) + 1"
  note nonneg = routes_okD(1) [OF ok]
  note sigs = sigs_upsert_new [OF r nonneg room]
  have count: "RouteCount (Counters ?t) = ?n"
    using upsert_new(3) [OF r] s64_succ [OF nonneg room] by simp
  have old: "i \<noteq> ids_Route ?n" if "(i, x) \<in> set (route_sigs s e')" for i x e'
    using routes_okD(3) [OF ok, of e'] that route_ids.mk_inject unfolding sigs_ok_def by fastforce
  have hosts: "h \<notin> set (map (fst \<circ> snd) (route_sigs s e))"
    using r by (auto simp: route_sigs_def route_sig_def route_for_def find_None_iff)
  show "0 \<le> RouteCount (Counters ?t)" using nonneg by (simp add: count)
  show "desired_labels_ok ?t" using routes_okD(2) [OF ok] by simp
  show "sigs_ok (RouteCount (Counters ?t)) e' (route_sigs ?t e')" for e'
  proof (cases "e' = e")
    case True
    have "sigs_ok ?n e (route_sigs s e)"
      using sigs_ok_mono [OF routes_okD(3) [OF ok]] by simp
    moreover have "ids_Route ?n \<notin> set (map fst (route_sigs s e))" by (auto dest: old)
    ultimately have "sigs_ok ?n e (route_sigs s e @ [(ids_Route ?n, h, e)])"
      using hosts by (rule sigs_ok_snoc [OF _ nonneg])
    with True show ?thesis by (simp add: count sigs)
  next
    case False
    then show ?thesis
      using sigs_ok_mono [OF routes_okD(3) [OF ok]] by (simp add: count sigs)
  qed
  show "e1 = e2" if "(i, h1, x1) \<in> set (route_sigs ?t e1)" "(i, h2, x2) \<in> set (route_sigs ?t e2)"
    for e1 e2 i h1 h2 x1 x2
    using that routes_okD(4) [OF ok] old by (auto simp: sigs split: if_splits)
qed (use routes_okD(5,6) [OF ok] in simp_all)

lemma upsert_ok [wf_intros]:
  "routes_ok s \<Longrightarrow> RouteCount (Counters s) < max_int \<Longrightarrow>
   routes_ok (fst (upsertRoute e h p u d c s))"
  by (cases "route_for s e h") (auto intro: upsert_existing_ok upsert_new_ok)

lemma sigs_remove:
  "route_sigs (removeRoute e i s) e' =
     (if e' = e then filter (\<lambda>t. fst t \<noteq> i) (route_sigs s e) else route_sigs s e')"
  by (simp add: route_sigs_def routes_remove routes_other_env filter_map comp_def route_sig_def)

lemma sigs_ok_filter: "sigs_ok c e sigs \<Longrightarrow> sigs_ok c e (filter P sigs)"
  unfolding sigs_ok_def by (auto simp: distinct_map_filter)

lemma remove_ok [wf_intros]:
  assumes ok: "routes_ok s"
  shows "routes_ok (removeRoute e i s)"
proof (rule routes_okI)
  show "sigs_ok (RouteCount (Counters (removeRoute e i s))) e' (route_sigs (removeRoute e i s) e')"
    for e'
    using routes_okD(3) [OF ok] by (auto simp: sigs_remove sigs_ok_filter)
  show "e1 = e2" if "(j, h1, x1) \<in> set (route_sigs (removeRoute e i s) e1)"
    "(j, h2, x2) \<in> set (route_sigs (removeRoute e i s) e2)" for e1 e2 j h1 h2 x1 x2
    using that routes_okD(4) [OF ok] by (auto simp: sigs_remove split: if_splits)
qed (use routes_okD(1,2,5,6) [OF ok] in simp_all)

lemma increment_ok [wf_intros]:
  assumes ok: "routes_ok s" and room: "current_version e s < max_int"
  shows "routes_ok (incrementDesiredState e s)"
proof (rule routes_okI)
  have v: "s64 (current_version e s + 1) = current_version e s + 1"
    using routes_okD(5) [OF ok] room by (rule s64_succ)
  show "sigs_ok (RouteCount (Counters (incrementDesiredState e s))) e'
          (route_sigs (incrementDesiredState e s) e')" for e'
    using routes_okD(3) [OF ok, of e'] by (simp add: route_sigs_def)
  show "e1 = e2" if "(j, h1, x1) \<in> set (route_sigs (incrementDesiredState e s) e1)"
    "(j, h2, x2) \<in> set (route_sigs (incrementDesiredState e s) e2)" for e1 e2 j h1 h2 x1 x2
    using that routes_okD(4) [OF ok] by (auto simp: route_sigs_def)
  show "0 \<le> current_version e' (incrementDesiredState e s)" for e'
    using routes_okD(5) [OF ok, of e'] routes_okD(5) [OF ok, of e]
    by (simp add: version_increment v)
  show "lookup_or 0 (DesiredStateVersionByEnvironment (Counters (incrementDesiredState e s))) e' =
          current_version e' (incrementDesiredState e s)" for e'
    using routes_okD(6) [OF ok, of e'] by (simp add: version_increment lookup_or_def)
qed (use routes_okD(1,2) [OF ok] in simp_all)

section \<open>The table as an interface\<close>

text \<open>
  What \<open>commands.go\<close> relies on. \<open>look s e h\<close> is the route of a host. An upsert sets the
  route of one host and keeps every other; a route that exists keeps its identity, its path
  and its health check; a removal takes out the route with the given identifier and nothing
  else.
\<close>

locale route_table =
  fixes inv :: "'s \<Rightarrow> bool" and has_room :: "'s \<Rightarrow> bool"
    and look :: "'s \<Rightarrow> string \<Rightarrow> string \<Rightarrow> route option"
    and upsert :: "string \<Rightarrow> string \<Rightarrow> string \<Rightarrow> string \<Rightarrow> string \<Rightarrow> string \<Rightarrow> 's \<Rightarrow> 's \<times> route"
    and remove :: "string \<Rightarrow> string \<Rightarrow> 's \<Rightarrow> 's"
  assumes upsert_inv: "inv s \<Longrightarrow> has_room s \<Longrightarrow> inv (fst (upsert e h p u d c s))"
    and remove_inv: "inv s \<Longrightarrow> inv (remove e i s)"
    and upsert_same: "inv s \<Longrightarrow> has_room s \<Longrightarrow>
      look (fst (upsert e h p u d c s)) e h = Some (snd (upsert e h p u d c s))"
    and upsert_other: "(e', h') \<noteq> (e, h) \<Longrightarrow>
      look (fst (upsert e h p u d c s)) e' h' = look s e' h'"
    and upsert_found: "look s e h = Some r \<Longrightarrow>
      snd (upsert e h p u d c s) = r\<lparr>rt_Upstream := u, rt_DeploymentID := d\<rparr>"
    and upsert_fresh: "look s e h = None \<Longrightarrow>
      rt_Host (snd (upsert e h p u d c s)) = h \<and> rt_Path (snd (upsert e h p u d c s)) = p \<and>
      rt_Upstream (snd (upsert e h p u d c s)) = u \<and>
      rt_DeploymentID (snd (upsert e h p u d c s)) = d \<and>
      rt_HealthCheckPath (snd (upsert e h p u d c s)) = c"
    and remove_look: "inv s \<Longrightarrow>
      look (remove e i s) e' h' =
        (case look s e' h' of
           None \<Rightarrow> None
         | Some r \<Rightarrow> if e' = e \<and> rt_ID r = i then None else Some r)"
begin

lemma upsert_target:
  "rt_Upstream (snd (upsert e h p u d c s)) = u \<and> rt_DeploymentID (snd (upsert e h p u d c s)) = d"
  by (cases "look s e h") (simp_all add: upsert_found upsert_fresh)

text \<open>The last upsert of a host decides where it points.\<close>

lemma last_upsert_wins:
  assumes "inv s" "has_room s" "has_room (fst (upsert e h p u d c s))"
  shows "\<exists>r. look (fst (upsert e h p' u' d' c' (fst (upsert e h p u d c s)))) e h = Some r \<and>
    rt_Upstream r = u' \<and> rt_DeploymentID r = d' \<and> rt_ID r = rt_ID (snd (upsert e h p u d c s)) \<and>
    rt_Path r = rt_Path (snd (upsert e h p u d c s)) \<and>
    rt_HealthCheckPath r = rt_HealthCheckPath (snd (upsert e h p u d c s))"
proof -
  let ?s1 = "fst (upsert e h p u d c s)"
  have one: "look ?s1 e h = Some (snd (upsert e h p u d c s))"
    using assms(1,2) by (rule upsert_same)
  have "look (fst (upsert e h p' u' d' c' ?s1)) e h = Some (snd (upsert e h p' u' d' c' ?s1))"
    using upsert_inv [OF assms(1,2)] assms(3) by (rule upsert_same)
  then show ?thesis using upsert_found [OF one] by simp
qed

text \<open>Removing what an upsert returned leaves the host without a route.\<close>

lemma remove_upserted:
  assumes "inv s" "has_room s"
  shows "look (remove e (rt_ID (snd (upsert e h p u d c s))) (fst (upsert e h p u d c s))) e h = None"
  using upsert_same [OF assms] remove_look [OF upsert_inv [OF assms]] by simp

lemma remove_other_env: "inv s \<Longrightarrow> e' \<noteq> e \<Longrightarrow> look (remove e i s) e' h = look s e' h"
  by (simp add: remove_look split: option.split)

lemma remove_absent:
  assumes "inv s" and "\<And>h r. look s e h = Some r \<Longrightarrow> rt_ID r \<noteq> i"
  shows "look (remove e i s) e' h' = look s e' h'"
  using assms(2) by (auto simp: remove_look [OF assms(1)] split: option.split)

end

text \<open>A versioned table: \<open>publish\<close> makes a new version and changes no route.\<close>

locale versioned_routes = route_table +
  fixes version :: "string \<Rightarrow> 's \<Rightarrow> int" and publish :: "string \<Rightarrow> 's \<Rightarrow> 's"
    and can_publish :: "string \<Rightarrow> 's \<Rightarrow> bool"
  assumes publish_inv: "inv s \<Longrightarrow> can_publish e s \<Longrightarrow> inv (publish e s)"
    and publish_look: "look (publish e s) e' h' = look s e' h'"
    and publish_version: "inv s \<Longrightarrow> can_publish e s \<Longrightarrow>
      version e' (publish e s) = version e' s + (if e' = e then 1 else 0)"
    and upsert_version: "version e' (fst (upsert e h p u d c s)) = version e' s"
    and remove_version: "version e' (remove e i s) = version e' s"
    and upsert_can_publish: "can_publish e' (fst (upsert e h p u d c s)) = can_publish e' s"
    and remove_can_publish: "can_publish e' (remove e i s) = can_publish e' s"
begin

lemma upsert_publish:
  assumes "inv s" "has_room s" "can_publish e s"
  shows "look (publish e (fst (upsert e h p u d c s))) e' h' =
           (if (e', h') = (e, h) then Some (snd (upsert e h p u d c s)) else look s e' h')"
    and "version e' (publish e (fst (upsert e h p u d c s))) =
           version e' s + (if e' = e then 1 else 0)"
    and "inv (publish e (fst (upsert e h p u d c s)))"
proof -
  show "look (publish e (fst (upsert e h p u d c s))) e' h' =
          (if (e', h') = (e, h) then Some (snd (upsert e h p u d c s)) else look s e' h')"
    using upsert_same [OF assms(1,2)] upsert_other by (auto simp: publish_look)
  show "version e' (publish e (fst (upsert e h p u d c s))) =
          version e' s + (if e' = e then 1 else 0)"
    using upsert_inv [OF assms(1,2)] assms(3)
    by (simp add: publish_version upsert_version upsert_can_publish)
  show "inv (publish e (fst (upsert e h p u d c s)))"
    using upsert_inv [OF assms(1,2)] assms(3) by (simp add: publish_inv upsert_can_publish)
qed

lemma remove_publish:
  assumes "inv s" "can_publish e s"
  shows "look (publish e (remove e i s)) e' h' =
           (case look s e' h' of
              None \<Rightarrow> None
            | Some r \<Rightarrow> if e' = e \<and> rt_ID r = i then None else Some r)"
    and "version e' (publish e (remove e i s)) = version e' s + (if e' = e then 1 else 0)"
    and "inv (publish e (remove e i s))"
  using assms remove_inv [OF assms(1)]
  by (simp_all add: publish_look remove_look publish_version remove_version publish_inv
      remove_can_publish)

end

lemma route_for_increment [simp]: "route_for (incrementDesiredState e s) e' h = route_for s e' h"
  by (simp add: route_for_def)

lemma route_for_other_env:
  "e' \<noteq> e \<Longrightarrow> route_for (fst (upsertRoute e h p u d c s)) e' h' = route_for s e' h'"
  "e' \<noteq> e \<Longrightarrow> route_for (removeRoute e i s) e' h' = route_for s e' h'"
  by (simp_all add: route_for_def routes_other_env)

lemma route_for_upsert_other_host:
  assumes "h' \<noteq> h"
  shows "route_for (fst (upsertRoute e h p u d c s)) e h' = route_for s e h'"
proof (cases "route_for s e h")
  case None
  with assms upsert_new(1,2) [OF None] show ?thesis
    by (simp add: route_for_def find_append split: option.split)
next
  case (Some r)
  from upsert_existing [OF Some] obtain pre post where
    "routes_of s e = pre @ r # post" "rt_Host r = h"
    "routes_of (fst (upsertRoute e h p u d c s)) e =
       pre @ r\<lparr>rt_Upstream := u, rt_DeploymentID := d\<rparr> # post"
    by metis
  with assms show ?thesis by (simp add: route_for_def find_append split: option.split)
qed

lemma route_for_upsert_same:
  assumes "routes_ok s" and "RouteCount (Counters s) < max_int"
  shows "route_for (fst (upsertRoute e h p u d c s)) e h = Some (snd (upsertRoute e h p u d c s))"
proof (cases "route_for s e h")
  case None
  then show ?thesis using upsert_new(1,2) [OF None] by (simp add: route_for_def find_append)
next
  case (Some r)
  from upsert_existing [OF Some] obtain pre post where
    "\<forall>x \<in> set pre. rt_Host x \<noteq> h" "rt_Host r = h"
    "routes_of (fst (upsertRoute e h p u d c s)) e =
       pre @ r\<lparr>rt_Upstream := u, rt_DeploymentID := d\<rparr> # post"
    "snd (upsertRoute e h p u d c s) = r\<lparr>rt_Upstream := u, rt_DeploymentID := d\<rparr>"
    by metis
  moreover from this(1) have "find (\<lambda>x. rt_Host x = h) pre = None" by (simp add: find_None_all)
  ultimately show ?thesis by (simp add: route_for_def find_append)
qed

lemma route_for_remove:
  assumes ok: "routes_ok s"
  shows "route_for (removeRoute e i s) e' h' =
    (case route_for s e' h' of
       None \<Rightarrow> None
     | Some r \<Rightarrow> if e' = e \<and> rt_ID r = i then None else Some r)"
proof (cases "e' = e")
  case True
  have "route_for (removeRoute e i s) e h' = Some q \<longleftrightarrow>
        route_for s e h' = Some q \<and> rt_ID q \<noteq> i" for q
    by (auto simp: route_for_iff [OF ok] route_for_iff [OF remove_ok [OF ok]] routes_remove)
  then have "route_for (removeRoute e i s) e h' =
      (case route_for s e h' of None \<Rightarrow> None | Some r \<Rightarrow> if rt_ID r = i then None else Some r)"
    by (intro option_ext) (auto split: option.split)
  with True show ?thesis by (simp split: option.split)
next
  case False
  then show ?thesis by (simp add: route_for_other_env split: option.split)
qed

lemma upsert_found_route:
  "route_for s e h = Some r \<Longrightarrow>
   snd (upsertRoute e h p u d c s) = r\<lparr>rt_Upstream := u, rt_DeploymentID := d\<rparr>"
  by (erule upsert_existing) simp

interpretation gateway: versioned_routes routes_ok "\<lambda>s. RouteCount (Counters s) < max_int"
  route_for upsertRoute removeRoute current_version incrementDesiredState
  "\<lambda>e s. current_version e s < max_int"
proof unfold_locales
  fix s :: store and e h p u d c e' h' :: string
  assume "(e', h') \<noteq> (e, h)"
  then show "route_for (fst (upsertRoute e h p u d c s)) e' h' = route_for s e' h'"
    by (cases "e' = e") (auto simp: route_for_upsert_other_host route_for_other_env)
next
  fix s :: store and e e' :: string
  assume "routes_ok s" "current_version e s < max_int"
  then show "current_version e' (incrementDesiredState e s) =
      current_version e' s + (if e' = e then 1 else 0)"
    by (simp add: version_increment s64_succ routes_okD(5))
next
  fix s :: store and e h p u d c :: string
  assume "route_for s e h = None"
  then show "rt_Host (snd (upsertRoute e h p u d c s)) = h \<and>
      rt_Path (snd (upsertRoute e h p u d c s)) = p \<and>
      rt_Upstream (snd (upsertRoute e h p u d c s)) = u \<and>
      rt_DeploymentID (snd (upsertRoute e h p u d c s)) = d \<and>
      rt_HealthCheckPath (snd (upsertRoute e h p u d c s)) = c"
    by (simp add: upsert_new(2))
qed (auto intro: upsert_ok remove_ok increment_ok route_for_upsert_same route_for_remove
    upsert_found_route)

section \<open>Reports\<close>

text \<open>The loop settles every deployment, whatever the order of the iteration.\<close>

lemma lookup_settle_loop:
  "distinct ks \<Longrightarrow>
   fmlookup (settle_loop ks e st now m) k =
     (if k \<in> set ks then map_option (settle_deployment e st now) (fmlookup m k)
      else fmlookup m k)"
  by (induction ks arbitrary: m) (auto split: option.splits)

lemma settle_loop_fmmap:
  "iter_order ord m \<Longrightarrow> settle_loop ord e st now m = fmmap (settle_deployment e st now) m"
  by (rule fmap_ext) (auto simp: lookup_settle_loop iter_order_def fmlookup_dom'_iff)

definition reported :: "string list \<Rightarrow> report_input \<Rightarrow> time \<Rightarrow> time \<Rightarrow> store \<Rightarrow> store" where
  "reported ord inp received now s = fst (ApplyDesiredStateReport ord inp received now s)"

lemma reported_frame [frame_simps, simp]:
  "Agents (reported ord inp t n s) = Agents s" "AgentIndex (reported ord inp t n s) = AgentIndex s"
  "Commands (reported ord inp t n s) = Commands s"
  "CommandReports (reported ord inp t n s) = CommandReports s"
  "DesiredStates (reported ord inp t n s) = DesiredStates s"
  "Counters (reported ord inp t n s) = Counters s"
  by (simp_all add: reported_def ApplyDesiredStateReport_def Let_def)

lemma reported_deployments:
  "Deployments (reported ord inp t n s) =
     (if dri_DesiredStateVersion inp = current_version (dri_Environment inp) s
      then settle_loop ord (dri_Environment inp) (dri_Status inp) n (Deployments s)
      else Deployments s)"
  by (auto simp: reported_def ApplyDesiredStateReport_def Let_def)

end
