(* ===== verification/Deployments.thy ===== *)
theory Deployments
  imports Ids Models
begin

text \<open>
  Creating work, \<open>internal/store/deployments.go\<close>: \<open>InitDeploy\<close> creates a deployment
  together with its command, \<open>CreateCommand\<close> a command of its own.
\<close>

section \<open>Operations\<close>

record deploy_input =
  di_Application :: string
  di_Environment :: string
  di_Image :: string
  di_Host :: string
  di_TargetAgentID :: string
  di_ContainerName :: string
  di_ContainerInternalPort :: int
  di_HealthCheckPath :: string
  di_RequiresRoute :: bool
  di_EnvironmentVariables :: "string gomap"
  di_CustomLabels :: "string gomap"
  di_CommandTimeoutSeconds :: int

definition mandatory_labels :: "string \<Rightarrow> string \<Rightarrow> string \<Rightarrow> string \<Rightarrow> string gomap" where
  "mandatory_labels application environment depID cmdID =
     fmupd ''devex.command_id'' cmdID
     (fmupd ''devex.deployment_id'' depID
     (fmupd ''devex.environment'' environment
     (fmupd ''devex.application'' application
     (fmupd ''devex.managed'' ''true'' fmempty))))"

text \<open>The loop that merges the custom labels, in the order \<open>ord\<close> of the iteration.\<close>

fun merge_labels :: "string list \<Rightarrow> string gomap \<Rightarrow> string gomap \<Rightarrow> string gomap" where
  "merge_labels [] custom labels = labels"
| "merge_labels (k # ks) custom labels =
     (case fmlookup custom k of
        None \<Rightarrow> merge_labels ks custom labels
      | Some v \<Rightarrow>
          merge_labels ks custom
            (if fmlookup labels k = None then fmupd k v labels else labels))"

definition container_name_for :: "deploy_input \<Rightarrow> string \<Rightarrow> string" where
  "container_name_for inp depID =
     (if di_ContainerName inp = ''''
      then di_Application inp @ ''-'' @ di_Environment inp @ ''-'' @ depID
      else di_ContainerName inp)"

definition InitDeploy ::
  "string list \<Rightarrow> deploy_input \<Rightarrow> time \<Rightarrow> store \<Rightarrow> store \<times> deployment \<times> command" where
  "InitDeploy ord inp now s =
     (let dn = s64 (DeploymentCount (Counters s) + 1);
          depID = ids_Deployment dn;
          cn = s64 (CommandCount (Counters s) + 1);
          cmdID = ids_Command cn;
          s1 = s\<lparr>Counters := (Counters s)\<lparr>DeploymentCount := dn, CommandCount := cn\<rparr>\<rparr>;
          containerName = container_name_for inp depID;
          labels = merge_labels ord (di_CustomLabels inp)
            (mandatory_labels (di_Application inp) (di_Environment inp) depID cmdID);
          payload = enc_deploy_payload
            \<lparr>dpl_Application = di_Application inp, dpl_Environment = di_Environment inp,
             dpl_Image = di_Image inp, dpl_ContainerName = containerName,
             dpl_ContainerInternalPort = di_ContainerInternalPort inp,
             dpl_HealthCheckPath = di_HealthCheckPath inp,
             dpl_RequiresRoute = di_RequiresRoute inp,
             dpl_EnvironmentVariables = di_EnvironmentVariables inp, dpl_Labels = labels\<rparr>;
          dep =
            \<lparr>dep_ID = depID, dep_Application = di_Application inp,
             dep_Environment = di_Environment inp, dep_Image = di_Image inp,
             dep_Host = di_Host inp, dep_Status = ''requested'',
             dep_TargetAgentID = di_TargetAgentID inp, dep_CommandID = '''',
             dep_ContainerName = containerName,
             dep_ContainerInternalPort = di_ContainerInternalPort inp,
             dep_HealthCheckPath = di_HealthCheckPath inp,
             dep_RequiresRoute = di_RequiresRoute inp, dep_RuntimePrivateIP = '''',
             dep_HostPort = 0, dep_RouteID = '''', dep_CreatedAt = now, dep_UpdatedAt = now\<rparr>;
          s2 = put_deployment depID dep s1;
          cmd =
            \<lparr>cmd_ID = cmdID, cmd_Type = ''DEPLOY_APPLICATION'', cmd_DeploymentID = depID,
             cmd_TargetAgentID = di_TargetAgentID inp, cmd_Status = ''pending'',
             cmd_TimeoutSeconds = di_CommandTimeoutSeconds inp, cmd_Payload = Some payload,
             cmd_CreatedAt = now, cmd_ClaimedAt = None, cmd_StartedAt = None,
             cmd_FinishedAt = None, cmd_ClaimedBy = ''''\<rparr>;
          s3 = put_command cmdID cmd s2;
          dep' = dep\<lparr>dep_CommandID := cmdID, dep_Status := ''command_created'',
                     dep_UpdatedAt := now\<rparr>
      in (put_deployment depID dep' s3, dep', cmd))"

record create_command_input =
  cc_Type :: string
  cc_DeploymentID :: string
  cc_TargetAgentID :: string
  cc_TimeoutSeconds :: int
  cc_Payload :: "json option"

definition CreateCommand :: "create_command_input \<Rightarrow> time \<Rightarrow> store \<Rightarrow> store \<times> command" where
  "CreateCommand inp now s =
     (let cn = s64 (CommandCount (Counters s) + 1);
          cmdID = ids_Command cn;
          cmd =
            \<lparr>cmd_ID = cmdID, cmd_Type = cc_Type inp, cmd_DeploymentID = cc_DeploymentID inp,
             cmd_TargetAgentID = cc_TargetAgentID inp, cmd_Status = ''pending'',
             cmd_TimeoutSeconds = cc_TimeoutSeconds inp, cmd_Payload = cc_Payload inp,
             cmd_CreatedAt = now, cmd_ClaimedAt = None, cmd_StartedAt = None,
             cmd_FinishedAt = None, cmd_ClaimedBy = ''''\<rparr>
      in (put_command cmdID cmd (s\<lparr>Counters := (Counters s)\<lparr>CommandCount := cn\<rparr>\<rparr>), cmd))"

definition GetDeployment :: "string \<Rightarrow> store \<Rightarrow> deployment option" where
  "GetDeployment depID s = fmlookup (Deployments s) depID"

definition ListDeployments :: "string list \<Rightarrow> store \<Rightarrow> deployment list" where
  "ListDeployments ord s = range_values ord (Deployments s)"

section \<open>Labels\<close>

lemma lookup_merge_labels:
  "fmlookup (merge_labels ks custom labels) k =
     (case fmlookup labels k of
        Some v \<Rightarrow> Some v
      | None \<Rightarrow> if k \<in> set ks then fmlookup custom k else None)"
  by (induction ks arbitrary: labels) (auto split: option.splits)

lemma merge_labels_add:
  "iter_order ord custom \<Longrightarrow> merge_labels ord custom labels = custom ++\<^sub>f labels"
  by (rule fmap_ext)
    (auto simp: lookup_merge_labels iter_order_def fmlookup_dom'_iff fmlookup_dom_iff fmdom'_notI
      split: option.splits)

section \<open>What the operations do to the store\<close>

definition deploy_ids :: "store \<Rightarrow> string \<times> string" where
  "deploy_ids s = (ids_Deployment (s64 (DeploymentCount (Counters s) + 1)),
                   ids_Command (s64 (CommandCount (Counters s) + 1)))"

lemma InitDeploy_store:
  "fst (InitDeploy ord inp now s) =
     put_deployment (fst (deploy_ids s)) (fst (snd (InitDeploy ord inp now s)))
       (put_command (snd (deploy_ids s)) (snd (snd (InitDeploy ord inp now s)))
         (s\<lparr>Counters := (Counters s)\<lparr>
              DeploymentCount := s64 (DeploymentCount (Counters s) + 1),
              CommandCount := s64 (CommandCount (Counters s) + 1)\<rparr>\<rparr>))"
  by (simp add: InitDeploy_def Let_def deploy_ids_def put_defs)

lemma InitDeploy_deployment:
  "fst (snd (InitDeploy ord inp now s)) =
     \<lparr>dep_ID = fst (deploy_ids s), dep_Application = di_Application inp,
      dep_Environment = di_Environment inp, dep_Image = di_Image inp,
      dep_Host = di_Host inp, dep_Status = ''command_created'',
      dep_TargetAgentID = di_TargetAgentID inp, dep_CommandID = snd (deploy_ids s),
      dep_ContainerName = container_name_for inp (fst (deploy_ids s)),
      dep_ContainerInternalPort = di_ContainerInternalPort inp,
      dep_HealthCheckPath = di_HealthCheckPath inp,
      dep_RequiresRoute = di_RequiresRoute inp, dep_RuntimePrivateIP = '''',
      dep_HostPort = 0, dep_RouteID = '''', dep_CreatedAt = now, dep_UpdatedAt = now\<rparr>"
  by (simp add: InitDeploy_def Let_def deploy_ids_def)

lemma InitDeploy_command:
  "\<exists>p. snd (snd (InitDeploy ord inp now s)) =
     \<lparr>cmd_ID = snd (deploy_ids s), cmd_Type = ''DEPLOY_APPLICATION'',
      cmd_DeploymentID = fst (deploy_ids s),
      cmd_TargetAgentID = di_TargetAgentID inp, cmd_Status = ''pending'',
      cmd_TimeoutSeconds = di_CommandTimeoutSeconds inp, cmd_Payload = Some p,
      cmd_CreatedAt = now, cmd_ClaimedAt = None, cmd_StartedAt = None,
      cmd_FinishedAt = None, cmd_ClaimedBy = ''''\<rparr>"
  by (simp add: InitDeploy_def Let_def deploy_ids_def)

lemma InitDeploy_payload:
  "cmd_Payload (snd (snd (InitDeploy ord inp now s))) = Some (enc_deploy_payload
     \<lparr>dpl_Application = di_Application inp, dpl_Environment = di_Environment inp,
      dpl_Image = di_Image inp, dpl_ContainerName = container_name_for inp (fst (deploy_ids s)),
      dpl_ContainerInternalPort = di_ContainerInternalPort inp,
      dpl_HealthCheckPath = di_HealthCheckPath inp,
      dpl_RequiresRoute = di_RequiresRoute inp,
      dpl_EnvironmentVariables = di_EnvironmentVariables inp,
      dpl_Labels = merge_labels ord (di_CustomLabels inp)
        (mandatory_labels (di_Application inp) (di_Environment inp)
          (fst (deploy_ids s)) (snd (deploy_ids s)))\<rparr>)"
  by (simp add: InitDeploy_def Let_def deploy_ids_def)

lemma lookup_all_labels:
  assumes "iter_order ord custom"
  shows "fmlookup (merge_labels ord custom (mandatory_labels app env depID cmdID)) k =
    (if k = ''devex.managed'' then Some ''true''
     else if k = ''devex.application'' then Some app
     else if k = ''devex.environment'' then Some env
     else if k = ''devex.deployment_id'' then Some depID
     else if k = ''devex.command_id'' then Some cmdID
     else fmlookup custom k)"
proof (cases "fmlookup (mandatory_labels app env depID cmdID) k")
  case None
  have "fmlookup (merge_labels ord custom (mandatory_labels app env depID cmdID)) k = fmlookup custom k"
    using iter_order_mem [OF assms, of k] by (auto simp: lookup_merge_labels None)
  with None show ?thesis by (simp add: mandatory_labels_def split: if_splits)
next
  case (Some v)
  then have "fmlookup (merge_labels ord custom (mandatory_labels app env depID cmdID)) k = Some v"
    by (simp add: lookup_merge_labels)
  with Some show ?thesis by (simp add: mandatory_labels_def split: if_splits)
qed

lemma CreateCommand_store:
  "fst (CreateCommand inp now s) =
     put_command (snd (deploy_ids s)) (snd (CreateCommand inp now s))
       (s\<lparr>Counters := (Counters s)\<lparr>CommandCount := s64 (CommandCount (Counters s) + 1)\<rparr>\<rparr>)"
  by (simp add: CreateCommand_def Let_def deploy_ids_def)

lemma CreateCommand_command:
  "snd (CreateCommand inp now s) =
     \<lparr>cmd_ID = snd (deploy_ids s), cmd_Type = cc_Type inp,
      cmd_DeploymentID = cc_DeploymentID inp,
      cmd_TargetAgentID = cc_TargetAgentID inp, cmd_Status = ''pending'',
      cmd_TimeoutSeconds = cc_TimeoutSeconds inp, cmd_Payload = cc_Payload inp,
      cmd_CreatedAt = now, cmd_ClaimedAt = None, cmd_StartedAt = None,
      cmd_FinishedAt = None, cmd_ClaimedBy = ''''\<rparr>"
  by (simp add: CreateCommand_def Let_def deploy_ids_def)

end
