(* ===== verification/Commands.thy ===== *)
theory Commands
  imports Desired_State Deployments
begin

text \<open>
  The life of a command, \<open>internal/store/commands.go\<close>: claim, start and report, and what a
  report does to the deployment, the routes and the desired state.
\<close>

section \<open>Operations\<close>

definition GetCommand :: "string \<Rightarrow> store \<Rightarrow> command option" where
  "GetCommand commandID s = fmlookup (Commands s) commandID"

definition ListPendingByAgent :: "string list \<Rightarrow> string \<Rightarrow> store \<Rightarrow> command list" where
  "ListPendingByAgent ord agentID s =
     filter (\<lambda>c. cmd_TargetAgentID c = agentID \<and> cmd_Status c = ''pending'')
       (range_values ord (Commands s))"

definition ListCommands ::
  "string list \<Rightarrow> string \<Rightarrow> string \<Rightarrow> string \<Rightarrow> store \<Rightarrow> command list" where
  "ListCommands ord status cmdType agentID s =
     filter (\<lambda>c. \<not> (status \<noteq> '''' \<and> cmd_Status c \<noteq> status) \<and>
                 \<not> (cmdType \<noteq> '''' \<and> cmd_Type c \<noteq> cmdType) \<and>
                 \<not> (agentID \<noteq> '''' \<and> cmd_TargetAgentID c \<noteq> agentID))
       (range_values ord (Commands s))"

definition ClaimCommand ::
  "string \<Rightarrow> string \<Rightarrow> time \<Rightarrow> store \<Rightarrow> store \<times> (store_error + command)" where
  "ClaimCommand commandID agentID now s =
     (case fmlookup (Commands s) commandID of
        None \<Rightarrow> (s, Inl ErrNotFound)
      | Some cmd \<Rightarrow>
          if cmd_Status cmd = ''pending''
          then if cmd_TargetAgentID cmd \<noteq> agentID
               then (s, Inl (ErrConflict (''command belongs to agent '' @ cmd_TargetAgentID cmd)))
               else (let cmd' = cmd\<lparr>cmd_Status := ''claimed'', cmd_ClaimedBy := agentID,
                                    cmd_ClaimedAt := Some now\<rparr>
                     in (put_command commandID cmd' s, Inr cmd'))
          else if cmd_Status cmd = ''claimed''
          then if cmd_ClaimedBy cmd \<noteq> agentID
               then (s, Inl (ErrConflict (''already claimed by '' @ cmd_ClaimedBy cmd)))
               else (s, Inr cmd)
          else (s, Inl (ErrConflict (''command status is '' @ cmd_Status cmd))))"

definition StartCommand ::
  "string \<Rightarrow> string \<Rightarrow> time \<Rightarrow> store \<Rightarrow> store \<times> (store_error + command)" where
  "StartCommand commandID agentID now s =
     (case fmlookup (Commands s) commandID of
        None \<Rightarrow> (s, Inl ErrNotFound)
      | Some cmd \<Rightarrow>
          if cmd_Status cmd = ''claimed''
          then if cmd_ClaimedBy cmd \<noteq> agentID
               then (s, Inl (ErrConflict (''claimed by '' @ cmd_ClaimedBy cmd)))
               else
                 (let cmd' = cmd\<lparr>cmd_Status := ''running'', cmd_StartedAt := Some now\<rparr>;
                      s1 = put_command commandID cmd' s;
                      s2 = (if cmd_Type cmd' = ''DEPLOY_APPLICATION'' \<and> cmd_DeploymentID cmd' \<noteq> ''''
                            then case fmlookup (Deployments s1) (cmd_DeploymentID cmd') of
                                   Some dep \<Rightarrow>
                                     if dep_Status dep = ''command_created''
                                     then put_deployment (cmd_DeploymentID cmd')
                                            (dep\<lparr>dep_Status := ''deploying'',
                                                 dep_UpdatedAt := now\<rparr>) s1
                                     else s1
                                 | None \<Rightarrow> s1
                            else s1)
                  in (s2, Inr cmd'))
          else if cmd_Status cmd = ''running''
          then if cmd_ClaimedBy cmd \<noteq> agentID
               then (s, Inl (ErrConflict (''running by '' @ cmd_ClaimedBy cmd)))
               else (s, Inr cmd)
          else (s, Inl (ErrConflict (''command status is '' @ cmd_Status cmd))))"

record deploy_result =
  res_RuntimePrivateIP :: string
  res_HostPort :: int

definition zero_result :: deploy_result where
  "zero_result = \<lparr>res_RuntimePrivateIP = '''', res_HostPort = 0\<rparr>"

definition deploy_result_fields :: "deploy_result fields" where
  "deploy_result_fields =
     [field ''runtime_private_ip'' res_RuntimePrivateIP res_RuntimePrivateIP_update dec_string,
      field ''host_port'' res_HostPort res_HostPort_update dec_int]"

definition applySucceeded ::
  "command \<Rightarrow> string \<Rightarrow> json option \<Rightarrow> time \<Rightarrow> store \<Rightarrow> store" where
  "applySucceeded cmd depID result now s =
     (if cmd_Type cmd = ''DEPLOY_APPLICATION''
      then case fmlookup (Deployments s) depID of
             None \<Rightarrow> s
           | Some dep \<Rightarrow>
               (let res = unmarshal_lax (dec_struct deploy_result_fields) zero_result result;
                    dep1 = dep\<lparr>dep_RuntimePrivateIP := res_RuntimePrivateIP res,
                               dep_HostPort := res_HostPort res,
                               dep_Status := ''healthy'', dep_UpdatedAt := now\<rparr>;
                    s1 = put_deployment depID dep1 s
                in if dep_RequiresRoute dep1 \<and> dep_Host dep1 \<noteq> ''''
                   then (let upstream = buildUpstream (res_RuntimePrivateIP res) (res_HostPort res);
                             (s2, route) = upsertRoute (dep_Environment dep1) (dep_Host dep1) ''/''
                                             upstream depID (dep_HealthCheckPath dep1) s1;
                             dep2 = dep1\<lparr>dep_RouteID := rt_ID route,
                                         dep_Status := ''route_pending'', dep_UpdatedAt := now\<rparr>
                         in incrementDesiredState (dep_Environment dep2)
                              (put_deployment depID dep2 s2))
                   else s1)
      else if cmd_Type cmd = ''STOP_APPLICATION''
      then case fmlookup (Deployments s) depID of
             None \<Rightarrow> s
           | Some dep \<Rightarrow>
               put_deployment depID (dep\<lparr>dep_Status := ''removed'', dep_UpdatedAt := now\<rparr>) s
      else if cmd_Type cmd = ''REMOVE_DEPLOYMENT''
      then case fmlookup (Deployments s) depID of
             None \<Rightarrow> s
           | Some dep \<Rightarrow>
               (let routeID = dep_RouteID dep;
                    env = dep_Environment dep;
                    dep1 = dep\<lparr>dep_Status := ''removed'', dep_UpdatedAt := now\<rparr>;
                    s1 = put_deployment depID dep1 s
                in if routeID \<noteq> ''''
                   then put_deployment depID (dep1\<lparr>dep_RouteID := ''''\<rparr>)
                          (incrementDesiredState env (removeRoute env routeID s1))
                   else s1)
      else s)"

record report_command_input =
  rci_AgentID :: string
  rci_DeploymentID :: string
  rci_Status :: string
  rci_Result :: "json option"
  rci_Error :: "report_error option"

definition effective_dep :: "report_command_input \<Rightarrow> command \<Rightarrow> string" where
  "effective_dep inp cmd =
     (if rci_DeploymentID inp = '''' then cmd_DeploymentID cmd else rci_DeploymentID inp)"

definition ReportCommand ::
  "string \<Rightarrow> report_command_input \<Rightarrow> time \<Rightarrow> time \<Rightarrow> store \<Rightarrow>
   store \<times> (store_error + command_report)" where
  "ReportCommand commandID inp now now' s =
     (case fmlookup (Commands s) commandID of
        None \<Rightarrow> (s, Inl ErrNotFound)
      | Some cmd \<Rightarrow>
          if cmd_Status cmd \<noteq> ''running'' \<and> cmd_Status cmd \<noteq> ''claimed''
          then (s, Inl (ErrConflict (''command status is '' @ cmd_Status cmd)))
          else if rci_Status inp \<noteq> ''succeeded'' \<and> rci_Status inp \<noteq> ''failed''
          then (s, Inl (ErrInvalidState (''invalid report status '' @ go_quote (rci_Status inp))))
          else
            (let effectiveDepID = effective_dep inp cmd;
                 cmd1 = cmd\<lparr>cmd_FinishedAt := Some now\<rparr>;
                 report =
                   \<lparr>cr_CommandID = commandID, cr_DeploymentID = effectiveDepID,
                    cr_AgentID = rci_AgentID inp, cr_Status = rci_Status inp,
                    cr_Result = rci_Result inp, cr_Error = rci_Error inp, cr_ReceivedAt = now\<rparr>;
                 s1 = (put_command commandID cmd1 s)\<lparr>CommandReports := CommandReports s @ [report]\<rparr>
             in if rci_Status inp = ''succeeded''
                then (let cmd2 = cmd1\<lparr>cmd_Status := ''succeeded''\<rparr>;
                          s2 = put_command commandID cmd2 s1
                      in (applySucceeded cmd2 effectiveDepID (rci_Result inp) now' s2, Inr report))
                else (let cmd2 = cmd1\<lparr>cmd_Status := ''failed''\<rparr>;
                          s2 = put_command commandID cmd2 s1;
                          s3 = (case fmlookup (Deployments s2) effectiveDepID of
                                  Some dep \<Rightarrow>
                                    if dep_Status dep = ''deploying''
                                    then put_deployment effectiveDepID
                                           (dep\<lparr>dep_Status := ''failed'',
                                                dep_UpdatedAt := now\<rparr>) s2
                                    else s2
                                | None \<Rightarrow> s2)
                      in (s3, Inr report))))"

definition ListCommandReports :: "store \<Rightarrow> command_report list" where
  "ListCommandReports s = CommandReports s"

section \<open>Phases\<close>

text \<open>
  The status of a command as an abstract phase. A phase is below another when the command
  can only get from the one to the other; the two final phases are not comparable.
\<close>

datatype phase = Pending | Claimed | Running | Succeeded | Failed

fun phase_rank :: "phase \<Rightarrow> nat" where
  "phase_rank Pending = 0"
| "phase_rank Claimed = 1"
| "phase_rank Running = 2"
| "phase_rank Succeeded = 3"
| "phase_rank Failed = 3"

instantiation phase :: order
begin

definition less_phase :: "phase \<Rightarrow> phase \<Rightarrow> bool" where
  "less_phase p q \<longleftrightarrow> phase_rank p < phase_rank q"

definition less_eq_phase :: "phase \<Rightarrow> phase \<Rightarrow> bool" where
  "less_eq_phase p q \<longleftrightarrow> p = q \<or> phase_rank p < phase_rank q"

instance
  by standard (auto simp: less_phase_def less_eq_phase_def)

end

fun status_of_phase :: "phase \<Rightarrow> string" where
  "status_of_phase Pending = ''pending''"
| "status_of_phase Claimed = ''claimed''"
| "status_of_phase Running = ''running''"
| "status_of_phase Succeeded = ''succeeded''"
| "status_of_phase Failed = ''failed''"

definition has_phase :: "phase \<Rightarrow> command \<Rightarrow> bool" where
  "has_phase p c \<longleftrightarrow> cmd_Status c = status_of_phase p"

definition final_status :: "string \<Rightarrow> bool" where
  "final_status st \<longleftrightarrow> st = ''succeeded'' \<or> st = ''failed''"

lemma status_of_phase_inject [simp]: "status_of_phase p = status_of_phase q \<longleftrightarrow> p = q"
  by (cases p; cases q) simp_all

lemma has_phase_unique: "has_phase p c \<Longrightarrow> has_phase q c \<Longrightarrow> p = q"
  by (simp add: has_phase_def)

text \<open>What the fields of a command say in each phase.\<close>

fun phase_fields :: "phase \<Rightarrow> command \<Rightarrow> bool" where
  "phase_fields Pending c \<longleftrightarrow>
     cmd_ClaimedBy c = '''' \<and> cmd_ClaimedAt c = None \<and> cmd_StartedAt c = None \<and>
     cmd_FinishedAt c = None"
| "phase_fields Claimed c \<longleftrightarrow>
     cmd_ClaimedBy c = cmd_TargetAgentID c \<and> cmd_ClaimedAt c \<noteq> None \<and>
     cmd_StartedAt c = None \<and> cmd_FinishedAt c = None"
| "phase_fields Running c \<longleftrightarrow>
     cmd_ClaimedBy c = cmd_TargetAgentID c \<and> cmd_ClaimedAt c \<noteq> None \<and>
     cmd_StartedAt c \<noteq> None \<and> cmd_FinishedAt c = None"
| "phase_fields _ c \<longleftrightarrow>
     cmd_ClaimedBy c = cmd_TargetAgentID c \<and> cmd_ClaimedAt c \<noteq> None \<and>
     cmd_FinishedAt c \<noteq> None"

definition command_ok :: "command \<Rightarrow> bool" where
  "command_ok c \<longleftrightarrow> (\<exists>p. has_phase p c \<and> phase_fields p c)"

lemma command_okI: "has_phase p c \<Longrightarrow> phase_fields p c \<Longrightarrow> command_ok c"
  by (auto simp: command_ok_def)

lemma command_ok_phase: "command_ok c \<Longrightarrow> has_phase p c \<Longrightarrow> phase_fields p c"
  using has_phase_unique by (auto simp: command_ok_def)

text \<open>The abstract life of a command: one rule per transition.\<close>

inductive cmd_step :: "command \<Rightarrow> command \<Rightarrow> bool" where
  claim: "has_phase Pending c \<Longrightarrow>
    cmd_step c (c\<lparr>cmd_Status := ''claimed'', cmd_ClaimedBy := cmd_TargetAgentID c,
                  cmd_ClaimedAt := Some t\<rparr>)"
| start: "has_phase Claimed c \<Longrightarrow>
    cmd_step c (c\<lparr>cmd_Status := ''running'', cmd_StartedAt := Some t\<rparr>)"
| finish: "has_phase Claimed c \<or> has_phase Running c \<Longrightarrow> final_status st \<Longrightarrow>
    cmd_step c (c\<lparr>cmd_FinishedAt := Some t, cmd_Status := st\<rparr>)"

inductive_cases cmd_stepE: "cmd_step c c'"

text \<open>Zero or one transition.\<close>

definition cmd_stutter :: "command \<Rightarrow> command \<Rightarrow> bool" where
  "cmd_stutter c c' \<longleftrightarrow> c' = c \<or> cmd_step c c'"

lemma cmd_step_phase:
  assumes "cmd_step c c'"
  shows "\<exists>p q. has_phase p c \<and> has_phase q c' \<and> p < q"
  using assms
proof cases
  case (claim t)
  then show ?thesis
    by (intro exI [of _ Pending] exI [of _ Claimed]) (simp add: has_phase_def less_phase_def)
next
  case (start t)
  then show ?thesis
    by (intro exI [of _ Claimed] exI [of _ Running]) (simp add: has_phase_def less_phase_def)
next
  case (finish st t)
  obtain q where q: "status_of_phase q = st" "phase_rank q = 3"
    using finish(3) status_of_phase.simps(4,5) phase_rank.simps(4,5)
    unfolding final_status_def by metis
  obtain p where p: "has_phase p c" "phase_rank p < 3"
    using finish(2) phase_rank.simps(2,3) by force
  from p q finish(1) show ?thesis
    by (intro exI [of _ p] exI [of _ q]) (simp add: has_phase_def less_phase_def)
qed

lemma cmd_step_ok:
  assumes "cmd_step c c'" and "command_ok c"
  shows "command_ok c'"
  using assms(1)
proof cases
  case (claim t)
  then show ?thesis
    using command_ok_phase [OF assms(2) claim(2)]
    by (intro command_okI [of Claimed]) (simp_all add: has_phase_def)
next
  case (start t)
  then show ?thesis
    using command_ok_phase [OF assms(2) start(2)]
    by (intro command_okI [of Running]) (simp_all add: has_phase_def)
next
  case (finish st t)
  then have "cmd_ClaimedBy c = cmd_TargetAgentID c \<and> cmd_ClaimedAt c \<noteq> None"
    using command_ok_phase [OF assms(2)] by fastforce
  then show ?thesis
    using finish command_okI [of Succeeded c'] command_okI [of Failed c']
    by (auto simp: final_status_def has_phase_def)
qed

lemma cmd_step_identity:
  "cmd_step c c' \<Longrightarrow> cmd_ID c' = cmd_ID c \<and> cmd_Type c' = cmd_Type c \<and>
     cmd_DeploymentID c' = cmd_DeploymentID c \<and> cmd_TargetAgentID c' = cmd_TargetAgentID c \<and>
     cmd_TimeoutSeconds c' = cmd_TimeoutSeconds c \<and> cmd_Payload c' = cmd_Payload c \<and>
     cmd_CreatedAt c' = cmd_CreatedAt c"
  by (auto elim: cmd_stepE)

lemma cmd_step_not_final: "cmd_step c c' \<Longrightarrow> \<not> final_status (cmd_Status c)"
  by (auto elim!: cmd_stepE simp: has_phase_def final_status_def)

section \<open>What the operations do\<close>

definition claimed :: "string \<Rightarrow> string \<Rightarrow> time \<Rightarrow> store \<Rightarrow> store" where
  "claimed cid aid now s = fst (ClaimCommand cid aid now s)"

definition started :: "string \<Rightarrow> string \<Rightarrow> time \<Rightarrow> store \<Rightarrow> store" where
  "started cid aid now s = fst (StartCommand cid aid now s)"

definition finished :: "string \<Rightarrow> report_command_input \<Rightarrow> time \<Rightarrow> time \<Rightarrow> store \<Rightarrow> store" where
  "finished cid inp now now' s = fst (ReportCommand cid inp now now' s)"

lemma desired_obs_cong:
  assumes "DesiredStates s' = DesiredStates s"
  shows "routes_of s' = routes_of s" "current_version e s' = current_version e s"
    "route_for s' = route_for s" "route_sigs s' = route_sigs s"
    "GetDesiredState e s' = GetDesiredState e s"
  using assms
  by (auto simp: fun_eq_iff routes_of_def current_version_def route_for_def route_sigs_def
      GetDesiredState_def)

lemma desired_obs_put [simp]:
  "routes_of (put_command k c s) = routes_of s" "route_for (put_command k c s) = route_for s"
  "current_version e (put_command k c s) = current_version e s"
  "routes_of (put_deployment k d s) = routes_of s" "route_for (put_deployment k d s) = route_for s"
  "current_version e (put_deployment k d s) = current_version e s"
  "routes_of (s\<lparr>CommandReports := rs\<rparr>) = routes_of s"
  "route_for (s\<lparr>CommandReports := rs\<rparr>) = route_for s"
  "current_version e (s\<lparr>CommandReports := rs\<rparr>) = current_version e s"
  by (rule desired_obs_cong; simp)+

lemma routes_ok_put [simp]:
  "routes_ok (put_command k c s) = routes_ok s" "routes_ok (put_deployment k d s) = routes_ok s"
  "routes_ok (s\<lparr>CommandReports := rs\<rparr>) = routes_ok s"
  by (rule routes_ok_cong; simp)+

subsection \<open>applySucceeded\<close>

lemma applySucceeded_frame [frame_simps, simp]:
  "Agents (applySucceeded cmd k res n s) = Agents s"
  "AgentIndex (applySucceeded cmd k res n s) = AgentIndex s"
  "Commands (applySucceeded cmd k res n s) = Commands s"
  "CommandReports (applySucceeded cmd k res n s) = CommandReports s"
  "DesiredStateReports (applySucceeded cmd k res n s) = DesiredStateReports s"
  "CommandCount (Counters (applySucceeded cmd k res n s)) = CommandCount (Counters s)"
  "DeploymentCount (Counters (applySucceeded cmd k res n s)) = DeploymentCount (Counters s)"
  "AgentByEnvironmentRole (Counters (applySucceeded cmd k res n s)) =
     AgentByEnvironmentRole (Counters s)"
  by (simp_all add: applySucceeded_def Let_def case_prod_beta split: option.split)

text \<open>The result of a deployment as \<open>applySucceeded\<close> reads it.\<close>

definition read_result :: "json option \<Rightarrow> deploy_result" where
  "read_result result = unmarshal_lax (dec_struct deploy_result_fields) zero_result result"

definition result_upstream :: "json option \<Rightarrow> string" where
  "result_upstream result =
     buildUpstream (res_RuntimePrivateIP (read_result result)) (res_HostPort (read_result result))"

definition wants_route :: "deployment \<Rightarrow> bool" where
  "wants_route dep \<longleftrightarrow> dep_RequiresRoute dep \<and> dep_Host dep \<noteq> ''''"

text \<open>The routing part of a successful deployment: the route is written and published.\<close>

definition publish_route :: "string \<Rightarrow> deployment \<Rightarrow> json option \<Rightarrow> store \<Rightarrow> store \<times> route" where
  "publish_route depID dep result s =
     upsertRoute (dep_Environment dep) (dep_Host dep) ''/'' (result_upstream result) depID
       (dep_HealthCheckPath dep) s"

lemma upsert_put [simp]:
  "fst (upsertRoute e h p u d c (put_deployment k x s)) =
     put_deployment k x (fst (upsertRoute e h p u d c s))"
  "snd (upsertRoute e h p u d c (put_deployment k x s)) = snd (upsertRoute e h p u d c s)"
  by (auto simp: upsertRoute_def getOrCreateDesiredState_def put_defs Let_def split: option.splits)

lemma remove_put [simp]:
  "removeRoute e i (put_deployment k x s) = put_deployment k x (removeRoute e i s)"
  by (auto simp: removeRoute_def put_defs split: option.splits)

lemma increment_put [simp]:
  "incrementDesiredState e (put_deployment k x s) = put_deployment k x (incrementDesiredState e s)"
  by (auto simp: incrementDesiredState_def getOrCreateDesiredState_def put_defs Let_def
      split: option.splits)

lemma put_deployment_twice [simp]:
  "put_deployment k x (put_deployment k y s) = put_deployment k x s"
  by (simp add: put_defs)

text \<open>The branches of \<open>applySucceeded\<close>, with the writes to the deployment collected.\<close>

lemma succeeded_missing:
  "fmlookup (Deployments s) k = None \<Longrightarrow> applySucceeded cmd k res n s = s"
  by (simp add: applySucceeded_def)

lemma succeeded_deploy_routed:
  assumes "cmd_Type cmd = ''DEPLOY_APPLICATION''" "fmlookup (Deployments s) k = Some dep"
    and "wants_route dep"
  shows "applySucceeded cmd k res n s =
    put_deployment k
      (dep\<lparr>dep_RuntimePrivateIP := res_RuntimePrivateIP (read_result res),
           dep_HostPort := res_HostPort (read_result res),
           dep_RouteID := rt_ID (snd (publish_route k dep res s)),
           dep_Status := ''route_pending'', dep_UpdatedAt := n\<rparr>)
      (incrementDesiredState (dep_Environment dep) (fst (publish_route k dep res s)))"
  using assms
  by (simp add: applySucceeded_def read_result_def [symmetric] Let_def case_prod_beta
      publish_route_def result_upstream_def wants_route_def)

lemma succeeded_deploy_plain:
  assumes "cmd_Type cmd = ''DEPLOY_APPLICATION''" "fmlookup (Deployments s) k = Some dep"
    and "\<not> wants_route dep"
  shows "applySucceeded cmd k res n s =
    put_deployment k
      (dep\<lparr>dep_RuntimePrivateIP := res_RuntimePrivateIP (read_result res),
           dep_HostPort := res_HostPort (read_result res),
           dep_Status := ''healthy'', dep_UpdatedAt := n\<rparr>) s"
  using assms by (auto simp: applySucceeded_def read_result_def Let_def wants_route_def)

lemma succeeded_stop:
  assumes "cmd_Type cmd = ''STOP_APPLICATION''" "fmlookup (Deployments s) k = Some dep"
  shows "applySucceeded cmd k res n s =
    put_deployment k (dep\<lparr>dep_Status := ''removed'', dep_UpdatedAt := n\<rparr>) s"
  using assms by (simp add: applySucceeded_def)

lemma succeeded_remove_routed:
  assumes "cmd_Type cmd = ''REMOVE_DEPLOYMENT''" "fmlookup (Deployments s) k = Some dep"
    and "dep_RouteID dep \<noteq> ''''"
  shows "applySucceeded cmd k res n s =
    put_deployment k (dep\<lparr>dep_Status := ''removed'', dep_UpdatedAt := n, dep_RouteID := ''''\<rparr>)
      (incrementDesiredState (dep_Environment dep)
        (removeRoute (dep_Environment dep) (dep_RouteID dep) s))"
  using assms by (simp add: applySucceeded_def Let_def)

lemma succeeded_remove_plain:
  assumes "cmd_Type cmd = ''REMOVE_DEPLOYMENT''" "fmlookup (Deployments s) k = Some dep"
    and "dep_RouteID dep = ''''"
  shows "applySucceeded cmd k res n s =
    put_deployment k (dep\<lparr>dep_Status := ''removed'', dep_UpdatedAt := n\<rparr>) s"
  using assms by (simp add: applySucceeded_def Let_def)

lemma succeeded_other:
  "cmd_Type cmd \<notin> {''DEPLOY_APPLICATION'', ''STOP_APPLICATION'', ''REMOVE_DEPLOYMENT''} \<Longrightarrow>
   applySucceeded cmd k res n s = s"
  by (simp add: applySucceeded_def)

text \<open>
  The case distinction every proof about \<open>applySucceeded\<close> uses: the state is left alone,
  the deployment alone is written, or the deployment is written together with a route and a
  new version.
\<close>

lemma succeeded_cases:
  obtains (same) "applySucceeded cmd k res n s = s"
  | (alone) dep dep' where "fmlookup (Deployments s) k = Some dep"
      "applySucceeded cmd k res n s = put_deployment k dep' s"
      "dep_RouteID dep' = dep_RouteID dep" "dep_Status dep' \<in> {''healthy'', ''removed''}"
      "wants_route dep \<Longrightarrow> dep_RuntimePrivateIP dep' = dep_RuntimePrivateIP dep \<and>
         dep_HostPort dep' = dep_HostPort dep"
      "dep_ID dep' = dep_ID dep" "dep_CommandID dep' = dep_CommandID dep"
      "dep_Environment dep' = dep_Environment dep"
      "dep_TargetAgentID dep' = dep_TargetAgentID dep"
      "dep_Host dep' = dep_Host dep" "dep_RequiresRoute dep' = dep_RequiresRoute dep"
  | (routed) dep dep' where "fmlookup (Deployments s) k = Some dep" "wants_route dep"
      "cmd_Type cmd = ''DEPLOY_APPLICATION''"
      "applySucceeded cmd k res n s = put_deployment k dep'
         (incrementDesiredState (dep_Environment dep) (fst (publish_route k dep res s)))"
      "dep_RouteID dep' = rt_ID (snd (publish_route k dep res s))"
      "result_upstream res = buildUpstream (dep_RuntimePrivateIP dep') (dep_HostPort dep')"
      "dep_Status dep' = ''route_pending''"
      "dep_ID dep' = dep_ID dep" "dep_CommandID dep' = dep_CommandID dep"
      "dep_Environment dep' = dep_Environment dep"
      "dep_TargetAgentID dep' = dep_TargetAgentID dep"
      "dep_Host dep' = dep_Host dep" "dep_RequiresRoute dep' = dep_RequiresRoute dep"
  | (unrouted) dep dep' where "fmlookup (Deployments s) k = Some dep" "dep_RouteID dep \<noteq> ''''"
      "cmd_Type cmd = ''REMOVE_DEPLOYMENT''"
      "applySucceeded cmd k res n s = put_deployment k dep'
         (incrementDesiredState (dep_Environment dep)
           (removeRoute (dep_Environment dep) (dep_RouteID dep) s))"
      "dep_RouteID dep' = ''''" "dep_Status dep' = ''removed''"
      "dep_ID dep' = dep_ID dep" "dep_CommandID dep' = dep_CommandID dep"
      "dep_Environment dep' = dep_Environment dep"
      "dep_TargetAgentID dep' = dep_TargetAgentID dep"
      "dep_Host dep' = dep_Host dep" "dep_RequiresRoute dep' = dep_RequiresRoute dep"
proof (cases "fmlookup (Deployments s) k")
  case None
  then show ?thesis by (intro same succeeded_missing)
next
  case (Some dep)
  consider (deploy) "cmd_Type cmd = ''DEPLOY_APPLICATION''"
    | (stop) "cmd_Type cmd = ''STOP_APPLICATION''"
    | (remove) "cmd_Type cmd = ''REMOVE_DEPLOYMENT''"
    | (other) "cmd_Type cmd \<notin> {''DEPLOY_APPLICATION'', ''STOP_APPLICATION'', ''REMOVE_DEPLOYMENT''}"
    by blast
  then show ?thesis
  proof cases
    case deploy
    show ?thesis
    proof (cases "wants_route dep")
      case True
      show ?thesis by (rule routed [OF Some True deploy succeeded_deploy_routed [OF deploy Some True]])
          (simp_all add: result_upstream_def)
    next
      case False
      show ?thesis
        by (rule alone [OF Some succeeded_deploy_plain [OF deploy Some False]]) (simp_all add: False)
    qed
  next
    case stop
    show ?thesis by (rule alone [OF Some succeeded_stop [OF stop Some]]) simp_all
  next
    case remove
    show ?thesis
    proof (cases "dep_RouteID dep = ''''")
      case True
      show ?thesis by (rule alone [OF Some succeeded_remove_plain [OF remove Some True]]) simp_all
    next
      case False
      show ?thesis
        by (rule unrouted [OF Some False remove succeeded_remove_routed [OF remove Some False]])
          simp_all
    qed
  next
    case other
    then show ?thesis by (intro same succeeded_other)
  qed
qed

lemma publish_route_simps [simp]:
  "DesiredStateReports (fst (publish_route k dep res s)) = DesiredStateReports s"
  "Deployments (fst (publish_route k dep res s)) = Deployments s"
  "current_version e (fst (publish_route k dep res s)) = current_version e s"
  by (simp_all add: publish_route_def)

subsection \<open>Claim, start and report\<close>

text \<open>The effect of an accepted report before the deployment is looked at.\<close>

definition close_command ::
  "string \<Rightarrow> report_command_input \<Rightarrow> command \<Rightarrow> time \<Rightarrow> store \<Rightarrow> store" where
  "close_command cid inp cmd now s =
     put_command cid (cmd\<lparr>cmd_FinishedAt := Some now, cmd_Status := rci_Status inp\<rparr>)
       (s\<lparr>CommandReports := CommandReports s @
          [\<lparr>cr_CommandID = cid, cr_DeploymentID = effective_dep inp cmd,
            cr_AgentID = rci_AgentID inp, cr_Status = rci_Status inp,
            cr_Result = rci_Result inp, cr_Error = rci_Error inp, cr_ReceivedAt = now\<rparr>]\<rparr>)"

definition fail_deployment :: "string \<Rightarrow> time \<Rightarrow> store \<Rightarrow> store" where
  "fail_deployment depID now s =
     (case fmlookup (Deployments s) depID of
        Some dep \<Rightarrow>
          if dep_Status dep = ''deploying''
          then put_deployment depID (dep\<lparr>dep_Status := ''failed'', dep_UpdatedAt := now\<rparr>) s
          else s
      | None \<Rightarrow> s)"

definition accepts_report :: "command \<Rightarrow> report_command_input \<Rightarrow> bool" where
  "accepts_report cmd inp \<longleftrightarrow>
     (has_phase Claimed cmd \<or> has_phase Running cmd) \<and> final_status (rci_Status inp)"

lemma close_command_simps [simp]:
  "Agents (close_command cid inp cmd now s) = Agents s"
  "AgentIndex (close_command cid inp cmd now s) = AgentIndex s"
  "Commands (close_command cid inp cmd now s) =
     fmupd cid (cmd\<lparr>cmd_FinishedAt := Some now, cmd_Status := rci_Status inp\<rparr>) (Commands s)"
  "Deployments (close_command cid inp cmd now s) = Deployments s"
  "DesiredStates (close_command cid inp cmd now s) = DesiredStates s"
  "DesiredStateReports (close_command cid inp cmd now s) = DesiredStateReports s"
  "Counters (close_command cid inp cmd now s) = Counters s"
  "routes_ok (close_command cid inp cmd now s) = routes_ok s"
  "routes_of (close_command cid inp cmd now s) = routes_of s"
  "route_for (close_command cid inp cmd now s) = route_for s"
  "current_version e (close_command cid inp cmd now s) = current_version e s"
  by (simp_all add: close_command_def)

lemma fail_deployment_simps [simp]:
  "Agents (fail_deployment k now s) = Agents s"
  "AgentIndex (fail_deployment k now s) = AgentIndex s"
  "Commands (fail_deployment k now s) = Commands s"
  "CommandReports (fail_deployment k now s) = CommandReports s"
  "DesiredStates (fail_deployment k now s) = DesiredStates s"
  "DesiredStateReports (fail_deployment k now s) = DesiredStateReports s"
  "Counters (fail_deployment k now s) = Counters s"
  by (auto simp: fail_deployment_def split: option.split)

lemma report_accepted:
  assumes "fmlookup (Commands s) cid = Some cmd" and "accepts_report cmd inp"
  shows "finished cid inp now now' s =
    (if rci_Status inp = ''succeeded''
     then applySucceeded (cmd\<lparr>cmd_FinishedAt := Some now, cmd_Status := ''succeeded''\<rparr>)
            (effective_dep inp cmd) (rci_Result inp) now' (close_command cid inp cmd now s)
     else fail_deployment (effective_dep inp cmd) now (close_command cid inp cmd now s))"
    and "\<exists>r. snd (ReportCommand cid inp now now' s) = Inr r"
  using assms
  by (auto simp: finished_def ReportCommand_def Let_def accepts_report_def has_phase_def
      final_status_def close_command_def fail_deployment_def put_command_def
      split: option.split)

lemma report_rejected:
  assumes "\<And>cmd. fmlookup (Commands s) cid = Some cmd \<Longrightarrow> \<not> accepts_report cmd inp"
  shows "finished cid inp now now' s = s"
    and "\<exists>e. snd (ReportCommand cid inp now now' s) = Inl e"
  using assms
  by (auto simp: finished_def ReportCommand_def Let_def accepts_report_def has_phase_def
      final_status_def split: option.split)

lemma finished_cases:
  obtains (rejected) "finished cid inp now now' s = s"
  | (succeeded) cmd where "fmlookup (Commands s) cid = Some cmd" "accepts_report cmd inp"
      "rci_Status inp = ''succeeded''"
      "finished cid inp now now' s =
         applySucceeded (cmd\<lparr>cmd_FinishedAt := Some now, cmd_Status := ''succeeded''\<rparr>)
           (effective_dep inp cmd) (rci_Result inp) now' (close_command cid inp cmd now s)"
  | (failed) cmd where "fmlookup (Commands s) cid = Some cmd" "accepts_report cmd inp"
      "rci_Status inp = ''failed''"
      "finished cid inp now now' s =
         fail_deployment (effective_dep inp cmd) now (close_command cid inp cmd now s)"
proof (cases "\<exists>cmd. fmlookup (Commands s) cid = Some cmd \<and> accepts_report cmd inp")
  case True
  then obtain cmd where cmd: "fmlookup (Commands s) cid = Some cmd" "accepts_report cmd inp"
    by blast
  then have "rci_Status inp = ''succeeded'' \<or> rci_Status inp = ''failed''"
    by (simp add: accepts_report_def final_status_def)
  then show ?thesis
    using succeeded [OF cmd] failed [OF cmd] report_accepted(1) [OF cmd] by force
next
  case False
  then show ?thesis using rejected report_rejected(1) by metis
qed

lemma finished_commands:
  "Commands (finished cid inp now now' s) =
     (case fmlookup (Commands s) cid of
        None \<Rightarrow> Commands s
      | Some cmd \<Rightarrow>
          if accepts_report cmd inp
          then fmupd cid (cmd\<lparr>cmd_FinishedAt := Some now, cmd_Status := rci_Status inp\<rparr>) (Commands s)
          else Commands s)"
proof (cases "fmlookup (Commands s) cid")
  case None
  then show ?thesis using report_rejected(1) [of s cid inp] by simp
next
  case (Some cmd)
  then show ?thesis
    using report_accepted(1) [OF Some] report_rejected(1) [of s cid inp] by simp
qed

lemma finished_frame [frame_simps, simp]:
  "Agents (finished cid inp now now' s) = Agents s"
  "AgentIndex (finished cid inp now now' s) = AgentIndex s"
  "DesiredStateReports (finished cid inp now now' s) = DesiredStateReports s"
  "CommandCount (Counters (finished cid inp now now' s)) = CommandCount (Counters s)"
  "DeploymentCount (Counters (finished cid inp now now' s)) = DeploymentCount (Counters s)"
  "AgentByEnvironmentRole (Counters (finished cid inp now now' s)) =
     AgentByEnvironmentRole (Counters s)"
  by (cases rule: finished_cases [of cid inp now now' s]; simp)+

lemma claimed_frame [frame_simps, simp]:
  "Agents (claimed cid aid now s) = Agents s" "AgentIndex (claimed cid aid now s) = AgentIndex s"
  "Deployments (claimed cid aid now s) = Deployments s"
  "CommandReports (claimed cid aid now s) = CommandReports s"
  "DesiredStates (claimed cid aid now s) = DesiredStates s"
  "DesiredStateReports (claimed cid aid now s) = DesiredStateReports s"
  "Counters (claimed cid aid now s) = Counters s"
  by (auto simp: claimed_def ClaimCommand_def Let_def split: option.split)

lemma started_frame [frame_simps, simp]:
  "Agents (started cid aid now s) = Agents s" "AgentIndex (started cid aid now s) = AgentIndex s"
  "CommandReports (started cid aid now s) = CommandReports s"
  "DesiredStates (started cid aid now s) = DesiredStates s"
  "DesiredStateReports (started cid aid now s) = DesiredStateReports s"
  "Counters (started cid aid now s) = Counters s"
  by (auto simp: started_def StartCommand_def Let_def split: option.split)

lemma claimed_commands:
  "Commands (claimed cid aid now s) =
     (case fmlookup (Commands s) cid of
        None \<Rightarrow> Commands s
      | Some cmd \<Rightarrow>
          if has_phase Pending cmd \<and> cmd_TargetAgentID cmd = aid
          then fmupd cid (cmd\<lparr>cmd_Status := ''claimed'', cmd_ClaimedBy := cmd_TargetAgentID cmd,
                              cmd_ClaimedAt := Some now\<rparr>) (Commands s)
          else Commands s)"
  by (auto simp: claimed_def ClaimCommand_def has_phase_def Let_def split: option.split)

lemma started_commands:
  "Commands (started cid aid now s) =
     (case fmlookup (Commands s) cid of
        None \<Rightarrow> Commands s
      | Some cmd \<Rightarrow>
          if has_phase Claimed cmd \<and> cmd_ClaimedBy cmd = aid
          then fmupd cid (cmd\<lparr>cmd_Status := ''running'', cmd_StartedAt := Some now\<rparr>) (Commands s)
          else Commands s)"
  by (auto simp: started_def StartCommand_def has_phase_def Let_def split: option.split)

lemma started_deployments:
  "Deployments (started cid aid now s) =
     (case fmlookup (Commands s) cid of
        None \<Rightarrow> Deployments s
      | Some cmd \<Rightarrow>
          if has_phase Claimed cmd \<and> cmd_ClaimedBy cmd = aid \<and>
             cmd_Type cmd = ''DEPLOY_APPLICATION'' \<and> cmd_DeploymentID cmd \<noteq> ''''
          then case fmlookup (Deployments s) (cmd_DeploymentID cmd) of
                 None \<Rightarrow> Deployments s
               | Some dep \<Rightarrow>
                   if dep_Status dep = ''command_created''
                   then fmupd (cmd_DeploymentID cmd)
                          (dep\<lparr>dep_Status := ''deploying'', dep_UpdatedAt := now\<rparr>) (Deployments s)
                   else Deployments s
          else Deployments s)"
  by (auto simp: started_def StartCommand_def has_phase_def Let_def split: option.split)

text \<open>Each of the three moves every command by zero or one transition of its life.\<close>

lemma commands_stutter:
  assumes "fmlookup (Commands s) k = Some c"
  shows "\<exists>c'. fmlookup (Commands (claimed cid aid now s)) k = Some c' \<and> cmd_stutter c c'"
    and "\<exists>c'. fmlookup (Commands (started cid aid now s)) k = Some c' \<and> cmd_stutter c c'"
    and "\<exists>c'. fmlookup (Commands (finished cid inp now now' s)) k = Some c' \<and> cmd_stutter c c'"
  using assms
  by (auto simp: claimed_commands started_commands finished_commands cmd_stutter_def
      accepts_report_def intro: cmd_step.intros split: option.split)

end
