(* ===== verification/Store_Invariant.thy ===== *)
theory Store_Invariant
  imports Agents Commands
begin

text \<open>
  The invariant of the whole store, \<open>store_ok\<close>, and its preservation by every operation
  that writes. It joins the invariants of the registry and of the route table with those of
  the commands (identifiers from the counter, fields that fit the phase), of the reports
  (one per finished command), of the deployments (public status, a command that made it)
  and with what relates routes to deployments: a route points to a deployment of its
  environment and host, at the address that deployment reported.
\<close>

section \<open>Parts of the invariant\<close>

definition commands_ok :: "store \<Rightarrow> bool" where
  "commands_ok s \<longleftrightarrow>
     numbered ids_Command (CommandCount (Counters s)) (Commands s) \<and>
     (\<forall>k c. fmlookup (Commands s) k = Some c \<longrightarrow> cmd_ID c = k \<and> command_ok c)"

definition count_reports :: "string \<Rightarrow> store \<Rightarrow> nat" where
  "count_reports k s = length (filter (\<lambda>r. cr_CommandID r = k) (CommandReports s))"

definition reports_expected :: "string \<Rightarrow> store \<Rightarrow> nat" where
  "reports_expected k s =
     (case fmlookup (Commands s) k of
        None \<Rightarrow> 0
      | Some c \<Rightarrow> if final_status (cmd_Status c) then 1 else 0)"

definition reports_ok :: "store \<Rightarrow> bool" where
  "reports_ok s \<longleftrightarrow>
     (\<forall>k. count_reports k s = reports_expected k s) \<and>
     (\<forall>r \<in> set (CommandReports s). \<exists>c. fmlookup (Commands s) (cr_CommandID r) = Some c \<and>
        cmd_Status c = cr_Status r \<and> cmd_FinishedAt c = Some (cr_ReceivedAt r))"

definition public_status :: "string \<Rightarrow> bool" where
  "public_status st \<longleftrightarrow>
     st \<in> {''command_created'', ''deploying'', ''healthy'', ''failed'', ''route_pending'',
           ''route_active'', ''route_failed'', ''removed''}"

definition routed_status :: "string \<Rightarrow> bool" where
  "routed_status st \<longleftrightarrow> st \<in> {''route_pending'', ''route_active'', ''route_failed''}"

definition made_by :: "store \<Rightarrow> string \<Rightarrow> deployment \<Rightarrow> command \<Rightarrow> bool" where
  "made_by s k d c \<longleftrightarrow>
     fmlookup (Commands s) (dep_CommandID d) = Some c \<and> cmd_Type c = ''DEPLOY_APPLICATION'' \<and>
     cmd_DeploymentID c = k \<and> cmd_TargetAgentID c = dep_TargetAgentID d"

definition route_fields_ok :: "int \<Rightarrow> deployment \<Rightarrow> bool" where
  "route_fields_ok c d \<longleftrightarrow>
     (dep_RouteID d \<noteq> '''' \<longrightarrow>
        wants_route d \<and> (\<exists>n. 1 \<le> n \<and> n \<le> c \<and> dep_RouteID d = ids_Route n)) \<and>
     (routed_status (dep_Status d) \<longrightarrow> dep_RouteID d \<noteq> '''')"

definition deployment_ok :: "store \<Rightarrow> string \<Rightarrow> deployment \<Rightarrow> bool" where
  "deployment_ok s k d \<longleftrightarrow>
     dep_ID d = k \<and> public_status (dep_Status d) \<and> (\<exists>c. made_by s k d c) \<and>
     route_fields_ok (RouteCount (Counters s)) d"

definition deployments_ok :: "store \<Rightarrow> bool" where
  "deployments_ok s \<longleftrightarrow>
     numbered ids_Deployment (DeploymentCount (Counters s)) (Deployments s) \<and>
     (\<forall>k d. fmlookup (Deployments s) k = Some d \<longrightarrow> deployment_ok s k d)"

definition route_served :: "store \<Rightarrow> string \<Rightarrow> route \<Rightarrow> deployment \<Rightarrow> bool" where
  "route_served s e r d \<longleftrightarrow>
     fmlookup (Deployments s) (rt_DeploymentID r) = Some d \<and> dep_Environment d = e \<and>
     dep_Host d = rt_Host r \<and> dep_RouteID d = rt_ID r \<and> wants_route d \<and>
     rt_Upstream r = buildUpstream (dep_RuntimePrivateIP d) (dep_HostPort d)"

definition routes_served :: "store \<Rightarrow> bool" where
  "routes_served s \<longleftrightarrow> (\<forall>e. \<forall>r \<in> set (routes_of s e). \<exists>d. route_served s e r d)"

definition routes_versioned :: "store \<Rightarrow> bool" where
  "routes_versioned s \<longleftrightarrow> (\<forall>e. routes_of s e \<noteq> [] \<longrightarrow> 1 \<le> current_version e s)"

definition store_ok :: "store \<Rightarrow> bool" where
  "store_ok s \<longleftrightarrow>
     agents_ok s \<and> routes_ok s \<and> commands_ok s \<and> reports_ok s \<and> deployments_ok s \<and>
     routes_served s \<and> routes_versioned s"

lemmas store_parts = commands_ok_def reports_ok_def deployments_ok_def routes_served_def
  routes_versioned_def

lemma public_status_simps [simp]:
  "public_status ''command_created''" "public_status ''deploying''" "public_status ''healthy''"
  "public_status ''failed''" "public_status ''route_pending''" "public_status ''route_active''"
  "public_status ''route_failed''" "public_status ''removed''"
  by (simp_all add: public_status_def)

lemma routed_status_simps [simp]:
  "\<not> routed_status ''command_created''" "\<not> routed_status ''deploying''"
  "\<not> routed_status ''healthy''" "\<not> routed_status ''failed''" "\<not> routed_status ''removed''"
  "routed_status ''route_pending''" "routed_status ''route_active''" "routed_status ''route_failed''"
  by (simp_all add: routed_status_def)

lemma store_okD:
  assumes "store_ok s"
  shows "agents_ok s" "routes_ok s" "commands_ok s" "reports_ok s" "deployments_ok s"
    "routes_served s" "routes_versioned s"
  using assms by (simp_all add: store_ok_def)

lemma commands_okD:
  assumes "commands_ok s"
  shows "numbered ids_Command (CommandCount (Counters s)) (Commands s)"
    and "fmlookup (Commands s) k = Some c \<Longrightarrow> cmd_ID c = k"
    and "fmlookup (Commands s) k = Some c \<Longrightarrow> command_ok c"
  using assms by (auto simp: commands_ok_def)

lemma deployments_okD:
  assumes "deployments_ok s"
  shows "numbered ids_Deployment (DeploymentCount (Counters s)) (Deployments s)"
    and "fmlookup (Deployments s) k = Some d \<Longrightarrow> deployment_ok s k d"
  using assms by (auto simp: deployments_ok_def)

lemma store_ok_New [wf_intros]: "store_ok store_New"
  using agents_ok_New routes_ok_New
  by (simp add: store_ok_def store_parts store_New_def zero_counters_def numbered_def
      count_reports_def reports_expected_def routes_of_def)

section \<open>What an operation that touches little preserves\<close>

lemma commands_ok_cong:
  "Commands s' = Commands s \<Longrightarrow> CommandCount (Counters s') = CommandCount (Counters s) \<Longrightarrow>
   commands_ok s' = commands_ok s"
  by (simp add: commands_ok_def)

lemma reports_ok_cong:
  "Commands s' = Commands s \<Longrightarrow> CommandReports s' = CommandReports s \<Longrightarrow>
   reports_ok s' = reports_ok s"
  by (simp add: reports_ok_def count_reports_def reports_expected_def)

lemma deployments_ok_cong:
  "Deployments s' = Deployments s \<Longrightarrow> Commands s' = Commands s \<Longrightarrow>
   DeploymentCount (Counters s') = DeploymentCount (Counters s) \<Longrightarrow>
   RouteCount (Counters s') = RouteCount (Counters s) \<Longrightarrow>
   deployments_ok s' = deployments_ok s"
  by (simp add: deployments_ok_def deployment_ok_def made_by_def)

lemma served_cong:
  "Deployments s' = Deployments s \<Longrightarrow> DesiredStates s' = DesiredStates s \<Longrightarrow>
   routes_served s' = routes_served s"
  using desired_obs_cong(1) [of s' s] by (simp add: routes_served_def route_served_def)

lemma versioned_cong: "DesiredStates s' = DesiredStates s \<Longrightarrow> routes_versioned s' = routes_versioned s"
  using desired_obs_cong(1,2) [of s' s] by (simp add: routes_versioned_def)

text \<open>Commands that stay, as far as a deployment is concerned.\<close>

definition commands_extend :: "store \<Rightarrow> store \<Rightarrow> bool" where
  "commands_extend s s' \<longleftrightarrow>
     (\<forall>k c. fmlookup (Commands s) k = Some c \<longrightarrow>
        (\<exists>c'. fmlookup (Commands s') k = Some c' \<and> cmd_Type c' = cmd_Type c \<and>
              cmd_DeploymentID c' = cmd_DeploymentID c \<and>
              cmd_TargetAgentID c' = cmd_TargetAgentID c))"

lemma commands_extend_same: "Commands s' = Commands s \<Longrightarrow> commands_extend s s'"
  by (simp add: commands_extend_def)

lemma commands_extend_stutter:
  "(\<And>k c. fmlookup (Commands s) k = Some c \<Longrightarrow>
      \<exists>c'. fmlookup (Commands s') k = Some c' \<and> cmd_stutter c c') \<Longrightarrow> commands_extend s s'"
  unfolding commands_extend_def cmd_stutter_def using cmd_step_identity by blast

lemma made_by_extend:
  assumes "commands_extend s s'" and "made_by s k d c"
    and "dep_CommandID d' = dep_CommandID d" "dep_TargetAgentID d' = dep_TargetAgentID d"
  shows "\<exists>c'. made_by s' k d' c'"
  using assms unfolding commands_extend_def made_by_def by fastforce

text \<open>How a deployment may change in an operation.\<close>

definition dep_evolves :: "int \<Rightarrow> deployment \<Rightarrow> deployment \<Rightarrow> bool" where
  "dep_evolves c d d' \<longleftrightarrow>
     dep_ID d' = dep_ID d \<and> dep_CommandID d' = dep_CommandID d \<and>
     dep_TargetAgentID d' = dep_TargetAgentID d \<and> public_status (dep_Status d') \<and>
     route_fields_ok c d'"

lemma route_fields_mono: "route_fields_ok c d \<Longrightarrow> c \<le> c' \<Longrightarrow> route_fields_ok c' d"
  unfolding route_fields_ok_def by fastforce

lemma deployments_transfer:
  assumes ok: "deployments_ok s" and ext: "commands_extend s s'"
    and cnt: "DeploymentCount (Counters s') = DeploymentCount (Counters s)"
    and mono: "RouteCount (Counters s) \<le> RouteCount (Counters s')"
    and evo: "\<And>k d'. fmlookup (Deployments s') k = Some d' \<Longrightarrow>
      \<exists>d. fmlookup (Deployments s) k = Some d \<and>
        (d' = d \<or> dep_evolves (RouteCount (Counters s')) d d')"
  shows "deployments_ok s'"
proof -
  have "numbered ids_Deployment (DeploymentCount (Counters s')) (Deployments s')"
    using deployments_okD(1) [OF ok] evo unfolding numbered_def cnt by blast
  moreover have "deployment_ok s' k d'" if "fmlookup (Deployments s') k = Some d'" for k d'
  proof -
    from evo [OF that] obtain d where d: "fmlookup (Deployments s) k = Some d"
      "d' = d \<or> dep_evolves (RouteCount (Counters s')) d d'" by blast
    have dok: "deployment_ok s k d" using ok d(1) by (rule deployments_okD)
    have same: "dep_ID d' = dep_ID d" "dep_CommandID d' = dep_CommandID d"
      "dep_TargetAgentID d' = dep_TargetAgentID d"
      using d(2) by (auto simp: dep_evolves_def)
    obtain c where "made_by s k d c" using dok by (auto simp: deployment_ok_def)
    then have "\<exists>c'. made_by s' k d' c'"
      using made_by_extend [OF ext] same by blast
    moreover have "public_status (dep_Status d') \<and> route_fields_ok (RouteCount (Counters s')) d'"
      using d(2) dok mono by (auto simp: dep_evolves_def deployment_ok_def intro: route_fields_mono)
    ultimately show ?thesis using same(1) dok by (simp add: deployment_ok_def)
  qed
  ultimately show ?thesis by (simp add: deployments_ok_def)
qed

text \<open>The routes keep being served when the deployments keep what their routes need.\<close>

definition same_serving :: "deployment \<Rightarrow> deployment \<Rightarrow> bool" where
  "same_serving d d' \<longleftrightarrow>
     dep_Environment d' = dep_Environment d \<and> dep_Host d' = dep_Host d \<and>
     dep_RequiresRoute d' = dep_RequiresRoute d \<and> dep_RouteID d' = dep_RouteID d \<and>
     (wants_route d \<longrightarrow> dep_RuntimePrivateIP d' = dep_RuntimePrivateIP d \<and>
        dep_HostPort d' = dep_HostPort d)"

lemma same_serving_refl [simp]: "same_serving d d"
  by (simp add: same_serving_def)

lemma route_served_same:
  assumes "route_served s e r d" and "same_serving d d'"
    and "fmlookup (Deployments s') (rt_DeploymentID r) = Some d'"
  shows "route_served s' e r d'"
  using assms by (auto simp: route_served_def same_serving_def wants_route_def)

lemma served_transfer:
  assumes served: "routes_served s" and routes: "routes_of s' = routes_of s"
    and deps: "\<And>k d. fmlookup (Deployments s) k = Some d \<Longrightarrow>
      \<exists>d'. fmlookup (Deployments s') k = Some d' \<and> same_serving d d'"
  shows "routes_served s'"
  unfolding routes_served_def routes
proof (intro allI ballI)
  fix e r assume "r \<in> set (routes_of s e)"
  then obtain d where d: "route_served s e r d" using served by (auto simp: routes_served_def)
  then obtain d' where "fmlookup (Deployments s') (rt_DeploymentID r) = Some d'" "same_serving d d'"
    using deps unfolding route_served_def by blast
  then show "\<exists>d. route_served s' e r d" using route_served_same [OF d] by blast
qed

lemma served_put_deployment:
  assumes "routes_served s" and "fmlookup (Deployments s) k = Some d" and "same_serving d d'"
  shows "routes_served (put_deployment k d' s)"
  by (rule served_transfer [OF assms(1)]) (use assms(2,3) in auto)

section \<open>Writing one command\<close>

lemma commands_ok_step:
  assumes ok: "commands_ok s" and c: "fmlookup (Commands s) k = Some c" and step: "cmd_step c c'"
    and s': "Commands s' = fmupd k c' (Commands s)"
      "CommandCount (Counters s') = CommandCount (Counters s)"
  shows "commands_ok s'"
proof -
  have "cmd_ID c' = k" "command_ok c'"
    using commands_okD(2,3) [OF ok c] cmd_step_identity [OF step] cmd_step_ok [OF step] by simp_all
  then show ?thesis
    using ok numbered_upd_existing [OF commands_okD(1) [OF ok] c] by (simp add: commands_ok_def s')
qed

lemma commands_ok_new:
  assumes ok: "commands_ok s" and c: "cmd_ID c = ids_Command (CommandCount (Counters s) + 1)"
    "has_phase Pending c" "phase_fields Pending c"
    and s': "Commands s' = fmupd (cmd_ID c) c (Commands s)"
      "CommandCount (Counters s') = CommandCount (Counters s) + 1"
  shows "commands_ok s'"
  using ok numbered_insert [OF commands_okD(1) [OF ok]] command_okI [OF c(2,3)]
  by (auto simp: commands_ok_def s' c(1))

lemma next_command_fresh:
  "commands_ok s \<Longrightarrow> fmlookup (Commands s) (ids_Command (CommandCount (Counters s) + 1)) = None"
  by (rule cmd_ids.next_fresh [OF commands_okD(1)])

lemma count_reports_append:
  "CommandReports s' = CommandReports s @ [r] \<Longrightarrow>
   count_reports k s' = count_reports k s + (if cr_CommandID r = k then 1 else 0)"
  by (simp add: count_reports_def)

text \<open>An open command may be replaced by an open command, or be created.\<close>

lemma reports_ok_open:
  assumes ok: "reports_ok s"
    and c: "\<And>c. fmlookup (Commands s) k = Some c \<Longrightarrow> \<not> final_status (cmd_Status c)"
    and c': "\<not> final_status (cmd_Status c')"
    and s': "Commands s' = fmupd k c' (Commands s)" "CommandReports s' = CommandReports s"
  shows "reports_ok s'"
proof -
  have expected: "reports_expected j s' = reports_expected j s" for j
    using c c' by (auto simp: reports_expected_def s' split: option.split)
  have "\<exists>x. fmlookup (Commands s') (cr_CommandID r) = Some x \<and>
        cmd_Status x = cr_Status r \<and> cmd_FinishedAt x = Some (cr_ReceivedAt r)"
    if r: "r \<in> set (CommandReports s)" for r
  proof -
    from ok r obtain x where x: "fmlookup (Commands s) (cr_CommandID r) = Some x"
      "cmd_Status x = cr_Status r" "cmd_FinishedAt x = Some (cr_ReceivedAt r)"
      unfolding reports_ok_def by blast
    have "count_reports (cr_CommandID r) s \<noteq> 0"
      using r by (auto simp: count_reports_def filter_empty_conv)
    then have "final_status (cmd_Status x)"
      using ok x(1) by (auto simp: reports_ok_def reports_expected_def split: if_splits)
    then have "cr_CommandID r \<noteq> k" using c x(1) by auto
    with x show ?thesis by (simp add: s')
  qed
  then show ?thesis
    using ok expected by (simp add: reports_ok_def s'(2) count_reports_def)
qed

lemma reports_ok_close:
  assumes ok: "reports_ok s" and c: "fmlookup (Commands s) k = Some c"
    and opened: "\<not> final_status (cmd_Status c)"
    and c': "final_status (cmd_Status c')" "cmd_Status c' = cr_Status r"
      "cmd_FinishedAt c' = Some (cr_ReceivedAt r)" "cr_CommandID r = k"
    and s': "Commands s' = fmupd k c' (Commands s)" "CommandReports s' = CommandReports s @ [r]"
  shows "reports_ok s'"
proof -
  have none: "count_reports k s = 0"
    using ok c opened by (simp add: reports_ok_def reports_expected_def)
  then have other: "cr_CommandID q \<noteq> k" if "q \<in> set (CommandReports s)" for q
    using that by (auto simp: count_reports_def filter_empty_conv)
  have "count_reports j s' = reports_expected j s'" for j
    using ok none c'(1,4) count_reports_append [OF s'(2), of j]
    by (auto simp: reports_ok_def reports_expected_def s'(1))
  moreover have "\<exists>x. fmlookup (Commands s') (cr_CommandID q) = Some x \<and>
        cmd_Status x = cr_Status q \<and> cmd_FinishedAt x = Some (cr_ReceivedAt q)"
    if q: "q \<in> set (CommandReports s')" for q
  proof (cases "q = r")
    case True
    then show ?thesis using c' by (simp add: s')
  next
    case False
    then have "q \<in> set (CommandReports s)" using q by (simp add: s')
    then show ?thesis using ok other unfolding reports_ok_def s' by fastforce
  qed
  ultimately show ?thesis by (simp add: reports_ok_def)
qed

section \<open>The operations preserve the invariant\<close>

lemma registered_ok [wf_intros]:
  assumes ok: "store_ok s"
    and room: "role_count s (env_role_key (ri_Environment i) (ri_Role i)) < max_int"
  shows "store_ok (registered i now s)"
  using store_okD [OF ok] register_ok [OF _ room, of now]
    routes_ok_cong [of "registered i now s" s] commands_ok_cong [of "registered i now s" s]
    reports_ok_cong [of "registered i now s" s] deployments_ok_cong [of "registered i now s" s]
    served_cong [of "registered i now s" s] versioned_cong [of "registered i now s" s]
  by (simp add: store_ok_def register_frame)

lemma beaten_ok [wf_intros]:
  assumes ok: "store_ok s"
  shows "store_ok (beaten k raw now s)"
  using store_okD [OF ok] heartbeat_ok [of s k raw now]
    routes_ok_cong [of "beaten k raw now s" s] commands_ok_cong [of "beaten k raw now s" s]
    reports_ok_cong [of "beaten k raw now s" s] deployments_ok_cong [of "beaten k raw now s" s]
    served_cong [of "beaten k raw now s" s] versioned_cong [of "beaten k raw now s" s]
  by (simp add: store_ok_def beaten_frame)

lemma claimed_ok [wf_intros]:
  assumes ok: "store_ok s"
  shows "store_ok (claimed cid aid now s)"
proof -
  let ?t = "claimed cid aid now s"
  have ext: "commands_extend s ?t"
    by (rule commands_extend_stutter) (rule commands_stutter(1))
  have cmds: "commands_ok ?t \<and> reports_ok ?t"
  proof (cases "Commands ?t = Commands s")
    case True
    then show ?thesis
      using store_okD(3,4) [OF ok] commands_ok_cong [of ?t s] reports_ok_cong [of ?t s] by simp
  next
    case False
    then obtain c c' where c: "fmlookup (Commands s) cid = Some c" "has_phase Pending c"
        "c' = c\<lparr>cmd_Status := ''claimed'', cmd_ClaimedBy := cmd_TargetAgentID c,
               cmd_ClaimedAt := Some now\<rparr>" "Commands ?t = fmupd cid c' (Commands s)"
      by (auto simp: claimed_commands split: option.splits if_splits)
    have "commands_ok ?t"
      by (rule commands_ok_step [OF store_okD(3) [OF ok] c(1) _ c(4)])
        (use c(2,3) cmd_step.claim in simp_all)
    moreover have "reports_ok ?t"
      by (rule reports_ok_open [OF store_okD(4) [OF ok] _ _ c(4)])
        (use c in \<open>auto simp: final_status_def has_phase_def\<close>)
    ultimately show ?thesis by simp
  qed
  have "deployments_ok ?t"
    by (rule deployments_transfer [OF store_okD(5) [OF ok] ext]) simp_all
  then show ?thesis
    using store_okD [OF ok] cmds agents_ok_cong [of ?t s] routes_ok_cong [of ?t s]
      served_cong [of ?t s] versioned_cong [of ?t s]
    by (simp add: store_ok_def)
qed

lemma started_ok [wf_intros]:
  assumes ok: "store_ok s"
  shows "store_ok (started cid aid now s)"
proof -
  let ?t = "started cid aid now s"
  have ext: "commands_extend s ?t"
    by (rule commands_extend_stutter) (rule commands_stutter(2))
  have cmds: "commands_ok ?t \<and> reports_ok ?t"
  proof (cases "Commands ?t = Commands s")
    case True
    then show ?thesis
      using store_okD(3,4) [OF ok] commands_ok_cong [of ?t s] reports_ok_cong [of ?t s] by simp
  next
    case False
    then obtain c c' where c: "fmlookup (Commands s) cid = Some c" "has_phase Claimed c"
        "c' = c\<lparr>cmd_Status := ''running'', cmd_StartedAt := Some now\<rparr>"
        "Commands ?t = fmupd cid c' (Commands s)"
      by (auto simp: started_commands split: option.splits if_splits)
    have "commands_ok ?t"
      by (rule commands_ok_step [OF store_okD(3) [OF ok] c(1) _ c(4)])
        (use c(2,3) cmd_step.start in simp_all)
    moreover have "reports_ok ?t"
      by (rule reports_ok_open [OF store_okD(4) [OF ok] _ _ c(4)])
        (use c in \<open>auto simp: final_status_def has_phase_def\<close>)
    ultimately show ?thesis by simp
  qed
  have evo: "\<exists>d. fmlookup (Deployments s) k = Some d \<and>
      (d' = d \<or> d' = d\<lparr>dep_Status := ''deploying'', dep_UpdatedAt := now\<rparr> \<and>
                dep_Status d = ''command_created'')"
    if "fmlookup (Deployments ?t) k = Some d'" for k d'
    using that by (auto simp: started_deployments split: option.splits if_splits)
  have "deployments_ok ?t"
  proof (rule deployments_transfer [OF store_okD(5) [OF ok] ext])
    fix k d' assume "fmlookup (Deployments ?t) k = Some d'"
    from evo [OF this] obtain d where d: "fmlookup (Deployments s) k = Some d"
      "d' = d \<or> d' = d\<lparr>dep_Status := ''deploying'', dep_UpdatedAt := now\<rparr>" by blast
    have "route_fields_ok (RouteCount (Counters s)) d"
      using deployments_okD(2) [OF store_okD(5) [OF ok] d(1)] by (simp add: deployment_ok_def)
    then have "route_fields_ok (RouteCount (Counters s))
        (d\<lparr>dep_Status := ''deploying'', dep_UpdatedAt := now\<rparr>)"
      by (simp add: route_fields_ok_def wants_route_def)
    then have "dep_evolves (RouteCount (Counters ?t)) d
        (d\<lparr>dep_Status := ''deploying'', dep_UpdatedAt := now\<rparr>)"
      by (simp add: dep_evolves_def)
    with d show "\<exists>d. fmlookup (Deployments s) k = Some d \<and>
        (d' = d \<or> dep_evolves (RouteCount (Counters ?t)) d d')"
      by metis
  qed simp_all
  moreover have "routes_served ?t"
    by (rule served_transfer [OF store_okD(6) [OF ok]])
      (auto simp: started_deployments same_serving_def desired_obs_cong(1) [of ?t s]
        split: option.split)
  ultimately show ?thesis
    using store_okD [OF ok] cmds agents_ok_cong [of ?t s] routes_ok_cong [of ?t s]
      versioned_cong [of ?t s]
    by (simp add: store_ok_def)
qed

subsection \<open>Reports of commands\<close>

definition route_room :: "store \<Rightarrow> bool" where
  "route_room s \<longleftrightarrow> RouteCount (Counters s) < max_int \<and> (\<forall>e. current_version e s < max_int)"

lemma put_deployment_ok:
  assumes ok: "store_ok s" and d: "fmlookup (Deployments s) k = Some d"
    and evo: "dep_evolves (RouteCount (Counters s)) d d'" and srv: "same_serving d d'"
  shows "store_ok (put_deployment k d' s)"
proof -
  let ?t = "put_deployment k d' s"
  have "deployments_ok ?t"
    by (rule deployments_transfer [OF store_okD(5) [OF ok] commands_extend_same])
      (use d evo in \<open>auto split: if_splits\<close>)
  then show ?thesis
    using store_okD [OF ok] served_put_deployment [OF _ d srv] agents_ok_cong [of ?t s]
      commands_ok_cong [of ?t s] reports_ok_cong [of ?t s] versioned_cong [of ?t s]
    by (simp add: store_ok_def)
qed

lemma close_ok:
  assumes ok: "store_ok s" and cmd: "fmlookup (Commands s) cid = Some cmd"
    and acc: "accepts_report cmd inp"
  shows "store_ok (close_command cid inp cmd now s)"
proof -
  let ?t = "close_command cid inp cmd now s"
  let ?c = "cmd\<lparr>cmd_FinishedAt := Some now, cmd_Status := rci_Status inp\<rparr>"
  have step: "cmd_step cmd ?c" using acc by (auto simp: accepts_report_def intro: cmd_step.finish)
  have "commands_ok ?t"
    by (rule commands_ok_step [OF store_okD(3) [OF ok] cmd step]) simp_all
  moreover have "reports_ok ?t"
    by (rule reports_ok_close [OF store_okD(4) [OF ok] cmd cmd_step_not_final [OF step], of ?c])
      (use acc in \<open>simp_all add: close_command_def accepts_report_def\<close>)
  moreover have "commands_extend s ?t"
    using cmd step by (intro commands_extend_stutter) (auto simp: cmd_stutter_def)
  from deployments_transfer [OF store_okD(5) [OF ok] this] have "deployments_ok ?t" by simp
  ultimately show ?thesis
    using store_okD [OF ok] agents_ok_cong [of ?t s] served_cong [of ?t s] versioned_cong [of ?t s]
    by (simp add: store_ok_def)
qed

lemma fail_deployment_ok:
  assumes ok: "store_ok s"
  shows "store_ok (fail_deployment k now s)"
proof (cases "fail_deployment k now s = s")
  case False
  then obtain d where d: "fmlookup (Deployments s) k = Some d"
      "fail_deployment k now s =
         put_deployment k (d\<lparr>dep_Status := ''failed'', dep_UpdatedAt := now\<rparr>) s"
    by (auto simp: fail_deployment_def split: option.splits if_splits)
  have "route_fields_ok (RouteCount (Counters s)) d"
    using deployments_okD(2) [OF store_okD(5) [OF ok] d(1)] by (simp add: deployment_ok_def)
  then show ?thesis
    unfolding d(2)
    by (intro put_deployment_ok [OF ok d(1)])
      (simp_all add: dep_evolves_def route_fields_ok_def wants_route_def same_serving_def)
qed (use ok in simp)

text \<open>A change of the table that keeps what it kept: who is served after it.\<close>

lemma route_mem_for: "routes_ok s \<Longrightarrow> r \<in> set (routes_of s e) \<Longrightarrow> route_for s e (rt_Host r) = Some r"
  by (simp add: route_for_iff)

lemma published_ok:
  assumes ok: "store_ok s" and room: "route_room s" and dep: "fmlookup (Deployments s) k = Some dep"
    and wants: "wants_route dep"
    and evo: "dep_ID dep' = dep_ID dep" "dep_CommandID dep' = dep_CommandID dep"
      "dep_TargetAgentID dep' = dep_TargetAgentID dep" "dep_Environment dep' = dep_Environment dep"
      "dep_Host dep' = dep_Host dep" "dep_RequiresRoute dep' = dep_RequiresRoute dep"
      "dep_Status dep' = ''route_pending''"
      "dep_RouteID dep' = rt_ID (snd (publish_route k dep res s))"
      "result_upstream res = buildUpstream (dep_RuntimePrivateIP dep') (dep_HostPort dep')"
  shows "store_ok (put_deployment k dep'
           (incrementDesiredState (dep_Environment dep) (fst (publish_route k dep res s))))"
    (is "store_ok ?t")
proof -
  let ?e = "dep_Environment dep" and ?h = "dep_Host dep"
  let ?r = "snd (publish_route k dep res s)"
  let ?m = "incrementDesiredState ?e (fst (publish_route k dep res s))"
  note parts = store_okD [OF ok]
  have roomy: "RouteCount (Counters s) < max_int" "current_version e s < max_int" for e
    using room by (simp_all add: route_room_def)
  have look: "route_for ?m e' h' = (if (e', h') = (?e, ?h) then Some ?r else route_for s e' h')"
    and vers: "current_version e' ?m = current_version e' s + (if e' = ?e then 1 else 0)"
    and rok: "routes_ok ?m" for e' h'
    unfolding publish_route_def
    using gateway.upsert_publish [OF parts(2) roomy(1) roomy(2) [of ?e]] by blast+
  have mem: "(e', rt_Host r) = (?e, ?h) \<and> r = ?r \<or>
      (e', rt_Host r) \<noteq> (?e, ?h) \<and> r \<in> set (routes_of s e')"
    if "r \<in> set (routes_of ?m e')" for r e'
  proof -
    have eq: "Some r =
        (if (e', rt_Host r) = (?e, ?h) then Some ?r else route_for s e' (rt_Host r))"
      by (rule trans [OF route_mem_for [OF rok that, symmetric] look])
    show ?thesis
    proof (cases "(e', rt_Host r) = (?e, ?h)")
      case True
      with eq show ?thesis by simp
    next
      case False
      then have "route_for s e' (rt_Host r) = Some r" using eq by (simp only: if_False)
      then have "r \<in> set (routes_of s e')" using route_for_iff [OF parts(2)] by metis
      with False show ?thesis by simp
    qed
  qed
  have target: "rt_Upstream ?r = result_upstream res" "rt_DeploymentID ?r = k"
    unfolding publish_route_def using gateway.upsert_target by blast+
  have here: "?r \<in> set (routes_of ?m ?e)" "rt_Host ?r = ?h"
    using look [of ?e ?h] route_for_iff [OF rok, of ?e ?h ?r] by simp_all
  have "routes_served ?t"
    unfolding routes_served_def
  proof (intro allI ballI)
    fix e' r assume "r \<in> set (routes_of ?t e')"
    then have r: "r \<in> set (routes_of ?m e')" by simp
    show "\<exists>d. route_served ?t e' r d"
    proof (cases "r = ?r \<and> e' = ?e")
      case True
      then show ?thesis
        using here(2) target evo wants by (intro exI [of _ dep'])
          (simp add: route_served_def wants_route_def)
    next
      case False
      then have old: "r \<in> set (routes_of s e')" "(e', rt_Host r) \<noteq> (?e, ?h)"
        using mem [OF r] by auto
      then obtain d where d: "route_served s e' r d"
        using parts(6) by (auto simp: routes_served_def)
      then have "rt_DeploymentID r \<noteq> k" using old(2) dep by (auto simp: route_served_def)
      with d show ?thesis by (intro exI [of _ d]) (simp add: route_served_def publish_route_def)
    qed
  qed
  moreover have "routes_versioned ?t"
    unfolding routes_versioned_def
  proof (intro allI impI)
    fix e' assume "routes_of ?t e' \<noteq> []"
    then obtain r where "r \<in> set (routes_of ?m e')" by (cases "routes_of ?m e'") auto
    from mem [OF this] have "e' = ?e \<or> routes_of s e' \<noteq> []" by auto
    then show "1 \<le> current_version e' ?t"
      using parts(7) routes_okD(5) [OF parts(2), of e'] vers [of e']
      by (auto simp: routes_versioned_def)
  qed
  moreover have "deployments_ok ?t"
  proof (rule deployments_transfer [OF parts(5) commands_extend_same])
    have cnt: "RouteCount (Counters ?t) = RouteCount (Counters (fst (publish_route k dep res s)))"
      by simp
    show "RouteCount (Counters s) \<le> RouteCount (Counters ?t)"
    proof (cases "route_for s ?e ?h")
      case None
      show ?thesis
        unfolding cnt publish_route_def using upsert_new(3) [OF None] roomy(1) routes_okD(1) [OF parts(2)]
        by (simp add: s64_succ)
    next
      case (Some q)
      then obtain "Counters (fst (publish_route k dep res s)) = Counters s"
        unfolding publish_route_def by (rule upsert_existing)
      then show ?thesis by (simp add: cnt)
    qed
    have sig: "route_sig ?r \<in> set (route_sigs ?m ?e)"
      using here(1) by (simp add: route_sigs_def)
    have "\<exists>n. 1 \<le> n \<and> n \<le> RouteCount (Counters ?m) \<and> rt_ID ?r = ids_Route n"
      using routes_okD(3) [OF rok, of ?e] sig by (auto simp: sigs_ok_def route_sig_def)
    then have fields: "route_fields_ok (RouteCount (Counters ?t)) dep'"
      using evo wants route_ids.mk_nonempty [symmetric]
      by (auto simp: route_fields_ok_def wants_route_def)
    fix j d' assume "fmlookup (Deployments ?t) j = Some d'"
    then show "\<exists>d. fmlookup (Deployments s) j = Some d \<and>
        (d' = d \<or> dep_evolves (RouteCount (Counters ?t)) d d')"
      using fields evo dep by (cases "j = k") (auto simp: dep_evolves_def publish_route_def)
  qed (simp_all add: publish_route_def)
  ultimately show ?thesis
    using parts rok agents_ok_cong [of ?t s] commands_ok_cong [of ?t s] reports_ok_cong [of ?t s]
    by (simp add: store_ok_def publish_route_def)
qed

lemma unpublished_ok:
  assumes ok: "store_ok s" and room: "route_room s" and dep: "fmlookup (Deployments s) k = Some dep"
    and evo: "dep_ID dep' = dep_ID dep" "dep_CommandID dep' = dep_CommandID dep"
      "dep_TargetAgentID dep' = dep_TargetAgentID dep" "dep_Status dep' = ''removed''"
      "dep_RouteID dep' = ''''"
  shows "store_ok (put_deployment k dep'
           (incrementDesiredState (dep_Environment dep)
             (removeRoute (dep_Environment dep) (dep_RouteID dep) s)))"
    (is "store_ok ?t")
proof -
  let ?e = "dep_Environment dep"
  let ?m = "incrementDesiredState ?e (removeRoute ?e (dep_RouteID dep) s)"
  note parts = store_okD [OF ok]
  have roomy: "current_version e s < max_int" for e using room by (simp add: route_room_def)
  have vers: "current_version e' ?m = current_version e' s + (if e' = ?e then 1 else 0)"
    and rok: "routes_ok ?m" for e'
    using gateway.remove_publish [OF parts(2) roomy [of ?e]] by blast+
  have mem: "r \<in> set (routes_of s e') \<and> \<not> (e' = ?e \<and> rt_ID r = dep_RouteID dep)"
    if "r \<in> set (routes_of ?m e')" for r e'
    using that by (cases "e' = ?e") (auto simp: routes_remove routes_other_env)
  have "routes_served ?t"
    unfolding routes_served_def
  proof (intro allI ballI)
    fix e' r assume "r \<in> set (routes_of ?t e')"
    then have r: "r \<in> set (routes_of s e')" "\<not> (e' = ?e \<and> rt_ID r = dep_RouteID dep)"
      using mem [of r e'] by simp_all
    then obtain d where d: "route_served s e' r d"
      using parts(6) by (auto simp: routes_served_def)
    then have "rt_DeploymentID r \<noteq> k" using r(2) dep by (auto simp: route_served_def)
    with d show "\<exists>d. route_served ?t e' r d" by (intro exI [of _ d]) (simp add: route_served_def)
  qed
  moreover have "routes_versioned ?t"
    unfolding routes_versioned_def
  proof (intro allI impI)
    fix e' assume "routes_of ?t e' \<noteq> []"
    then obtain r where "r \<in> set (routes_of ?m e')" by (cases "routes_of ?m e'") auto
    then have "routes_of s e' \<noteq> []" using mem by force
    then show "1 \<le> current_version e' ?t"
      using parts(7) vers [of e'] by (force simp: routes_versioned_def)
  qed
  moreover have "deployments_ok ?t"
    by (rule deployments_transfer [OF parts(5) commands_extend_same])
      (use dep evo in \<open>auto simp: dep_evolves_def route_fields_ok_def split: if_splits\<close>)
  ultimately show ?thesis
    using parts rok agents_ok_cong [of ?t s] commands_ok_cong [of ?t s] reports_ok_cong [of ?t s]
    by (simp add: store_ok_def)
qed

lemma route_fields_keep:
  "route_fields_ok c d \<Longrightarrow> dep_RouteID d' = dep_RouteID d \<Longrightarrow> \<not> routed_status (dep_Status d') \<Longrightarrow>
   dep_RequiresRoute d' = dep_RequiresRoute d \<Longrightarrow> dep_Host d' = dep_Host d \<Longrightarrow>
   route_fields_ok c d'"
  by (simp add: route_fields_ok_def wants_route_def)

lemma applySucceeded_ok [wf_intros]:
  assumes ok: "store_ok s" and room: "route_room s"
  shows "store_ok (applySucceeded cmd k res n s)"
proof (cases rule: succeeded_cases [of cmd k res n s])
  case same
  with ok show ?thesis by simp
next
  case (alone dep dep')
  have "route_fields_ok (RouteCount (Counters s)) dep"
    using deployments_okD(2) [OF store_okD(5) [OF ok] alone(1)] by (simp add: deployment_ok_def)
  then have "route_fields_ok (RouteCount (Counters s)) dep'"
    by (rule route_fields_keep) (use alone in auto)
  then have "dep_evolves (RouteCount (Counters s)) dep dep'"
    using alone by (auto simp: dep_evolves_def)
  moreover have "same_serving dep dep'" using alone by (auto simp: same_serving_def)
  ultimately show ?thesis using put_deployment_ok [OF ok alone(1)] alone(2) by simp
next
  case (routed dep dep')
  show ?thesis unfolding routed(4) by (rule published_ok [OF ok room routed(1,2)]) (use routed in simp_all)
next
  case (unrouted dep dep')
  show ?thesis unfolding unrouted(4)
    by (rule unpublished_ok [OF ok room unrouted(1)]) (use unrouted in simp_all)
qed

lemma finished_ok [wf_intros]:
  assumes ok: "store_ok s" and room: "route_room s"
  shows "store_ok (finished cid inp now now' s)"
proof (cases rule: finished_cases [of cid inp now now' s])
  case rejected
  with ok show ?thesis by simp
next
  case (succeeded cmd)
  have "route_room (close_command cid inp cmd now s)"
    using room by (simp add: route_room_def)
  then show ?thesis
    unfolding succeeded(4) by (rule applySucceeded_ok [OF close_ok [OF ok succeeded(1,2)]])
next
  case (failed cmd)
  show ?thesis
    unfolding failed(4) by (rule fail_deployment_ok [OF close_ok [OF ok failed(1,2)]])
qed

subsection \<open>Reports of the gateways\<close>

lemma settle_same_serving: "same_serving d (settle_deployment e st n d)"
  by (simp add: settle_deployment_def same_serving_def)

lemma settle_evolves:
  assumes "route_fields_ok c d"
  shows "settle_deployment e st n d = d \<or> dep_evolves c d (settle_deployment e st n d)"
  using assms by (auto simp: settle_deployment_def dep_evolves_def route_fields_ok_def wants_route_def)

lemma reported_ok [wf_intros]:
  assumes ok: "store_ok s" and ord: "iter_order ord (Deployments s)"
  shows "store_ok (reported ord inp received now s)"
proof -
  let ?t = "reported ord inp received now s"
  let ?f = "settle_deployment (dri_Environment inp) (dri_Status inp) now"
  have deps: "Deployments ?t = Deployments s \<or> Deployments ?t = fmmap ?f (Deployments s)"
    by (simp add: reported_deployments settle_loop_fmmap [OF ord])
  have "deployments_ok ?t"
  proof (rule deployments_transfer [OF store_okD(5) [OF ok] commands_extend_same])
    fix k d' assume "fmlookup (Deployments ?t) k = Some d'"
    with deps obtain d where d: "fmlookup (Deployments s) k = Some d" "d' = d \<or> d' = ?f d" by auto
    have "route_fields_ok (RouteCount (Counters s)) d"
      using deployments_okD(2) [OF store_okD(5) [OF ok] d(1)] by (simp add: deployment_ok_def)
    from settle_evolves [OF this] d
    show "\<exists>d. fmlookup (Deployments s) k = Some d \<and>
        (d' = d \<or> dep_evolves (RouteCount (Counters ?t)) d d')"
      by auto
  qed simp_all
  moreover have "routes_served ?t"
    by (rule served_transfer [OF store_okD(6) [OF ok]])
      (use deps settle_same_serving in \<open>auto simp: desired_obs_cong(1) [of ?t s]\<close>)
  ultimately show ?thesis
    using store_okD [OF ok] agents_ok_cong [of ?t s] routes_ok_cong [of ?t s]
      commands_ok_cong [of ?t s] reports_ok_cong [of ?t s] versioned_cong [of ?t s]
    by (simp add: store_ok_def)
qed

subsection \<open>New commands and deployments\<close>

definition deployed :: "string list \<Rightarrow> deploy_input \<Rightarrow> time \<Rightarrow> store \<Rightarrow> store" where
  "deployed ord inp now s = fst (InitDeploy ord inp now s)"

definition created :: "create_command_input \<Rightarrow> time \<Rightarrow> store \<Rightarrow> store" where
  "created inp now s = fst (CreateCommand inp now s)"

lemma created_frame [frame_simps, simp]:
  "Agents (created inp now s) = Agents s" "AgentIndex (created inp now s) = AgentIndex s"
  "Deployments (created inp now s) = Deployments s"
  "CommandReports (created inp now s) = CommandReports s"
  "DesiredStates (created inp now s) = DesiredStates s"
  "DesiredStateReports (created inp now s) = DesiredStateReports s"
  "AgentByEnvironmentRole (Counters (created inp now s)) = AgentByEnvironmentRole (Counters s)"
  "DeploymentCount (Counters (created inp now s)) = DeploymentCount (Counters s)"
  "RouteCount (Counters (created inp now s)) = RouteCount (Counters s)"
  "DesiredStateVersionByEnvironment (Counters (created inp now s)) =
     DesiredStateVersionByEnvironment (Counters s)"
  by (simp_all add: created_def CreateCommand_store)

lemma deployed_frame [frame_simps, simp]:
  "Agents (deployed ord inp now s) = Agents s" "AgentIndex (deployed ord inp now s) = AgentIndex s"
  "CommandReports (deployed ord inp now s) = CommandReports s"
  "DesiredStates (deployed ord inp now s) = DesiredStates s"
  "DesiredStateReports (deployed ord inp now s) = DesiredStateReports s"
  "AgentByEnvironmentRole (Counters (deployed ord inp now s)) = AgentByEnvironmentRole (Counters s)"
  "RouteCount (Counters (deployed ord inp now s)) = RouteCount (Counters s)"
  "DesiredStateVersionByEnvironment (Counters (deployed ord inp now s)) =
     DesiredStateVersionByEnvironment (Counters s)"
  by (simp_all add: deployed_def InitDeploy_store)

lemma created_writes:
  assumes "commands_ok s" and "CommandCount (Counters s) < max_int"
  obtains c where "Commands (created inp now s) = fmupd (cmd_ID c) c (Commands s)"
    "c = snd (CreateCommand inp now s)"
    "cmd_ID c = ids_Command (CommandCount (Counters s) + 1)"
    "CommandCount (Counters (created inp now s)) = CommandCount (Counters s) + 1"
    "has_phase Pending c" "phase_fields Pending c"
proof -
  have "s64 (CommandCount (Counters s) + 1) = CommandCount (Counters s) + 1"
    using numbered_nonneg [OF commands_okD(1) [OF assms(1)]] assms(2) by (rule s64_succ)
  then show ?thesis
    by (intro that [of "snd (CreateCommand inp now s)"])
      (simp_all add: created_def CreateCommand_store CreateCommand_command deploy_ids_def
        has_phase_def)
qed

lemma deployed_writes:
  assumes "commands_ok s" "deployments_ok s" and "CommandCount (Counters s) < max_int"
    and "DeploymentCount (Counters s) < max_int"
  obtains c d where "Commands (deployed ord inp now s) = fmupd (cmd_ID c) c (Commands s)"
    "cmd_ID c = ids_Command (CommandCount (Counters s) + 1)"
    "CommandCount (Counters (deployed ord inp now s)) = CommandCount (Counters s) + 1"
    "has_phase Pending c" "phase_fields Pending c"
    "Deployments (deployed ord inp now s) = fmupd (dep_ID d) d (Deployments s)"
    "dep_ID d = ids_Deployment (DeploymentCount (Counters s) + 1)"
    "DeploymentCount (Counters (deployed ord inp now s)) = DeploymentCount (Counters s) + 1"
    "cmd_Type c = ''DEPLOY_APPLICATION''" "cmd_DeploymentID c = dep_ID d"
    "dep_CommandID d = cmd_ID c" "dep_TargetAgentID d = cmd_TargetAgentID c"
    "dep_Status d = ''command_created''" "dep_RouteID d = ''''"
proof -
  have n: "s64 (CommandCount (Counters s) + 1) = CommandCount (Counters s) + 1"
      "s64 (DeploymentCount (Counters s) + 1) = DeploymentCount (Counters s) + 1"
    using numbered_nonneg [OF commands_okD(1) [OF assms(1)]]
      numbered_nonneg [OF deployments_okD(1) [OF assms(2)]] assms(3,4) by (simp_all add: s64_succ)
  from InitDeploy_command [of ord inp now s] obtain p where p:
    "snd (snd (InitDeploy ord inp now s)) =
     \<lparr>cmd_ID = snd (deploy_ids s), cmd_Type = ''DEPLOY_APPLICATION'',
      cmd_DeploymentID = fst (deploy_ids s),
      cmd_TargetAgentID = di_TargetAgentID inp, cmd_Status = ''pending'',
      cmd_TimeoutSeconds = di_CommandTimeoutSeconds inp, cmd_Payload = Some p,
      cmd_CreatedAt = now, cmd_ClaimedAt = None, cmd_StartedAt = None,
      cmd_FinishedAt = None, cmd_ClaimedBy = ''''\<rparr>" by blast
  show ?thesis
    by (rule that [of "snd (snd (InitDeploy ord inp now s))" "fst (snd (InitDeploy ord inp now s))"])
      (simp_all add: deployed_def InitDeploy_store InitDeploy_deployment p deploy_ids_def
        has_phase_def n)
qed

lemma commands_extend_new:
  assumes "commands_ok s" "Commands s' = fmupd (ids_Command (CommandCount (Counters s) + 1)) c (Commands s)"
  shows "commands_extend s s'"
  using next_command_fresh [OF assms(1)] by (auto simp: commands_extend_def assms(2))

lemma reports_ok_new:
  assumes "commands_ok s" "reports_ok s" "has_phase Pending c"
    and "Commands s' = fmupd (ids_Command (CommandCount (Counters s) + 1)) c (Commands s)"
    and "CommandReports s' = CommandReports s"
  shows "reports_ok s'"
  by (rule reports_ok_open [OF assms(2) _ _ assms(4,5)])
    (use next_command_fresh [OF assms(1)] assms(3) in \<open>auto simp: has_phase_def final_status_def\<close>)

lemma created_ok [wf_intros]:
  assumes ok: "store_ok s" and room: "CommandCount (Counters s) < max_int"
  shows "store_ok (created inp now s)"
proof -
  let ?t = "created inp now s"
  note parts = store_okD [OF ok]
  from created_writes [OF parts(3) room] obtain c where
    c: "Commands ?t = fmupd (cmd_ID c) c (Commands s)"
      "cmd_ID c = ids_Command (CommandCount (Counters s) + 1)"
      "CommandCount (Counters ?t) = CommandCount (Counters s) + 1"
      "has_phase Pending c" "phase_fields Pending c" by metis
  have "commands_ok ?t" by (rule commands_ok_new [OF parts(3) c(2,4,5,1,3)])
  moreover have "reports_ok ?t"
    by (rule reports_ok_new [OF parts(3,4) c(4)]) (simp_all add: c(1,2))
  moreover have "deployments_ok ?t"
    by (rule deployments_transfer [OF parts(5) commands_extend_new [OF parts(3)]])
      (simp_all add: c(1,2))
  ultimately show ?thesis
    using parts agents_ok_cong [of ?t s] routes_ok_cong [of ?t s] served_cong [of ?t s]
      versioned_cong [of ?t s]
    by (simp add: store_ok_def)
qed

lemma deployed_ok [wf_intros]:
  assumes ok: "store_ok s" and room: "CommandCount (Counters s) < max_int"
    "DeploymentCount (Counters s) < max_int"
  shows "store_ok (deployed ord inp now s)"
proof -
  let ?t = "deployed ord inp now s"
  note parts = store_okD [OF ok]
  from deployed_writes [OF parts(3,5) room] obtain c d where
    c: "Commands ?t = fmupd (cmd_ID c) c (Commands s)"
      "cmd_ID c = ids_Command (CommandCount (Counters s) + 1)"
      "CommandCount (Counters ?t) = CommandCount (Counters s) + 1"
      "has_phase Pending c" "phase_fields Pending c"
    and d: "Deployments ?t = fmupd (dep_ID d) d (Deployments s)"
      "dep_ID d = ids_Deployment (DeploymentCount (Counters s) + 1)"
      "DeploymentCount (Counters ?t) = DeploymentCount (Counters s) + 1"
    and cd: "cmd_Type c = ''DEPLOY_APPLICATION''" "cmd_DeploymentID c = dep_ID d"
      "dep_CommandID d = cmd_ID c" "dep_TargetAgentID d = cmd_TargetAgentID c"
      "dep_Status d = ''command_created''" "dep_RouteID d = ''''" by metis
  have fresh: "fmlookup (Deployments s) (dep_ID d) = None"
    unfolding d(2) by (rule dep_ids.next_fresh [OF deployments_okD(1) [OF parts(5)]])
  have ext: "commands_extend s ?t"
    by (rule commands_extend_new [OF parts(3)]) (simp add: c(1,2))
  have "commands_ok ?t" by (rule commands_ok_new [OF parts(3) c(2,4,5,1,3)])
  moreover have "reports_ok ?t"
    by (rule reports_ok_new [OF parts(3,4) c(4)]) (simp_all add: c(1,2))
  moreover have "deployments_ok ?t"
  proof -
    have new: "deployment_ok ?t (dep_ID d) d"
      using cd c(1) by (auto simp: deployment_ok_def made_by_def route_fields_ok_def)
    have old: "deployment_ok ?t k x" if x: "fmlookup (Deployments s) k = Some x" for k x
    proof -
      have xok: "deployment_ok s k x" using parts(5) x by (rule deployments_okD)
      then obtain y where "made_by s k x y" by (auto simp: deployment_ok_def)
      then show ?thesis using made_by_extend [OF ext] xok by (simp add: deployment_ok_def)
    qed
    have "numbered ids_Deployment (DeploymentCount (Counters s) + 1)
        (fmupd (dep_ID d) d (Deployments s))"
      unfolding d(2) by (rule numbered_insert [OF deployments_okD(1) [OF parts(5)]])
    then show ?thesis using new old by (auto simp: deployments_ok_def d(1,3))
  qed
  moreover have "routes_served ?t"
    by (rule served_transfer [OF parts(6)])
      (use fresh in \<open>auto simp: d(1) desired_obs_cong(1) [of ?t s]\<close>)
  ultimately show ?thesis
    using parts agents_ok_cong [of ?t s] routes_ok_cong [of ?t s] versioned_cong [of ?t s]
    by (simp add: store_ok_def)
qed

end
