(* ===== verification/Snapshot.thy ===== *)
theory Snapshot
  imports Store_Invariant
begin

text \<open>
  \<open>internal/store/snapshot.go\<close> and \<open>internal/store/testing.go\<close>: the copy of the store that
  is persisted, restoring it, and the reset. A map of a snapshot may be nil, which is how
  a member that is missing from the file is decoded; the maps of the store never are. The
  entries of a map are not nil: a file that has \<open>null\<close> for an entry is not modelled.
\<close>

definition SchemaVersion :: int where
  "SchemaVersion = 1"

record counters_snapshot =
  cs_AgentByEnvironmentRole :: "int gomap option"
  cs_CommandCount :: int
  cs_DeploymentCount :: int
  cs_RouteCount :: int
  cs_DesiredStateVersionByEnvironment :: "int gomap option"

record snapshot =
  sn_SchemaVersion :: int
  sn_Agents :: "agent gomap option"
  sn_AgentIndex :: "string gomap option"
  sn_Commands :: "command gomap option"
  sn_Deployments :: "deployment gomap option"
  sn_CommandReports :: "command_report list"
  sn_DesiredStates :: "desired_state gomap option"
  sn_DesiredStateReports :: "desired_state_report list"
  sn_Counters :: counters_snapshot

text \<open>The orders in which the seven copy loops of \<open>Snapshot\<close> visit their maps.\<close>

record loop_orders =
  lo_agents :: "string list"
  lo_index :: "string list"
  lo_commands :: "string list"
  lo_deployments :: "string list"
  lo_desired :: "string list"
  lo_roles :: "string list"
  lo_versions :: "string list"

definition loop_orders_ok :: "loop_orders \<Rightarrow> store \<Rightarrow> bool" where
  "loop_orders_ok os s \<longleftrightarrow>
     iter_order (lo_agents os) (Agents s) \<and> iter_order (lo_index os) (AgentIndex s) \<and>
     iter_order (lo_commands os) (Commands s) \<and> iter_order (lo_deployments os) (Deployments s) \<and>
     iter_order (lo_desired os) (DesiredStates s) \<and>
     iter_order (lo_roles os) (AgentByEnvironmentRole (Counters s)) \<and>
     iter_order (lo_versions os) (DesiredStateVersionByEnvironment (Counters s))"

definition take_Snapshot :: "loop_orders \<Rightarrow> store \<Rightarrow> snapshot" where
  "take_Snapshot os s =
     (let agents = copy_map (\<lambda>a. a) (lo_agents os) (Agents s);
          agentIndex = copy_map (\<lambda>v. v) (lo_index os) (AgentIndex s);
          commands = copy_map (\<lambda>c. c) (lo_commands os) (Commands s);
          deployments = copy_map (\<lambda>d. d) (lo_deployments os) (Deployments s);
          desiredStates =
            copy_map (\<lambda>ds. ds\<lparr>ds_Routes := take (length (ds_Routes ds)) (ds_Routes ds)\<rparr>)
              (lo_desired os) (DesiredStates s);
          agentByEnvRole = copy_map (\<lambda>v. v) (lo_roles os) (AgentByEnvironmentRole (Counters s));
          desiredStateVersionByEnv =
            copy_map (\<lambda>v. v) (lo_versions os) (DesiredStateVersionByEnvironment (Counters s))
      in \<lparr>sn_SchemaVersion = SchemaVersion,
          sn_Agents = Some agents, sn_AgentIndex = Some agentIndex,
          sn_Commands = Some commands, sn_Deployments = Some deployments,
          sn_CommandReports = CommandReports s, sn_DesiredStates = Some desiredStates,
          sn_DesiredStateReports = DesiredStateReports s,
          sn_Counters =
            \<lparr>cs_AgentByEnvironmentRole = Some agentByEnvRole,
             cs_CommandCount = CommandCount (Counters s),
             cs_DeploymentCount = DeploymentCount (Counters s),
             cs_RouteCount = RouteCount (Counters s),
             cs_DesiredStateVersionByEnvironment = Some desiredStateVersionByEnv\<rparr>\<rparr>)"

definition or_make :: "'v gomap option \<Rightarrow> 'v gomap" where
  "or_make m = (case m of None \<Rightarrow> fmempty | Some m \<Rightarrow> m)"

definition Restore :: "snapshot \<Rightarrow> store \<Rightarrow> store" where
  "Restore snap s =
     (let c = sn_Counters snap in
      s\<lparr>Agents := or_make (sn_Agents snap), AgentIndex := or_make (sn_AgentIndex snap),
        Commands := or_make (sn_Commands snap), Deployments := or_make (sn_Deployments snap),
        CommandReports := sn_CommandReports snap,
        DesiredStates := or_make (sn_DesiredStates snap),
        DesiredStateReports := sn_DesiredStateReports snap,
        Counters :=
          \<lparr>AgentByEnvironmentRole = or_make (cs_AgentByEnvironmentRole c),
           CommandCount = cs_CommandCount c, DeploymentCount = cs_DeploymentCount c,
           RouteCount = cs_RouteCount c,
           DesiredStateVersionByEnvironment =
             or_make (cs_DesiredStateVersionByEnvironment c)\<rparr>\<rparr>)"

definition Reset :: "store \<Rightarrow> store" where
  "Reset s =
     s\<lparr>Agents := fmempty, AgentIndex := fmempty, Commands := fmempty, Deployments := fmempty,
       CommandReports := [], DesiredStates := fmempty, DesiredStateReports := [],
       Counters := \<lparr>AgentByEnvironmentRole = fmempty, CommandCount = 0, DeploymentCount = 0,
                    RouteCount = 0, DesiredStateVersionByEnvironment = fmempty\<rparr>\<rparr>"

section \<open>Lemmas\<close>

lemma or_make_Some [simp]: "or_make (Some m) = m"
  by (simp add: or_make_def)

lemma copy_map_ident: "iter_order ord m \<Longrightarrow> (\<And>v. f v = v) \<Longrightarrow> copy_map f ord m = m"
  by (simp add: copy_map_order fmmap_ident)

lemma restore_snapshot:
  assumes "loop_orders_ok os s"
  shows "Restore (take_Snapshot os s) t = s"
  using assms by (simp add: take_Snapshot_def Restore_def loop_orders_ok_def copy_map_ident Let_def)

lemma snapshot_schema [simp]: "sn_SchemaVersion (take_Snapshot os s) = SchemaVersion"
  by (simp add: take_Snapshot_def Let_def)

text \<open>A snapshot keeps all there is to know: two snapshots of one store are the same.\<close>

lemma snapshot_order_free:
  assumes "loop_orders_ok os s" and "loop_orders_ok os' s"
  shows "take_Snapshot os s = take_Snapshot os' s"
  using assms by (simp add: take_Snapshot_def loop_orders_ok_def copy_map_ident Let_def)

lemma Reset_New: "Reset s = store_New"
  by (simp add: Reset_def store_New_def zero_counters_def)

lemma loop_orders_exist: "\<exists>os. loop_orders_ok os s"
proof -
  obtain a i c d e r v where "iter_order a (Agents s)" "iter_order i (AgentIndex s)"
      "iter_order c (Commands s)" "iter_order d (Deployments s)" "iter_order e (DesiredStates s)"
      "iter_order r (AgentByEnvironmentRole (Counters s))"
      "iter_order v (DesiredStateVersionByEnvironment (Counters s))"
    using iter_order_exists by metis
  then have "loop_orders_ok \<lparr>lo_agents = a, lo_index = i, lo_commands = c, lo_deployments = d,
      lo_desired = e, lo_roles = r, lo_versions = v\<rparr> s"
    by (simp add: loop_orders_ok_def)
  then show ?thesis by blast
qed

end
