(* ===== verification/Store_Machine.thy ===== *)
theory Store_Machine
  imports Snapshot
begin

text \<open>
  The store as a state machine: one step per operation that writes, each under the store's
  lock and so atomic. The locales state what every run of a machine keeps: an invariant
  that a counter bound protects, and a relation between the states of a run. They are
  interpreted for the store with its invariant \<open>store_ok\<close> and with what an operation other
  than a reset never undoes.
\<close>

section \<open>Runs\<close>

locale bounded_machine =
  fixes init :: 's and step :: "'s \<Rightarrow> 's \<Rightarrow> bool" and inv :: "'s \<Rightarrow> bool"
    and within :: "int \<Rightarrow> 's \<Rightarrow> bool" and limit :: int
  assumes init_inv: "inv init" and init_within: "within 0 init"
    and step_inv: "inv s \<Longrightarrow> within n s \<Longrightarrow> n < limit \<Longrightarrow> step s t \<Longrightarrow> inv t"
    and step_within: "inv s \<Longrightarrow> within n s \<Longrightarrow> n < limit \<Longrightarrow> step s t \<Longrightarrow> within (n + 1) t"
begin

lemma run_inv_within:
  assumes "(step ^^ n) init s" and "int n \<le> limit"
  shows "inv s \<and> within (int n) s"
  using assms
proof (induction n arbitrary: s)
  case 0
  then show ?case using init_inv init_within by simp
next
  case (Suc n)
  then obtain r where r: "(step ^^ n) init r" "step r s" by auto
  then have "inv r \<and> within (int n) r" using Suc.IH [OF r(1)] Suc.prems(2) by simp
  then show ?case
    using step_inv [of r "int n" s] step_within [of r "int n" s] r(2) Suc.prems(2)
    by (simp add: add.commute)
qed

lemma run_inv: "(step ^^ n) init s \<Longrightarrow> int n \<le> limit \<Longrightarrow> inv s"
  using run_inv_within by blast

lemma run_within: "(step ^^ n) init s \<Longrightarrow> int n \<le> limit \<Longrightarrow> within (int n) s"
  using run_inv_within by blast

end

locale run_relation =
  fixes step :: "'s \<Rightarrow> 's \<Rightarrow> bool" and keeps :: "'s \<Rightarrow> 's \<Rightarrow> bool"
  assumes keeps_refl: "keeps s s"
    and keeps_trans: "keeps r s \<Longrightarrow> keeps s t \<Longrightarrow> keeps r t"
    and keeps_step: "step s t \<Longrightarrow> keeps s t"
begin

lemma run_keeps: "(step ^^ n) s t \<Longrightarrow> keeps s t"
  by (induction n arbitrary: t) (auto intro: keeps_refl keeps_trans keeps_step)

lemma star_keeps: "step\<^sup>*\<^sup>* s t \<Longrightarrow> keeps s t"
  by (induction rule: rtranclp_induct) (auto intro: keeps_refl keeps_trans keeps_step)

end

section \<open>The machine\<close>

inductive op_step :: "store \<Rightarrow> store \<Rightarrow> bool" where
  op_register: "op_step s (registered inp now s)"
| op_heartbeat: "op_step s (beaten k raw now s)"
| op_deploy: "iter_order ord (di_CustomLabels inp) \<Longrightarrow> op_step s (deployed ord inp now s)"
| op_create: "op_step s (created cinp now s)"
| op_claim: "op_step s (claimed cid aid now s)"
| op_start: "op_step s (started cid aid now s)"
| op_finish: "op_step s (finished cid rinp now now' s)"
| op_report: "iter_order ord (Deployments s) \<Longrightarrow> op_step s (reported ord dinp received now s)"

inductive_cases op_stepE: "op_step s t"

inductive store_step :: "store \<Rightarrow> store \<Rightarrow> bool" where
  step_op: "op_step s t \<Longrightarrow> store_step s t"
| step_reset: "store_step s (Reset s)"

inductive_simps store_step_iff: "store_step s t"

section \<open>Counters\<close>

definition counters_within :: "int \<Rightarrow> store \<Rightarrow> bool" where
  "counters_within n s \<longleftrightarrow>
     (\<forall>k. role_count s k \<le> n) \<and> CommandCount (Counters s) \<le> n \<and>
     DeploymentCount (Counters s) \<le> n \<and> RouteCount (Counters s) \<le> n \<and>
     (\<forall>e. current_version e s \<le> n)"

lemma counters_withinD:
  assumes "counters_within n s"
  shows "role_count s k \<le> n" "CommandCount (Counters s) \<le> n" "DeploymentCount (Counters s) \<le> n"
    "RouteCount (Counters s) \<le> n" "current_version e s \<le> n"
  using assms by (simp_all add: counters_within_def)

lemma counters_within_mono: "counters_within m s \<Longrightarrow> m \<le> n \<Longrightarrow> counters_within n s"
  unfolding counters_within_def by (meson order_trans)

lemma counters_within_New: "counters_within 0 store_New"
  by (simp add: counters_within_def store_New_def zero_counters_def role_count_def lookup_or_def
      current_version_def)

lemma within_room:
  assumes "counters_within n s" and "n < max_int"
  shows "route_room s" "role_count s k < max_int" "CommandCount (Counters s) < max_int"
    "DeploymentCount (Counters s) < max_int"
proof -
  note le = counters_withinD [OF assms(1)]
  show "role_count s k < max_int" "CommandCount (Counters s) < max_int"
    "DeploymentCount (Counters s) < max_int"
    using le(1) [of k] le(2,3) assms(2) by linarith+
  have "current_version e s < max_int" for e using le(5) [of e] assms(2) by linarith
  then show "route_room s" using le(4) assms(2) by (auto simp: route_room_def)
qed

lemma counters_within_same:
  assumes "counters_within n s" "Counters t = Counters s" "DesiredStates t = DesiredStates s"
  shows "counters_within (n + 1) t"
  using counters_within_mono [OF assms(1), of "n + 1"] desired_obs_cong(2) [OF assms(3)] assms(2)
  by (simp add: counters_within_def role_count_def)

lemma s64_le: "0 \<le> x \<Longrightarrow> x \<le> n \<Longrightarrow> n < max_int \<Longrightarrow> s64 (x + 1) \<le> n + 1"
  by (simp add: s64_succ)

lemma registered_within:
  assumes "counters_within n s" "n < max_int" "agents_ok s"
  shows "counters_within (n + 1) (registered i now s)"
proof -
  note le = counters_withinD [OF assms(1)]
  have "role_count (registered i now s) k \<le> n + 1" for k
    using le(1) [of k] s64_le [OF agents_okD(3) [OF assms(3), of k] le(1) assms(2)]
    by (auto simp: registered_def RegisterAgent_def role_count_def lookup_or_def Let_def
        split: option.split)
  moreover have "current_version e (registered i now s) = current_version e s" for e
    by (rule desired_obs_cong(2)) (simp add: register_frame)
  ultimately show ?thesis
    using le by (auto simp: counters_within_def register_frame intro: add_increasing2)
qed

lemma beaten_within: "counters_within n s \<Longrightarrow> counters_within (n + 1) (beaten k raw now s)"
  by (erule counters_within_same) (simp_all add: beaten_frame)

lemma claimed_within: "counters_within n s \<Longrightarrow> counters_within (n + 1) (claimed k a now s)"
  by (erule counters_within_same) simp_all

lemma started_within: "counters_within n s \<Longrightarrow> counters_within (n + 1) (started k a now s)"
  by (erule counters_within_same) simp_all

lemma reported_within: "counters_within n s \<Longrightarrow> counters_within (n + 1) (reported ord i t now s)"
  by (erule counters_within_same) simp_all

lemma created_within:
  assumes "counters_within n s" "n < max_int" "0 \<le> CommandCount (Counters s)"
  shows "counters_within (n + 1) (created i now s)"
proof -
  note le = counters_withinD [OF assms(1)]
  have "CommandCount (Counters (created i now s)) \<le> n + 1"
    using s64_le [OF assms(3) le(2) assms(2)] by (simp add: created_def CreateCommand_store)
  moreover have "current_version e (created i now s) = current_version e s" for e
    by (rule desired_obs_cong(2)) simp
  ultimately show ?thesis
    using le by (auto simp: counters_within_def role_count_def intro: add_increasing2)
qed

lemma deployed_within:
  assumes "counters_within n s" "n < max_int" "0 \<le> CommandCount (Counters s)"
    and "0 \<le> DeploymentCount (Counters s)"
  shows "counters_within (n + 1) (deployed ord i now s)"
proof -
  note le = counters_withinD [OF assms(1)]
  have "CommandCount (Counters (deployed ord i now s)) \<le> n + 1"
      "DeploymentCount (Counters (deployed ord i now s)) \<le> n + 1"
    using s64_le [OF assms(3) le(2) assms(2)] s64_le [OF assms(4) le(3) assms(2)]
    by (simp_all add: deployed_def InitDeploy_store)
  moreover have "current_version e (deployed ord i now s) = current_version e s" for e
    by (rule desired_obs_cong(2)) simp
  ultimately show ?thesis
    using le by (auto simp: counters_within_def role_count_def intro: add_increasing2)
qed

lemma upsert_route_count:
  assumes "0 \<le> RouteCount (Counters s)" "RouteCount (Counters s) \<le> n" "n < max_int"
  shows "RouteCount (Counters (fst (upsertRoute e h p u d c s))) \<le> n + 1"
proof (cases "route_for s e h")
  case None
  from s64_le [OF assms] show ?thesis by (simp add: upsert_new(3) [OF None])
next
  case (Some r)
  have "Counters (fst (upsertRoute e h p u d c s)) = Counters s"
    using upsert_existing [OF Some] by metis
  then show ?thesis using assms(2) by simp
qed

lemma succeeded_within:
  assumes within: "counters_within n s" and n: "n < max_int" and ok: "routes_ok s"
  shows "counters_within (n + 1) (applySucceeded cmd k res t s)"
proof -
  note le = counters_withinD [OF within]
  have up: "counters_within (n + 1) s" using within by (rule counters_within_mono) simp
  have ver: "current_version e (incrementDesiredState e' q) \<le> n + 1"
    if "\<And>e. current_version e q = current_version e s" for e e' q
    using that le(5) [of e] s64_le [OF routes_okD(5) [OF ok] le(5) n, of e']
    by (simp add: version_increment)
  show ?thesis
  proof (cases rule: succeeded_cases [of cmd k res t s])
    case same
    with up show ?thesis by simp
  next
    case (alone dep dep')
    with up show ?thesis by (simp add: counters_within_def role_count_def)
  next
    case (routed dep dep')
    have "RouteCount (Counters (fst (publish_route k dep res s))) \<le> n + 1"
      unfolding publish_route_def by (rule upsert_route_count [OF routes_okD(1) [OF ok] le(4) n])
    then show ?thesis
      using up ver by (simp add: routed(4) counters_within_def role_count_def publish_route_def)
  next
    case (unrouted dep dep')
    then show ?thesis using up ver by (simp add: counters_within_def role_count_def)
  qed
qed

lemma finished_within:
  assumes within: "counters_within n s" and n: "n < max_int" and ok: "routes_ok s"
  shows "counters_within (n + 1) (finished cid inp now now' s)"
proof -
  have up: "counters_within (n + 1) s" using within by (rule counters_within_mono) simp
  have closed: "counters_within n (close_command cid inp cmd now s)" for cmd
    using within by (simp add: counters_within_def role_count_def)
  show ?thesis
  proof (cases rule: finished_cases [of cid inp now now' s])
    case rejected
    with up show ?thesis by simp
  next
    case (succeeded cmd)
    show ?thesis
      unfolding succeeded(4) by (rule succeeded_within [OF closed n]) (simp add: ok)
  next
    case (failed cmd)
    show ?thesis
      unfolding failed(4) by (rule counters_within_same [OF closed]) simp_all
  qed
qed

section \<open>The invariant along every run\<close>

lemma op_step_ok:
  assumes "op_step s t" and ok: "store_ok s" and within: "counters_within n s" and n: "n < max_int"
  shows "store_ok t"
  using assms(1) within_room [OF within n] ok
  by (cases rule: op_step.cases) (auto intro: wf_intros)

lemma op_step_within:
  assumes "op_step s t" and ok: "store_ok s" and within: "counters_within n s" and n: "n < max_int"
  shows "counters_within (n + 1) t"
proof -
  note parts = store_okD [OF ok]
  note nonneg = numbered_nonneg [OF commands_okD(1) [OF parts(3)]]
    numbered_nonneg [OF deployments_okD(1) [OF parts(5)]]
  show ?thesis
    using assms(1)
    by (cases rule: op_step.cases)
      (use within n parts nonneg in \<open>auto intro: registered_within beaten_within deployed_within
        created_within claimed_within started_within finished_within reported_within\<close>)
qed

lemma store_step_ok:
  assumes "store_step s t" "store_ok s" "counters_within n s" "n < max_int"
  shows "store_ok t"
  using assms op_step_ok store_ok_New by (auto simp: store_step_iff Reset_New)

lemma store_step_within:
  assumes "store_step s t" "store_ok s" "counters_within n s" "n < max_int" "0 \<le> n"
  shows "counters_within (n + 1) t"
  using assms op_step_within counters_within_mono [OF counters_within_New]
  by (auto simp: store_step_iff Reset_New)

interpretation store_machine: bounded_machine store_New store_step store_ok
  "\<lambda>n s. 0 \<le> n \<and> counters_within n s" max_int
  by unfold_locales
    (auto intro: store_ok_New counters_within_New store_step_ok store_step_within)

section \<open>What the operations never undo\<close>

text \<open>
  The relations below hold between the states of a run without a reset, as long as no
  counter is at its maximum. \<open>live_step\<close> is a step from such a state.
\<close>

definition live_step :: "store \<Rightarrow> store \<Rightarrow> bool" where
  "live_step s t \<longleftrightarrow> op_step s t \<and> store_ok s \<and> counters_within (max_int - 1) s"

lemma live_room:
  assumes "live_step s t"
  shows "op_step s t" "store_ok s" "route_room s" "role_count s k < max_int"
    "CommandCount (Counters s) < max_int" "DeploymentCount (Counters s) < max_int"
  using assms within_room [of "max_int - 1" s] by (auto simp: live_step_def)

text \<open>A run of operations out of a reachable state consists of live steps.\<close>

lemma live_run:
  assumes "(store_step ^^ m) store_New s" and "(op_step ^^ n) s t" and "int (m + n) \<le> max_int"
  shows "(live_step ^^ n) s t \<and> (store_step ^^ (m + n)) store_New t"
  using assms(2,3)
proof (induction n arbitrary: t)
  case 0
  then show ?case using assms(1) by simp
next
  case (Suc n)
  then obtain r where r: "(op_step ^^ n) s r" "op_step r t" by auto
  then have run: "(live_step ^^ n) s r" "(store_step ^^ (m + n)) store_New r"
    using Suc by auto
  have "int (m + n) \<le> max_int - 1" using Suc.prems(2) by simp
  then have "store_ok r" "counters_within (max_int - 1) r"
    using store_machine.run_inv [OF run(2)] store_machine.run_within [OF run(2)]
      counters_within_mono by auto
  then have "live_step r t" using r(2) by (simp add: live_step_def)
  then show ?case using run step_op [OF r(2)] by auto
qed

subsection \<open>Agents\<close>

definition same_agent :: "agent \<Rightarrow> agent \<Rightarrow> bool" where
  "same_agent a a' \<longleftrightarrow>
     ag_ID a' = ag_ID a \<and> ag_Mode a' = ag_Mode a \<and> ag_Environment a' = ag_Environment a \<and>
     ag_Role a' = ag_Role a \<and> ag_InstanceID a' = ag_InstanceID a \<and>
     ag_RegisteredAt a' = ag_RegisteredAt a"

definition agents_keep :: "store \<Rightarrow> store \<Rightarrow> bool" where
  "agents_keep s t \<longleftrightarrow>
     fm_keeps same_agent (Agents s) (Agents t) \<and> fm_keeps (=) (AgentIndex s) (AgentIndex t)"

lemma same_agent_refl [simp]: "same_agent a a"
  by (simp add: same_agent_def)

lemma registered_keeps:
  assumes ok: "agents_ok s" and room: "role_count s (env_role_key (ri_Environment i) (ri_Role i)) < max_int"
  shows "agents_keep s (registered i now s)"
proof (cases "fmlookup (AgentIndex s) (key_of_input i)")
  case None
  let ?id = "ids_Agent (ri_Environment i) (ri_Role i)
    (s64 (role_count s (env_role_key (ri_Environment i) (ri_Role i)) + 1))"
  have "fmlookup (Agents s) ?id = None"
    using next_agent_fresh [OF ok, of "ri_Environment i" "ri_Role i"] room
      s64_succ [OF agents_okD(3) [OF ok]] by simp
  moreover obtain a where "Agents (registered i now s) = fmupd ?id a (Agents s)"
      "AgentIndex (registered i now s) = fmupd (key_of_input i) ?id (AgentIndex s)"
    using None by (simp add: registered_def RegisterAgent_def key_of_input_def Let_def
        role_count_def)
  ultimately show ?thesis using None by (auto simp: agents_keep_def intro: fm_keeps_new)
next
  case (Some k)
  obtain a where a: "fmlookup (Agents s) k = Some a" using agents_okD(2) [OF ok Some] by blast
  show ?thesis
    unfolding registered_def register_known [OF Some a] Let_def agents_keep_def
    using a by (auto intro!: fm_keeps_upd fm_keeps_refl simp: same_agent_def)
qed

lemma beaten_keeps: "agents_keep s (beaten k raw now s)"
  unfolding agents_keep_def beaten_def Heartbeat_def Let_def
  by (auto split: option.split intro!: fm_keeps_upd fm_keeps_refl simp: same_agent_def)

lemma agents_keep_frame: "Agents t = Agents s \<Longrightarrow> AgentIndex t = AgentIndex s \<Longrightarrow> agents_keep s t"
  by (simp add: agents_keep_def fm_keeps_refl)

lemma agents_keep_trans: "agents_keep r s \<Longrightarrow> agents_keep s t \<Longrightarrow> agents_keep r t"
  unfolding agents_keep_def by (auto elim!: fm_keeps_trans simp: same_agent_def)

interpretation agents_run: run_relation live_step agents_keep
proof unfold_locales
  fix s t assume live: "live_step s t"
  show "agents_keep s t"
    using live_room(1) [OF live] live_room(4) [OF live] store_okD(1) [OF live_room(2) [OF live]]
    by (cases rule: op_step.cases) (auto intro: registered_keeps beaten_keeps agents_keep_frame)
qed (auto intro: agents_keep_frame agents_keep_trans)

subsection \<open>Commands\<close>

definition commands_keep :: "store \<Rightarrow> store \<Rightarrow> bool" where
  "commands_keep s t \<longleftrightarrow> fm_keeps (cmd_step\<^sup>*\<^sup>*) (Commands s) (Commands t)"

lemma commands_keep_frame: "Commands t = Commands s \<Longrightarrow> commands_keep s t"
  by (simp add: commands_keep_def fm_keeps_refl)

lemma commands_keep_stutter:
  "(\<And>k c. fmlookup (Commands s) k = Some c \<Longrightarrow>
      \<exists>c'. fmlookup (Commands t) k = Some c' \<and> cmd_stutter c c') \<Longrightarrow> commands_keep s t"
  unfolding commands_keep_def fm_keeps_def cmd_stutter_def by blast

lemma commands_keep_new:
  assumes "commands_ok s" "Commands t = fmupd (ids_Command (CommandCount (Counters s) + 1)) c (Commands s)"
  shows "commands_keep s t"
  unfolding commands_keep_def assms(2) by (rule fm_keeps_new [OF _ next_command_fresh [OF assms(1)]]) simp

lemma commands_keep_live:
  assumes live: "live_step s t"
  shows "commands_keep s t"
proof -
  note room = live_room [OF live]
  note parts = store_okD [OF room(2)]
  from room(1) show ?thesis
  proof cases
    case (op_deploy ord inp now)
    then show ?thesis
      using deployed_writes [OF parts(3,5) room(5,6)] commands_keep_new [OF parts(3)] by metis
  next
    case (op_create cinp now)
    then show ?thesis using created_writes [OF parts(3) room(5)] commands_keep_new [OF parts(3)] by metis
  qed (auto intro: commands_keep_frame commands_keep_stutter commands_stutter
      simp: register_frame beaten_frame)
qed

lemma commands_keep_trans: "commands_keep r s \<Longrightarrow> commands_keep s t \<Longrightarrow> commands_keep r t"
  unfolding commands_keep_def by (erule fm_keeps_trans) auto

interpretation commands_run: run_relation live_step commands_keep
  by unfold_locales (auto intro: commands_keep_frame commands_keep_trans commands_keep_live)

lemma cmd_steps_final:
  assumes "cmd_step\<^sup>*\<^sup>* c c'" and "final_status (cmd_Status c)"
  shows "c' = c"
  using assms by (induction rule: converse_rtranclp_induct) (auto dest: cmd_step_not_final)

lemma cmd_steps_phase:
  assumes "cmd_step\<^sup>*\<^sup>* c c'" and "has_phase p c" and "has_phase q c'"
  shows "p \<le> q"
  using assms(1,3)
proof (induction arbitrary: q rule: rtranclp_induct)
  case base
  then show ?case using has_phase_unique [OF assms(2)] by simp
next
  case (step y z)
  from cmd_step_phase [OF step(2)] obtain a b where "has_phase a y" "has_phase b z" "a < b" by blast
  then show ?case using step.IH [of a] has_phase_unique [OF step.prems] by fastforce
qed

subsection \<open>Deployments\<close>

definition same_deployment :: "deployment \<Rightarrow> deployment \<Rightarrow> bool" where
  "same_deployment d d' \<longleftrightarrow>
     dep_ID d' = dep_ID d \<and> dep_Application d' = dep_Application d \<and>
     dep_Environment d' = dep_Environment d \<and> dep_Image d' = dep_Image d \<and>
     dep_Host d' = dep_Host d \<and> dep_TargetAgentID d' = dep_TargetAgentID d \<and>
     dep_CommandID d' = dep_CommandID d \<and> dep_ContainerName d' = dep_ContainerName d \<and>
     dep_RequiresRoute d' = dep_RequiresRoute d \<and> dep_CreatedAt d' = dep_CreatedAt d"

definition deployments_keep :: "store \<Rightarrow> store \<Rightarrow> bool" where
  "deployments_keep s t \<longleftrightarrow> fm_keeps same_deployment (Deployments s) (Deployments t)"

lemma same_deployment_refl [simp]: "same_deployment d d"
  by (simp add: same_deployment_def)

lemma deployments_keep_frame: "Deployments t = Deployments s \<Longrightarrow> deployments_keep s t"
  by (simp add: deployments_keep_def fm_keeps_refl)

lemma deployments_keep_trans: "deployments_keep r s \<Longrightarrow> deployments_keep s t \<Longrightarrow> deployments_keep r t"
  unfolding deployments_keep_def by (erule fm_keeps_trans) (auto simp: same_deployment_def)


lemma started_keeps: "deployments_keep s (started cid aid now s)"
  unfolding deployments_keep_def started_deployments
  by (auto split: option.split intro!: fm_keeps_upd fm_keeps_refl simp: same_deployment_def)

lemma reported_keeps:
  assumes "iter_order ord (Deployments s)"
  shows "deployments_keep s (reported ord inp received now s)"
  unfolding deployments_keep_def reported_deployments settle_loop_fmmap [OF assms]
  by (auto intro!: fm_keeps_map fm_keeps_refl simp: same_deployment_def settle_deployment_def)

text \<open>An accepted report writes no field that says what the deployment is.\<close>

lemma applySucceeded_keeps: "deployments_keep s (applySucceeded cmd k res n s)"
  unfolding applySucceeded_def Let_def deployments_keep_def
  by (auto split: option.split simp: case_prod_beta simp del: upsert_put remove_put increment_put
      intro!: fm_keeps_upd fm_keeps_refl simp: same_deployment_def)

lemma fail_deployment_keeps: "deployments_keep s (fail_deployment k now s)"
  unfolding fail_deployment_def deployments_keep_def
  by (auto split: option.split intro!: fm_keeps_upd fm_keeps_refl simp: same_deployment_def)

lemma finished_keeps: "deployments_keep s (finished cid inp now now' s)"
proof (cases rule: finished_cases [of cid inp now now' s])
  case (succeeded cmd)
  show ?thesis unfolding succeeded(4)
    by (rule deployments_keep_trans [OF _ applySucceeded_keeps]) (simp add: deployments_keep_frame)
next
  case (failed cmd)
  show ?thesis unfolding failed(4)
    by (rule deployments_keep_trans [OF _ fail_deployment_keeps]) (simp add: deployments_keep_frame)
qed (simp add: deployments_keep_frame)

lemma deployments_keep_live:
  assumes live: "live_step s t"
  shows "deployments_keep s t"
proof -
  note room = live_room [OF live]
  note parts = store_okD [OF room(2)]
  from room(1) show ?thesis
  proof cases
    case (op_deploy ord inp now)
    obtain d where "Deployments t = fmupd (dep_ID d) d (Deployments s)"
        "dep_ID d = ids_Deployment (DeploymentCount (Counters s) + 1)"
      using deployed_writes [OF parts(3,5) room(5,6)] op_deploy(1) by metis
    then show ?thesis
      unfolding deployments_keep_def
      by (simp add: fm_keeps_new dep_ids.next_fresh [OF deployments_okD(1) [OF parts(5)]])
  qed (auto intro: deployments_keep_frame started_keeps finished_keeps reported_keeps
      simp: register_frame beaten_frame)
qed

interpretation deployments_run: run_relation live_step deployments_keep
  by unfold_locales (auto intro: deployments_keep_frame deployments_keep_trans deployments_keep_live)

subsection \<open>Reports and versions\<close>

definition reports_keep :: "store \<Rightarrow> store \<Rightarrow> bool" where
  "reports_keep s t \<longleftrightarrow>
     (\<exists>xs. CommandReports t = CommandReports s @ xs) \<and>
     (\<exists>ys. DesiredStateReports t = DesiredStateReports s @ ys)"

lemma reports_keep_frame:
  "CommandReports t = CommandReports s \<Longrightarrow> DesiredStateReports t = DesiredStateReports s \<Longrightarrow>
   reports_keep s t"
  by (simp add: reports_keep_def)

lemma reports_keep_trans: "reports_keep r s \<Longrightarrow> reports_keep s t \<Longrightarrow> reports_keep r t"
  unfolding reports_keep_def by (metis append_assoc)

lemma finished_appends: "reports_keep s (finished cid inp now now' s)"
  by (cases rule: finished_cases [of cid inp now now' s])
    (simp_all add: reports_keep_def close_command_def)

lemma reported_appends: "reports_keep s (reported ord inp received now s)"
  by (simp add: reports_keep_def) (simp add: reported_def ApplyDesiredStateReport_def Let_def)

interpretation reports_run: run_relation op_step reports_keep
proof unfold_locales
  fix s t assume "op_step s t"
  then show "reports_keep s t"
    by (cases rule: op_step.cases) (auto intro: reports_keep_frame finished_appends reported_appends
        simp: register_frame beaten_frame)
qed (auto intro: reports_keep_frame reports_keep_trans)

definition versions_keep :: "store \<Rightarrow> store \<Rightarrow> bool" where
  "versions_keep s t \<longleftrightarrow>
     (\<forall>e. current_version e s \<le> current_version e t) \<and>
     (\<forall>e. current_version e s = current_version e t \<longrightarrow> routes_of s e = routes_of t e)"

lemma versions_keep_frame: "DesiredStates t = DesiredStates s \<Longrightarrow> versions_keep s t"
  using desired_obs_cong(1,2) [of t s] by (simp add: versions_keep_def)

lemma versions_keep_trans: "versions_keep r s \<Longrightarrow> versions_keep s t \<Longrightarrow> versions_keep r t"
  unfolding versions_keep_def by (metis order.antisym order.trans)

lemma succeeded_versions:
  assumes "routes_ok s" and "route_room s"
  shows "versions_keep s (applySucceeded cmd k res n s)"
proof -
  have v: "current_version e s < max_int" "RouteCount (Counters s) < max_int" for e
    using assms(2) by (simp_all add: route_room_def)
  show ?thesis
  proof (cases rule: succeeded_cases [of cmd k res n s])
    case (routed dep dep')
    show ?thesis
      unfolding routed(4) versions_keep_def publish_route_def desired_obs_put
        gateway.upsert_publish(2) [OF assms(1) v(2) v(1)]
      by (auto simp: routes_other_env)
  next
    case (unrouted dep dep')
    show ?thesis
      unfolding unrouted(4) versions_keep_def desired_obs_put
        gateway.remove_publish(2) [OF assms(1) v(1)]
      by (auto simp: routes_other_env)
  qed (simp_all add: versions_keep_frame)
qed

lemma finished_versions:
  assumes "routes_ok s" and "route_room s"
  shows "versions_keep s (finished cid inp now now' s)"
proof (cases rule: finished_cases [of cid inp now now' s])
  case (succeeded cmd)
  have "versions_keep (close_command cid inp cmd now s) (finished cid inp now now' s)"
    unfolding succeeded(4) by (rule succeeded_versions) (use assms in \<open>simp_all add: route_room_def\<close>)
  then show ?thesis by (rule versions_keep_trans [OF versions_keep_frame, rotated]) simp
qed (simp_all add: versions_keep_frame)

interpretation versions_run: run_relation live_step versions_keep
proof unfold_locales
  fix s t assume live: "live_step s t"
  show "versions_keep s t"
    using live_room(1,3) [OF live] store_okD(2) [OF live_room(2) [OF live]]
    by (cases rule: op_step.cases) (auto intro: versions_keep_frame finished_versions
        simp: register_frame beaten_frame)
qed (auto intro: versions_keep_frame versions_keep_trans)

end
