(* ===== verification/Examples.thy ===== *)
theory Examples
  imports Store_Machine
begin

text \<open>
  A concrete life of the store, used to show that the hypotheses of the properties can hold:
  an agent registers, an application is deployed behind a host name, its command is claimed,
  started and reported, a second deployment takes over the host, and the first is removed.
\<close>

definition ex_reg :: register_input where
  "ex_reg = \<lparr>ri_Mode = ''runtime'', ri_Environment = ''dev'', ri_Role = ''api'',
     ri_Hostname = ''host-1'', ri_InstanceID = ''inst-1'', ri_PrivateIP = ''10.0.0.5'',
     ri_PublicIP = None, ri_Version = ''0.1.0'', ri_Capabilities = None\<rparr>"

definition ex_agent :: string where
  "ex_agent = ''agent-dev-api-001''"

definition ex_dep :: deploy_input where
  "ex_dep = \<lparr>di_Application = ''billing'', di_Environment = ''dev'', di_Image = ''api:v1'',
     di_Host = ''b.local'', di_TargetAgentID = ex_agent, di_ContainerName = '''',
     di_ContainerInternalPort = 3000, di_HealthCheckPath = ''/health'', di_RequiresRoute = True,
     di_EnvironmentVariables = fmempty, di_CustomLabels = fmempty, di_CommandTimeoutSeconds = 600\<rparr>"

definition ex_report :: "string \<Rightarrow> report_command_input" where
  "ex_report port = \<lparr>rci_AgentID = ex_agent, rci_DeploymentID = '''', rci_Status = ''succeeded'',
     rci_Result = Some (JObj [(''runtime_private_ip'', JStr ''10.0.0.5''), (''host_port'', JNum port)]),
     rci_Error = None\<rparr>"

definition ex_remove :: create_command_input where
  "ex_remove = \<lparr>cc_Type = ''REMOVE_DEPLOYMENT'', cc_DeploymentID = ''dep-001'',
     cc_TargetAgentID = ex_agent, cc_TimeoutSeconds = 120, cc_Payload = None\<rparr>"

definition ex_1 :: store where "ex_1 = registered ex_reg 1 store_New"
definition ex_2 :: store where "ex_2 = deployed [] ex_dep 2 ex_1"
definition ex_3 :: store where "ex_3 = claimed ''cmd-001'' ex_agent 3 ex_2"
definition ex_4 :: store where "ex_4 = started ''cmd-001'' ex_agent 4 ex_3"
definition ex_5 :: store where "ex_5 = finished ''cmd-001'' (ex_report ''3001'') 5 6 ex_4"
definition ex_6 :: store where "ex_6 = deployed [] ex_dep 7 ex_5"
definition ex_7 :: store where "ex_7 = claimed ''cmd-002'' ex_agent 8 ex_6"
definition ex_8 :: store where "ex_8 = finished ''cmd-002'' (ex_report ''3002'') 9 10 ex_7"
definition ex_9 :: store where "ex_9 = created ex_remove 11 ex_8"
definition ex_10 :: store where "ex_10 = claimed ''cmd-003'' ex_agent 12 ex_9"

section \<open>The states\<close>

definition ex_c1 :: command where "ex_c1 = snd (snd (InitDeploy [] ex_dep 2 ex_1))"
definition ex_d1 :: deployment where "ex_d1 = fst (snd (InitDeploy [] ex_dep 2 ex_1))"
definition ex_c2 :: command where "ex_c2 = snd (snd (InitDeploy [] ex_dep 7 ex_5))"
definition ex_d2 :: deployment where "ex_d2 = fst (snd (InitDeploy [] ex_dep 7 ex_5))"
definition ex_c3 :: command where "ex_c3 = snd (CreateCommand ex_remove 11 ex_8)"

lemma ex_ids [simp]:
  "ids_Command 1 = ''cmd-001''" "ids_Command 2 = ''cmd-002''" "ids_Command 3 = ''cmd-003''"
  "ids_Deployment 1 = ''dep-001''" "ids_Deployment 2 = ''dep-002''" "ids_Route 1 = ''route-001''"
  "ids_Agent ''dev'' ''api'' 1 = ''agent-dev-api-001''"
  by (simp_all add: ids_Command_def ids_Deployment_def ids_Route_def ids_Agent_def fmt_eval
      eval_nat_numeral)

lemma ex_s64 [simp]: "s64 1 = 1" "s64 2 = 2" "s64 3 = 3"
  by (simp_all add: s64_def)

lemma ex_1_simps [simp]:
  "Commands ex_1 = fmempty" "Deployments ex_1 = fmempty" "CommandReports ex_1 = []"
  "DesiredStates ex_1 = fmempty" "DesiredStateReports ex_1 = []"
  "CommandCount (Counters ex_1) = 0" "DeploymentCount (Counters ex_1) = 0"
  "RouteCount (Counters ex_1) = 0" "AgentIndex ex_1 = fmupd ''inst-1:runtime:dev:api'' ex_agent fmempty"
  by (simp_all add: ex_1_def register_frame store_New_def zero_counters_def)
    (simp add: registered_def RegisterAgent_def store_New_def zero_counters_def ex_reg_def agentKey_def
      Let_def lookup_or_def ex_agent_def)

lemma ex_c1_simps [simp]:
  "cmd_ID ex_c1 = ''cmd-001''" "cmd_Type ex_c1 = ''DEPLOY_APPLICATION''"
  "cmd_Status ex_c1 = ''pending''" "cmd_TargetAgentID ex_c1 = ex_agent"
  "cmd_DeploymentID ex_c1 = ''dep-001''"
  by (simp_all add: ex_c1_def InitDeploy_def Let_def ex_dep_def)

lemma ex_d1_simps [simp]:
  "dep_ID ex_d1 = ''dep-001''" "dep_Environment ex_d1 = ''dev''" "dep_Host ex_d1 = ''b.local''"
  "dep_Status ex_d1 = ''command_created''" "dep_RequiresRoute ex_d1" "dep_RouteID ex_d1 = ''''"
  "dep_HealthCheckPath ex_d1 = ''/health''"
  by (simp_all add: ex_d1_def InitDeploy_deployment ex_dep_def deploy_ids_def)

lemma ex_2_simps [simp]:
  "Commands ex_2 = fmupd ''cmd-001'' ex_c1 fmempty"
  "Deployments ex_2 = fmupd ''dep-001'' ex_d1 fmempty" "DesiredStates ex_2 = fmempty"
  "CommandCount (Counters ex_2) = 1" "DeploymentCount (Counters ex_2) = 1"
  "RouteCount (Counters ex_2) = 0"
  by (simp_all add: ex_2_def)
    (simp_all add: deployed_def InitDeploy_store deploy_ids_def flip: ex_c1_def ex_d1_def)

lemma ex_3_simps [simp]:
  "Commands ex_3 = fmupd ''cmd-001'' (ex_c1\<lparr>cmd_Status := ''claimed'', cmd_ClaimedBy := ex_agent,
     cmd_ClaimedAt := Some 3\<rparr>) fmempty"
  "Deployments ex_3 = fmupd ''dep-001'' ex_d1 fmempty" "DesiredStates ex_3 = fmempty"
  "Counters ex_3 = Counters ex_2"
  by (simp_all add: ex_3_def claimed_commands has_phase_def)

lemma ex_4_simps [simp]:
  "Commands ex_4 = fmupd ''cmd-001'' (ex_c1\<lparr>cmd_ClaimedBy := ex_agent,
     cmd_ClaimedAt := Some 3, cmd_Status := ''running'', cmd_StartedAt := Some 4\<rparr>) fmempty"
  "Deployments ex_4 =
     fmupd ''dep-001'' (ex_d1\<lparr>dep_Status := ''deploying'', dep_UpdatedAt := 4\<rparr>) fmempty"
  "DesiredStates ex_4 = fmempty" "Counters ex_4 = Counters ex_2"
  by (simp_all add: ex_4_def started_commands started_deployments has_phase_def)


lemma ex_result [simp]:
  "res_RuntimePrivateIP (read_result (rci_Result (ex_report ''3001''))) = ''10.0.0.5''"
  "res_HostPort (read_result (rci_Result (ex_report ''3001''))) = 3001"
  "res_RuntimePrivateIP (read_result (rci_Result (ex_report ''3002''))) = ''10.0.0.5''"
  "res_HostPort (read_result (rci_Result (ex_report ''3002''))) = 3002"
  by (simp_all add: ex_report_def) (code_simp, code_simp, code_simp, code_simp)

lemma ex_upstream [simp]:
  "result_upstream (rci_Result (ex_report ''3001'')) = ''10.0.0.5:3001''"
  "result_upstream (rci_Result (ex_report ''3002'')) = ''10.0.0.5:3002''"
  by (simp_all add: result_upstream_def buildUpstream_def fmt_eval)

lemma ex_report_simps [simp]:
  "rci_Status (ex_report p) = ''succeeded''" "rci_DeploymentID (ex_report p) = ''''"
  by (simp_all add: ex_report_def)

lemma ex_accepts [simp]:
  "accepts_report c (ex_report p) \<longleftrightarrow> has_phase Claimed c \<or> has_phase Running c"
  "effective_dep (ex_report p) c = cmd_DeploymentID c"
  by (simp_all add: accepts_report_def effective_dep_def final_status_def)

lemmas ex_report_eval = has_phase_def succeeded_deploy_routed wants_route_def publish_route_def
  desired_internal Let_def empty_desired_state_def

lemma ex_5_simps [simp]:
  "Commands ex_5 = fmupd ''cmd-001'' (ex_c1\<lparr>cmd_ClaimedBy := ex_agent,
     cmd_ClaimedAt := Some 3, cmd_StartedAt := Some 4, cmd_FinishedAt := Some 5,
     cmd_Status := ''succeeded''\<rparr>) fmempty"
  "Deployments ex_5 = fmupd ''dep-001'' (ex_d1\<lparr>dep_RuntimePrivateIP := ''10.0.0.5'',
     dep_HostPort := 3001, dep_RouteID := ''route-001'', dep_Status := ''route_pending'',
     dep_UpdatedAt := 6\<rparr>) fmempty"
  "DesiredStates ex_5 = fmupd ''dev'' \<lparr>ds_Version = 1, ds_Type = ''gateway_routes'',
     ds_Environment = ''dev'', ds_Routes = [\<lparr>rt_ID = ''route-001'', rt_Environment = ''dev'',
       rt_Host = ''b.local'', rt_Path = ''/'', rt_Upstream = ''10.0.0.5:3001'',
       rt_DeploymentID = ''dep-001'', rt_HealthCheckPath = ''/health''\<rparr>]\<rparr> fmempty"
  "CommandCount (Counters ex_5) = 1" "DeploymentCount (Counters ex_5) = 1"
  "RouteCount (Counters ex_5) = 1"
  by (simp_all add: ex_5_def report_accepted(1) [of ex_4 "''cmd-001''" "ex_c1\<lparr>cmd_ClaimedBy := ex_agent,
     cmd_ClaimedAt := Some 3, cmd_Status := ''running'', cmd_StartedAt := Some 4\<rparr>"] ex_report_eval
     finished_commands)

lemma ex_c2_simps [simp]:
  "cmd_ID ex_c2 = ''cmd-002''" "cmd_Type ex_c2 = ''DEPLOY_APPLICATION''"
  "cmd_Status ex_c2 = ''pending''" "cmd_TargetAgentID ex_c2 = ex_agent"
  "cmd_DeploymentID ex_c2 = ''dep-002''"
  by (simp_all add: ex_c2_def InitDeploy_def Let_def ex_dep_def)

lemma ex_d2_simps [simp]:
  "dep_ID ex_d2 = ''dep-002''" "dep_Environment ex_d2 = ''dev''" "dep_Host ex_d2 = ''b.local''"
  "dep_Status ex_d2 = ''command_created''" "dep_RequiresRoute ex_d2" "dep_RouteID ex_d2 = ''''"
  "dep_HealthCheckPath ex_d2 = ''/health''"
  by (simp_all add: ex_d2_def InitDeploy_deployment ex_dep_def deploy_ids_def)

lemma ex_6_simps [simp]:
  "Commands ex_6 = fmupd ''cmd-002'' ex_c2 (Commands ex_5)"
  "Deployments ex_6 = fmupd ''dep-002'' ex_d2 (Deployments ex_5)"
  "DesiredStates ex_6 = DesiredStates ex_5"
  "CommandCount (Counters ex_6) = 2" "DeploymentCount (Counters ex_6) = 2"
  "RouteCount (Counters ex_6) = 1"
  by (simp_all add: ex_6_def)
    (simp_all add: deployed_def InitDeploy_store deploy_ids_def flip: ex_c2_def ex_d2_def)

lemma ex_7_simps [simp]:
  "fmlookup (Commands ex_7) ''cmd-002'' = Some (ex_c2\<lparr>cmd_Status := ''claimed'',
     cmd_ClaimedBy := ex_agent, cmd_ClaimedAt := Some 8\<rparr>)"
  "Deployments ex_7 = Deployments ex_6" "DesiredStates ex_7 = DesiredStates ex_5"
  "Counters ex_7 = Counters ex_6"
  by (simp_all add: ex_7_def claimed_commands has_phase_def)

lemma ex_8_simps [simp]:
  "fmlookup (Deployments ex_8) ''dep-001'' = Some (ex_d1\<lparr>dep_RuntimePrivateIP := ''10.0.0.5'',
     dep_HostPort := 3001, dep_RouteID := ''route-001'', dep_Status := ''route_pending'',
     dep_UpdatedAt := 6\<rparr>)"
  "fmlookup (Deployments ex_8) ''dep-002'' = Some (ex_d2\<lparr>dep_RuntimePrivateIP := ''10.0.0.5'',
     dep_HostPort := 3002, dep_RouteID := ''route-001'', dep_Status := ''route_pending'',
     dep_UpdatedAt := 10\<rparr>)"
  "DesiredStates ex_8 = fmupd ''dev'' \<lparr>ds_Version = 2, ds_Type = ''gateway_routes'',
     ds_Environment = ''dev'', ds_Routes = [\<lparr>rt_ID = ''route-001'', rt_Environment = ''dev'',
       rt_Host = ''b.local'', rt_Path = ''/'', rt_Upstream = ''10.0.0.5:3002'',
       rt_DeploymentID = ''dep-002'', rt_HealthCheckPath = ''/health''\<rparr>]\<rparr> fmempty"
  "CommandCount (Counters ex_8) = 2" "DeploymentCount (Counters ex_8) = 2"
  "RouteCount (Counters ex_8) = 1"
  by (simp_all add: ex_8_def report_accepted(1) [of ex_7 "''cmd-002''" "ex_c2\<lparr>cmd_Status := ''claimed'',
     cmd_ClaimedBy := ex_agent, cmd_ClaimedAt := Some 8\<rparr>"] ex_report_eval)

lemma ex_c3_simps [simp]:
  "cmd_ID ex_c3 = ''cmd-003''" "cmd_Type ex_c3 = ''REMOVE_DEPLOYMENT''"
  "cmd_Status ex_c3 = ''pending''" "cmd_TargetAgentID ex_c3 = ex_agent"
  "cmd_DeploymentID ex_c3 = ''dep-001''"
  by (simp_all add: ex_c3_def CreateCommand_command deploy_ids_def ex_remove_def)

lemma ex_9_simps [simp]:
  "fmlookup (Commands ex_9) ''cmd-003'' = Some ex_c3"
  "Deployments ex_9 = Deployments ex_8" "DesiredStates ex_9 = DesiredStates ex_8"
  "CommandCount (Counters ex_9) = 3" "DeploymentCount (Counters ex_9) = 2"
  "RouteCount (Counters ex_9) = 1"
  by (simp_all add: ex_9_def)
    (simp_all add: created_def CreateCommand_store deploy_ids_def flip: ex_c3_def)

lemma ex_10_simps [simp]:
  "fmlookup (Commands ex_10) ''cmd-003'' = Some (ex_c3\<lparr>cmd_Status := ''claimed'',
     cmd_ClaimedBy := ex_agent, cmd_ClaimedAt := Some 12\<rparr>)"
  "Deployments ex_10 = Deployments ex_8" "DesiredStates ex_10 = DesiredStates ex_8"
  "Counters ex_10 = Counters ex_9"
  by (simp_all add: ex_10_def claimed_commands has_phase_def)

section \<open>The run\<close>

lemma ex_orders [simp]:
  "di_CustomLabels ex_dep = fmempty" "iter_order [] (fmempty :: 'v gomap)"
  by (simp_all add: ex_dep_def iter_order_def)

lemma ex_steps:
  "op_step store_New ex_1" "op_step ex_1 ex_2" "op_step ex_2 ex_3" "op_step ex_3 ex_4"
  "op_step ex_4 ex_5" "op_step ex_5 ex_6" "op_step ex_6 ex_7" "op_step ex_7 ex_8"
  "op_step ex_8 ex_9" "op_step ex_9 ex_10"
  unfolding ex_1_def ex_2_def ex_3_def ex_4_def ex_5_def ex_6_def ex_7_def ex_8_def ex_9_def ex_10_def
  by (intro op_step.intros; simp)+

lemma ex_runs:
  "(op_step ^^ 1) store_New ex_1" "(op_step ^^ 4) store_New ex_4" "(op_step ^^ 5) store_New ex_5"
  "(op_step ^^ 8) store_New ex_8" "(op_step ^^ 10) store_New ex_10"
  "(op_step ^^ 1) ex_4 ex_5" "(op_step ^^ 3) ex_5 ex_8"
proof -
  have run_next: "(op_step ^^ (n + 1)) s u" if "(op_step ^^ n) s t" "op_step t u" for n s t u
    using that by auto
  have 1: "(op_step ^^ 1) store_New ex_1" and 45: "(op_step ^^ 1) ex_4 ex_5"
    and 56: "(op_step ^^ 1) ex_5 ex_6"
    using ex_steps by (simp_all only: relpowp_1)
  have 4: "(op_step ^^ (1 + 1 + 1 + 1)) store_New ex_4"
    by (intro run_next [OF _ ex_steps(4)] run_next [OF _ ex_steps(3)] run_next [OF _ ex_steps(2)] 1)
  have 5: "(op_step ^^ (1 + 1 + 1 + 1 + 1)) store_New ex_5" by (rule run_next [OF 4 ex_steps(5)])
  have 8: "(op_step ^^ (1 + 1 + 1 + 1 + 1 + 1 + 1 + 1)) store_New ex_8"
    by (intro run_next [OF _ ex_steps(8)] run_next [OF _ ex_steps(7)] run_next [OF _ ex_steps(6)] 5)
  have 10: "(op_step ^^ (1 + 1 + 1 + 1 + 1 + 1 + 1 + 1 + 1 + 1)) store_New ex_10"
    by (intro run_next [OF _ ex_steps(10)] run_next [OF _ ex_steps(9)] 8)
  have 58: "(op_step ^^ (1 + 1 + 1)) ex_5 ex_8"
    by (intro run_next [OF _ ex_steps(8)] run_next [OF _ ex_steps(7)] 56)
  from 1 4 5 8 10 45 58 show "(op_step ^^ 1) store_New ex_1" "(op_step ^^ 4) store_New ex_4"
    "(op_step ^^ 5) store_New ex_5" "(op_step ^^ 8) store_New ex_8" "(op_step ^^ 10) store_New ex_10"
    "(op_step ^^ 1) ex_4 ex_5" "(op_step ^^ 3) ex_5 ex_8"
    by (simp_all only: numeral_plus_one semiring_norm one_add_one one_plus_numeral)
qed

lemma op_runs: "(op_step ^^ n) s t \<Longrightarrow> (store_step ^^ n) s t"
  by (induction n arbitrary: t) (auto intro: step_op)

lemma ex_ok: "store_ok ex_1" "store_ok ex_4" "store_ok ex_5" "store_ok ex_8" "store_ok ex_10"
  using ex_runs(1-5) [THEN op_runs, THEN store_machine.run_inv] by (simp_all add: max_int_def)

lemma ex_ok_2: "store_ok ex_2"
proof -
  have "(op_step ^^ Suc 1) store_New ex_2" using ex_runs(1) ex_steps(2) by (rule relpowp_Suc_I)
  from store_machine.run_inv [OF op_runs [OF this]] show ?thesis by (simp add: max_int_def)
qed

lemma ex_room: "route_room ex_4" "route_room ex_8" "route_room ex_10"
  by (simp_all add: route_room_def current_version_def max_int_def)

text \<open>The commands and deployments the properties are tried on.\<close>

definition ex_cmd4 :: command where
  "ex_cmd4 = ex_c1\<lparr>cmd_ClaimedBy := ex_agent, cmd_ClaimedAt := Some 3,
     cmd_Status := ''running'', cmd_StartedAt := Some 4\<rparr>"

definition ex_dep4 :: deployment where
  "ex_dep4 = ex_d1\<lparr>dep_Status := ''deploying'', dep_UpdatedAt := 4\<rparr>"

definition ex_cmd10 :: command where
  "ex_cmd10 = ex_c3\<lparr>cmd_Status := ''claimed'', cmd_ClaimedBy := ex_agent, cmd_ClaimedAt := Some 12\<rparr>"

definition ex_dep10 :: deployment where
  "ex_dep10 = ex_d1\<lparr>dep_RuntimePrivateIP := ''10.0.0.5'', dep_HostPort := 3001,
     dep_RouteID := ''route-001'', dep_Status := ''route_pending'', dep_UpdatedAt := 6\<rparr>"

lemma ex_cmd4_simps:
  "fmlookup (Commands ex_4) ''cmd-001'' = Some ex_cmd4" "cmd_Type ex_cmd4 = ''DEPLOY_APPLICATION''"
  "has_phase Running ex_cmd4" "cmd_DeploymentID ex_cmd4 = ''dep-001''"
  "fmlookup (Deployments ex_4) ''dep-001'' = Some ex_dep4" "dep_Environment ex_dep4 = ''dev''"
  "dep_Host ex_dep4 = ''b.local''" "dep_RequiresRoute ex_dep4"
  by (simp_all add: ex_cmd4_def ex_dep4_def has_phase_def)

lemma ex_cmd10_simps:
  "fmlookup (Commands ex_10) ''cmd-003'' = Some ex_cmd10" "cmd_Type ex_cmd10 = ''REMOVE_DEPLOYMENT''"
  "has_phase Claimed ex_cmd10" "cmd_DeploymentID ex_cmd10 = ''dep-001''"
  "fmlookup (Deployments ex_10) ''dep-001'' = Some ex_dep10" "dep_Environment ex_dep10 = ''dev''"
  "dep_Host ex_dep10 = ''b.local''" "dep_RouteID ex_dep10 = ''route-001''"
  by (simp_all add: ex_cmd10_def ex_dep10_def has_phase_def)

text \<open>The agent.\<close>

definition ex_a1 :: agent where
  "ex_a1 = \<lparr>ag_ID = ex_agent, ag_Mode = ''runtime'', ag_Environment = ''dev'', ag_Role = ''api'',
     ag_Hostname = ''host-1'', ag_InstanceID = ''inst-1'', ag_PrivateIP = ''10.0.0.5'',
     ag_PublicIP = None, ag_Version = ''0.1.0'', ag_Status = ''online'', ag_Capabilities = None,
     ag_LastHeartbeat = None, ag_RegisteredAt = 1, ag_LastSeenAt = 1\<rparr>"

lemma ex_agents [simp]:
  "Agents ex_1 = fmupd ''agent-dev-api-001'' ex_a1 fmempty" "Agents ex_2 = Agents ex_1"
  by (simp add: ex_1_def registered_def RegisterAgent_def store_New_def zero_counters_def ex_reg_def
        agentKey_def Let_def lookup_or_def ex_a1_def ex_agent_def)
    (simp add: ex_2_def deployed_def InitDeploy_store)

end
