(* ===== verification/Store_Properties.thy ===== *)
theory Store_Properties
  imports Examples
begin

text \<open>
  What the store promises to its callers, stated of its operations and of its runs, with the
  concrete runs of \<open>Examples\<close> as witnesses.
\<close>

section \<open>The invariant\<close>

text \<open>
  C2: after any sequence of operations and resets on a new store, as long as no counter can
  have overflowed, the store is well formed: agents are indexed under their own key, commands
  and deployments carry generated identifiers, the fields of a command fit its status, every
  finished command has one report, every deployment has the command that made it, hosts and
  identifiers of routes are unique, and every route serves a deployment.
\<close>

theorem reachable_store_ok:
  assumes "(store_step ^^ n) store_New s" and "int n \<le> max_int"
  shows "store_ok s"
  using assms by (rule store_machine.run_inv)

theorem reachable_store_ok_witness: "store_ok ex_10"
  by (rule reachable_store_ok [OF op_runs [OF ex_runs(5)]]) (simp add: max_int_def)

section \<open>Deploying behind a route\<close>

lemma filter_find:
  "distinct (map f xs) \<Longrightarrow>
   filter (\<lambda>x. f x = y) xs = (case find (\<lambda>x. f x = y) xs of None \<Rightarrow> [] | Some x \<Rightarrow> [x])"
proof (induction xs)
  case (Cons x xs)
  then have "f z \<noteq> f x" if "z \<in> set xs" for z using Cons.prems imageI [OF that, of f] by auto
  then have "f x = y \<Longrightarrow> find (\<lambda>x. f x = y) xs = None" by (auto simp: find_None_iff)
  with Cons show ?case by auto
qed simp

text \<open>The routes of a host in the desired state: none or one.\<close>

lemma host_routes:
  assumes "routes_ok s"
  shows "filter (\<lambda>q. rt_Host q = h) (ds_Routes (GetDesiredState e s)) =
    (case route_for s e h of None \<Rightarrow> [] | Some r \<Rightarrow> [r])"
  using filter_find [OF route_hosts_distinct [OF assms]] by (simp add: GetDesiredState_routes route_for_def)

text \<open>
  C9: the report that a deployment which needs a route has succeeded is accepted and publishes
  exactly one route for its environment and host, at the address and port the report carries,
  ties the deployment to that route as \<open>route_pending\<close> and makes one new version of the desired
  state; the routes of every other host and the versions of every other environment stay.
\<close>

theorem deploy_report_publishes:
  assumes ok: "store_ok s" and room: "route_room s"
    and cmd: "fmlookup (Commands s) cid = Some cmd" "cmd_Type cmd = ''DEPLOY_APPLICATION''"
      "has_phase Claimed cmd \<or> has_phase Running cmd" "rci_Status inp = ''succeeded''"
    and dep: "fmlookup (Deployments s) (effective_dep inp cmd) = Some dep"
      "dep_RequiresRoute dep" "dep_Host dep \<noteq> ''''"
    and t: "ReportCommand cid inp now now' s = (t, out)"
  shows "\<exists>r d. out = Inr (last (CommandReports t)) \<and>
    filter (\<lambda>q. rt_Host q = dep_Host dep) (ds_Routes (GetDesiredState (dep_Environment dep) t)) = [r] \<and>
    route_for t (dep_Environment dep) (dep_Host dep) = Some r \<and>
    rt_Upstream r = result_upstream (rci_Result inp) \<and>
    rt_DeploymentID r = effective_dep inp cmd \<and>
    fmlookup (Deployments t) (effective_dep inp cmd) = Some d \<and>
    dep_Status d = ''route_pending'' \<and> dep_RouteID d = rt_ID r \<and>
    (\<forall>e h. (e, h) \<noteq> (dep_Environment dep, dep_Host dep) \<longrightarrow>
       filter (\<lambda>q. rt_Host q = h) (ds_Routes (GetDesiredState e t)) =
       filter (\<lambda>q. rt_Host q = h) (ds_Routes (GetDesiredState e s))) \<and>
    (\<forall>e. current_version e t = current_version e s + (if e = dep_Environment dep then 1 else 0))"
proof -
  let ?k = "effective_dep inp cmd" and ?q = "close_command cid inp cmd now s"
  have acc: "accepts_report cmd inp" using cmd by (simp add: accepts_report_def final_status_def)
  have wants: "wants_route dep" using dep by (simp add: wants_route_def)
  have type: "cmd_Type (cmd\<lparr>cmd_FinishedAt := Some now, cmd_Status := ''succeeded''\<rparr>) =
      ''DEPLOY_APPLICATION''" using cmd(2) by simp
  have look: "fmlookup (Deployments ?q) ?k = Some dep" using dep(1) by simp
  have qok: "routes_ok ?q" "RouteCount (Counters ?q) < max_int"
      "current_version (dep_Environment dep) ?q < max_int"
    using store_okD(2) [OF ok] room by (simp_all add: route_room_def)
  have t': "t = finished cid inp now now' s" "out = snd (ReportCommand cid inp now now' s)"
    using t by (simp_all add: finished_def)
  have fin: "t = applySucceeded (cmd\<lparr>cmd_FinishedAt := Some now, cmd_Status := ''succeeded''\<rparr>)
      ?k (rci_Result inp) now' ?q"
    using report_accepted(1) [OF cmd(1) acc] cmd(4) t'(1) by simp
  have out: "out = Inr (last (CommandReports t))"
    unfolding fin t'(2) using cmd(1,3,4)
    by (auto simp: ReportCommand_def Let_def has_phase_def close_command_def)
  note pub = gateway.upsert_publish(1,2) [OF qok, folded publish_route_def]
  have t_ok: "routes_ok t" unfolding t'(1) by (rule store_okD(2) [OF finished_ok [OF ok room]])
  have hosts: "filter (\<lambda>q. rt_Host q = h) (ds_Routes (GetDesiredState e u)) =
      (case route_for u e h of None \<Rightarrow> [] | Some r \<Rightarrow> [r])" if "u = s \<or> u = t" for e h u
    using that host_routes [OF t_ok] host_routes [OF store_okD(2) [OF ok]] by auto
  show ?thesis
    unfolding hosts [OF disjI2 [OF refl]] hosts [OF disjI1 [OF refl]]
    unfolding out fin succeeded_deploy_routed [OF type look wants]
    using pub gateway.upsert_target
    by (intro exI [of _ "snd (publish_route ?k dep (rci_Result inp) ?q)"]) (simp add: publish_route_def)
qed


theorem deploy_report_publishes_witness:
  "\<exists>r d. snd (ReportCommand ''cmd-001'' (ex_report ''3001'') 5 6 ex_4) =
      Inr (last (CommandReports ex_5)) \<and>
    route_for ex_5 ''dev'' ''b.local'' = Some r \<and> rt_Upstream r = ''10.0.0.5:3001'' \<and>
    rt_DeploymentID r = ''dep-001'' \<and> fmlookup (Deployments ex_5) ''dep-001'' = Some d \<and>
    dep_Status d = ''route_pending'' \<and> dep_RouteID d = rt_ID r"
proof -
  have t: "ReportCommand ''cmd-001'' (ex_report ''3001'') 5 6 ex_4 =
      (ex_5, snd (ReportCommand ''cmd-001'' (ex_report ''3001'') 5 6 ex_4))"
    by (simp add: ex_5_def finished_def)
  show ?thesis
    using deploy_report_publishes [OF ex_ok(2) ex_room(1) ex_cmd4_simps(1,2) _ _ _ _ _ t, of ex_dep4]
    by (simp add: ex_cmd4_simps) (simp add: ex_dep4_def, blast)
qed

text \<open>
  C20: the report that a deployment which needs no route, or has no host, has succeeded is accepted,
  makes the deployment \<open>healthy\<close> at the address and port the report carries, and changes neither
  the desired state of any environment, nor a counter, nor another deployment. That one which is
  to have a route but has no host ends as \<open>healthy\<close> is not foreseen by
  \<^verbatim>\<open>docs/specs/06-command-and-deployment-lifecycle.md\<close>: a finding.
\<close>

theorem plain_deploy_report:
  assumes cmd: "GetCommand cid s = Some cmd" "cmd_Type cmd = ''DEPLOY_APPLICATION''"
      "has_phase Claimed cmd \<or> has_phase Running cmd" "rci_Status inp = ''succeeded''"
    and dep: "GetDeployment (effective_dep inp cmd) s = Some dep" "\<not> dep_RequiresRoute dep \<or> dep_Host dep = ''''"
    and t: "ReportCommand cid inp now now' s = (t, out)"
  shows "out = Inr (last (CommandReports t)) \<and> DesiredStates t = DesiredStates s \<and> Counters t = Counters s \<and>
    (\<exists>c. GetCommand cid t = Some c \<and> cmd_Status c = ''succeeded'' \<and> cmd_FinishedAt c = Some now) \<and>
    (\<forall>k. GetDeployment k t =
       (if k = effective_dep inp cmd
        then Some (dep\<lparr>dep_RuntimePrivateIP := res_RuntimePrivateIP (read_result (rci_Result inp)),
               dep_HostPort := res_HostPort (read_result (rci_Result inp)),
               dep_Status := ''healthy'', dep_UpdatedAt := now'\<rparr>)
        else GetDeployment k s))"
proof -
  let ?k = "effective_dep inp cmd" and ?q = "close_command cid inp cmd now s"
  let ?c = "cmd\<lparr>cmd_FinishedAt := Some now, cmd_Status := ''succeeded''\<rparr>"
  have look: "fmlookup (Commands s) cid = Some cmd" "fmlookup (Deployments ?q) ?k = Some dep"
    using cmd(1) dep(1) by (simp_all add: GetCommand_def GetDeployment_def)
  have acc: "accepts_report cmd inp" using cmd by (simp add: accepts_report_def final_status_def)
  have "finished cid inp now now' s = applySucceeded ?c ?k (rci_Result inp) now' ?q"
    using report_accepted(1) [OF look(1) acc] cmd(4) by simp
  moreover have "\<not> wants_route dep" using dep(2) by (simp add: wants_route_def)
  ultimately have fin: "t = put_deployment ?k
      (dep\<lparr>dep_RuntimePrivateIP := res_RuntimePrivateIP (read_result (rci_Result inp)),
           dep_HostPort := res_HostPort (read_result (rci_Result inp)),
           dep_Status := ''healthy'', dep_UpdatedAt := now'\<rparr>) ?q"
    using succeeded_deploy_plain [of ?c, OF _ look(2)] cmd(2) t by (simp add: finished_def)
  moreover have "out = snd (ReportCommand cid inp now now' s)" using t by simp
  then have "out = Inr (last (CommandReports t))"
    unfolding fin using look(1) cmd(3,4)
    by (auto simp: ReportCommand_def Let_def has_phase_def close_command_def)
  ultimately show ?thesis
    using cmd(4) by (simp add: GetDeployment_def GetCommand_def close_command_def put_command_def put_deployment_def)
qed

text \<open>A deployment that is a worker: its report as in the example, without a route.\<close>

definition ex_worker :: store where
  "ex_worker = put_deployment ''dep-001'' (ex_dep4\<lparr>dep_RequiresRoute := False\<rparr>) ex_4"

theorem plain_deploy_report_witness:
  "\<exists>t d. fst (ReportCommand ''cmd-001'' (ex_report ''3001'') 5 6 ex_worker) = t \<and> DesiredStates t = fmempty \<and>
     GetDeployment ''dep-001'' t = Some d \<and> dep_Status d = ''healthy'' \<and> dep_HostPort d = 3001"
proof -
  have w: "GetCommand ''cmd-001'' ex_worker = Some ex_cmd4"
    "GetDeployment (effective_dep (ex_report ''3001'') ex_cmd4) ex_worker = Some (ex_dep4\<lparr>dep_RequiresRoute := False\<rparr>)"
    using ex_cmd4_simps by (simp_all add: ex_worker_def GetCommand_def GetDeployment_def)
  have "DesiredStates ex_worker = fmempty" by (simp add: ex_worker_def)
  then show ?thesis
    using plain_deploy_report [OF w(1) ex_cmd4_simps(2) _ _ w(2) _ prod.collapse [symmetric], of 5 6] ex_cmd4_simps(3,4)
    by simp
qed

text \<open>
  C4: in a reachable store every route a gateway is given belongs to a deployment the store
  knows, of the same environment and host and marked with that very route, and points to the
  address and port that deployment has reported.
\<close>

theorem routes_reach_deployments:
  assumes "(store_step ^^ n) store_New s" and "int n \<le> max_int"
    and "r \<in> set (ds_Routes (GetDesiredState e s))"
  shows "\<exists>d. GetDeployment (rt_DeploymentID r) s = Some d \<and> dep_Environment d = e \<and>
    dep_Host d = rt_Host r \<and> dep_RouteID d = rt_ID r \<and> dep_RequiresRoute d \<and>
    rt_Upstream r = dep_RuntimePrivateIP d @ '':'' @ fmt_d (dep_HostPort d)"
  using store_okD(6) [OF store_machine.run_inv [OF assms(1,2)]] assms(3)
  by (fastforce simp: routes_served_def route_served_def GetDesiredState_routes GetDeployment_def
      buildUpstream_def wants_route_def)

theorem routes_reach_deployments_witness:
  "\<exists>r d. r \<in> set (ds_Routes (GetDesiredState ''dev'' ex_8)) \<and> rt_Host r = ''b.local'' \<and>
     GetDeployment (rt_DeploymentID r) ex_8 = Some d \<and> dep_RouteID d = rt_ID r \<and>
     rt_Upstream r = dep_RuntimePrivateIP d @ '':'' @ fmt_d (dep_HostPort d)"
proof -
  obtain r where r: "r \<in> set (ds_Routes (GetDesiredState ''dev'' ex_8))" "rt_Host r = ''b.local''"
    by (simp add: GetDesiredState_routes routes_of_def)
  from routes_reach_deployments [OF op_runs [OF ex_runs(4)] _ r(1)] r show ?thesis
    unfolding max_int_def by auto
qed

text \<open>What an accepted report of a removal leaves behind.\<close>

lemma remove_report_state:
  assumes cmd: "fmlookup (Commands s) cid = Some cmd" "cmd_Type cmd = ''REMOVE_DEPLOYMENT''"
      "has_phase Claimed cmd \<or> has_phase Running cmd" "rci_Status inp = ''succeeded''"
    and dep: "fmlookup (Deployments s) (effective_dep inp cmd) = Some dep" "dep_RouteID dep \<noteq> ''''"
    and t: "ReportCommand cid inp now now' s = (t, out)"
  shows "t = put_deployment (effective_dep inp cmd)
      (dep\<lparr>dep_Status := ''removed'', dep_UpdatedAt := now', dep_RouteID := ''''\<rparr>)
      (incrementDesiredState (dep_Environment dep)
        (removeRoute (dep_Environment dep) (dep_RouteID dep) (close_command cid inp cmd now s)))"
proof -
  have acc: "accepts_report cmd inp" using cmd by (simp add: accepts_report_def final_status_def)
  have type: "cmd_Type (cmd\<lparr>cmd_FinishedAt := Some now, cmd_Status := ''succeeded''\<rparr>) =
      ''REMOVE_DEPLOYMENT''" using cmd(2) by simp
  have look: "fmlookup (Deployments (close_command cid inp cmd now s)) (effective_dep inp cmd) = Some dep"
    using dep(1) by simp
  have "t = finished cid inp now now' s" using t by (simp add: finished_def)
  then show ?thesis
    using report_accepted(1) [OF cmd(1) acc] cmd(4)
      succeeded_remove_routed [OF type look dep(2)] by simp
qed

text \<open>
  C16: the successful removal of a deployment that has a route takes that route out of the
  desired state of its environment, whatever deployment it points to by then, publishes a new version of the environment, leaves
  the deployment \<open>removed\<close> without a route, and keeps every other route.
\<close>

theorem remove_report_unpublishes:
  assumes ok: "store_ok s" and room: "route_room s"
    and cmd: "fmlookup (Commands s) cid = Some cmd" "cmd_Type cmd = ''REMOVE_DEPLOYMENT''"
      "has_phase Claimed cmd \<or> has_phase Running cmd" "rci_Status inp = ''succeeded''"
    and dep: "fmlookup (Deployments s) (effective_dep inp cmd) = Some dep" "dep_RouteID dep \<noteq> ''''"
    and t: "ReportCommand cid inp now now' s = (t, out)"
  shows "(\<forall>r \<in> set (routes_of t (dep_Environment dep)). rt_ID r \<noteq> dep_RouteID dep) \<and>
    (\<forall>e h r. route_for t e h = Some r \<longrightarrow> route_for s e h = Some r) \<and>
    (\<forall>e h r. route_for s e h = Some r \<longrightarrow>
       \<not> (e = dep_Environment dep \<and> rt_ID r = dep_RouteID dep) \<longrightarrow> route_for t e h = Some r) \<and>
    (\<forall>e. current_version e t = current_version e s + (if e = dep_Environment dep then 1 else 0)) \<and>
    fmlookup (Deployments t) (effective_dep inp cmd) =
      Some (dep\<lparr>dep_Status := ''removed'', dep_UpdatedAt := now', dep_RouteID := ''''\<rparr>)"
proof -
  let ?q = "close_command cid inp cmd now s"
  have qok: "routes_ok ?q" "current_version (dep_Environment dep) ?q < max_int"
    using store_okD(2) [OF ok] room by (simp_all add: route_room_def)
  note rem = gateway.remove_publish(1,2) [OF qok]
  show ?thesis
    unfolding remove_report_state [OF cmd dep t]
    using rem by (auto simp: routes_remove split: option.splits if_splits)
qed

theorem remove_report_unpublishes_witness:
  "route_for (finished ''cmd-003'' (ex_report ''0'') 13 14 ex_10) ''dev'' ''b.local'' = None \<and>
   current_version ''dev'' (finished ''cmd-003'' (ex_report ''0'') 13 14 ex_10) = 3"
proof -
  let ?t = "finished ''cmd-003'' (ex_report ''0'') 13 14 ex_10"
  have t: "ReportCommand ''cmd-003'' (ex_report ''0'') 13 14 ex_10 =
      (?t, snd (ReportCommand ''cmd-003'' (ex_report ''0'') 13 14 ex_10))"
    by (simp add: finished_def)
  have v: "current_version ''dev'' ex_10 = 2" by (simp add: current_version_def)
  have h: "has_phase Claimed ex_cmd10 \<or> has_phase Running ex_cmd10"
    "fmlookup (Deployments ex_10) (effective_dep (ex_report ''0'') ex_cmd10) = Some ex_dep10"
    "dep_RouteID ex_dep10 \<noteq> ''''"
    using ex_cmd10_simps by simp_all
  note u = remove_report_unpublishes [OF ex_ok(5) ex_room(3) ex_cmd10_simps(1,2) h(1)
      ex_report_simps(1) h(2,3) t, unfolded ex_cmd10_simps]
  then have gone: "\<forall>r \<in> set (routes_of ?t ''dev''). rt_ID r \<noteq> ''route-001''"
    and keep: "\<forall>e h r. route_for ?t e h = Some r \<longrightarrow> route_for ex_10 e h = Some r"
    and ver: "current_version ''dev'' ?t = 3"
    using v by (blast, blast, auto)
  have "route_for ?t ''dev'' ''b.local'' \<noteq> Some r" for r
  proof
    assume r: "route_for ?t ''dev'' ''b.local'' = Some r"
    then have "route_for ex_10 ''dev'' ''b.local'' = Some r" using keep by blast
    then have "rt_ID r = ''route-001''" by (simp add: route_for_def routes_of_def) auto
    moreover have "r \<in> set (routes_of ?t ''dev'')"
      using r unfolding route_for_def by (blast dest: find_Some_mem)
    ultimately show False using gone by blast
  qed
  then show ?thesis using ver by auto
qed

section \<open>The life of a command\<close>

text \<open>
  C11: between two states of a run without a reset a command stays, moves only along the
  transitions claim, start and finish, never returns to an earlier phase, and does not change
  any more once it has succeeded or failed.
\<close>

theorem command_life:
  assumes "(store_step ^^ m) store_New s" and "(op_step ^^ n) s t" and "int (m + n) \<le> max_int"
    and "GetCommand k s = Some c"
  shows "\<exists>c'. GetCommand k t = Some c' \<and> cmd_step\<^sup>*\<^sup>* c c' \<and>
    (\<forall>p q. has_phase p c \<longrightarrow> has_phase q c' \<longrightarrow> p \<le> q) \<and>
    (final_status (cmd_Status c) \<longrightarrow> c' = c)"
proof -
  have "commands_keep s t"
    using live_run [OF assms(1-3)] by (blast intro: commands_run.run_keeps)
  then obtain c' where "GetCommand k t = Some c'" "cmd_step\<^sup>*\<^sup>* c c'"
    using assms(4) fm_keepsD unfolding commands_keep_def GetCommand_def by metis
  then show ?thesis using cmd_steps_final cmd_steps_phase by blast
qed

theorem command_life_witness:
  "GetCommand ''cmd-001'' ex_8 = GetCommand ''cmd-001'' ex_5"
proof -
  obtain c where c: "GetCommand ''cmd-001'' ex_5 = Some c" "final_status (cmd_Status c)"
    by (simp add: GetCommand_def final_status_def)
  show ?thesis
    using command_life [OF op_runs [OF ex_runs(3)] ex_runs(7) _ c(1)] c by (auto simp: max_int_def)
qed

text \<open>
  C12: an agent that has claimed a command keeps it: whatever operations follow, no other
  agent's claim of that command succeeds, and a claim of its own that still succeeds changes
  nothing and returns the command as the first claim left it.
\<close>

theorem claim_is_exclusive:
  assumes "(store_step ^^ m) store_New s" and "ClaimCommand cid a now s = (t, Inr c)"
    and "(op_step ^^ n) t u" and "int (m + n + 1) \<le> max_int"
    and "ClaimCommand cid b now' u = (v, Inr c')"
  shows "b = a \<and> v = u \<and> cmd_ClaimedBy c' = a \<and> c' = c"
proof -
  have t: "t = claimed cid a now s" using assms(2) by (simp add: claimed_def)
  have st: "(store_step ^^ (m + 1)) store_New t"
    using assms(1) step_op [OF op_claim] t by auto
  have got: "GetCommand cid t = Some c" and own: "cmd_ClaimedBy c = a"
    and claimed: "has_phase Claimed c"
    using assms(2) by (auto simp: ClaimCommand_def GetCommand_def Let_def has_phase_def
        split: option.splits if_splits)
  have "int (m + 1 + n) \<le> max_int" using assms(4) by simp
  with live_run [OF st assms(3)] have "commands_keep t u" by (blast intro: commands_run.run_keeps)
  then obtain d where d: "GetCommand cid u = Some d" "cmd_step\<^sup>*\<^sup>* c d"
    using got fm_keepsD unfolding commands_keep_def GetCommand_def by metis
  have "has_phase Pending d \<or> has_phase Claimed d"
    using assms(5) d(1) by (auto simp: ClaimCommand_def GetCommand_def has_phase_def split: if_splits)
  have same: "d = c"
    using d(2)
  proof (cases rule: converse_rtranclpE)
    case base
    then show ?thesis by simp
  next
    case (step e)
    from cmd_step_phase [OF step(1)] obtain p q where "has_phase p c" "has_phase q e" "p < q" by blast
    moreover from this have "p = Claimed" using has_phase_unique claimed by blast
    moreover have "\<exists>r. has_phase r d \<and> r \<le> Claimed"
      using \<open>has_phase Pending d \<or> has_phase Claimed d\<close> by (auto simp: less_eq_phase_def)
    ultimately show ?thesis using cmd_steps_phase [OF step(2)] by (meson leD order.trans order_less_le_trans)
  qed
  then show ?thesis
    using assms(5) d(1) own claimed by (auto simp: ClaimCommand_def GetCommand_def has_phase_def split: if_splits)
qed

theorem claim_is_exclusive_witness:
  "snd (ClaimCommand ''cmd-001'' ex_agent 20 ex_3) = snd (ClaimCommand ''cmd-001'' ex_agent 3 ex_2)"
proof -
  obtain c where c: "ClaimCommand ''cmd-001'' ex_agent 3 ex_2 = (ex_3, Inr c)"
    by (simp add: ex_3_def claimed_def) (simp add: ClaimCommand_def Let_def)
  obtain v c' where c': "ClaimCommand ''cmd-001'' ex_agent 20 ex_3 = (v, Inr c')"
    by (simp add: ClaimCommand_def)
  have "(op_step ^^ 2) store_New ex_2"
    using ex_steps(1,2) by (auto simp: eval_nat_numeral)
  then have "c' = c"
    using claim_is_exclusive [OF op_runs c _ _ c', of 2 0] by (simp add: max_int_def)
  then show ?thesis using c c' by simp
qed

lemma start_facts:
  assumes ok: "store_ok s" and t: "StartCommand cid a now s = (t, out)"
  shows "(\<exists>c. out = Inr c) \<longleftrightarrow>
      (\<exists>c. GetCommand cid s = Some c \<and> (has_phase Claimed c \<or> has_phase Running c) \<and>
           cmd_ClaimedBy c = a)"
    and "out = Inr c' \<Longrightarrow> GetCommand cid t = Some c' \<and> has_phase Running c' \<and>
      cmd_ClaimedBy c' = a \<and> cmd_TargetAgentID c' = a"
    and "out = Inl e \<Longrightarrow> t = s \<and> (e = ErrNotFound \<longleftrightarrow> GetCommand cid s = None)"
    and "GetDeployment k t \<noteq> GetDeployment k s \<Longrightarrow>
      \<exists>c d. GetCommand cid s = Some c \<and> cmd_Type c = ''DEPLOY_APPLICATION'' \<and>
        cmd_DeploymentID c = k \<and> GetDeployment k s = Some d \<and>
        dep_Status d = ''command_created'' \<and>
        GetDeployment k t = Some (d\<lparr>dep_Status := ''deploying'', dep_UpdatedAt := now\<rparr>)"
proof -
  note defs = StartCommand_def GetCommand_def GetDeployment_def has_phase_def Let_def
  show "(\<exists>c. out = Inr c) \<longleftrightarrow>
      (\<exists>c. GetCommand cid s = Some c \<and> (has_phase Claimed c \<or> has_phase Running c) \<and>
           cmd_ClaimedBy c = a)"
    using t by (auto simp: defs split: option.splits if_splits)
  show "t = s \<and> (e = ErrNotFound \<longleftrightarrow> GetCommand cid s = None)" if "out = Inl e"
    using t that by (auto simp: defs split: option.splits if_splits)
  show "GetCommand cid t = Some c' \<and> has_phase Running c' \<and> cmd_ClaimedBy c' = a \<and>
      cmd_TargetAgentID c' = a" if "out = Inr c'"
  proof -
    have run: "GetCommand cid t = Some c' \<and> has_phase Running c' \<and> cmd_ClaimedBy c' = a"
      using t that by (auto simp: defs split: option.splits if_splits)
    have "store_ok t" using started_ok [OF ok, of cid a now] t by (simp add: started_def)
    then have "command_ok c'"
      using run commands_okD(3) store_okD(3) unfolding GetCommand_def by blast
    then show ?thesis using run command_ok_phase [of c' Running] by simp
  qed
  show "\<exists>c d. GetCommand cid s = Some c \<and> cmd_Type c = ''DEPLOY_APPLICATION'' \<and>
        cmd_DeploymentID c = k \<and> GetDeployment k s = Some d \<and>
        dep_Status d = ''command_created'' \<and>
        GetDeployment k t = Some (d\<lparr>dep_Status := ''deploying'', dep_UpdatedAt := now\<rparr>)"
    if "GetDeployment k t \<noteq> GetDeployment k s"
    using t that by (auto simp: defs split: option.splits if_splits)
qed

text \<open>
  C27: on a well-formed store a start succeeds exactly for the agent that has claimed the
  command and before the command is finished; it leaves the command running, moves the
  deployment of a deploy command from \<open>command_created\<close> to \<open>deploying\<close> and changes no other
  deployment; every other start is an error that changes nothing.
\<close>

theorem start_spec:
  assumes ok: "store_ok s" and t: "StartCommand cid a now s = (t, out)"
  shows "((\<exists>c. out = Inr c) \<longleftrightarrow>
      (\<exists>c. GetCommand cid s = Some c \<and> (has_phase Claimed c \<or> has_phase Running c) \<and>
           cmd_ClaimedBy c = a)) \<and>
    (\<forall>c'. out = Inr c' \<longrightarrow> GetCommand cid t = Some c' \<and> has_phase Running c' \<and>
      cmd_ClaimedBy c' = a \<and> cmd_TargetAgentID c' = a) \<and>
    (\<forall>e. out = Inl e \<longrightarrow> t = s \<and> (e = ErrNotFound \<longleftrightarrow> GetCommand cid s = None)) \<and>
    (\<forall>k. GetDeployment k t \<noteq> GetDeployment k s \<longrightarrow>
      (\<exists>c d. GetCommand cid s = Some c \<and> cmd_Type c = ''DEPLOY_APPLICATION'' \<and>
        cmd_DeploymentID c = k \<and> GetDeployment k s = Some d \<and>
        dep_Status d = ''command_created'' \<and>
        GetDeployment k t = Some (d\<lparr>dep_Status := ''deploying'', dep_UpdatedAt := now\<rparr>)))"
  using start_facts [OF assms] by blast

theorem start_spec_witness:
  "\<exists>c. StartCommand ''cmd-001'' ex_agent 4 ex_3 = (ex_4, Inr c) \<and> has_phase Running c"
proof -
  have 3: "store_ok ex_3"
    using ex_ok(1) deployed_ok [of ex_1 "[]" ex_dep 2] claimed_ok
    by (simp add: ex_2_def ex_3_def max_int_def)
  have t: "StartCommand ''cmd-001'' ex_agent 4 ex_3 =
      (ex_4, snd (StartCommand ''cmd-001'' ex_agent 4 ex_3))"
    by (simp add: ex_4_def started_def)
  have "\<exists>c. snd (StartCommand ''cmd-001'' ex_agent 4 ex_3) = Inr c"
    using start_spec [OF 3 t] by (simp add: GetCommand_def has_phase_def)
  then show ?thesis using start_spec [OF 3 t] t by metis
qed

text \<open>
  C18: what a report does to a well-formed store. It is accepted exactly for a claimed or
  running command and the statuses \<open>succeeded\<close> and \<open>failed\<close>; then the command has that
  status and one report is appended. Otherwise the store is unchanged, and the error says
  why: no such command, a command that is pending or finished already, or another status.
  The transitions in \<^verbatim>\<open>docs/specs/06-command-and-deployment-lifecycle.md\<close> know only a report of a
  running command; that the code also accepts one of a command claimed but never started is a
  disagreement of the two, recorded as a finding.
\<close>

theorem report_outcome:
  assumes ok: "store_ok s" and t: "ReportCommand cid inp now now' s = (t, out)"
  shows "case out of
      Inr r \<Rightarrow> CommandReports t = CommandReports s @ [r] \<and> cr_CommandID r = cid \<and>
        cr_Status r = rci_Status inp \<and> cr_AgentID r = rci_AgentID inp \<and>
        (\<exists>c c'. GetCommand cid s = Some c \<and> (has_phase Claimed c \<or> has_phase Running c) \<and>
           final_status (rci_Status inp) \<and> GetCommand cid t = Some c' \<and>
           cmd_Status c' = rci_Status inp \<and> cmd_FinishedAt c' = Some (cr_ReceivedAt r))
    | Inl ErrNotFound \<Rightarrow> t = s \<and> GetCommand cid s = None
    | Inl (ErrConflict m) \<Rightarrow> t = s \<and>
        (\<exists>c. GetCommand cid s = Some c \<and> (has_phase Pending c \<or> final_status (cmd_Status c)))
    | Inl (ErrInvalidState m) \<Rightarrow> t = s \<and>
        (\<exists>c. GetCommand cid s = Some c \<and> (has_phase Claimed c \<or> has_phase Running c)) \<and>
        \<not> final_status (rci_Status inp)
    | Inl (ErrFutureVersion m) \<Rightarrow> False"
proof (cases "fmlookup (Commands s) cid")
  case None
  then show ?thesis using t by (auto simp: ReportCommand_def GetCommand_def)
next
  case (Some c)
  have "command_ok c" using commands_okD(3) [OF store_okD(3) [OF ok] Some] .
  then obtain p where p: "has_phase p c" by (auto simp: command_ok_def)
  then have others: "cmd_Status c \<noteq> ''running'' \<Longrightarrow> cmd_Status c \<noteq> ''claimed'' \<Longrightarrow>
      has_phase Pending c \<or> final_status (cmd_Status c)"
    by (cases p) (simp_all add: has_phase_def final_status_def)
  show ?thesis
  proof (cases "accepts_report c inp")
    case True
    then show ?thesis
      using t Some finished_commands [of cid inp now now' s]
      by (auto simp: ReportCommand_def GetCommand_def Let_def accepts_report_def has_phase_def
          final_status_def put_command_def split: option.splits)
  next
    case False
    then show ?thesis
      using t Some others
      by (auto simp: ReportCommand_def GetCommand_def Let_def accepts_report_def has_phase_def
          final_status_def split: if_splits)
  qed
qed

theorem report_outcome_witness:
  "\<exists>r. ReportCommand ''cmd-001'' (ex_report ''3001'') 5 6 ex_4 = (ex_5, Inr r) \<and>
     CommandReports ex_5 = CommandReports ex_4 @ [r]"
proof -
  have t: "ReportCommand ''cmd-001'' (ex_report ''3001'') 5 6 ex_4 =
      (ex_5, snd (ReportCommand ''cmd-001'' (ex_report ''3001'') 5 6 ex_4))"
    by (simp add: ex_5_def finished_def)
  obtain r where r: "snd (ReportCommand ''cmd-001'' (ex_report ''3001'') 5 6 ex_4) = Inr r"
    using report_accepted(2) [OF ex_cmd4_simps(1)] ex_cmd4_simps(3) by (metis ex_accepts(1))
  show ?thesis using report_outcome [OF ex_ok(2) t] t by (simp add: r)
qed

text \<open>
  C19: in a reachable store the list of reports has exactly one report of every command that
  has succeeded or failed, with its status, and none of any other.
\<close>

theorem one_report_per_command:
  assumes "(store_step ^^ n) store_New s" and "int n \<le> max_int"
  shows "map cr_Status (filter (\<lambda>r. cr_CommandID r = k) (ListCommandReports s)) =
    (case GetCommand k s of
       None \<Rightarrow> []
     | Some c \<Rightarrow> if final_status (cmd_Status c) then [cmd_Status c] else [])"
proof -
  let ?rs = "filter (\<lambda>r. cr_CommandID r = k) (CommandReports s)"
  have ok: "reports_ok s" by (rule store_okD(4) [OF store_machine.run_inv [OF assms]])
  then have len: "length ?rs = reports_expected k s"
    by (simp add: reports_ok_def count_reports_def)
  have status: "cmd_Status c = cr_Status r" if "r \<in> set ?rs" "fmlookup (Commands s) k = Some c" for r c
    using ok that by (fastforce simp: reports_ok_def)
  show ?thesis
  proof (cases "fmlookup (Commands s) k")
    case None
    with len show ?thesis by (simp add: GetCommand_def ListCommandReports_def reports_expected_def)
  next
    case (Some c)
    show ?thesis
    proof (cases "final_status (cmd_Status c)")
      case True
      then obtain r where "?rs = [r]"
        using len Some by (auto simp: reports_expected_def length_Suc_conv)
      moreover from this have "cmd_Status c = cr_Status r" using status [OF _ Some] by simp
      ultimately show ?thesis using True Some by (simp add: GetCommand_def ListCommandReports_def)
    next
      case False
      with len Some show ?thesis
        by (simp add: GetCommand_def ListCommandReports_def reports_expected_def)
    qed
  qed
qed

theorem one_report_per_command_witness:
  "map cr_Status (filter (\<lambda>r. cr_CommandID r = ''cmd-001'') (ListCommandReports ex_5)) =
     [''succeeded'']"
  using one_report_per_command [OF op_runs [OF ex_runs(3)], of "''cmd-001''"]
  by (simp add: GetCommand_def final_status_def max_int_def)

section \<open>The desired state\<close>

text \<open>
  C15: a report on the desired state is always recorded. A report of the current version
  moves exactly the deployments of its environment that wait for their route, to
  \<open>route_active\<close> when it says \<open>applied\<close> and to \<open>route_failed\<close> when it says \<open>failed\<close>, in whatever
  order the deployments are visited; a report of an older version is marked stale, one of a
  later version is marked invalid and is an error, and neither changes a deployment.
\<close>

theorem desired_report_spec:
  assumes ord: "iter_order ord (Deployments s)"
    and t: "ApplyDesiredStateReport ord inp received now s = (t, r, err)"
  shows "DesiredStateReports t = DesiredStateReports s @ [r] \<and>
    dr_CurrentDesiredStateVersion r = ds_Version (GetDesiredState (dri_Environment inp) s) \<and>
    dr_Stale r = (dri_DesiredStateVersion inp < dr_CurrentDesiredStateVersion r) \<and>
    dr_Invalid r = (dri_DesiredStateVersion inp > dr_CurrentDesiredStateVersion r) \<and>
    (err \<noteq> None) = dr_Invalid r \<and>
    (\<forall>k. GetDeployment k t =
       (case GetDeployment k s of
          None \<Rightarrow> None
        | Some d \<Rightarrow>
            Some (if \<not> dr_Stale r \<and> \<not> dr_Invalid r \<and> dep_Environment d = dri_Environment inp \<and>
                     dep_Status d = ''route_pending'' \<and> dri_Status inp \<in> {''applied'', ''failed''}
                  then d\<lparr>dep_Status := (if dri_Status inp = ''applied'' then ''route_active''
                                        else ''route_failed''), dep_UpdatedAt := now\<rparr>
                  else d)))"
proof -
  note defs = ApplyDesiredStateReport_def Let_def settle_loop_fmmap [OF ord]
  note goal = GetDeployment_def GetDesiredState_version
  let ?v = "dri_DesiredStateVersion inp" and ?c = "current_version (dri_Environment inp) s"
  consider (future) "?c < ?v" | (stale) "?v < ?c" | (current) "?v = ?c" by linarith
  then show ?thesis
  proof cases
    case future
    with t have "Deployments t = Deployments s" "DesiredStateReports t = DesiredStateReports s @ [r]"
      "dr_CurrentDesiredStateVersion r = ?c" "\<not> dr_Stale r" "dr_Invalid r" "err \<noteq> None"
      by (auto simp: defs)
    with future show ?thesis by (simp add: goal split: option.split)
  next
    case stale
    with t have "Deployments t = Deployments s" "DesiredStateReports t = DesiredStateReports s @ [r]"
      "dr_CurrentDesiredStateVersion r = ?c" "dr_Stale r" "\<not> dr_Invalid r" "err = None"
      by (auto simp: defs)
    with stale show ?thesis by (simp add: goal split: option.split)
  next
    case current
    with t have
      "Deployments t = fmmap (settle_deployment (dri_Environment inp) (dri_Status inp) now) (Deployments s)"
      "DesiredStateReports t = DesiredStateReports s @ [r]"
      "dr_CurrentDesiredStateVersion r = ?c" "\<not> dr_Stale r" "\<not> dr_Invalid r" "err = None"
      by (auto simp: defs)
    with current show ?thesis by (simp add: goal settle_deployment_def split: option.split)
  qed
qed

definition ex_applied :: report_input where
  "ex_applied = \<lparr>dri_AgentID = ex_agent, dri_DesiredStateVersion = 2, dri_Type = ''gateway_routes'',
     dri_Environment = ''dev'', dri_Status = ''applied'', dri_RoutesTotal = 1,
     dri_ValidatedRoutes = 1, dri_FailedRoutes = 0, dri_Error = None\<rparr>"

theorem desired_report_spec_witness:
  "\<exists>ord. iter_order ord (Deployments ex_8) \<and>
     map_option dep_Status (GetDeployment ''dep-002'' (reported ord ex_applied 20 21 ex_8)) =
       Some ''route_active''"
proof -
  obtain ord where ord: "iter_order ord (Deployments ex_8)" using iter_order_exists by blast
  obtain r err where t: "ApplyDesiredStateReport ord ex_applied 20 21 ex_8 =
      (reported ord ex_applied 20 21 ex_8, r, err)"
    by (metis reported_def prod.collapse)
  show ?thesis
    using desired_report_spec [OF ord t] ord
    by (intro exI [of _ ord])
      (simp add: GetDeployment_def GetDesiredState_version current_version_def ex_applied_def)
qed

text \<open>
  C17: as long as the store is not reset, the version of an environment never decreases, and two
  states with the same version of an environment have the same desired state: an agent that
  polls can compare versions. A reset breaks both: every environment is back at version 0
  without routes, and the versions before it are given out anew.
\<close>

theorem version_identifies_desired_state:
  assumes "(store_step ^^ m) store_New s" and "(op_step ^^ n) s t" and "int (m + n) \<le> max_int"
  shows "ds_Version (GetDesiredState e s) \<le> ds_Version (GetDesiredState e t) \<and>
    (ds_Version (GetDesiredState e s) = ds_Version (GetDesiredState e t) \<longrightarrow>
       GetDesiredState e s = GetDesiredState e t) \<and>
    ds_Version (GetDesiredState e (Reset t)) = 0 \<and> ds_Routes (GetDesiredState e (Reset t)) = []"
proof -
  have live: "(live_step ^^ n) s t" "(store_step ^^ (m + n)) store_New t"
    using live_run [OF assms] by simp_all
  have keep: "versions_keep s t" using live(1) by (rule versions_run.run_keeps)
  have "int m \<le> max_int" using assms(3) by simp
  then have labels: "desired_labels_ok s" "desired_labels_ok t"
    using store_machine.run_inv [OF assms(1)] store_machine.run_inv [OF live(2) assms(3)]
    by (auto intro: routes_okD(2) store_okD(2))
  have eq: "GetDesiredState e u = \<lparr>ds_Version = current_version e u, ds_Type = ''gateway_routes'',
      ds_Environment = e, ds_Routes = routes_of u e\<rparr>" if "desired_labels_ok u" for u
    using that by (auto simp: GetDesiredState_def current_version_def routes_of_def
        desired_labels_ok_def empty_desired_state_def split: option.split)
  have reset: "GetDesiredState e (Reset t) = empty_desired_state e"
    by (simp add: Reset_New store_New_def GetDesiredState_def)
  then have reset: "ds_Version (GetDesiredState e (Reset t)) = 0" "ds_Routes (GetDesiredState e (Reset t)) = []"
    by (simp_all add: empty_desired_state_def)
  show ?thesis
    using keep reset by (auto simp: eq [OF labels(1)] eq [OF labels(2)] versions_keep_def)
qed

theorem version_identifies_desired_state_witness:
  "ds_Version (GetDesiredState ''dev'' ex_5) \<le> ds_Version (GetDesiredState ''dev'' ex_8)"
  using version_identifies_desired_state [OF op_runs [OF ex_runs(3)] ex_runs(7), of "''dev''"]
  unfolding max_int_def by simp

section \<open>New deployments\<close>

text \<open>
  C25: starting a deployment creates exactly one deployment and one command, under
  identifiers that were free, which refer to each other and to the target agent; the command
  is pending, the deployment \<open>command_created\<close> and without a route, its container has a name,
  and everything that existed stays as it was.
\<close>

theorem deploy_creates:
  assumes ok: "store_ok s" and room: "CommandCount (Counters s) < max_int"
      "DeploymentCount (Counters s) < max_int"
    and t: "InitDeploy ord inp now s = (t, dep, cmd)"
  shows "GetDeployment (dep_ID dep) s = None \<and> GetCommand (cmd_ID cmd) s = None \<and>
    Deployments t = fmupd (dep_ID dep) dep (Deployments s) \<and>
    Commands t = fmupd (cmd_ID cmd) cmd (Commands s) \<and>
    dep_CommandID dep = cmd_ID cmd \<and> cmd_DeploymentID cmd = dep_ID dep \<and>
    cmd_TargetAgentID cmd = di_TargetAgentID inp \<and> dep_TargetAgentID dep = di_TargetAgentID inp \<and>
    has_phase Pending cmd \<and> dep_Status dep = ''command_created'' \<and> dep_RouteID dep = '''' \<and>
    dep_ContainerName dep =
      (if di_ContainerName inp = ''''
       then di_Application inp @ ''-'' @ di_Environment inp @ ''-'' @ dep_ID dep
       else di_ContainerName inp) \<and>
    Agents t = Agents s \<and> DesiredStates t = DesiredStates s \<and> CommandReports t = CommandReports s"
proof -
  note parts = store_okD [OF ok]
  note nums = commands_okD(1) [OF parts(3)] deployments_okD(1) [OF parts(5)]
  have ids: "deploy_ids s = (ids_Deployment (DeploymentCount (Counters s) + 1),
      ids_Command (CommandCount (Counters s) + 1))"
    using numbered_nonneg [OF nums(1)] numbered_nonneg [OF nums(2)] room
    by (simp add: deploy_ids_def s64_succ)
  have free: "fmlookup (Deployments s) (fst (deploy_ids s)) = None"
    "fmlookup (Commands s) (snd (deploy_ids s)) = None"
    using dep_ids.next_fresh [OF nums(2)] cmd_ids.next_fresh [OF nums(1)] by (simp_all add: ids)
  have t': "t = fst (InitDeploy ord inp now s)" "dep = fst (snd (InitDeploy ord inp now s))"
    "cmd = snd (snd (InitDeploy ord inp now s))" using t by simp_all
  obtain p where p: "cmd = \<lparr>cmd_ID = snd (deploy_ids s), cmd_Type = ''DEPLOY_APPLICATION'',
      cmd_DeploymentID = fst (deploy_ids s),
      cmd_TargetAgentID = di_TargetAgentID inp, cmd_Status = ''pending'',
      cmd_TimeoutSeconds = di_CommandTimeoutSeconds inp, cmd_Payload = Some p,
      cmd_CreatedAt = now, cmd_ClaimedAt = None, cmd_StartedAt = None,
      cmd_FinishedAt = None, cmd_ClaimedBy = ''''\<rparr>"
    using InitDeploy_command [of ord inp now s] t'(3) by blast
  have d: "dep_ID dep = fst (deploy_ids s)" "dep_CommandID dep = snd (deploy_ids s)"
    "dep_TargetAgentID dep = di_TargetAgentID inp" "dep_Status dep = ''command_created''"
    "dep_RouteID dep = ''''" "dep_ContainerName dep = container_name_for inp (fst (deploy_ids s))"
    using t'(2) by (simp_all add: InitDeploy_deployment)
  have store: "Deployments t = fmupd (fst (deploy_ids s)) dep (Deployments s)"
    "Commands t = fmupd (snd (deploy_ids s)) cmd (Commands s)" "Agents t = Agents s"
    "DesiredStates t = DesiredStates s" "CommandReports t = CommandReports s"
    unfolding t' by (simp_all add: InitDeploy_store)
  show ?thesis
    unfolding store d using free
    by (simp add: p GetDeployment_def GetCommand_def container_name_for_def has_phase_def)
qed

theorem deploy_creates_witness:
  "\<exists>dep cmd. InitDeploy [] ex_dep 2 ex_1 = (ex_2, dep, cmd) \<and> dep_CommandID dep = cmd_ID cmd \<and>
     dep_ContainerName dep = ''billing-dev-dep-001''"
proof -
  obtain dep cmd where t: "InitDeploy [] ex_dep 2 ex_1 = (ex_2, dep, cmd)"
    by (metis deployed_def ex_2_def prod.collapse)
  have "dep = ex_d1" using t by (simp add: ex_d1_def)
  then show ?thesis
    using deploy_creates [OF ex_ok(1) _ _ t] t by (simp add: max_int_def ex_dep_def)
qed

text \<open>
  The labels of a deployed container are the custom labels together with the five the
  platform sets, and no custom label can replace one of the five, in whatever order the
  custom labels are visited.
\<close>

theorem mandatory_labels_win:
  assumes ord: "iter_order ord (di_CustomLabels inp)" and t: "InitDeploy ord inp now s = (t, dep, cmd)"
  shows "\<exists>p. cmd_Payload cmd = Some (enc_deploy_payload p) \<and>
    (\<forall>k. fmlookup (dpl_Labels p) k =
       (if k = ''devex.managed'' then Some ''true''
        else if k = ''devex.application'' then Some (di_Application inp)
        else if k = ''devex.environment'' then Some (di_Environment inp)
        else if k = ''devex.deployment_id'' then Some (dep_ID dep)
        else if k = ''devex.command_id'' then Some (cmd_ID cmd)
        else fmlookup (di_CustomLabels inp) k))"
proof -
  have cmd: "cmd = snd (snd (InitDeploy ord inp now s))" "cmd_ID cmd = snd (deploy_ids s)"
    using InitDeploy_command [of ord inp now s] t by auto
  have dep: "dep_ID dep = fst (deploy_ids s)"
    using InitDeploy_deployment [of ord inp now s] t by simp
  show ?thesis
    unfolding dep cmd(2) unfolding cmd(1) InitDeploy_payload
    by (rule exI, rule conjI [OF refl], simp only: deploy_payload.simps lookup_all_labels [OF ord], simp)
qed

definition ex_labelled :: deploy_input where
  "ex_labelled = ex_dep\<lparr>di_CustomLabels :=
     fmupd ''team'' ''billing'' (fmupd ''devex.managed'' ''false'' fmempty)\<rparr>"

theorem mandatory_labels_win_witness:
  "\<exists>ord p. cmd_Payload (snd (snd (InitDeploy ord ex_labelled 2 ex_1))) = Some (enc_deploy_payload p) \<and>
     fmlookup (dpl_Labels p) ''devex.managed'' = Some ''true'' \<and>
     fmlookup (dpl_Labels p) ''team'' = Some ''billing''"
proof -
  obtain ord where ord: "iter_order ord (di_CustomLabels ex_labelled)" using iter_order_exists by blast
  obtain t dep cmd where t: "InitDeploy ord ex_labelled 2 ex_1 = (t, dep, cmd)"
    by (metis prod.collapse)
  obtain p where p: "cmd_Payload cmd = Some (enc_deploy_payload p)"
    "fmlookup (dpl_Labels p) ''devex.managed'' = Some ''true''"
    "fmlookup (dpl_Labels p) ''team'' = Some ''billing''"
    using mandatory_labels_win [OF ord t] by (auto simp: ex_labelled_def)
  show ?thesis by (intro exI [of _ ord] exI [of _ p]) (simp add: t p)
qed

section \<open>The registry\<close>

text \<open>
  C26: on a well-formed store a registration does not panic and returns an online agent with
  the address and version of the request. An agent that is known under its instance, mode,
  environment and role keeps its identifier and the time it was first registered; a new one
  gets an identifier nobody had.
\<close>

theorem register_spec:
  assumes ok: "store_ok s" and room: "role_count s (env_role_key (ri_Environment i) (ri_Role i)) < max_int"
    and t: "RegisterAgent i now s = (t, out)"
  shows "\<exists>a. out = Inr a \<and> GetAgent (ag_ID a) t = Some a \<and> ag_Status a = ''online'' \<and>
    ag_PrivateIP a = ri_PrivateIP i \<and> ag_Version a = ri_Version i \<and> ag_LastSeenAt a = now \<and>
    fmlookup (AgentIndex t) (key_of_input i) = Some (ag_ID a) \<and>
    (case fmlookup (AgentIndex s) (key_of_input i) of
       None \<Rightarrow> GetAgent (ag_ID a) s = None \<and> ag_Environment a = ri_Environment i \<and>
         ag_Role a = ri_Role i \<and> ag_RegisteredAt a = now
     | Some k \<Rightarrow> ag_ID a = k \<and> (\<exists>b. GetAgent k s = Some b \<and> same_agent b a)) \<and>
    (\<forall>k. k \<noteq> ag_ID a \<longrightarrow> GetAgent k t = GetAgent k s)"
proof -
  note aok = store_okD(1) [OF ok]
  show ?thesis
  proof (cases "fmlookup (AgentIndex s) (key_of_input i)")
    case None
    let ?key = "env_role_key (ri_Environment i) (ri_Role i)"
    have n: "s64 (role_count s ?key + 1) = role_count s ?key + 1"
      using agents_okD(3) [OF aok] room by (rule s64_succ)
    have "fmlookup (Agents s) (ids_Agent (ri_Environment i) (ri_Role i) (role_count s ?key + 1)) = None"
      by (rule next_agent_fresh [OF aok]) simp
    with None n t show ?thesis
      by (auto simp: RegisterAgent_def key_of_input_def Let_def GetAgent_def role_count_def)
  next
    case (Some k)
    obtain b where b: "fmlookup (Agents s) k = Some b" using agents_okD(2) [OF aok Some] by blast
    have "ag_ID b = k" using agents_okD(1) [OF aok b] by (simp add: agent_ok_def)
    with t show ?thesis
      using b Some by (auto simp: register_known [OF Some b] Let_def GetAgent_def same_agent_def)
  qed
qed

theorem register_spec_witness:
  "\<exists>a. snd (RegisterAgent ex_reg 9 ex_1) = Inr a \<and> ag_ID a = ex_agent \<and> ag_LastSeenAt a = 9"
proof -
  obtain t out where t: "RegisterAgent ex_reg 9 ex_1 = (t, out)" by fastforce
  have room: "role_count ex_1 (env_role_key (ri_Environment ex_reg) (ri_Role ex_reg)) < max_int"
    using within_room(2) [of 1 ex_1] store_machine.run_within [OF op_runs [OF ex_runs(1)]]
    by (simp add: max_int_def)
  have known: "fmlookup (AgentIndex ex_1) (key_of_input ex_reg) = Some ex_agent"
    by (simp add: key_of_input_def agentKey_def ex_reg_def)
  show ?thesis using register_spec [OF ex_ok(1) room t] known t by auto
qed

text \<open>
  A process keeps its identifier for good: whatever registrations happen in whatever
  order, a registration of the same instance, mode, environment and role is answered with
  the identifier the first one got.
\<close>

theorem registration_is_stable:
  assumes "(i, now) \<in> set is"
  shows "fmlookup (AgentIndex (fold (\<lambda>(i, now). registered i now) (is @ js) s)) (key_of_input i) =
    fmlookup (AgentIndex (fold (\<lambda>(i, now). registered i now) is s)) (key_of_input i)"
  using agent_registry.run_stable [OF assms, of js s] by simp

theorem registration_is_stable_witness:
  "fmlookup (AgentIndex (fold (\<lambda>(i, now). registered i now)
       [(ex_reg, 1), (ex_reg\<lparr>ri_InstanceID := ''inst-2''\<rparr>, 2), (ex_reg, 3)] store_New))
     (key_of_input ex_reg) = Some ex_agent"
proof -
  have "fmlookup (AgentIndex (fold (\<lambda>(i, now). registered i now) [(ex_reg, 1)] store_New))
      (key_of_input ex_reg) = Some ex_agent"
    by (simp flip: ex_1_def) (simp add: key_of_input_def agentKey_def ex_reg_def)
  then show ?thesis
    using registration_is_stable [of ex_reg 1 "[(ex_reg, 1)]"
        "[(ex_reg\<lparr>ri_InstanceID := ''inst-2''\<rparr>, 2), (ex_reg, 3)]" store_New]
    by simp
qed

text \<open>
  The key of the registry joins its parts with colons and nothing keeps colons out of
  the parts, so two different processes can share a key; the second one to register is then
  given the identity of the first, its environment and role included.
\<close>

theorem registry_key_collision:
  assumes ok: "store_ok s" and room: "role_count s (env_role_key e r) < max_int"
    and i: "ri_InstanceID i = x @ '':'' @ y" "ri_Mode i = m" "ri_Environment i = e" "ri_Role i = r"
    and j: "ri_InstanceID j = x" "ri_Mode j = y @ '':'' @ m" "ri_Environment j = e" "ri_Role j = r"
  shows "\<exists>a b. snd (RegisterAgent i now s) = Inr a \<and>
    snd (RegisterAgent j now' (registered i now s)) = Inr b \<and>
    ag_ID b = ag_ID a \<and> ag_InstanceID b = ag_InstanceID a \<and> ag_Mode b = ag_Mode a"
proof -
  have key: "key_of_input j = key_of_input i"
    by (simp add: key_of_input_def agentKey_def i j)
  have room_i: "role_count s (env_role_key (ri_Environment i) (ri_Role i)) < max_int"
    using room i by simp
  let ?t = "registered i now s"
  have tok: "agents_ok ?t" by (rule register_ok [OF store_okD(1) [OF ok] room_i])
  obtain k where k: "fmlookup (AgentIndex ?t) (key_of_input i) = Some k"
    using register_index [of i now s "key_of_input i"]
    by (cases "fmlookup (AgentIndex s) (key_of_input i)") auto
  then obtain a where a: "fmlookup (Agents ?t) k = Some a" using agents_okD(2) [OF tok] by blast
  have out: "snd (RegisterAgent i now s) = Inr a"
  proof (cases "fmlookup (AgentIndex s) (key_of_input i)")
    case None
    then show ?thesis
      using a k by (auto simp: registered_def RegisterAgent_def key_of_input_def Let_def)
  next
    case (Some k')
    obtain b where "fmlookup (Agents s) k' = Some b"
      using agents_okD(2) [OF store_okD(1) [OF ok] Some] by blast
    from register_known [OF Some this] show ?thesis
      using a k Some by (auto simp: registered_def Let_def)
  qed
  show ?thesis
    using register_known [OF k [folded key] a, of now'] out by (simp add: Let_def)
qed

theorem registry_key_collision_witness:
  "\<exists>a b. snd (RegisterAgent (ex_reg\<lparr>ri_InstanceID := ''a:b''\<rparr>) 1 ex_1) = Inr a \<and>
    snd (RegisterAgent (ex_reg\<lparr>ri_InstanceID := ''a'', ri_Mode := ''b:runtime''\<rparr>) 2
      (registered (ex_reg\<lparr>ri_InstanceID := ''a:b''\<rparr>) 1 ex_1)) = Inr b \<and>
    ag_ID b = ag_ID a \<and> ag_InstanceID b = ag_InstanceID a \<and> ag_Mode b = ag_Mode a"
proof -
  have room: "role_count ex_1 (env_role_key ''dev'' ''api'') < max_int"
    using within_room(2) [of 1 ex_1] store_machine.run_within [OF op_runs [OF ex_runs(1)]]
    by (simp add: max_int_def)
  show ?thesis
    by (rule registry_key_collision [OF ex_ok(1) room, of _ "''a''" "''b''" "''runtime''"])
      (simp_all add: ex_reg_def)
qed

text \<open>
  C33: a heartbeat of an unknown agent is an error and changes nothing. One of a known agent
  records the body as it came and the time; the status, version and address of the agent are
  replaced by those members of the body that are non-empty strings and kept otherwise, and
  nothing else of the store changes.
\<close>

theorem heartbeat_spec:
  assumes t: "Heartbeat k raw now s = (t, out)"
    and core: "unmarshal_lax (dec_struct heartbeat_fields) zero_heartbeat raw = core"
  shows "case GetAgent k s of
      None \<Rightarrow> t = s \<and> out = Inl ErrNotFound
    | Some a \<Rightarrow> \<exists>b. out = Inr b \<and> t = s\<lparr>Agents := fmupd k b (Agents s)\<rparr> \<and> same_agent a b \<and>
        ag_LastHeartbeat b = raw \<and> ag_LastSeenAt b = now \<and> ag_Hostname b = ag_Hostname a \<and>
        ag_Status b = (if hb_Status core = '''' then ag_Status a else hb_Status core) \<and>
        ag_Version b = (if hb_Version core = '''' then ag_Version a else hb_Version core) \<and>
        ag_PrivateIP b = (if hb_PrivateIP core = '''' then ag_PrivateIP a else hb_PrivateIP core)"
proof (cases "fmlookup (Agents s) k")
  case None
  then show ?thesis using t by (auto simp: Heartbeat_def GetAgent_def)
next
  case (Some a)
  then show ?thesis
    using t by (auto simp: Heartbeat_def GetAgent_def Let_def core same_agent_def put_agent_def)
qed

definition ex_beat :: "json option" where
  "ex_beat = Some (JObj [(''status'', JStr ''draining''), (''version'', JNum ''2'')])"

theorem heartbeat_spec_witness:
  "\<exists>a. GetAgent ex_agent (beaten ex_agent ex_beat 7 ex_1) = Some a \<and> ag_Status a = ''draining'' \<and>
     ag_LastHeartbeat a = ex_beat"
proof -
  obtain out where t: "Heartbeat ex_agent ex_beat 7 ex_1 = (beaten ex_agent ex_beat 7 ex_1, out)"
    by (metis beaten_def prod.collapse)
  have core: "unmarshal_lax (dec_struct heartbeat_fields) zero_heartbeat ex_beat =
      \<lparr>hb_Status = ''draining'', hb_Version = '''', hb_PrivateIP = ''''\<rparr>"
    unfolding ex_beat_def by code_simp
  obtain a where "GetAgent ex_agent ex_1 = Some a"
    using store_okD(1) [OF ex_ok(1)] agents_okD(2) [of ex_1 "''inst-1:runtime:dev:api''" ex_agent]
    by (auto simp: GetAgent_def)
  then show ?thesis using heartbeat_spec [OF t core] by (auto simp: GetAgent_def)
qed

text \<open>
  The search for an agent of an environment and role, in whatever order the agents are
  visited, returns a registered agent of them when there is one and nothing when there is
  none; the status of the agent plays no part.
\<close>

theorem find_agent_spec:
  assumes ord: "iter_order ord (Agents s)"
  shows "case FindAgentByEnvironmentRole ord e r s of
      Some a \<Rightarrow> \<exists>k. GetAgent k s = Some a \<and> ag_Environment a = e \<and> ag_Role a = r
    | None \<Rightarrow> \<not> (\<exists>k a. GetAgent k s = Some a \<and> ag_Environment a = e \<and> ag_Role a = r)"
  using find_agent_sound [of ord e r s] find_agent_complete [OF ord, of e r]
  by (auto simp: GetAgent_def split: option.split)

theorem find_agent_spec_witness:
  "\<exists>ord. iter_order ord (Agents ex_1) \<and> FindAgentByEnvironmentRole ord ''dev'' ''api'' ex_1 \<noteq> None"
proof -
  obtain ord where ord: "iter_order ord (Agents ex_1)" using iter_order_exists by blast
  have "\<exists>a. GetAgent ex_agent ex_1 = Some a \<and> ag_Environment a = ''dev'' \<and> ag_Role a = ''api''"
    by (simp add: GetAgent_def ex_1_def registered_def RegisterAgent_def store_New_def ex_reg_def
        zero_counters_def Let_def ex_agent_def agentKey_def lookup_or_def)
  then have "FindAgentByEnvironmentRole ord ''dev'' ''api'' ex_1 \<noteq> None"
    using find_agent_spec [OF ord, of "''dev''" "''api''"] by (auto split: option.splits)
  with ord show ?thesis by blast
qed

section \<open>Snapshots\<close>

text \<open>
  Restoring a snapshot of a store into any store gives that store back, in whatever
  orders the maps were copied; a restored store continues with the counters it had.
\<close>

theorem snapshot_restores:
  assumes "loop_orders_ok os s"
  shows "Restore (take_Snapshot os s) u = s \<and>
    sn_SchemaVersion (take_Snapshot os s) = SchemaVersion"
  using restore_snapshot [OF assms] by simp

theorem snapshot_restores_witness:
  "\<exists>os. loop_orders_ok os ex_8 \<and> Restore (take_Snapshot os ex_8) store_New = ex_8"
  using loop_orders_exist [of ex_8] snapshot_restores by blast

section \<open>Reports that meet a deployment in another state\<close>

text \<open>
  C39: the route of a host is reused by the next deployment of that host, and removing the
  earlier deployment removes it: the later deployment keeps its identifier of the route and
  its status, and its host has no route any more.
\<close>

theorem removal_takes_successors_route:
  assumes ok: "store_ok s" and room: "route_room s"
    and cmd: "fmlookup (Commands s) cid = Some cmd" "cmd_Type cmd = ''REMOVE_DEPLOYMENT''"
      "has_phase Claimed cmd \<or> has_phase Running cmd" "rci_Status inp = ''succeeded''"
    and dep: "fmlookup (Deployments s) (effective_dep inp cmd) = Some dep" "dep_RouteID dep \<noteq> ''''"
    and successor: "route_for s (dep_Environment dep) h = Some r" "rt_ID r = dep_RouteID dep"
      "rt_DeploymentID r \<noteq> effective_dep inp cmd"
    and t: "ReportCommand cid inp now now' s = (t, out)"
  shows "route_for t (dep_Environment dep) h = None \<and>
    (\<exists>d. GetDeployment (rt_DeploymentID r) t = Some d \<and> dep_RouteID d = rt_ID r \<and>
       GetDeployment (rt_DeploymentID r) s = Some d)"
proof -
  let ?q = "close_command cid inp cmd now s"
  have qok: "routes_ok ?q" "current_version (dep_Environment dep) ?q < max_int"
    using store_okD(2) [OF ok] room by (simp_all add: route_room_def)
  have "r \<in> set (routes_of s (dep_Environment dep))"
    using successor(1) route_for_iff [OF store_okD(2) [OF ok]] by blast
  then obtain d where "GetDeployment (rt_DeploymentID r) s = Some d" "dep_RouteID d = rt_ID r"
    using store_okD(6) [OF ok] unfolding routes_served_def route_served_def GetDeployment_def by blast
  moreover have "route_for t (dep_Environment dep) h = None"
    unfolding remove_report_state [OF cmd dep t]
    using gateway.remove_publish(1) [OF qok] successor(1,2) by simp
  ultimately show ?thesis
    unfolding remove_report_state [OF cmd dep t] using successor(3) by (simp add: GetDeployment_def)
qed

theorem removal_takes_successors_route_witness:
  "route_for (finished ''cmd-003'' (ex_report ''0'') 13 14 ex_10) ''dev'' ''b.local'' = None \<and>
   (\<exists>d. GetDeployment ''dep-002'' (finished ''cmd-003'' (ex_report ''0'') 13 14 ex_10) = Some d \<and>
      dep_RouteID d = ''route-001'')"
proof -
  let ?t = "finished ''cmd-003'' (ex_report ''0'') 13 14 ex_10"
  have t: "ReportCommand ''cmd-003'' (ex_report ''0'') 13 14 ex_10 =
      (?t, snd (ReportCommand ''cmd-003'' (ex_report ''0'') 13 14 ex_10))"
    by (simp add: finished_def)
  have h: "has_phase Claimed ex_cmd10 \<or> has_phase Running ex_cmd10"
    "fmlookup (Deployments ex_10) (effective_dep (ex_report ''0'') ex_cmd10) = Some ex_dep10"
    "dep_RouteID ex_dep10 \<noteq> ''''"
    using ex_cmd10_simps by simp_all
  obtain r where r: "route_for ex_10 (dep_Environment ex_dep10) ''b.local'' = Some r"
    "rt_ID r = dep_RouteID ex_dep10" "rt_DeploymentID r = ''dep-002''"
    by (simp add: ex_cmd10_simps route_for_def routes_of_def)
  have "rt_DeploymentID r \<noteq> effective_dep (ex_report ''0'') ex_cmd10"
    using r(3) ex_cmd10_simps(4) by simp
  note u = removal_takes_successors_route [OF ex_ok(5) ex_room(3) ex_cmd10_simps(1,2) h(1)
      ex_report_simps(1) h(2,3) r(1,2) this t]
  show ?thesis using u r by (simp add: ex_cmd10_simps) blast
qed


definition ex_failure :: report_command_input where
  "ex_failure = (ex_report ''0'')\<lparr>rci_Status := ''failed''\<rparr>"


text \<open>
  The success of a deploy command does not look at the status of its deployment: one
  that was removed in the meantime comes back as \<open>healthy\<close>, or as \<open>route_pending\<close> with a route.
\<close>

theorem deploy_report_revives:
  assumes cmd: "fmlookup (Commands s) cid = Some cmd" "cmd_Type cmd = ''DEPLOY_APPLICATION''"
      "has_phase Claimed cmd \<or> has_phase Running cmd" "rci_Status inp = ''succeeded''"
    and dep: "GetDeployment (effective_dep inp cmd) s = Some dep" "dep_Status dep = ''removed''"
    and t: "ReportCommand cid inp now now' s = (t, out)"
  shows "\<exists>d. GetDeployment (effective_dep inp cmd) t = Some d \<and>
    dep_Status d = (if dep_RequiresRoute dep \<and> dep_Host dep \<noteq> '''' then ''route_pending'' else ''healthy'')"
proof -
  have acc: "accepts_report cmd inp" using cmd by (simp add: accepts_report_def final_status_def)
  have type: "cmd_Type (cmd\<lparr>cmd_FinishedAt := Some now, cmd_Status := ''succeeded''\<rparr>) =
      ''DEPLOY_APPLICATION''" using cmd(2) by simp
  have look: "fmlookup (Deployments (close_command cid inp cmd now s)) (effective_dep inp cmd) = Some dep"
    using dep(1) by (simp add: GetDeployment_def)
  have "t = finished cid inp now now' s" using t by (simp add: finished_def)
  then have "t = applySucceeded (cmd\<lparr>cmd_FinishedAt := Some now, cmd_Status := ''succeeded''\<rparr>)
      (effective_dep inp cmd) (rci_Result inp) now' (close_command cid inp cmd now s)"
    using report_accepted(1) [OF cmd(1) acc] cmd(4) by simp
  then show ?thesis
    using succeeded_deploy_routed [OF type look] succeeded_deploy_plain [OF type look]
    by (cases "wants_route dep") (auto simp: wants_route_def GetDeployment_def)
qed

theorem deploy_report_revives_witness:
  "\<exists>d. GetDeployment ''dep-001'' (finished ''cmd-001'' (ex_report ''1'') 5 6
      (put_deployment ''dep-001'' (ex_dep4\<lparr>dep_Status := ''removed''\<rparr>) ex_4)) = Some d \<and>
    dep_Status d = ''route_pending''"
proof -
  let ?s = "put_deployment ''dep-001'' (ex_dep4\<lparr>dep_Status := ''removed''\<rparr>) ex_4"
  have c: "fmlookup (Commands ?s) ''cmd-001'' = Some ex_cmd4" "has_phase Claimed ex_cmd4 \<or> has_phase Running ex_cmd4"
    "GetDeployment (effective_dep (ex_report ''1'') ex_cmd4) ?s = Some (ex_dep4\<lparr>dep_Status := ''removed''\<rparr>)"
    using ex_cmd4_simps by (simp_all add: GetDeployment_def)
  obtain out where t: "ReportCommand ''cmd-001'' (ex_report ''1'') 5 6 ?s =
      (finished ''cmd-001'' (ex_report ''1'') 5 6 ?s, out)"
    by (metis finished_def prod.collapse)
  show ?thesis
    using deploy_report_revives [OF c(1) ex_cmd4_simps(2) c(2) ex_report_simps(1) c(3) _ t]
      ex_cmd4_simps(4,7,8) by simp
qed

end
