(* ===== verification/Time_Json.thy ===== *)
theory Time_Json
  imports Models "HOL-Library.Monad_Syntax"
begin

text \<open>
  How \<open>encoding/json\<close> writes and reads a \<open>time.Time\<close>: RFC 3339 in UTC with the nanoseconds
  that are not zero. The clock of the program gives times in UTC between the years 1 and
  9999; the reader accepts the UTC form, a numeric offset is not modelled.
\<close>

section \<open>The calendar\<close>

definition is_leap :: "nat \<Rightarrow> bool" where
  "is_leap y \<longleftrightarrow> y mod 4 = 0 \<and> (y mod 100 \<noteq> 0 \<or> y mod 400 = 0)"

text \<open>The days from 1 January of the year 1 to 1 January of the year \<open>y\<close>.\<close>

definition days_before_year :: "nat \<Rightarrow> nat" where
  "days_before_year y = 365 * (y - 1) + (y - 1) div 4 - (y - 1) div 100 + (y - 1) div 400"

text \<open>The year of a day and the day in the year, by cycles of 400, 100, 4 and 1 years.\<close>

definition year_yday :: "nat \<Rightarrow> nat \<times> nat" where
  "year_yday d =
     (let n400 = d div 146097; d1 = d mod 146097;
          n100 = min 3 (d1 div 36524); d2 = d1 - 36524 * n100;
          n4 = d2 div 1461; d3 = d2 mod 1461;
          n1 = min 3 (d3 div 365)
      in (400 * n400 + 100 * n100 + 4 * n4 + n1 + 1, d3 - 365 * n1))"

definition month_lengths :: "nat \<Rightarrow> nat list" where
  "month_lengths y =
     [31, if is_leap y then 29 else 28, 31, 30, 31, 30, 31, 31, 30, 31, 30, 31]"

text \<open>The month, counted from 0, and the day in it, counted from 0.\<close>

fun month_day :: "nat list \<Rightarrow> nat \<Rightarrow> nat \<times> nat" where
  "month_day [] d = (0, d)"
| "month_day (l # ls) d =
     (if d < l then (0, d) else (let (m, e) = month_day ls (d - l) in (Suc m, e)))"

lemma year_yday_cycles:
  fixes a b c e :: nat
  assumes "b \<le> 3" "c \<le> 24" "e \<le> 3"
  shows "days_before_year (400 * a + 100 * b + 4 * c + e + 1) =
    146097 * a + 36524 * b + 1461 * c + 365 * e"
proof -
  let ?n = "400 * a + 100 * b + 4 * c + e"
  have "?n div 4 = 100 * a + 25 * b + c" using assms by simp
  moreover have "?n div 100 = 4 * a + b" using assms by simp
  moreover have "?n div 400 = a" using assms by simp
  ultimately show ?thesis by (simp add: days_before_year_def)
qed

lemma capped_div:
  fixes k x :: nat
  assumes "0 < k"
  shows "min 3 (x div k) \<le> 3" "k * min 3 (x div k) \<le> x"
    "min 3 (x div k) < 3 \<Longrightarrow> x < k * min 3 (x div k) + k"
proof -
  show "k * min 3 (x div k) \<le> x"
    using mult_le_mono2 [of "min 3 (x div k)" "x div k" k] times_div_less_eq_dividend [of k x] by linarith
  show "x < k * min 3 (x div k) + k" if "min 3 (x div k) < 3"
  proof -
    have "min 3 (x div k) = x div k" using that by simp
    then show ?thesis using dividend_less_times_div [OF assms, of x] by simp
  qed
qed simp

lemma year_yday_sound:
  assumes "year_yday d = (y, r)"
  shows "days_before_year y + r = d \<and> 1 \<le> y \<and> r < 366 \<and> (r = 365 \<longrightarrow> is_leap y)"
proof -
  define n400 where "n400 = d div 146097"
  define d1 where "d1 = d mod 146097"
  define n100 where "n100 = min 3 (d1 div 36524)"
  define d2 where "d2 = d1 - 36524 * n100"
  define n4 where "n4 = d2 div 1461"
  define d3 where "d3 = d2 mod 1461"
  define n1 where "n1 = min 3 (d3 div 365)"
  have y: "y = 400 * n400 + 100 * n100 + 4 * n4 + n1 + 1" and r: "r = d3 - 365 * n1"
    using assms by (simp_all add: year_yday_def Let_def n400_def d1_def n100_def d2_def n4_def
        d3_def n1_def)
  have d: "d = 146097 * n400 + d1" "d1 < 146097" by (simp_all add: n400_def d1_def)
  have 100: "n100 \<le> 3" "36524 * n100 \<le> d1" "n100 < 3 \<Longrightarrow> d1 < 36524 * n100 + 36524"
    unfolding n100_def using capped_div [of 36524 d1] by simp_all
  have d2: "d1 = 36524 * n100 + d2" using 100(2) by (simp add: d2_def)
  have d2_bound: "d2 \<le> 36524" "n100 < 3 \<Longrightarrow> d2 < 36524" using d(2) d2 100 by linarith+
  have d3: "d2 = 1461 * n4 + d3" "d3 < 1461" by (simp_all add: n4_def d3_def)
  have 4: "n4 \<le> 24" using d2_bound(1) d3 by linarith
  have 1: "n1 \<le> 3" "365 * n1 \<le> d3" "n1 < 3 \<Longrightarrow> d3 < 365 * n1 + 365"
    unfolding n1_def using capped_div [of 365 d3] by simp_all
  have r': "d3 = 365 * n1 + r" using 1(2) by (simp add: r)
  have sum: "days_before_year y + r = d"
    unfolding y year_yday_cycles [OF 100(1) 4 1(1)] using d(1) d2 d3(1) r' by linarith
  have bound: "r < 366" using 1 d3(2) r' by linarith
  have "is_leap y" if "r = 365"
  proof -
    have n1: "n1 = 3" using 1 that r' by linarith
    then have d3': "d3 = 1460" using r' that by simp
    have "y = 4 * (100 * n400 + 25 * n100 + n4 + 1)" by (simp add: y n1)
    then have "y mod 4 = 0" by simp
    moreover have "y mod 400 = 0" if "y mod 100 = 0"
    proof -
      have "y = (4 * n4 + 4) + 100 * (4 * n400 + n100)" by (simp add: y n1)
      then have "(4 * n4 + 4) mod 100 = 0" using that by (metis mod_mult_self2)
      moreover have "\<not> 4 * n4 + 4 < 100"
      proof
        assume "4 * n4 + 4 < 100"
        then have "(4 * n4 + 4) mod 100 = 4 * n4 + 4" by (rule mod_less)
        with calculation show False by simp
      qed
      ultimately have n4: "n4 = 24" using 4 by simp
      then have "\<not> n100 < 3" using d2_bound(2) d3(1) d3' by auto
      then have "y = 400 * (n400 + 1)" using 100(1) by (simp add: y n1 n4)
      then show ?thesis by simp
    qed
    ultimately show ?thesis unfolding is_leap_def by (cases "y mod 100 = 0") simp_all
  qed
  with sum bound show ?thesis by (simp add: y)
qed

lemma month_day_sound:
  assumes "d < sum_list ls" and "month_day ls d = (m, e)"
  shows "m < length ls \<and> e < ls ! m \<and> sum_list (take m ls) + e = d"
  using assms
proof (induction ls arbitrary: d m e)
  case (Cons l ls)
  show ?case
  proof (cases "d < l")
    case True
    with Cons.prems show ?thesis by auto
  next
    case False
    obtain m' e' where me: "month_day ls (d - l) = (m', e')" by fastforce
    with Cons.prems False have "m = Suc m'" "e = e'" by auto
    moreover have "d - l < sum_list ls" using Cons.prems(1) False by simp
    ultimately show ?thesis using Cons.IH [OF _ me] False by auto
  qed
qed simp

lemma month_lengths_sum: "sum_list (month_lengths y) = (if is_leap y then 366 else 365)"
  by (simp add: month_lengths_def)

section \<open>Writing a time\<close>

definition two :: "nat \<Rightarrow> string" where
  "two n = pad_zero 2 (nat_digits n)"

definition four :: "nat \<Rightarrow> string" where
  "four n = pad_zero 4 (nat_digits n)"

text \<open>The layout \<open>.999999999\<close>: nine digits without the trailing zeros, nothing for zero.\<close>

definition fmt_frac :: "nat \<Rightarrow> string" where
  "fmt_frac ns =
     (if ns = 0 then []
      else CHR ''.'' # rev (dropWhile (\<lambda>c. c = CHR ''0'') (rev (pad_zero 9 (nat_digits ns)))))"

definition fmt_time :: "time \<Rightarrow> string" where
  "fmt_time t =
     (let n = nat t; ns = n mod 1000000000; secs = n div 1000000000;
          days = secs div 86400; sod = secs mod 86400;
          (y, yd) = year_yday days; (m, d) = month_day (month_lengths y) yd
      in four y @ ''-'' @ two (m + 1) @ ''-'' @ two (d + 1) @ ''T'' @ two (sod div 3600) @ '':'' @
         two (sod div 60 mod 60) @ '':'' @ two (sod mod 60) @ fmt_frac ns @ ''Z'')"

definition enc_time :: "time \<Rightarrow> json" where
  "enc_time t = JStr (fmt_time t)"

section \<open>Reading a time\<close>

definition take_digits :: "nat \<Rightarrow> string \<Rightarrow> (nat \<times> string) option" where
  "take_digits w s =
     (if length (take w s) = w \<and> list_all is_digit (take w s)
      then Some (digits_value (take w s), drop w s) else None)"

definition expect :: "char \<Rightarrow> string \<Rightarrow> string option" where
  "expect c s = (case s of [] \<Rightarrow> None | x # xs \<Rightarrow> if x = c then Some xs else None)"

definition take_frac :: "string \<Rightarrow> (nat \<times> string) option" where
  "take_frac s =
     (case s of
        c # rest \<Rightarrow>
          if c = CHR ''.''
          then (let ds = takeWhile is_digit rest in
                if ds = [] then None
                else Some (digits_value (take 9 (ds @ replicate 9 (CHR ''0''))),
                           dropWhile is_digit rest))
          else Some (0, s)
      | [] \<Rightarrow> Some (0, s))"

definition parse_time :: "string \<Rightarrow> time option" where
  "parse_time s0 = do {
     (y, s) \<leftarrow> take_digits 4 s0; s \<leftarrow> expect (CHR ''-'') s;
     (m, s) \<leftarrow> take_digits 2 s; s \<leftarrow> expect (CHR ''-'') s;
     (d, s) \<leftarrow> take_digits 2 s; s \<leftarrow> expect (CHR ''T'') s;
     (h, s) \<leftarrow> take_digits 2 s; s \<leftarrow> expect (CHR '':'') s;
     (mi, s) \<leftarrow> take_digits 2 s; s \<leftarrow> expect (CHR '':'') s;
     (sec, s) \<leftarrow> take_digits 2 s;
     (ns, s) \<leftarrow> take_frac s;
     (if s = ''Z'' \<and> 1 \<le> y \<and> 1 \<le> m \<and> m \<le> 12 \<and> 1 \<le> d \<and> d \<le> month_lengths y ! (m - 1) \<and>
         h < 24 \<and> mi < 60 \<and> sec < 60
      then Some (int (((days_before_year y + sum_list (take (m - 1) (month_lengths y)) + (d - 1)) *
                       86400 + h * 3600 + mi * 60 + sec) * 1000000000 + ns))
      else None)
   }"

definition dec_time :: "time decoder" where
  "dec_time old j =
     (case j of
        JStr s \<Rightarrow> (case parse_time s of Some t \<Rightarrow> (True, t) | None \<Rightarrow> (False, old))
      | JNull \<Rightarrow> (True, old)
      | _ \<Rightarrow> (False, old))"

text \<open>The times that are written and read back: from the year 1 to the year 9999.\<close>

definition time_ok :: "time \<Rightarrow> bool" where
  "time_ok t \<longleftrightarrow> 0 \<le> t \<and> t < int (days_before_year 10000) * 86400 * 1000000000"

section \<open>What is written is read back\<close>

lemma length_nat_digits: "n < 10 ^ w \<Longrightarrow> 0 < w \<Longrightarrow> length (nat_digits n) \<le> w"
proof (induction w arbitrary: n)
  case (Suc w)
  show ?case
  proof (cases "n < 10")
    case True
    then show ?thesis by (simp add: nat_digits_small)
  next
    case False
    then have "n div 10 < 10 ^ w" "w \<noteq> 0" using Suc.prems(1) by (auto intro: gr0I)
    then show ?thesis using Suc.IH [of "n div 10"] False by (simp add: nat_digits_step)
  qed
qed simp

lemma length_pad_zero: "n < 10 ^ w \<Longrightarrow> 0 < w \<Longrightarrow> length (pad_zero w (nat_digits n)) = w"
  using length_nat_digits [of n w] by (simp add: pad_zero_def)

lemma take_digits_pad:
  assumes "n < 10 ^ w" "0 < w"
  shows "take_digits w (pad_zero w (nat_digits n) @ s) = Some (n, s)"
  using length_pad_zero [OF assms] pad_zero_nat_digits(1) [of w n]
  by (simp add: take_digits_def list_all_iff)

lemma take_digits_two: "n < 100 \<Longrightarrow> take_digits 2 (two n @ s) = Some (n, s)"
  using take_digits_pad [of n 2 s] by (simp add: two_def)

lemma take_digits_four: "n < 10000 \<Longrightarrow> take_digits 4 (four n @ s) = Some (n, s)"
  using take_digits_pad [of n 4 s] by (simp add: four_def)

lemma expect_same [simp]: "expect c (c # s) = Some s"
  by (simp add: expect_def)

lemma strip_zeros:
  "\<exists>k. xs = rev (dropWhile (\<lambda>c. c = z) (rev xs)) @ replicate k z"
proof -
  let ?p = "\<lambda>c. c = z"
  have "rev xs = takeWhile ?p (rev xs) @ dropWhile ?p (rev xs)" by simp
  moreover have "takeWhile ?p (rev xs) = replicate (length (takeWhile ?p (rev xs))) z"
    by (intro replicate_eqI) (auto dest: set_takeWhileD)
  ultimately have "xs = rev (dropWhile ?p (rev xs)) @ rev (replicate (length (takeWhile ?p (rev xs))) z)"
    by (metis rev_append rev_rev_ident)
  then show ?thesis by (metis rev_replicate)
qed

lemma take_frac_fmt:
  assumes "ns < 1000000000"
  shows "take_frac (fmt_frac ns @ ''Z'') = Some (ns, ''Z'')"
proof (cases "ns = 0")
  case True
  then show ?thesis by (simp add: fmt_frac_def take_frac_def)
next
  case False
  define p where "p = pad_zero 9 (nat_digits ns)"
  define s where "s = rev (dropWhile (\<lambda>c. c = CHR ''0'') (rev p))"
  have p: "length p = 9" "\<forall>c \<in> set p. is_digit c" "digits_value p = ns"
    using length_pad_zero [of ns 9] assms pad_zero_nat_digits(1) [of 9 ns]
    by (simp_all add: p_def)
  from strip_zeros [of p "CHR ''0''"] obtain k where k: "p = s @ replicate k (CHR ''0'')"
    unfolding s_def by (rule exE)
  have digits: "\<forall>c \<in> set s. is_digit c" using p(2) by (simp add: k)
  have ne: "s \<noteq> []" using False p(3) k digits_value_zeros [of k "[]"] by auto
  have "k \<le> 9" "length s = 9 - k" using p(1) arg_cong [OF k, of length] by simp_all
  then have "take 9 (s @ replicate 9 (CHR ''0'')) = p" by (simp add: k min_def)
  moreover have "takeWhile is_digit (s @ ''Z'') = s" "dropWhile is_digit (s @ ''Z'') = ''Z''"
    using digits by (simp_all add: takeWhile_append2 dropWhile_append2 is_digit_def)
  ultimately show ?thesis
    using False ne p(3) by (simp add: fmt_frac_def take_frac_def Let_def flip: p_def s_def)
qed

lemma leap_sum_mono:
  fixes a b k a4 b4 a100 b100 a400 b400 :: nat
  assumes "b = a + k" "b100 \<le> a100 + k" "a4 \<le> b4" "a400 \<le> b400" "a100 \<le> a4" "b100 \<le> b4"
  shows "365 * a + a4 - a100 + a400 \<le> 365 * b + b4 - b100 + b400"
  using assms by linarith

lemma days_before_year_mono: "y \<le> z \<Longrightarrow> days_before_year y \<le> days_before_year z"
proof -
  assume le: "y \<le> z"
  define a where "a = y - 1"
  define b where "b = z - 1"
  define k where "k = b - a"
  have b: "b = a + k" using le by (simp add: a_def b_def k_def)
  have "b div 100 \<le> (a + k * 100) div 100" unfolding b by (rule div_le_mono) simp
  then have "b div 100 \<le> a div 100 + k" by simp
  moreover have "a div 4 \<le> b div 4" "a div 400 \<le> b div 400" unfolding b by (simp_all add: div_le_mono)
  moreover have "a div 100 \<le> a div 4" "b div 100 \<le> b div 4" by (simp_all add: div_le_mono2)
  ultimately show ?thesis
    unfolding days_before_year_def a_def [symmetric] b_def [symmetric] by (intro leap_sum_mono [OF b])
qed

lemma hms_sum:
  fixes h m s r q :: nat
  assumes "h * 60 + m = q" and "q * 60 + s = r"
  shows "h * 3600 + m * 60 + s = r"
  using assms by linarith

lemma parse_fmt_time:
  assumes "time_ok t"
  shows "parse_time (fmt_time t) = Some t"
proof -
  define n where "n = nat t"
  define ns where "ns = n mod 1000000000"
  define secs where "secs = n div 1000000000"
  define days where "days = secs div 86400"
  define sod where "sod = secs mod 86400"
  obtain y yd where y: "year_yday days = (y, yd)" by fastforce
  obtain m d where md: "month_day (month_lengths y) yd = (m, d)" by fastforce
  have days: "days_before_year y + yd = days" "1 \<le> y" "yd < sum_list (month_lengths y)"
    using year_yday_sound [OF y] by (auto simp: month_lengths_sum)
  have "n < days_before_year 10000 * 86400 * 1000000000"
    using assms by (auto simp: time_ok_def n_def nat_less_iff)
  then have "days < days_before_year 10000"
    unfolding days_def secs_def by (simp add: less_mult_imp_div_less)
  then have "y < 10000" using days_before_year_mono [of 10000 y] days(1) by (metis le_add1 le_trans not_le)
  moreover have month: "m < 12" "d < month_lengths y ! m"
    "sum_list (take m (month_lengths y)) + d = yd"
    using month_day_sound [OF days(3) md] by (simp_all add: month_lengths_def)
  moreover have "month_lengths y ! m \<le> 31"
    using month(1) by (auto simp: month_lengths_def less_Suc_eq numeral_eq_Suc)
  ultimately have small: "y < 10000" "m + 1 < 100" "d + 1 < 100" by simp_all
  have sod: "sod < 86400" "sod div 3600 < 24" "sod div 60 mod 60 < 60" "sod mod 60 < 60"
    unfolding sod_def by (simp_all add: less_mult_imp_div_less)
  have time: "sod div 3600 * 3600 + sod div 60 mod 60 * 60 + sod mod 60 = sod"
  proof -
    have "sod div 60 div 60 * 60 + sod div 60 mod 60 = sod div 60" "sod div 60 * 60 + sod mod 60 = sod"
      by simp_all
    from hms_sum [OF this] show ?thesis by (simp only: div_mult2_eq [of sod 60 60, simplified])
  qed
  have "ns < 1000000000" by (simp add: ns_def)
  have fmt: "fmt_time t = four y @ ''-'' @ two (m + 1) @ ''-'' @ two (d + 1) @ ''T'' @
      two (sod div 3600) @ '':'' @ two (sod div 60 mod 60) @ '':'' @ two (sod mod 60) @
      fmt_frac ns @ ''Z''"
    using y md by (simp add: fmt_time_def Let_def flip: n_def ns_def secs_def days_def sod_def)
  have "int (((days_before_year y + sum_list (take m (month_lengths y)) + d) * 86400 +
      sod div 3600 * 3600 + sod div 60 mod 60 * 60 + sod mod 60) * 1000000000 + ns) = t"
  proof -
    have "days_before_year y + sum_list (take m (month_lengths y)) + d = days"
      using days(1) month(3) by simp
    moreover have "days * 86400 + sod = secs" by (simp add: days_def sod_def)
    moreover have "secs * 1000000000 + ns = n" by (simp add: secs_def ns_def)
    moreover have "int n = t" using assms by (simp add: n_def time_ok_def)
    ultimately show ?thesis using time by (simp add: add.assoc)
  qed
  then show ?thesis
    unfolding fmt parse_time_def
    using small sod month \<open>1 \<le> y\<close> \<open>ns < 1000000000\<close>
    by (simp add: take_digits_two take_digits_four take_frac_fmt)
qed

interpretation time_codec: go_codec enc_time dec_time time_ok
  by unfold_locales (simp add: enc_time_def dec_time_def parse_fmt_time)

end
