(* ===== verification/Codec.thy ===== *)
theory Codec
  imports Snapshot Time_Json
begin

text \<open>
  The JSON of the data of \<open>internal/store/models.go\<close>, as the struct tags say it: every struct
  with the encoder the responses and the state file use and the decoder the state file is
  read with, and the proof that on valid UTF-8 and on times of the years 1 to 9999 the
  decoder recovers what the encoder wrote.
\<close>

section \<open>Codecs into a zero value\<close>

text \<open>
  A struct, a map, a slice or a pointer is decoded into what is there already; the program
  decodes them into zero values only.
\<close>

locale zero_codec =
  fixes enc :: "'a \<Rightarrow> json" and dec :: "'a decoder" and zero :: 'a and ok :: "'a \<Rightarrow> bool"
  assumes dec_zero: "ok x \<Longrightarrow> dec zero (enc x) = (True, x)"
begin

lemma enc_inject: "ok x \<Longrightarrow> ok y \<Longrightarrow> enc x = enc y \<Longrightarrow> x = y"
  using dec_zero by (metis prod.inject)

lemma dec_entries_zero:
  "\<forall>(k, v) \<in> set kvs. ok v \<Longrightarrow>
   dec_entries zero dec (map (\<lambda>(k, v). (k, enc v)) kvs) (True, m) =
     (True, fold (\<lambda>(k, v). fmupd k v) kvs m)"
  by (induction kvs arbitrary: m) (auto simp: dec_zero)

end

text \<open>A codec that recovers a value whatever it decodes into does so from zero.\<close>

sublocale go_codec \<subseteq> fresh: zero_codec enc dec z ok for z
  by unfold_locales (rule dec_enc)

definition utf8 :: "string \<Rightarrow> bool" where
  "utf8 s \<longleftrightarrow> coerce_utf8 s = s"

lemma dec_enc_string [simp]: "utf8 s \<Longrightarrow> dec_string old (enc_string s) = (True, s)"
  by (simp add: utf8_def string_codec.dec_enc)

lemma dec_enc_simps [simp]:
  "in_int64 n \<Longrightarrow> dec_int i (enc_int n) = (True, n)"
  "dec_bool b (JBool b') = (True, b')"
  "time_ok t \<Longrightarrow> dec_time t' (enc_time t) = (True, t)"
  "dec_raw r (enc_raw q) = (True, Some (case q of None \<Rightarrow> JNull | Some j \<Rightarrow> j))"
  by (simp_all add: int_codec.dec_enc bool_codec.dec_enc time_codec.dec_enc dec_raw_def enc_raw_def)

section \<open>Maps, slices and pointers\<close>

lemma fold_fmupd:
  "distinct (map fst kvs) \<Longrightarrow>
   fmlookup (fold (\<lambda>(k, v). fmupd k v) kvs m) k =
     (case map_of kvs k of Some v \<Rightarrow> Some v | None \<Rightarrow> fmlookup m k)"
proof (induction kvs arbitrary: m)
  case (Cons kv kvs)
  obtain k' v where kv: "kv = (k', v)" by fastforce
  have "map_of kvs k' = None" using Cons.prems by (simp add: kv map_of_eq_None_iff)
  then show ?case using Cons by (auto simp: kv split: option.split)
qed simp

lemma sorted_list_distinct: "distinct (map fst (sorted_list_of_fmap m))"
  by (simp add: sorted_list_of_fmap_def comp_def sorted_list_of_fset.rep_eq)

lemma fold_sorted_list: "fold (\<lambda>(k, v). fmupd k v) (sorted_list_of_fmap m) fmempty = m"
proof (rule fmap_ext)
  fix k
  have "fmlookup (fold (\<lambda>(k, v). fmupd k v) (sorted_list_of_fmap m) fmempty) k =
      map_of (sorted_list_of_fmap m) k"
    by (simp add: fold_fmupd sorted_list_distinct split: option.split)
  then show "fmlookup (fold (\<lambda>(k, v). fmupd k v) (sorted_list_of_fmap m) fmempty) k = fmlookup m k"
    by simp
qed

definition keys_utf8 :: "'v gomap \<Rightarrow> bool" where
  "keys_utf8 m \<longleftrightarrow> (\<forall>k v. fmlookup m k = Some v \<longrightarrow> utf8 k)"

definition map_ok :: "('v \<Rightarrow> bool) \<Rightarrow> 'v gomap \<Rightarrow> bool" where
  "map_ok ok m \<longleftrightarrow> (\<forall>k v. fmlookup m k = Some v \<longrightarrow> utf8 k \<and> ok v)"

lemma sorted_list_mem: "(k, v) \<in> set (sorted_list_of_fmap m) \<Longrightarrow> fmlookup m k = Some v"
  by (metis sorted_list_distinct map_of_eq_Some_iff map_of_sorted_list)

text \<open>A nil map is written as \<open>null\<close>, a slice as an array, a nil pointer as \<open>null\<close>.\<close>

definition enc_nmap :: "('v \<Rightarrow> json) \<Rightarrow> 'v gomap option \<Rightarrow> json" where
  "enc_nmap f m = (case m of None \<Rightarrow> JNull | Some m \<Rightarrow> enc_map f m)"

definition nmap_ok :: "('v \<Rightarrow> bool) \<Rightarrow> 'v gomap option \<Rightarrow> bool" where
  "nmap_ok ok m = (case m of None \<Rightarrow> True | Some m \<Rightarrow> map_ok ok m)"

definition enc_slice :: "('v \<Rightarrow> json) \<Rightarrow> 'v list \<Rightarrow> json" where
  "enc_slice f xs = JArr (map f xs)"

text \<open>
  An array is decoded element by element, into the elements the slice already has and into
  zero values after them.
\<close>

fun dec_elements :: "'v \<Rightarrow> 'v decoder \<Rightarrow> 'v list \<Rightarrow> json list \<Rightarrow> bool \<times> 'v list" where
  "dec_elements z d old [] = (True, [])"
| "dec_elements z d old (j # js) =
     (let (ok, v) = d (case old of [] \<Rightarrow> z | x # _ \<Rightarrow> x) j;
          (ok', vs) = dec_elements z d (tl old) js
      in (ok \<and> ok', v # vs))"

definition dec_slice :: "'v \<Rightarrow> 'v decoder \<Rightarrow> 'v list decoder" where
  "dec_slice z d old j =
     (case j of
        JNull \<Rightarrow> (True, [])
      | JArr js \<Rightarrow> dec_elements z d old js
      | _ \<Rightarrow> (False, old))"

definition enc_ptr :: "('v \<Rightarrow> json) \<Rightarrow> 'v option \<Rightarrow> json" where
  "enc_ptr f p = (case p of None \<Rightarrow> JNull | Some v \<Rightarrow> f v)"

definition ptr_ok :: "('v \<Rightarrow> bool) \<Rightarrow> 'v option \<Rightarrow> bool" where
  "ptr_ok ok p = (case p of None \<Rightarrow> True | Some v \<Rightarrow> ok v)"

context zero_codec
begin

lemma map_codec: "zero_codec (enc_nmap enc) (dec_map zero dec) None (nmap_ok ok)"
proof
  fix x assume x: "nmap_ok ok x"
  show "dec_map zero dec None (enc_nmap enc x) = (True, x)"
  proof (cases x)
    case None
    then show ?thesis by (simp add: enc_nmap_def dec_map_def)
  next
    case (Some m)
    have all: "\<forall>(k, v) \<in> set (sorted_list_of_fmap m). utf8 k \<and> ok v"
      using x sorted_list_mem by (fastforce simp: Some nmap_ok_def map_ok_def)
    then have "map (\<lambda>(k, v). (coerce_utf8 k, enc v)) (sorted_list_of_fmap m) =
        map (\<lambda>(k, v). (k, enc v)) (sorted_list_of_fmap m)"
      by (auto simp: utf8_def)
    moreover have "dec_entries zero dec (map (\<lambda>(k, v). (k, enc v)) (sorted_list_of_fmap m))
        (True, fmempty) = (True, m)"
      using dec_entries_zero [of "sorted_list_of_fmap m" fmempty] all
      by (auto simp: fold_sorted_list)
    ultimately show ?thesis by (simp only: Some enc_nmap_def enc_map_def dec_map_def
        option.case json.case prod.case Let_def)
  qed
qed

lemma slice_codec: "zero_codec (enc_slice enc) (dec_slice zero dec) [] (list_all ok)"
proof
  fix xs assume "list_all ok xs"
  then have "dec_elements zero dec [] (map enc xs) = (True, xs)"
    by (induction xs) (simp_all add: dec_zero)
  then show "dec_slice zero dec [] (enc_slice enc xs) = (True, xs)"
    by (simp add: enc_slice_def dec_slice_def)
qed

lemma ptr_codec:
  assumes "\<And>x. ok x \<Longrightarrow> enc x \<noteq> JNull"
  shows "zero_codec (enc_ptr enc) (dec_ptr zero dec) None (ptr_ok ok)"
proof
  fix p assume "ptr_ok ok p"
  then show "dec_ptr zero dec None (enc_ptr enc p) = (True, p)"
  proof (cases p)
    case (Some x)
    with \<open>ptr_ok ok p\<close> have x: "ok x" by (simp add: ptr_ok_def)
    have "dec_ptr zero dec None j = (let (ok, v) = dec zero j in (ok, Some v))" if "j \<noteq> JNull" for j
      using that by (simp add: dec_ptr_def split: json.split)
    from this [OF assms [OF x]] show ?thesis by (simp add: Some enc_ptr_def dec_zero [OF x])
  qed (simp add: enc_ptr_def dec_ptr_def)
qed

end

section \<open>Structs\<close>

lemma dec_members_append: "dec_members fs (xs @ ys) acc = dec_members fs ys (dec_members fs xs acc)"
proof (induction xs arbitrary: acc)
  case (Cons kv xs)
  then show ?case by (cases kv; cases acc) (simp add: Let_def case_prod_beta split: option.split)
qed simp

text \<open>One member of a struct, present or omitted because it is the zero value.\<close>

lemma dec_member:
  "dec_members fs (member k j) (ok, r) =
     (case find_field fs k of
        None \<Rightarrow> (ok, r)
      | Some d \<Rightarrow> (let (ok', r') = d r j in (ok \<and> ok', r')))"
  by (simp add: member_def Let_def case_prod_beta split: option.split)

lemma dec_struct_object: "dec_struct fs old (JObj kvs) = dec_members fs kvs (True, old)"
  by (simp add: dec_struct_def)

lemmas struct_simps = dec_members_append dec_member dec_struct_object

interpretation any_codec: zero_codec "\<lambda>j. j" dec_any JNull "\<lambda>_. True"
  by unfold_locales (simp add: dec_any_def)

interpretation utf8_codec: go_codec enc_string dec_string utf8
  by unfold_locales simp

interpretation any_map_codec: zero_codec "enc_nmap (\<lambda>j. j)" "dec_map JNull dec_any" None
  "nmap_ok (\<lambda>_. True)"
  by (rule any_codec.map_codec)

interpretation string_ptr_codec: zero_codec "enc_ptr enc_string" "dec_ptr '''' dec_string" None "ptr_ok utf8"
  by (rule utf8_codec.fresh.ptr_codec) (simp add: enc_string_def)

interpretation string_map_codec: zero_codec "enc_nmap enc_string" "dec_map '''' dec_string" None
  "nmap_ok utf8"
  by (rule utf8_codec.fresh.map_codec)

interpretation int_map_codec: zero_codec "enc_nmap enc_int" "dec_map 0 dec_int" None "nmap_ok in_int64"
  by (rule int_codec.fresh.map_codec)

interpretation time_ptr_codec: zero_codec "enc_ptr enc_time" "dec_ptr 0 dec_time" None "ptr_ok time_ok"
  by (rule time_codec.fresh.ptr_codec) (simp add: enc_time_def)

lemma enc_raw_Some [simp]: "enc_raw (Some j) = j"
  by (simp add: enc_raw_def)

lemmas codec_simps = any_map_codec.dec_zero string_ptr_codec.dec_zero time_ptr_codec.dec_zero
  int_map_codec.dec_zero dec_raw_def

subsection \<open>Agents\<close>

definition zero_agent :: agent where
  "zero_agent =
     \<lparr>ag_ID = '''',
      ag_Mode = '''',
      ag_Environment = '''',
      ag_Role = '''',
      ag_Hostname = '''',
      ag_InstanceID = '''',
      ag_PrivateIP = '''',
      ag_PublicIP = None,
      ag_Version = '''',
      ag_Status = '''',
      ag_Capabilities = None,
      ag_LastHeartbeat = None,
      ag_RegisteredAt = 0,
      ag_LastSeenAt = 0\<rparr>"

definition enc_agent :: "agent \<Rightarrow> json" where
  "enc_agent a = JObj (
     member ''id'' (enc_string (ag_ID a)) @
     member ''mode'' (enc_string (ag_Mode a)) @
     member ''environment'' (enc_string (ag_Environment a)) @
     member ''role'' (enc_string (ag_Role a)) @
     member ''hostname'' (enc_string (ag_Hostname a)) @
     member ''instance_id'' (enc_string (ag_InstanceID a)) @
     member ''private_ip'' (enc_string (ag_PrivateIP a)) @
     member ''public_ip'' (enc_ptr enc_string (ag_PublicIP a)) @
     member ''version'' (enc_string (ag_Version a)) @
     member ''status'' (enc_string (ag_Status a)) @
     member ''capabilities'' (enc_nmap (\<lambda>j. j) (ag_Capabilities a)) @
     member ''last_heartbeat'' (enc_raw (ag_LastHeartbeat a)) @
     member ''registered_at'' (enc_time (ag_RegisteredAt a)) @
     member ''last_seen_at'' (enc_time (ag_LastSeenAt a)))"

definition agent_fields :: "agent fields" where
  "agent_fields =
     [field ''id'' ag_ID ag_ID_update dec_string,
      field ''mode'' ag_Mode ag_Mode_update dec_string,
      field ''environment'' ag_Environment ag_Environment_update dec_string,
      field ''role'' ag_Role ag_Role_update dec_string,
      field ''hostname'' ag_Hostname ag_Hostname_update dec_string,
      field ''instance_id'' ag_InstanceID ag_InstanceID_update dec_string,
      field ''private_ip'' ag_PrivateIP ag_PrivateIP_update dec_string,
      field ''public_ip'' ag_PublicIP ag_PublicIP_update (dec_ptr '''' dec_string),
      field ''version'' ag_Version ag_Version_update dec_string,
      field ''status'' ag_Status ag_Status_update dec_string,
      field ''capabilities'' ag_Capabilities ag_Capabilities_update (dec_map JNull dec_any),
      field ''last_heartbeat'' ag_LastHeartbeat ag_LastHeartbeat_update dec_raw,
      field ''registered_at'' ag_RegisteredAt ag_RegisteredAt_update dec_time,
      field ''last_seen_at'' ag_LastSeenAt ag_LastSeenAt_update dec_time]"

definition agent_text_ok :: "agent \<Rightarrow> bool" where
  "agent_text_ok a \<longleftrightarrow>
     list_all utf8 [ag_ID a, ag_Mode a, ag_Environment a, ag_Role a, ag_Hostname a,
       ag_InstanceID a, ag_PrivateIP a, ag_Version a, ag_Status a] \<and>
     ptr_ok utf8 (ag_PublicIP a) \<and>
     nmap_ok (\<lambda>_. True) (ag_Capabilities a) \<and>
     time_ok (ag_RegisteredAt a) \<and>
     time_ok (ag_LastSeenAt a)"

lemmas agent_find = arg_cong [OF agent_fields_def, of "\<lambda>fs. find_field fs k" for k,
  THEN trans, OF find_field_def]

text \<open>A heartbeat that never came is written as \<open>null\<close> and read back as the message \<open>null\<close>.\<close>

definition agent_read :: "agent \<Rightarrow> agent" where
  "agent_read a = a\<lparr>ag_LastHeartbeat := Some (enc_raw (ag_LastHeartbeat a))\<rparr>"

lemma dec_enc_agent:
  "agent_text_ok a \<Longrightarrow> dec_struct agent_fields zero_agent (enc_agent a) = (True, agent_read a)"
  by (cases a) (simp add: enc_agent_def agent_text_ok_def zero_agent_def struct_simps
    agent_find field_def codec_simps agent_read_def)

subsection \<open>Commands\<close>

definition zero_command :: command where
  "zero_command =
     \<lparr>cmd_ID = '''',
      cmd_Type = '''',
      cmd_DeploymentID = '''',
      cmd_TargetAgentID = '''',
      cmd_Status = '''',
      cmd_TimeoutSeconds = 0,
      cmd_Payload = None,
      cmd_CreatedAt = 0,
      cmd_ClaimedAt = None,
      cmd_StartedAt = None,
      cmd_FinishedAt = None,
      cmd_ClaimedBy = ''''\<rparr>"

definition enc_command :: "command \<Rightarrow> json" where
  "enc_command c = JObj (
     member ''id'' (enc_string (cmd_ID c)) @
     member ''type'' (enc_string (cmd_Type c)) @
     member_omit (cmd_DeploymentID c = '''') ''deployment_id''
       (enc_string (cmd_DeploymentID c)) @
     member ''target_agent_id'' (enc_string (cmd_TargetAgentID c)) @
     member ''status'' (enc_string (cmd_Status c)) @
     member ''timeout_seconds'' (enc_int (cmd_TimeoutSeconds c)) @
     member ''payload'' (enc_raw (cmd_Payload c)) @
     member ''created_at'' (enc_time (cmd_CreatedAt c)) @
     member_omit (cmd_ClaimedAt c = None) ''claimed_at''
       (enc_ptr enc_time (cmd_ClaimedAt c)) @
     member_omit (cmd_StartedAt c = None) ''started_at''
       (enc_ptr enc_time (cmd_StartedAt c)) @
     member_omit (cmd_FinishedAt c = None) ''finished_at''
       (enc_ptr enc_time (cmd_FinishedAt c)) @
     member_omit (cmd_ClaimedBy c = '''') ''claimed_by''
       (enc_string (cmd_ClaimedBy c)))"

definition command_fields :: "command fields" where
  "command_fields =
     [field ''id'' cmd_ID cmd_ID_update dec_string,
      field ''type'' cmd_Type cmd_Type_update dec_string,
      field ''deployment_id'' cmd_DeploymentID cmd_DeploymentID_update dec_string,
      field ''target_agent_id'' cmd_TargetAgentID cmd_TargetAgentID_update dec_string,
      field ''status'' cmd_Status cmd_Status_update dec_string,
      field ''timeout_seconds'' cmd_TimeoutSeconds cmd_TimeoutSeconds_update dec_int,
      field ''payload'' cmd_Payload cmd_Payload_update dec_raw,
      field ''created_at'' cmd_CreatedAt cmd_CreatedAt_update dec_time,
      field ''claimed_at'' cmd_ClaimedAt cmd_ClaimedAt_update (dec_ptr 0 dec_time),
      field ''started_at'' cmd_StartedAt cmd_StartedAt_update (dec_ptr 0 dec_time),
      field ''finished_at'' cmd_FinishedAt cmd_FinishedAt_update (dec_ptr 0 dec_time),
      field ''claimed_by'' cmd_ClaimedBy cmd_ClaimedBy_update dec_string]"

definition command_text_ok :: "command \<Rightarrow> bool" where
  "command_text_ok c \<longleftrightarrow>
     list_all utf8 [cmd_ID c, cmd_Type c, cmd_DeploymentID c, cmd_TargetAgentID c, cmd_Status c, cmd_ClaimedBy c] \<and>
     in_int64 (cmd_TimeoutSeconds c) \<and>
     time_ok (cmd_CreatedAt c) \<and>
     ptr_ok time_ok (cmd_ClaimedAt c) \<and>
     ptr_ok time_ok (cmd_StartedAt c) \<and>
     ptr_ok time_ok (cmd_FinishedAt c)"

lemmas command_find = arg_cong [OF command_fields_def, of "\<lambda>fs. find_field fs k" for k,
  THEN trans, OF find_field_def]

lemma command_omit_1 [simp]:
  "cmd_DeploymentID r = '''' \<Longrightarrow> utf8 x \<Longrightarrow>
   dec_members command_fields (member_omit (x = '''') ''deployment_id'' (enc_string x)) (True, r) = (True, r\<lparr>cmd_DeploymentID := x\<rparr>)"
  by (cases r; cases "x = ''''") (auto simp: member_omit_def command_find field_def codec_simps)

lemma command_omit_2 [simp]:
  "cmd_ClaimedAt r = None \<Longrightarrow> ptr_ok time_ok x \<Longrightarrow>
   dec_members command_fields (member_omit (x = None) ''claimed_at'' (enc_ptr enc_time x)) (True, r) = (True, r\<lparr>cmd_ClaimedAt := x\<rparr>)"
  by (cases r; cases "x = None") (auto simp: member_omit_def command_find field_def codec_simps)

lemma command_omit_3 [simp]:
  "cmd_StartedAt r = None \<Longrightarrow> ptr_ok time_ok x \<Longrightarrow>
   dec_members command_fields (member_omit (x = None) ''started_at'' (enc_ptr enc_time x)) (True, r) = (True, r\<lparr>cmd_StartedAt := x\<rparr>)"
  by (cases r; cases "x = None") (auto simp: member_omit_def command_find field_def codec_simps)

lemma command_omit_4 [simp]:
  "cmd_FinishedAt r = None \<Longrightarrow> ptr_ok time_ok x \<Longrightarrow>
   dec_members command_fields (member_omit (x = None) ''finished_at'' (enc_ptr enc_time x)) (True, r) = (True, r\<lparr>cmd_FinishedAt := x\<rparr>)"
  by (cases r; cases "x = None") (auto simp: member_omit_def command_find field_def codec_simps)

lemma command_omit_5 [simp]:
  "cmd_ClaimedBy r = '''' \<Longrightarrow> utf8 x \<Longrightarrow>
   dec_members command_fields (member_omit (x = '''') ''claimed_by'' (enc_string x)) (True, r) = (True, r\<lparr>cmd_ClaimedBy := x\<rparr>)"
  by (cases r; cases "x = ''''") (auto simp: member_omit_def command_find field_def codec_simps)

text \<open>So is the payload of a command that was created without one.\<close>

definition command_read :: "command \<Rightarrow> command" where
  "command_read c = c\<lparr>cmd_Payload := Some (enc_raw (cmd_Payload c))\<rparr>"

lemma dec_enc_command:
  "command_text_ok c \<Longrightarrow> dec_struct command_fields zero_command (enc_command c) = (True, command_read c)"
  by (cases c) (simp add: enc_command_def command_text_ok_def zero_command_def struct_simps
    command_find field_def codec_simps command_read_def)

subsection \<open>Deployments\<close>

definition zero_deployment :: deployment where
  "zero_deployment =
     \<lparr>dep_ID = '''',
      dep_Application = '''',
      dep_Environment = '''',
      dep_Image = '''',
      dep_Host = '''',
      dep_Status = '''',
      dep_TargetAgentID = '''',
      dep_CommandID = '''',
      dep_ContainerName = '''',
      dep_ContainerInternalPort = 0,
      dep_HealthCheckPath = '''',
      dep_RequiresRoute = False,
      dep_RuntimePrivateIP = '''',
      dep_HostPort = 0,
      dep_RouteID = '''',
      dep_CreatedAt = 0,
      dep_UpdatedAt = 0\<rparr>"

definition enc_deployment :: "deployment \<Rightarrow> json" where
  "enc_deployment d = JObj (
     member ''id'' (enc_string (dep_ID d)) @
     member ''application'' (enc_string (dep_Application d)) @
     member ''environment'' (enc_string (dep_Environment d)) @
     member ''image'' (enc_string (dep_Image d)) @
     member_omit (dep_Host d = '''') ''host''
       (enc_string (dep_Host d)) @
     member ''status'' (enc_string (dep_Status d)) @
     member ''target_agent_id'' (enc_string (dep_TargetAgentID d)) @
     member ''command_id'' (enc_string (dep_CommandID d)) @
     member ''container_name'' (enc_string (dep_ContainerName d)) @
     member ''container_internal_port'' (enc_int (dep_ContainerInternalPort d)) @
     member ''health_check_path'' (enc_string (dep_HealthCheckPath d)) @
     member ''requires_route'' (JBool (dep_RequiresRoute d)) @
     member ''runtime_private_ip'' (enc_string (dep_RuntimePrivateIP d)) @
     member ''host_port'' (enc_int (dep_HostPort d)) @
     member_omit (dep_RouteID d = '''') ''route_id''
       (enc_string (dep_RouteID d)) @
     member ''created_at'' (enc_time (dep_CreatedAt d)) @
     member ''updated_at'' (enc_time (dep_UpdatedAt d)))"

definition deployment_fields :: "deployment fields" where
  "deployment_fields =
     [field ''id'' dep_ID dep_ID_update dec_string,
      field ''application'' dep_Application dep_Application_update dec_string,
      field ''environment'' dep_Environment dep_Environment_update dec_string,
      field ''image'' dep_Image dep_Image_update dec_string,
      field ''host'' dep_Host dep_Host_update dec_string,
      field ''status'' dep_Status dep_Status_update dec_string,
      field ''target_agent_id'' dep_TargetAgentID dep_TargetAgentID_update dec_string,
      field ''command_id'' dep_CommandID dep_CommandID_update dec_string,
      field ''container_name'' dep_ContainerName dep_ContainerName_update dec_string,
      field ''container_internal_port'' dep_ContainerInternalPort dep_ContainerInternalPort_update dec_int,
      field ''health_check_path'' dep_HealthCheckPath dep_HealthCheckPath_update dec_string,
      field ''requires_route'' dep_RequiresRoute dep_RequiresRoute_update dec_bool,
      field ''runtime_private_ip'' dep_RuntimePrivateIP dep_RuntimePrivateIP_update dec_string,
      field ''host_port'' dep_HostPort dep_HostPort_update dec_int,
      field ''route_id'' dep_RouteID dep_RouteID_update dec_string,
      field ''created_at'' dep_CreatedAt dep_CreatedAt_update dec_time,
      field ''updated_at'' dep_UpdatedAt dep_UpdatedAt_update dec_time]"

definition deployment_text_ok :: "deployment \<Rightarrow> bool" where
  "deployment_text_ok d \<longleftrightarrow>
     list_all utf8 [dep_ID d, dep_Application d, dep_Environment d, dep_Image d, dep_Host d, dep_Status d, dep_TargetAgentID d, dep_CommandID d, dep_ContainerName d, dep_HealthCheckPath d, dep_RuntimePrivateIP d, dep_RouteID d] \<and>
     in_int64 (dep_ContainerInternalPort d) \<and>
     in_int64 (dep_HostPort d) \<and>
     time_ok (dep_CreatedAt d) \<and>
     time_ok (dep_UpdatedAt d)"

lemmas deployment_find = arg_cong [OF deployment_fields_def, of "\<lambda>fs. find_field fs k" for k,
  THEN trans, OF find_field_def]

lemma deployment_omit_1 [simp]:
  "dep_Host r = '''' \<Longrightarrow> utf8 x \<Longrightarrow>
   dec_members deployment_fields (member_omit (x = '''') ''host'' (enc_string x)) (True, r) = (True, r\<lparr>dep_Host := x\<rparr>)"
  by (cases r; cases "x = ''''") (auto simp: member_omit_def deployment_find field_def codec_simps)

lemma deployment_omit_2 [simp]:
  "dep_RouteID r = '''' \<Longrightarrow> utf8 x \<Longrightarrow>
   dec_members deployment_fields (member_omit (x = '''') ''route_id'' (enc_string x)) (True, r) = (True, r\<lparr>dep_RouteID := x\<rparr>)"
  by (cases r; cases "x = ''''") (auto simp: member_omit_def deployment_find field_def codec_simps)

lemma dec_enc_deployment:
  "deployment_text_ok d \<Longrightarrow> dec_struct deployment_fields zero_deployment (enc_deployment d) = (True, d)"
  by (cases d) (simp add: enc_deployment_def deployment_text_ok_def zero_deployment_def struct_simps
    deployment_find field_def codec_simps)

subsection \<open>Routes\<close>

definition zero_route :: route where
  "zero_route =
     \<lparr>rt_ID = '''',
      rt_Environment = '''',
      rt_Host = '''',
      rt_Path = '''',
      rt_Upstream = '''',
      rt_DeploymentID = '''',
      rt_HealthCheckPath = ''''\<rparr>"

definition enc_route :: "route \<Rightarrow> json" where
  "enc_route r = JObj (
     member ''id'' (enc_string (rt_ID r)) @
     member ''environment'' (enc_string (rt_Environment r)) @
     member ''host'' (enc_string (rt_Host r)) @
     member ''path'' (enc_string (rt_Path r)) @
     member ''upstream'' (enc_string (rt_Upstream r)) @
     member ''deployment_id'' (enc_string (rt_DeploymentID r)) @
     member ''health_check_path'' (enc_string (rt_HealthCheckPath r)))"

definition route_fields :: "route fields" where
  "route_fields =
     [field ''id'' rt_ID rt_ID_update dec_string,
      field ''environment'' rt_Environment rt_Environment_update dec_string,
      field ''host'' rt_Host rt_Host_update dec_string,
      field ''path'' rt_Path rt_Path_update dec_string,
      field ''upstream'' rt_Upstream rt_Upstream_update dec_string,
      field ''deployment_id'' rt_DeploymentID rt_DeploymentID_update dec_string,
      field ''health_check_path'' rt_HealthCheckPath rt_HealthCheckPath_update dec_string]"

definition route_text_ok :: "route \<Rightarrow> bool" where
  "route_text_ok r \<longleftrightarrow>
     list_all utf8 [rt_ID r, rt_Environment r, rt_Host r, rt_Path r, rt_Upstream r, rt_DeploymentID r, rt_HealthCheckPath r]"

lemmas route_find = arg_cong [OF route_fields_def, of "\<lambda>fs. find_field fs k" for k,
  THEN trans, OF find_field_def]

lemma dec_enc_route:
  "route_text_ok r \<Longrightarrow> dec_struct route_fields zero_route (enc_route r) = (True, r)"
  by (cases r) (simp add: enc_route_def route_text_ok_def zero_route_def struct_simps
    route_find field_def codec_simps)

interpretation route_codec: zero_codec enc_route "dec_struct route_fields" zero_route route_text_ok
  by unfold_locales (rule dec_enc_route)

interpretation routes_codec: zero_codec "enc_slice enc_route"
  "dec_slice zero_route (dec_struct route_fields)" "[]" "list_all route_text_ok"
  by (rule route_codec.slice_codec)

lemmas routes_simps [simp] = routes_codec.dec_zero

subsection \<open>Desired states\<close>

definition zero_desired_state :: desired_state where
  "zero_desired_state =
     \<lparr>ds_Version = 0,
      ds_Type = '''',
      ds_Environment = '''',
      ds_Routes = []\<rparr>"

definition enc_desired_state :: "desired_state \<Rightarrow> json" where
  "enc_desired_state d = JObj (
     member ''version'' (enc_int (ds_Version d)) @
     member ''type'' (enc_string (ds_Type d)) @
     member ''environment'' (enc_string (ds_Environment d)) @
     member ''routes'' (enc_slice enc_route (ds_Routes d)))"

definition desired_state_fields :: "desired_state fields" where
  "desired_state_fields =
     [field ''version'' ds_Version ds_Version_update dec_int,
      field ''type'' ds_Type ds_Type_update dec_string,
      field ''environment'' ds_Environment ds_Environment_update dec_string,
      field ''routes'' ds_Routes ds_Routes_update (dec_slice zero_route (dec_struct route_fields))]"

definition desired_state_text_ok :: "desired_state \<Rightarrow> bool" where
  "desired_state_text_ok d \<longleftrightarrow>
     list_all utf8 [ds_Type d, ds_Environment d] \<and>
     in_int64 (ds_Version d) \<and>
     list_all route_text_ok (ds_Routes d)"

lemmas desired_state_find = arg_cong [OF desired_state_fields_def, of "\<lambda>fs. find_field fs k" for k,
  THEN trans, OF find_field_def]

lemma dec_enc_desired_state:
  "desired_state_text_ok d \<Longrightarrow> dec_struct desired_state_fields zero_desired_state (enc_desired_state d) = (True, d)"
  by (cases d) (simp add: enc_desired_state_def desired_state_text_ok_def zero_desired_state_def struct_simps
    desired_state_find field_def codec_simps)

subsection \<open>Reports\<close>

definition zero_report_error :: report_error where
  "zero_report_error =
     \<lparr>re_Code = '''',
      re_Message = '''',
      re_Operation = '''',
      re_Retryable = False\<rparr>"

definition enc_report_error :: "report_error \<Rightarrow> json" where
  "enc_report_error e = JObj (
     member ''code'' (enc_string (re_Code e)) @
     member ''message'' (enc_string (re_Message e)) @
     member_omit (re_Operation e = '''') ''operation''
       (enc_string (re_Operation e)) @
     member ''retryable'' (JBool (re_Retryable e)))"

definition report_error_fields :: "report_error fields" where
  "report_error_fields =
     [field ''code'' re_Code re_Code_update dec_string,
      field ''message'' re_Message re_Message_update dec_string,
      field ''operation'' re_Operation re_Operation_update dec_string,
      field ''retryable'' re_Retryable re_Retryable_update dec_bool]"

definition report_error_text_ok :: "report_error \<Rightarrow> bool" where
  "report_error_text_ok e \<longleftrightarrow>
     list_all utf8 [re_Code e, re_Message e, re_Operation e]"

lemmas report_error_find = arg_cong [OF report_error_fields_def, of "\<lambda>fs. find_field fs k" for k,
  THEN trans, OF find_field_def]

lemma report_error_omit_1 [simp]:
  "re_Operation r = '''' \<Longrightarrow> utf8 x \<Longrightarrow>
   dec_members report_error_fields (member_omit (x = '''') ''operation'' (enc_string x)) (True, r) = (True, r\<lparr>re_Operation := x\<rparr>)"
  by (cases r; cases "x = ''''") (auto simp: member_omit_def report_error_find field_def codec_simps)

lemma dec_enc_report_error:
  "report_error_text_ok e \<Longrightarrow> dec_struct report_error_fields zero_report_error (enc_report_error e) = (True, e)"
  by (cases e) (simp add: enc_report_error_def report_error_text_ok_def zero_report_error_def struct_simps
    report_error_find field_def codec_simps)

interpretation report_error_codec: zero_codec enc_report_error "dec_struct report_error_fields"
  zero_report_error report_error_text_ok
  by unfold_locales (rule dec_enc_report_error)

interpretation error_ptr_codec: zero_codec "enc_ptr enc_report_error"
  "dec_ptr zero_report_error (dec_struct report_error_fields)" None "ptr_ok report_error_text_ok"
  by (rule report_error_codec.ptr_codec) (simp add: enc_report_error_def)

lemmas error_simps [simp] = error_ptr_codec.dec_zero

subsection \<open>Command reports\<close>

definition zero_command_report :: command_report where
  "zero_command_report =
     \<lparr>cr_CommandID = '''',
      cr_DeploymentID = '''',
      cr_AgentID = '''',
      cr_Status = '''',
      cr_Result = None,
      cr_Error = None,
      cr_ReceivedAt = 0\<rparr>"

definition enc_command_report :: "command_report \<Rightarrow> json" where
  "enc_command_report r = JObj (
     member ''command_id'' (enc_string (cr_CommandID r)) @
     member ''deployment_id'' (enc_string (cr_DeploymentID r)) @
     member ''agent_id'' (enc_string (cr_AgentID r)) @
     member ''status'' (enc_string (cr_Status r)) @
     member_omit (cr_Result r = None) ''result''
       (enc_raw (cr_Result r)) @
     member_omit (cr_Error r = None) ''error''
       (enc_ptr enc_report_error (cr_Error r)) @
     member ''received_at'' (enc_time (cr_ReceivedAt r)))"

definition command_report_fields :: "command_report fields" where
  "command_report_fields =
     [field ''command_id'' cr_CommandID cr_CommandID_update dec_string,
      field ''deployment_id'' cr_DeploymentID cr_DeploymentID_update dec_string,
      field ''agent_id'' cr_AgentID cr_AgentID_update dec_string,
      field ''status'' cr_Status cr_Status_update dec_string,
      field ''result'' cr_Result cr_Result_update dec_raw,
      field ''error'' cr_Error cr_Error_update (dec_ptr zero_report_error (dec_struct report_error_fields)),
      field ''received_at'' cr_ReceivedAt cr_ReceivedAt_update dec_time]"

definition command_report_text_ok :: "command_report \<Rightarrow> bool" where
  "command_report_text_ok r \<longleftrightarrow>
     list_all utf8 [cr_CommandID r, cr_DeploymentID r, cr_AgentID r, cr_Status r] \<and>
     ptr_ok report_error_text_ok (cr_Error r) \<and>
     time_ok (cr_ReceivedAt r)"

lemmas command_report_find = arg_cong [OF command_report_fields_def, of "\<lambda>fs. find_field fs k" for k,
  THEN trans, OF find_field_def]

lemma command_report_omit_1 [simp]:
  "cr_Result r = None \<Longrightarrow>
   dec_members command_report_fields (member_omit (x = None) ''result'' (enc_raw x)) (True, r) = (True, r\<lparr>cr_Result := x\<rparr>)"
  by (cases r; cases "x = None") (auto simp: member_omit_def command_report_find field_def codec_simps)

lemma command_report_omit_2 [simp]:
  "cr_Error r = None \<Longrightarrow> ptr_ok report_error_text_ok x \<Longrightarrow>
   dec_members command_report_fields (member_omit (x = None) ''error'' (enc_ptr enc_report_error x)) (True, r) = (True, r\<lparr>cr_Error := x\<rparr>)"
  by (cases r; cases "x = None") (auto simp: member_omit_def command_report_find field_def codec_simps)

lemma dec_enc_command_report:
  "command_report_text_ok r \<Longrightarrow> dec_struct command_report_fields zero_command_report (enc_command_report r) = (True, r)"
  by (cases r) (simp add: enc_command_report_def command_report_text_ok_def zero_command_report_def struct_simps
    command_report_find field_def codec_simps)

subsection \<open>Desired-state reports\<close>

definition zero_desired_state_report :: desired_state_report where
  "zero_desired_state_report =
     \<lparr>dr_AgentID = '''',
      dr_DesiredStateVersion = 0,
      dr_CurrentDesiredStateVersion = 0,
      dr_Stale = False,
      dr_Invalid = False,
      dr_Environment = '''',
      dr_Type = '''',
      dr_Status = '''',
      dr_RoutesTotal = 0,
      dr_ValidatedRoutes = 0,
      dr_FailedRoutes = 0,
      dr_Error = None,
      dr_ReceivedAt = 0\<rparr>"

definition enc_desired_state_report :: "desired_state_report \<Rightarrow> json" where
  "enc_desired_state_report r = JObj (
     member ''agent_id'' (enc_string (dr_AgentID r)) @
     member ''desired_state_version'' (enc_int (dr_DesiredStateVersion r)) @
     member ''current_desired_state_version'' (enc_int (dr_CurrentDesiredStateVersion r)) @
     member ''stale'' (JBool (dr_Stale r)) @
     member ''invalid'' (JBool (dr_Invalid r)) @
     member ''environment'' (enc_string (dr_Environment r)) @
     member ''type'' (enc_string (dr_Type r)) @
     member ''status'' (enc_string (dr_Status r)) @
     member ''routes_total'' (enc_int (dr_RoutesTotal r)) @
     member ''validated_routes'' (enc_int (dr_ValidatedRoutes r)) @
     member ''failed_routes'' (enc_int (dr_FailedRoutes r)) @
     member_omit (dr_Error r = None) ''error''
       (enc_ptr enc_report_error (dr_Error r)) @
     member ''received_at'' (enc_time (dr_ReceivedAt r)))"

definition desired_state_report_fields :: "desired_state_report fields" where
  "desired_state_report_fields =
     [field ''agent_id'' dr_AgentID dr_AgentID_update dec_string,
      field ''desired_state_version'' dr_DesiredStateVersion dr_DesiredStateVersion_update dec_int,
      field ''current_desired_state_version'' dr_CurrentDesiredStateVersion dr_CurrentDesiredStateVersion_update dec_int,
      field ''stale'' dr_Stale dr_Stale_update dec_bool,
      field ''invalid'' dr_Invalid dr_Invalid_update dec_bool,
      field ''environment'' dr_Environment dr_Environment_update dec_string,
      field ''type'' dr_Type dr_Type_update dec_string,
      field ''status'' dr_Status dr_Status_update dec_string,
      field ''routes_total'' dr_RoutesTotal dr_RoutesTotal_update dec_int,
      field ''validated_routes'' dr_ValidatedRoutes dr_ValidatedRoutes_update dec_int,
      field ''failed_routes'' dr_FailedRoutes dr_FailedRoutes_update dec_int,
      field ''error'' dr_Error dr_Error_update (dec_ptr zero_report_error (dec_struct report_error_fields)),
      field ''received_at'' dr_ReceivedAt dr_ReceivedAt_update dec_time]"

definition desired_state_report_text_ok :: "desired_state_report \<Rightarrow> bool" where
  "desired_state_report_text_ok r \<longleftrightarrow>
     list_all utf8 [dr_AgentID r, dr_Environment r, dr_Type r, dr_Status r] \<and>
     in_int64 (dr_DesiredStateVersion r) \<and>
     in_int64 (dr_CurrentDesiredStateVersion r) \<and>
     in_int64 (dr_RoutesTotal r) \<and>
     in_int64 (dr_ValidatedRoutes r) \<and>
     in_int64 (dr_FailedRoutes r) \<and>
     ptr_ok report_error_text_ok (dr_Error r) \<and>
     time_ok (dr_ReceivedAt r)"

lemmas desired_state_report_find = arg_cong [OF desired_state_report_fields_def, of "\<lambda>fs. find_field fs k" for k,
  THEN trans, OF find_field_def]

lemma desired_state_report_omit_1 [simp]:
  "dr_Error r = None \<Longrightarrow> ptr_ok report_error_text_ok x \<Longrightarrow>
   dec_members desired_state_report_fields (member_omit (x = None) ''error'' (enc_ptr enc_report_error x)) (True, r) = (True, r\<lparr>dr_Error := x\<rparr>)"
  by (cases r; cases "x = None") (auto simp: member_omit_def desired_state_report_find field_def codec_simps)

lemma dec_enc_desired_state_report:
  "desired_state_report_text_ok r \<Longrightarrow> dec_struct desired_state_report_fields zero_desired_state_report (enc_desired_state_report r) = (True, r)"
  by (cases r) (simp add: enc_desired_state_report_def desired_state_report_text_ok_def zero_desired_state_report_def struct_simps
    desired_state_report_find field_def codec_simps)

subsection \<open>Counters\<close>

definition zero_counters_snapshot :: counters_snapshot where
  "zero_counters_snapshot =
     \<lparr>cs_AgentByEnvironmentRole = None,
      cs_CommandCount = 0,
      cs_DeploymentCount = 0,
      cs_RouteCount = 0,
      cs_DesiredStateVersionByEnvironment = None\<rparr>"

definition enc_counters :: "counters_snapshot \<Rightarrow> json" where
  "enc_counters c = JObj (
     member ''AgentByEnvironmentRole'' (enc_nmap enc_int (cs_AgentByEnvironmentRole c)) @
     member ''Command'' (enc_int (cs_CommandCount c)) @
     member ''Deployment'' (enc_int (cs_DeploymentCount c)) @
     member ''Route'' (enc_int (cs_RouteCount c)) @
     member ''DesiredStateVersionByEnvironment'' (enc_nmap enc_int (cs_DesiredStateVersionByEnvironment c)))"

definition counters_fields :: "counters_snapshot fields" where
  "counters_fields =
     [field ''AgentByEnvironmentRole'' cs_AgentByEnvironmentRole cs_AgentByEnvironmentRole_update (dec_map 0 dec_int),
      field ''Command'' cs_CommandCount cs_CommandCount_update dec_int,
      field ''Deployment'' cs_DeploymentCount cs_DeploymentCount_update dec_int,
      field ''Route'' cs_RouteCount cs_RouteCount_update dec_int,
      field ''DesiredStateVersionByEnvironment'' cs_DesiredStateVersionByEnvironment cs_DesiredStateVersionByEnvironment_update (dec_map 0 dec_int)]"

definition counters_text_ok :: "counters_snapshot \<Rightarrow> bool" where
  "counters_text_ok c \<longleftrightarrow>
     nmap_ok in_int64 (cs_AgentByEnvironmentRole c) \<and>
     in_int64 (cs_CommandCount c) \<and>
     in_int64 (cs_DeploymentCount c) \<and>
     in_int64 (cs_RouteCount c) \<and>
     nmap_ok in_int64 (cs_DesiredStateVersionByEnvironment c)"

lemmas counters_find = arg_cong [OF counters_fields_def, of "\<lambda>fs. find_field fs k" for k,
  THEN trans, OF find_field_def]

lemma dec_enc_counters:
  "counters_text_ok c \<Longrightarrow> dec_struct counters_fields zero_counters_snapshot (enc_counters c) = (True, c)"
  by (cases c) (simp add: enc_counters_def counters_text_ok_def zero_counters_snapshot_def struct_simps
    counters_find field_def codec_simps)

text \<open>
  The values the state file holds: a message that was nil has become \<open>null\<close>.
\<close>

definition agent_file_ok :: "agent \<Rightarrow> bool" where
  "agent_file_ok a \<longleftrightarrow> agent_text_ok a \<and> ag_LastHeartbeat a \<noteq> None"

definition command_file_ok :: "command \<Rightarrow> bool" where
  "command_file_ok c \<longleftrightarrow> command_text_ok c \<and> cmd_Payload c \<noteq> None"

interpretation agent_codec: zero_codec enc_agent "dec_struct agent_fields" zero_agent agent_file_ok
  by unfold_locales (auto simp: agent_file_ok_def dec_enc_agent agent_read_def)

interpretation command_codec: zero_codec enc_command "dec_struct command_fields" zero_command
  command_file_ok
  by unfold_locales (auto simp: command_file_ok_def dec_enc_command command_read_def)

interpretation deployment_codec: zero_codec enc_deployment "dec_struct deployment_fields"
  zero_deployment deployment_text_ok
  by unfold_locales (rule dec_enc_deployment)

interpretation desired_state_codec: zero_codec enc_desired_state "dec_struct desired_state_fields"
  zero_desired_state desired_state_text_ok
  by unfold_locales (rule dec_enc_desired_state)

interpretation command_report_codec: zero_codec enc_command_report "dec_struct command_report_fields"
  zero_command_report command_report_text_ok
  by unfold_locales (rule dec_enc_command_report)

interpretation desired_state_report_codec: zero_codec enc_desired_state_report
  "dec_struct desired_state_report_fields" zero_desired_state_report desired_state_report_text_ok
  by unfold_locales (rule dec_enc_desired_state_report)

interpretation counters_codec: zero_codec enc_counters "dec_struct counters_fields"
  zero_counters_snapshot counters_text_ok
  by unfold_locales (rule dec_enc_counters)

interpretation agents_codec: zero_codec "enc_nmap enc_agent"
  "dec_map zero_agent (dec_struct agent_fields)" None "nmap_ok agent_file_ok"
  by (rule agent_codec.map_codec)

interpretation commands_codec: zero_codec "enc_nmap enc_command"
  "dec_map zero_command (dec_struct command_fields)" None "nmap_ok command_file_ok"
  by (rule command_codec.map_codec)

interpretation deployments_codec: zero_codec "enc_nmap enc_deployment"
  "dec_map zero_deployment (dec_struct deployment_fields)" None "nmap_ok deployment_text_ok"
  by (rule deployment_codec.map_codec)

interpretation desired_states_codec: zero_codec "enc_nmap enc_desired_state"
  "dec_map zero_desired_state (dec_struct desired_state_fields)" None "nmap_ok desired_state_text_ok"
  by (rule desired_state_codec.map_codec)

interpretation command_reports_codec: zero_codec "enc_slice enc_command_report"
  "dec_slice zero_command_report (dec_struct command_report_fields)" "[]"
  "list_all command_report_text_ok"
  by (rule command_report_codec.slice_codec)

interpretation desired_state_reports_codec: zero_codec "enc_slice enc_desired_state_report"
  "dec_slice zero_desired_state_report (dec_struct desired_state_report_fields)" "[]"
  "list_all desired_state_report_text_ok"
  by (rule desired_state_report_codec.slice_codec)

lemmas snapshot_simps = agents_codec.dec_zero commands_codec.dec_zero deployments_codec.dec_zero
  desired_states_codec.dec_zero command_reports_codec.dec_zero desired_state_reports_codec.dec_zero
  string_map_codec.dec_zero counters_codec.dec_zero


subsection \<open>Snapshots\<close>

definition zero_snapshot :: snapshot where
  "zero_snapshot =
     \<lparr>sn_SchemaVersion = 0,
      sn_Agents = None,
      sn_AgentIndex = None,
      sn_Commands = None,
      sn_Deployments = None,
      sn_CommandReports = [],
      sn_DesiredStates = None,
      sn_DesiredStateReports = [],
      sn_Counters = zero_counters_snapshot\<rparr>"

definition enc_snapshot :: "snapshot \<Rightarrow> json" where
  "enc_snapshot s = JObj (
     member ''schema_version'' (enc_int (sn_SchemaVersion s)) @
     member ''agents'' (enc_nmap enc_agent (sn_Agents s)) @
     member ''agent_index'' (enc_nmap enc_string (sn_AgentIndex s)) @
     member ''commands'' (enc_nmap enc_command (sn_Commands s)) @
     member ''deployments'' (enc_nmap enc_deployment (sn_Deployments s)) @
     member ''command_reports'' (enc_slice enc_command_report (sn_CommandReports s)) @
     member ''desired_states'' (enc_nmap enc_desired_state (sn_DesiredStates s)) @
     member ''desired_state_reports'' (enc_slice enc_desired_state_report (sn_DesiredStateReports s)) @
     member ''counters'' (enc_counters (sn_Counters s)))"

definition snapshot_fields :: "snapshot fields" where
  "snapshot_fields =
     [field ''schema_version'' sn_SchemaVersion sn_SchemaVersion_update dec_int,
      field ''agents'' sn_Agents sn_Agents_update (dec_map zero_agent (dec_struct agent_fields)),
      field ''agent_index'' sn_AgentIndex sn_AgentIndex_update (dec_map '''' dec_string),
      field ''commands'' sn_Commands sn_Commands_update (dec_map zero_command (dec_struct command_fields)),
      field ''deployments'' sn_Deployments sn_Deployments_update (dec_map zero_deployment (dec_struct deployment_fields)),
      field ''command_reports'' sn_CommandReports sn_CommandReports_update (dec_slice zero_command_report (dec_struct command_report_fields)),
      field ''desired_states'' sn_DesiredStates sn_DesiredStates_update (dec_map zero_desired_state (dec_struct desired_state_fields)),
      field ''desired_state_reports'' sn_DesiredStateReports sn_DesiredStateReports_update (dec_slice zero_desired_state_report (dec_struct desired_state_report_fields)),
      field ''counters'' sn_Counters sn_Counters_update (dec_struct counters_fields)]"

definition snapshot_text_ok :: "snapshot \<Rightarrow> bool" where
  "snapshot_text_ok s \<longleftrightarrow>
     in_int64 (sn_SchemaVersion s) \<and>
     nmap_ok agent_file_ok (sn_Agents s) \<and>
     nmap_ok utf8 (sn_AgentIndex s) \<and>
     nmap_ok command_file_ok (sn_Commands s) \<and>
     nmap_ok deployment_text_ok (sn_Deployments s) \<and>
     list_all command_report_text_ok (sn_CommandReports s) \<and>
     nmap_ok desired_state_text_ok (sn_DesiredStates s) \<and>
     list_all desired_state_report_text_ok (sn_DesiredStateReports s) \<and>
     counters_text_ok (sn_Counters s)"

lemmas snapshot_find = arg_cong [OF snapshot_fields_def, of "\<lambda>fs. find_field fs k" for k,
  THEN trans, OF find_field_def]

lemma dec_enc_snapshot:
  "snapshot_text_ok s \<Longrightarrow> dec_struct snapshot_fields zero_snapshot (enc_snapshot s) = (True, s)"
  by (cases s) (simp add: enc_snapshot_def snapshot_text_ok_def zero_snapshot_def struct_simps
    snapshot_find field_def codec_simps snapshot_simps)

definition snapshot_read :: "snapshot \<Rightarrow> snapshot" where
  "snapshot_read s = s\<lparr>sn_Agents := map_option (fmmap agent_read) (sn_Agents s),
     sn_Commands := map_option (fmmap command_read) (sn_Commands s)\<rparr>"

text \<open>The texts, numbers and times of a snapshot that JSON can carry.\<close>

definition snapshot_ok :: "snapshot \<Rightarrow> bool" where
  "snapshot_ok s \<longleftrightarrow>
     in_int64 (sn_SchemaVersion s) \<and> nmap_ok agent_text_ok (sn_Agents s) \<and>
     nmap_ok utf8 (sn_AgentIndex s) \<and> nmap_ok command_text_ok (sn_Commands s) \<and>
     nmap_ok deployment_text_ok (sn_Deployments s) \<and>
     list_all command_report_text_ok (sn_CommandReports s) \<and>
     nmap_ok desired_state_text_ok (sn_DesiredStates s) \<and>
     list_all desired_state_report_text_ok (sn_DesiredStateReports s) \<and>
     counters_text_ok (sn_Counters s)"

lemma sorted_list_fmmap: "sorted_list_of_fmap (fmmap g m) = map (\<lambda>(k, v). (k, g v)) (sorted_list_of_fmap m)"
  by (auto simp: sorted_list_of_fmap_def sorted_list_of_fset.rep_eq fmlookup_dom_iff)

lemma enc_nmap_read:
  "(\<And>v. f (g v) = f v) \<Longrightarrow> enc_nmap f (map_option (fmmap g) m) = enc_nmap f m"
  by (cases m) (auto simp: enc_nmap_def enc_map_def sorted_list_fmmap)

lemma enc_agent_read: "enc_agent (agent_read a) = enc_agent a"
proof -
  have "ag_LastHeartbeat (agent_read a) = Some (enc_raw (ag_LastHeartbeat a))"
    by (simp add: agent_read_def)
  then have "enc_raw (ag_LastHeartbeat (agent_read a)) = enc_raw (ag_LastHeartbeat a)" by simp
  then show ?thesis unfolding enc_agent_def by (simp only:) (simp add: agent_read_def)
qed

lemma enc_command_read: "enc_command (command_read c) = enc_command c"
proof -
  have "cmd_Payload (command_read c) = Some (enc_raw (cmd_Payload c))"
    by (simp add: command_read_def)
  then have "enc_raw (cmd_Payload (command_read c)) = enc_raw (cmd_Payload c)" by simp
  then show ?thesis unfolding enc_command_def by (simp only:) (simp add: command_read_def)
qed

lemma nmap_ok_read:
  "(\<And>v. ok v \<Longrightarrow> ok' (g v)) \<Longrightarrow> nmap_ok ok m \<Longrightarrow> nmap_ok ok' (map_option (fmmap g) m)"
  by (cases m) (auto simp: nmap_ok_def map_ok_def)

lemma agent_read_ok: "agent_text_ok a \<Longrightarrow> agent_file_ok (agent_read a)"
  by (simp add: agent_file_ok_def agent_text_ok_def agent_read_def)

lemma command_read_ok: "command_text_ok c \<Longrightarrow> command_file_ok (command_read c)"
  by (simp add: command_file_ok_def command_text_ok_def command_read_def)

lemma snapshot_read_ok: "snapshot_ok s \<Longrightarrow> snapshot_text_ok (snapshot_read s)"
  unfolding snapshot_ok_def snapshot_text_ok_def snapshot_read_def
  by (simp add: nmap_ok_read [of agent_text_ok agent_file_ok agent_read, OF agent_read_ok]
      nmap_ok_read [of command_text_ok command_file_ok command_read, OF command_read_ok])

lemma dec_enc_read_snapshot:
  assumes "snapshot_ok s"
  shows "dec_struct snapshot_fields zero_snapshot (enc_snapshot s) = (True, snapshot_read s)"
proof -
  have "enc_snapshot s = enc_snapshot (snapshot_read s)"
    by (simp add: enc_snapshot_def snapshot_read_def enc_nmap_read enc_agent_read
        enc_command_read)
  then show ?thesis using dec_enc_snapshot [OF snapshot_read_ok [OF assms]] by simp
qed

end
