(* ===== verification/Persistence.thy ===== *)
theory Persistence
  imports Codec Examples
begin

text \<open>
  \<open>internal/persistence/persistence.go\<close> and what \<open>cmd/fake-platform-api/main.go\<close> does with
  it: loading the state file at the start, the periodic save and the final one.

  The file system maps names to inodes and inodes to contents. A content is the JSON
  document the bytes are, \<open>None\<close> when they are not one: an empty file and a proper prefix of
  an object are not. A crash is one of the process; what the operating system has accepted
  stays.
\<close>

section \<open>Files\<close>

record fs =
  fs_names :: "nat gomap"
  fs_data :: "nat \<Rightarrow> json option"
  fs_next :: nat

definition fs_content :: "fs \<Rightarrow> string \<Rightarrow> json option option" where
  "fs_content f p = map_option (fs_data f) (fmlookup (fs_names f) p)"

text \<open>Every name refers to an inode that has been handed out, and no two to the same.\<close>

definition fs_ok :: "fs \<Rightarrow> bool" where
  "fs_ok f \<longleftrightarrow>
     (\<forall>p i. fmlookup (fs_names f) p = Some i \<longrightarrow> i < fs_next f) \<and>
     (\<forall>p q i. fmlookup (fs_names f) p = Some i \<longrightarrow> fmlookup (fs_names f) q = Some i \<longrightarrow> p = q)"

definition fs_empty :: fs where
  "fs_empty = \<lparr>fs_names = fmempty, fs_data = (\<lambda>_. None), fs_next = 0\<rparr>"

text \<open>The opening of a file for writing: it is created or truncated.\<close>

definition fs_open :: "string \<Rightarrow> fs \<Rightarrow> fs \<times> nat" where
  "fs_open p f =
     (case fmlookup (fs_names f) p of
        Some i \<Rightarrow> (f\<lparr>fs_data := (fs_data f)(i := None)\<rparr>, i)
      | None \<Rightarrow> (f\<lparr>fs_names := fmupd p (fs_next f) (fs_names f),
                  fs_data := (fs_data f)(fs_next f := None),
                  fs_next := fs_next f + 1\<rparr>, fs_next f))"

definition fs_write :: "nat \<Rightarrow> json option \<Rightarrow> fs \<Rightarrow> fs" where
  "fs_write i c f = f\<lparr>fs_data := (fs_data f)(i := c)\<rparr>"

text \<open>A rename fails when there is no file of the old name.\<close>

definition fs_rename :: "string \<Rightarrow> string \<Rightarrow> fs \<Rightarrow> fs option" where
  "fs_rename p q f =
     (case fmlookup (fs_names f) p of
        None \<Rightarrow> None
      | Some i \<Rightarrow> Some (f\<lparr>fs_names := fmupd q i (fmdrop p (fs_names f))\<rparr>))"

definition fs_remove :: "string \<Rightarrow> fs \<Rightarrow> fs" where
  "fs_remove p f = f\<lparr>fs_names := fmdrop p (fs_names f)\<rparr>"

section \<open>Load\<close>

datatype read_outcome = ReadFailed | ReadNotExist | ReadData "json option"

definition os_ReadFile :: "bool \<Rightarrow> fs \<Rightarrow> string \<Rightarrow> read_outcome" where
  "os_ReadFile fails f p =
     (if fails then ReadFailed
      else case fs_content f p of None \<Rightarrow> ReadNotExist | Some c \<Rightarrow> ReadData c)"

datatype load_error = LoadRead | LoadUnmarshal

definition Load :: "read_outcome \<Rightarrow> load_error + snapshot option" where
  "Load r =
     (case r of
        ReadNotExist \<Rightarrow> Inr None
      | ReadFailed \<Rightarrow> Inl LoadRead
      | ReadData None \<Rightarrow> Inl LoadUnmarshal
      | ReadData (Some j) \<Rightarrow>
          (let (ok, snap) = dec_struct snapshot_fields zero_snapshot j in
           if ok then Inr (Some snap) else Inl LoadUnmarshal))"

section \<open>Save\<close>

text \<open>
  What may go wrong in a save: the directory cannot be made, the temporary file cannot be
  opened or written to the end, it cannot be renamed. Marshalling does not fail: the raw
  messages of a store are documents, and its times are in the years 1 to 9999.
\<close>

datatype save_fault = NoFault | MkdirFault | OpenFault | WriteFault | RenameFault

datatype save_error = SaveMkdir | SaveWrite | SaveRename

definition tmp_name :: "string \<Rightarrow> string" where
  "tmp_name path = path @ ''.tmp''"

definition Save :: "save_fault \<Rightarrow> string \<Rightarrow> snapshot \<Rightarrow> fs \<Rightarrow> fs \<times> save_error option" where
  "Save fault path snap f =
     (let data = enc_snapshot snap; tmpPath = tmp_name path in
      if fault = MkdirFault then (f, Some SaveMkdir)
      else if fault = OpenFault then (f, Some SaveWrite)
      else
        (let (f1, i) = fs_open tmpPath f in
         if fault = WriteFault then (fs_write i None f1, Some SaveWrite)
         else
           (let f2 = fs_write i (Some data) f1 in
            if fault = RenameFault then (f2, Some SaveRename)
            else case fs_rename tmpPath path f2 of
                   None \<Rightarrow> (f2, Some SaveRename)
                 | Some f3 \<Rightarrow> (f3, None))))"

text \<open>
  The states of the file system during a save: those a crash, or a fault of any of its calls, can
  leave behind. A part of the document that has been written to the temporary file is not a
  document.
\<close>

definition save_states :: "string \<Rightarrow> snapshot \<Rightarrow> fs \<Rightarrow> fs list" where
  "save_states path snap f =
     (let (f1, i) = fs_open (tmp_name path) f;
          f2 = fs_write i (Some (enc_snapshot snap)) f1
      in [f, f1, fs_write i None f1, f2] @ (case fs_rename (tmp_name path) path f2 of None \<Rightarrow> [] | Some f3 \<Rightarrow> [f3]))"

section \<open>The start of the program\<close>

definition boot :: "string \<Rightarrow> read_outcome \<Rightarrow> store" where
  "boot StateFile r =
     (if StateFile = '''' then store_New
      else case Load r of
             Inl e \<Rightarrow> store_New
           | Inr None \<Rightarrow> store_New
           | Inr (Some snap) \<Rightarrow>
               (if sn_SchemaVersion snap \<noteq> SchemaVersion then store_New
                else Restore snap store_New))"

text \<open>The interval of the save loop: \<open>time.Duration\<close> counts nanoseconds in 64 bits.\<close>

definition snapshot_interval :: "int \<Rightarrow> int" where
  "snapshot_interval seconds =
     (let interval = s64 (seconds * 1000000000) in
      if interval \<le> 0 then 2 * 1000000000 else interval)"

text \<open>The loop: a snapshot is saved at every tick until the context is done.\<close>

datatype loop_event = LoopDone | LoopTick loop_orders store save_fault

fun runSnapshotLoop :: "string \<Rightarrow> loop_event list \<Rightarrow> fs \<Rightarrow> fs" where
  "runSnapshotLoop path [] f = f"
| "runSnapshotLoop path (LoopDone # es) f = f"
| "runSnapshotLoop path (LoopTick os st fault # es) f =
     runSnapshotLoop path es (fst (Save fault path (take_Snapshot os st) f))"

text \<open>
  The end of \<open>main\<close>: after the shutdown of the server the state is saved once more.
\<close>

definition final_save :: "string \<Rightarrow> save_fault \<Rightarrow> loop_orders \<Rightarrow> store \<Rightarrow> fs \<Rightarrow> fs" where
  "final_save StateFile fault os st f =
     (if StateFile = '''' then f else fst (Save fault StateFile (take_Snapshot os st) f))"

section \<open>Lemmas\<close>

lemma tmp_name_neq [simp]: "tmp_name p \<noteq> p" "p \<noteq> tmp_name p"
  by (simp_all add: tmp_name_def)

lemma fs_open_content:
  assumes "fs_ok f" and "fs_open p f = (g, i)"
  shows "fs_content g q = (if q = p then Some None else fs_content f q)"
    and "fmlookup (fs_names g) p = Some i" and "fs_ok g"
proof -
  show "fs_content g q = (if q = p then Some None else fs_content f q)"
    using assms unfolding fs_open_def fs_content_def fs_ok_def
    by (cases "fmlookup (fs_names f) p"; cases "fmlookup (fs_names f) q") fastforce+
  show "fmlookup (fs_names g) p = Some i"
    using assms(2) by (auto simp: fs_open_def split: option.splits)
  show "fs_ok g"
    using assms unfolding fs_open_def fs_ok_def
    by (cases "fmlookup (fs_names f) p") (force split: if_splits)+
qed

lemma fs_write_content:
  assumes "fs_ok f" and "fmlookup (fs_names f) p = Some i"
  shows "fs_content (fs_write i c f) q = (if q = p then Some c else fs_content f q)"
    and "fs_ok (fs_write i c f)" and "fmlookup (fs_names (fs_write i c f)) p = Some i"
  using assms unfolding fs_write_def fs_content_def fs_ok_def
  by (cases "fmlookup (fs_names f) q"; fastforce)+

lemma fs_rename_content:
  assumes "fs_ok f" and "fs_rename p q f = Some g" and "p \<noteq> q"
  shows "fs_content g r = (if r = q then fs_content f p else if r = p then None else fs_content f r)"
    and "fs_ok g"
proof -
  obtain i where i: "fmlookup (fs_names f) p = Some i" "g = f\<lparr>fs_names := fmupd q i (fmdrop p (fs_names f))\<rparr>"
    using assms(2) by (auto simp: fs_rename_def split: option.splits)
  show "fs_content g r = (if r = q then fs_content f p else if r = p then None else fs_content f r)"
    using assms(3) by (simp add: i fs_content_def)
  show "fs_ok g" using assms(1) i(1) unfolding fs_ok_def i(2) by (auto split: if_splits)
qed

section \<open>Two savers at once\<close>

text \<open>
  \<open>main\<close> does not wait for the save loop: at the shutdown its own save may run while the
  loop is still in one, both with the same temporary name. Each saver opens, writes and
  renames; two savers that have the same inode open may leave any bytes in it. The program
  ends when the saver of \<open>main\<close>, \<open>True\<close>, is done.
\<close>

datatype saver = SvIdle | SvOpened nat | SvWritten | SvDone

inductive race_step ::
  "string \<Rightarrow> (bool \<Rightarrow> snapshot) \<Rightarrow> fs \<times> (bool \<Rightarrow> saver) \<Rightarrow> fs \<times> (bool \<Rightarrow> saver) \<Rightarrow> bool"
  for path :: string and snap :: "bool \<Rightarrow> snapshot" where
  race_open: "pc b = SvIdle \<Longrightarrow> fs_open (tmp_name path) f = (g, i) \<Longrightarrow>
    race_step path snap (f, pc) (g, pc(b := SvOpened i))"
| race_write: "pc b = SvOpened i \<Longrightarrow>
    c = Some (enc_snapshot (snap b)) \<or> pc (\<not> b) = SvOpened i \<Longrightarrow>
    race_step path snap (f, pc) (fs_write i c f, pc(b := SvWritten))"
| race_rename: "pc b = SvWritten \<Longrightarrow> fs_rename (tmp_name path) path f = Some g \<Longrightarrow>
    race_step path snap (f, pc) (g, pc(b := SvDone))"
| race_rename_fails: "pc b = SvWritten \<Longrightarrow> fs_rename (tmp_name path) path f = None \<Longrightarrow>
    race_step path snap (f, pc) (f, pc(b := SvDone))"

section \<open>What a save does to the state file\<close>

lemma save_steps:
  assumes ok: "fs_ok f"
  obtains f1 i f2 f3 where "fs_open (tmp_name path) f = (f1, i)" "f2 = fs_write i (Some j) f1"
    "fs_rename (tmp_name path) path f2 = Some f3" "fs_ok f1" "fs_ok f2" "fs_ok f3"
    "\<And>q. fs_content f1 q = (if q = tmp_name path then Some None else fs_content f q)"
    "\<And>q. fs_content (fs_write i None f1) q = (if q = tmp_name path then Some None else fs_content f q)"
    "\<And>q. fs_content f2 q = (if q = tmp_name path then Some (Some j) else fs_content f q)"
    "\<And>q. fs_content f3 q = (if q = path then Some (Some j)
       else if q = tmp_name path then None else fs_content f q)"
proof -
  obtain f1 i where f1: "fs_open (tmp_name path) f = (f1, i)" by fastforce
  note o = fs_open_content [OF ok f1]
  define f2 where "f2 = fs_write i (Some j) f1"
  note w = fs_write_content [OF o(3,2), of "Some j", folded f2_def]
  note w0 = fs_write_content [OF o(3,2), of None]
  obtain f3 where f3: "fs_rename (tmp_name path) path f2 = Some f3"
    using w(3) by (simp add: fs_rename_def)
  note r = fs_rename_content [OF w(2) f3]
  show ?thesis
    by (rule that [OF f1 f2_def f3 o(3) w(2) r(2)]) (simp_all add: o(1) w(1) w0(1) r(1))
qed

text \<open>
  C24: at every moment of a save, and so whatever moment the program is killed at, the state
  file holds what it held before or the new snapshot in full; no other file but the
  temporary one changes.
\<close>

theorem save_is_atomic:
  assumes "fs_ok f" and "d \<in> set (save_states path snap f)"
  shows "(fs_content d path = fs_content f path \<or>
      fs_content d path = Some (Some (enc_snapshot snap))) \<and>
    (\<forall>q. q \<noteq> path \<longrightarrow> q \<noteq> tmp_name path \<longrightarrow> fs_content d q = fs_content f q)"
proof (rule save_steps [OF assms(1), of path "enc_snapshot snap"])
  fix f1 i f2 f3
  assume s: "fs_open (tmp_name path) f = (f1, i)" "f2 = fs_write i (Some (enc_snapshot snap)) f1"
    "fs_rename (tmp_name path) path f2 = Some f3"
    "\<And>q. fs_content f1 q = (if q = tmp_name path then Some None else fs_content f q)"
    "\<And>q. fs_content (fs_write i None f1) q = (if q = tmp_name path then Some None else fs_content f q)"
    "\<And>q. fs_content f2 q = (if q = tmp_name path then Some (Some (enc_snapshot snap)) else fs_content f q)"
    "\<And>q. fs_content f3 q = (if q = path then Some (Some (enc_snapshot snap))
       else if q = tmp_name path then None else fs_content f q)"
  have "d \<in> {f, f1, fs_write i None f1, f2, f3}"
    using assms(2) s(3) unfolding save_states_def s(1) by (simp add: Let_def flip: s(2))
  then show ?thesis using s(4-7) by auto
qed

theorem save_is_atomic_witness:
  "list_all (\<lambda>d. fs_content d ''s.json'' = None \<or>
      fs_content d ''s.json'' = Some (Some (enc_snapshot zero_snapshot)))
     (save_states ''s.json'' zero_snapshot fs_empty)"
  unfolding list_all_iff
proof
  fix d assume d: "d \<in> set (save_states ''s.json'' zero_snapshot fs_empty)"
  have e: "fs_ok fs_empty" "fs_content fs_empty p = None" for p
    by (simp_all add: fs_ok_def fs_empty_def fs_content_def)
  show "fs_content d ''s.json'' = None \<or>
      fs_content d ''s.json'' = Some (Some (enc_snapshot zero_snapshot))"
    using save_is_atomic [OF e(1) d] e(2) by simp
qed

lemma save_content:
  assumes ok: "fs_ok f" and g: "Save fault path snap f = (g, err)"
  shows "fs_ok g" and "(err = None) = (fault = NoFault)"
    and "fs_content g path =
      (if fault = NoFault then Some (Some (enc_snapshot snap)) else fs_content f path)"
proof -
  have "fs_ok g \<and> (err = None) = (fault = NoFault) \<and> fs_content g path =
      (if fault = NoFault then Some (Some (enc_snapshot snap)) else fs_content f path)"
  proof (rule save_steps [OF ok, of path "enc_snapshot snap"])
    fix f1 i f2 f3
    assume s: "fs_open (tmp_name path) f = (f1, i)" "f2 = fs_write i (Some (enc_snapshot snap)) f1"
      "fs_rename (tmp_name path) path f2 = Some f3" "fs_ok f1" "fs_ok f2" "fs_ok f3"
      "\<And>q. fs_content (fs_write i None f1) q = (if q = tmp_name path then Some None else fs_content f q)"
      "\<And>q. fs_content f2 q = (if q = tmp_name path then Some (Some (enc_snapshot snap)) else fs_content f q)"
      "\<And>q. fs_content f3 q = (if q = path then Some (Some (enc_snapshot snap))
         else if q = tmp_name path then None else fs_content f q)"
    have "fs_ok (fs_write i None f1)"
      using s(4) by (simp add: fs_ok_def fs_write_def)
    moreover have "Save fault path snap f =
        (case fault of NoFault \<Rightarrow> (f3, None) | MkdirFault \<Rightarrow> (f, Some SaveMkdir)
         | OpenFault \<Rightarrow> (f, Some SaveWrite) | WriteFault \<Rightarrow> (fs_write i None f1, Some SaveWrite)
         | RenameFault \<Rightarrow> (f2, Some SaveRename))"
      by (cases fault) (simp_all add: Save_def Let_def s(1,3) flip: s(2))
    ultimately show ?thesis
      using g ok s(5,6) s(7) [of path] s(8) [of path] s(9) [of path] by (cases fault) auto
  qed
  then show "fs_ok g" "(err = None) = (fault = NoFault)" "fs_content g path =
      (if fault = NoFault then Some (Some (enc_snapshot snap)) else fs_content f path)"
    by blast+
qed

text \<open>
  C36: a save that reports no error has put the whole snapshot in place of the state file; one
  that reports an error has left the state file as it was.
\<close>

theorem save_reports_the_truth:
  assumes "fs_ok f" and "Save fault path snap f = (g, err)"
  shows "fs_content g path =
    (if err = None then Some (Some (enc_snapshot snap)) else fs_content f path)"
  using save_content [OF assms] by simp

theorem save_reports_the_truth_witness:
  "fs_content (fst (Save NoFault ''s.json'' zero_snapshot fs_empty)) ''s.json'' =
     Some (Some (enc_snapshot zero_snapshot))"
proof -
  have ok: "fs_ok fs_empty" by (simp add: fs_ok_def fs_empty_def)
  have s: "Save NoFault ''s.json'' zero_snapshot fs_empty =
      (fst (Save NoFault ''s.json'' zero_snapshot fs_empty), None)"
    using save_content(2) [OF ok surjective_pairing, of NoFault "''s.json''" zero_snapshot]
    by (metis prod.collapse)
  show ?thesis using save_reports_the_truth [OF ok s] by simp
qed

section \<open>A restart\<close>

text \<open>
  The store a restart finds: that of the last save, with the raw messages that were nil read
  as \<open>null\<close>.
\<close>

definition store_read :: "store \<Rightarrow> store" where
  "store_read s = s\<lparr>Agents := fmmap agent_read (Agents s),
     Commands := fmmap command_read (Commands s)\<rparr>"

lemma restore_read:
  assumes "loop_orders_ok os s"
  shows "Restore (snapshot_read (take_Snapshot os s)) u = store_read s"
  using assms
  by (simp add: take_Snapshot_def snapshot_read_def Restore_def loop_orders_ok_def copy_map_ident
      store_read_def Let_def)

lemma Load_saved:
  "snapshot_ok snap \<Longrightarrow> Load (ReadData (Some (enc_snapshot snap))) = Inr (Some (snapshot_read snap))"
  by (simp add: Load_def dec_enc_read_snapshot)

lemma snapshot_ok_New:
  assumes "loop_orders_ok os store_New"
  shows "snapshot_ok (take_Snapshot os store_New)"
  using assms by (simp add: snapshot_ok_def take_Snapshot_def Let_def loop_orders_ok_def copy_map_ident)
      (simp add: store_New_def zero_counters_def nmap_ok_def map_ok_def counters_text_ok_def
        in_int64_def SchemaVersion_def min_int_def max_int_def)

lemma boot_saved:
  assumes "fs_ok f" and "loop_orders_ok os s" and "snapshot_ok (take_Snapshot os s)"
    and "path \<noteq> ''''" and "Save fault path (take_Snapshot os s) f = (g, None)"
  shows "boot path (os_ReadFile False g path) = store_read s"
proof -
  have c: "fs_content g path = Some (Some (enc_snapshot (take_Snapshot os s)))"
    using save_content [OF assms(1,5)] by simp
  have v: "sn_SchemaVersion (snapshot_read (take_Snapshot os s)) = SchemaVersion"
    by (simp add: snapshot_read_def)
  show ?thesis
    using assms(4) v
    by (simp add: boot_def os_ReadFile_def c Load_saved [OF assms(3)] restore_read [OF assms(2)])
qed



section \<open>The save loop\<close>

text \<open>What the state file should hold after the loop: the last snapshot saved without an error.\<close>

fun last_saved :: "loop_event list \<Rightarrow> json option option \<Rightarrow> json option option" where
  "last_saved [] old = old"
| "last_saved (LoopDone # es) old = old"
| "last_saved (LoopTick os st fault # es) old =
     last_saved es (if fault = NoFault then Some (Some (enc_snapshot (take_Snapshot os st))) else old)"

text \<open>
  The save loop, run alone, keeps in the state file the snapshot of the last tick whose
  save succeeded, and what was there before when none did; after the context is done it
  saves nothing.
\<close>

theorem loop_keeps_last_saved:
  assumes "fs_ok f"
  shows "fs_content (runSnapshotLoop path es f) path = last_saved es (fs_content f path)"
  using assms
proof (induction path es f rule: runSnapshotLoop.induct)
  case (3 path os st fault es f)
  obtain g err where g: "Save fault path (take_Snapshot os st) f = (g, err)" by fastforce
  show ?case using 3 save_content(1,3) [OF 3(2) g] by (simp add: g)
qed simp_all

theorem loop_keeps_last_saved_witness:
  "\<exists>os. fs_content (runSnapshotLoop ''s.json''
       [LoopTick os ex_1 NoFault, LoopTick os ex_2 RenameFault, LoopDone, LoopTick os ex_3 NoFault] fs_empty)
     ''s.json'' = Some (Some (enc_snapshot (take_Snapshot os ex_1)))"
proof -
  fix os :: loop_orders
  have "fs_ok fs_empty" by (simp add: fs_ok_def fs_empty_def)
  from loop_keeps_last_saved [OF this, of "''s.json''"
    "[LoopTick os ex_1 NoFault, LoopTick os ex_2 RenameFault, LoopDone, LoopTick os ex_3 NoFault]"]
  show ?thesis by (intro exI [of _ os]) (simp del: runSnapshotLoop.simps)
qed

text \<open>
  The interval between two saves is always positive, and it is the configured number of
  seconds when that is positive and a \<open>time.Duration\<close> can hold it.
\<close>

lemma interval_positive:
  "0 < snapshot_interval n \<and>
   (0 < n \<and> n * 1000000000 \<le> max_int \<longrightarrow> snapshot_interval n = n * 1000000000) \<and>
   (n \<le> 0 \<and> min_int \<le> n * 1000000000 \<longrightarrow> snapshot_interval n = 2 * 1000000000)"
proof -
  have "s64 (n * 1000000000) = n * 1000000000"
    if "min_int \<le> n * 1000000000" "n * 1000000000 \<le> max_int"
    using that by (simp add: s64_id)
  moreover have "0 < n \<Longrightarrow> min_int \<le> n * 1000000000" "n \<le> 0 \<Longrightarrow> n * 1000000000 \<le> max_int"
    by (simp_all add: min_int_def max_int_def)
  ultimately show ?thesis unfolding snapshot_interval_def Let_def by force
qed

text \<open>
  C40: the final save of \<open>main\<close> can destroy the state file although it reports success. When
  the loop is still in a save, it can truncate the temporary file between the write and the
  rename of \<open>main\<close>; \<open>main\<close> then renames an empty file into place and ends, and the next start
  finds nothing.
\<close>

theorem final_save_can_lose_the_state:
  assumes "fs_ok f" and "path \<noteq> ''''"
  shows "\<exists>g pc. (race_step path snap)\<^sup>*\<^sup>* (f, \<lambda>_. SvIdle) (g, pc) \<and> pc True = SvDone \<and>
    fs_content g path = Some None \<and> boot path (os_ReadFile False g path) = store_New"
proof (rule save_steps [OF assms(1), of path "enc_snapshot (snap True)"])
  fix f1 i f2 f3
  assume s: "fs_open (tmp_name path) f = (f1, i)" "f2 = fs_write i (Some (enc_snapshot (snap True))) f1"
    "fs_ok f1" "fs_ok f2"
  have tmp: "fmlookup (fs_names f2) (tmp_name path) = Some i"
    using fs_open_content(2) [OF assms(1) s(1)] by (simp add: s(2) fs_write_def)
  define f3 where "f3 = fs_write i None f2"
  have o2: "fs_open (tmp_name path) f2 = (f3, i)" by (simp add: fs_open_def tmp f3_def fs_write_def)
  have tmp3: "fmlookup (fs_names f3) (tmp_name path) = Some i" by (simp add: f3_def fs_write_def tmp)
  obtain f4 where f4: "fs_rename (tmp_name path) path f3 = Some f4" by (simp add: fs_rename_def tmp3)
  have "fs_ok f3" using s(4) by (simp add: fs_ok_def f3_def fs_write_def)
  then have c: "fs_content f4 path = Some None"
    using fs_rename_content(1) [OF _ f4] tmp3 by (simp add: fs_content_def f3_def fs_write_def)
  let ?p0 = "\<lambda>_ :: bool. SvIdle"
  let ?p1 = "?p0(True := SvOpened i)"
  let ?p2 = "?p1(True := SvWritten)"
  let ?p3 = "?p2(False := SvOpened i)"
  have "race_step path snap (f, ?p0) (f1, ?p1)" by (rule race_open [OF _ s(1)]) simp
  moreover have "race_step path snap (f1, ?p1) (f2, ?p2)" unfolding s(2) by (rule race_write) simp_all
  moreover have "race_step path snap (f2, ?p2) (f3, ?p3)" by (rule race_open [OF _ o2]) simp
  moreover have "race_step path snap (f3, ?p3) (f4, ?p3(True := SvDone))"
    by (rule race_rename [OF _ f4]) simp
  ultimately have "(race_step path snap)\<^sup>*\<^sup>* (f, ?p0) (f4, ?p3(True := SvDone))"
    by (meson converse_rtranclp_into_rtranclp rtranclp.rtrancl_refl)
  moreover have "boot path (os_ReadFile False f4 path) = store_New"
    by (simp add: boot_def os_ReadFile_def c Load_def)
  ultimately show ?thesis using c by (intro exI [of _ f4] exI [of _ "?p3(True := SvDone)"]) simp
qed

theorem final_save_can_lose_the_state_witness:
  "\<exists>g pc. (race_step ''s.json'' (\<lambda>_. zero_snapshot))\<^sup>*\<^sup>* (fs_empty, \<lambda>_. SvIdle) (g, pc) \<and>
     pc True = SvDone \<and> fs_content g ''s.json'' = Some None \<and>
     boot ''s.json'' (os_ReadFile False g ''s.json'') = store_New"
  by (rule final_save_can_lose_the_state) (simp_all add: fs_ok_def fs_empty_def)

end
