(* ===== verification/Response.thy ===== *)
theory Response
  imports Codec
begin

text \<open>
  \<open>internal/response/response.go\<close> and the \<open>http.ResponseWriter\<close> it writes to: the header map,
  what has been sent of the status line and the headers, and the body. The body is the list
  of the JSON documents written to it. The first \<open>WriteHeader\<close> sends the status and the
  headers as they are then; a later one is dropped, and a body without one sends 200. The
  names of headers are written in their canonical form throughout.
\<close>

record writer =
  w_header :: "string gomap"
  w_sent :: "(int \<times> string gomap) option"
  w_body :: "json list"

definition new_writer :: writer where
  "new_writer = \<lparr>w_header = fmempty, w_sent = None, w_body = []\<rparr>"

definition set_header :: "string \<Rightarrow> string \<Rightarrow> writer \<Rightarrow> writer" where
  "set_header k v w = w\<lparr>w_header := fmupd k v (w_header w)\<rparr>"

definition WriteHeader :: "int \<Rightarrow> writer \<Rightarrow> writer" where
  "WriteHeader status w =
     (case w_sent w of None \<Rightarrow> w\<lparr>w_sent := Some (status, w_header w)\<rparr> | Some _ \<Rightarrow> w)"

definition write_json :: "json \<Rightarrow> writer \<Rightarrow> writer" where
  "write_json j w = (let w1 = WriteHeader 200 w in w1\<lparr>w_body := w_body w1 @ [j]\<rparr>)"

section \<open>JSON and Error\<close>

definition JSON :: "int \<Rightarrow> json \<Rightarrow> writer \<Rightarrow> writer" where
  "JSON status data w =
     write_json data (WriteHeader status (set_header ''Content-Type'' ''application/json'' w))"

record error_detail =
  ed_Code :: string
  ed_Message :: string
  ed_Retryable :: bool

record error_body =
  eb_Error :: error_detail

definition enc_error_detail :: "error_detail \<Rightarrow> json" where
  "enc_error_detail d = JObj (
     member ''code'' (enc_string (ed_Code d)) @
     member ''message'' (enc_string (ed_Message d)) @
     member ''retryable'' (JBool (ed_Retryable d)))"

definition enc_error_body :: "error_body \<Rightarrow> json" where
  "enc_error_body b = JObj (member ''error'' (enc_error_detail (eb_Error b)))"

definition Error :: "int \<Rightarrow> string \<Rightarrow> string \<Rightarrow> bool \<Rightarrow> writer \<Rightarrow> writer" where
  "Error status code message retryable w =
     JSON status
       (enc_error_body \<lparr>eb_Error =
          \<lparr>ed_Code = code, ed_Message = message, ed_Retryable = retryable\<rparr>\<rparr>) w"

section \<open>Reading a response\<close>

text \<open>The status and the one document a client gets, and the error code in it.\<close>

definition status_of :: "writer \<Rightarrow> int option" where
  "status_of w = map_option fst (w_sent w)"

definition sent_header :: "string \<Rightarrow> writer \<Rightarrow> string option" where
  "sent_header k w = (case w_sent w of None \<Rightarrow> None | Some (_, h) \<Rightarrow> fmlookup h k)"

text \<open>A response that has just been written, on a writer nothing had been sent on.\<close>

definition fresh_writer :: "writer \<Rightarrow> bool" where
  "fresh_writer w \<longleftrightarrow> w_sent w = None \<and> w_body w = []"

definition answered :: "int \<Rightarrow> json \<Rightarrow> writer \<Rightarrow> writer \<Rightarrow> bool" where
  "answered status j w w' \<longleftrightarrow> status_of w' = Some status \<and> w_body w' = [j] \<and>
     (\<forall>k. sent_header k w' =
        (if k = ''Content-Type'' then Some ''application/json'' else fmlookup (w_header w) k))"

lemma fresh_new [simp]: "fresh_writer new_writer"
  by (simp add: fresh_writer_def new_writer_def)

lemma fresh_set_header [simp]: "fresh_writer (set_header k v w) = fresh_writer w"
  by (simp add: fresh_writer_def set_header_def)

lemma JSON_answers: "fresh_writer w \<Longrightarrow> answered status j w (JSON status j w)"
  by (simp add: answered_def fresh_writer_def JSON_def write_json_def WriteHeader_def set_header_def
      status_of_def sent_header_def Let_def)

definition error_json :: "string \<Rightarrow> string \<Rightarrow> json" where
  "error_json code message = JObj [(''error'', JObj [(''code'', enc_string code),
     (''message'', enc_string message), (''retryable'', JBool False)])]"

lemma Error_answers:
  "fresh_writer w \<Longrightarrow> answered status (error_json code message) w (Error status code message False w)"
  using JSON_answers by (simp add: Error_def error_json_def enc_error_body_def enc_error_detail_def
      member_def)

lemma answered_status: "answered status j w w' \<Longrightarrow> status_of w' = Some status"
  by (simp add: answered_def)

lemma JSON_status [simp]: "w_sent w = None \<Longrightarrow> status_of (JSON status j w) = Some status"
  by (simp add: JSON_def write_json_def WriteHeader_def set_header_def status_of_def Let_def)

lemma Error_status [simp]: "w_sent w = None \<Longrightarrow> status_of (Error status c m r w) = Some status"
  by (simp add: Error_def)

text \<open>
  Whatever is written, a response has one status and it stays; the first error sent is the
  one the client sees.
\<close>

lemma sent_stays: "w_sent w = Some x \<Longrightarrow> w_sent (JSON status j w) = Some x"
  by (simp add: JSON_def write_json_def WriteHeader_def set_header_def Let_def)

end
