(* ===== verification/Http.thy ===== *)
theory Http
  imports Response Commands
begin

text \<open>
  What the handlers of \<open>internal/api\<close> share: requests, the body decoder and what a handler
  cannot foresee.

  A request carries its method, its path, the pairs of its query, its headers under their
  canonical names, the parameters \<open>chi\<close> found in the path, and its body: the first JSON
  document of it, \<open>None\<close> when the body is empty or does not start with a document. A decoder
  reads no further than that document.
\<close>

record request =
  rq_method :: string
  rq_path :: string
  rq_query :: "(string \<times> string) list"
  rq_headers :: "string list gomap"
  rq_params :: "string gomap"
  rq_body :: "json option"

definition query_Get :: "string \<Rightarrow> request \<Rightarrow> string" where
  "query_Get k req = (case map_of (rq_query req) k of None \<Rightarrow> '''' | Some v \<Rightarrow> v)"

definition header_Get :: "string \<Rightarrow> request \<Rightarrow> string" where
  "header_Get k req =
     (case fmlookup (rq_headers req) k of Some (v # _) \<Rightarrow> v | _ \<Rightarrow> '''')"

definition URLParam :: "request \<Rightarrow> string \<Rightarrow> string" where
  "URLParam req k = lookup_or '''' (rq_params req) k"

text \<open>\<open>decode\<close>: the value read into the zero value, \<open>None\<close> for an error.\<close>

definition decode :: "request \<Rightarrow> 'a decoder \<Rightarrow> 'a \<Rightarrow> 'a option" where
  "decode req d z =
     (case rq_body req of
        None \<Rightarrow> None
      | Some j \<Rightarrow> (let (ok, v) = d z j in if ok then Some v else None))"

text \<open>
  The clock and the runtime during a request: the first two readings of the clock and the
  orders in which the maps of the store are visited.
\<close>

record moment =
  mo_now :: time
  mo_later :: time
  mo_agents :: "string list"
  mo_commands :: "string list"
  mo_deployments :: "string list"
  mo_desired :: "string list"

definition moment_ok :: "moment \<Rightarrow> store \<Rightarrow> bool" where
  "moment_ok mo s \<longleftrightarrow> iter_order (mo_agents mo) (Agents s) \<and> iter_order (mo_commands mo) (Commands s) \<and>
     iter_order (mo_deployments mo) (Deployments s) \<and> iter_order (mo_desired mo) (DesiredStates s)"

text \<open>\<open>map[string]string\{"status": v\}\<close>\<close>

definition status_map :: "string \<Rightarrow> json" where
  "status_map v = enc_map enc_string (fmupd ''status'' v fmempty)"

definition invalid_body :: "writer \<Rightarrow> writer" where
  "invalid_body w = Error 400 ''INVALID_REQUEST'' ''invalid JSON body'' False w"

lemma moment_exists: "\<exists>mo. moment_ok mo s \<and> mo_now mo = now \<and> mo_later mo = later"
proof -
  obtain a c d e where "iter_order a (Agents s)" "iter_order c (Commands s)"
      "iter_order d (Deployments s)" "iter_order e (DesiredStates s)"
    using iter_order_exists by metis
  then have "moment_ok \<lparr>mo_now = now, mo_later = later, mo_agents = a, mo_commands = c,
      mo_deployments = d, mo_desired = e\<rparr> s"
    by (simp add: moment_ok_def)
  then show ?thesis by (metis moment.select_convs(1,2))
qed

end
