(* ===== verification/Agent_Api.thy ===== *)
theory Agent_Api
  imports Http
begin

text \<open>
  The handlers of the official API: \<open>handlers_agents.go\<close>, \<open>handlers_commands.go\<close> and
  \<open>handlers_desired_state.go\<close> of \<open>internal/api\<close>. A handler takes the request, writes the
  response and changes the store.
\<close>

section \<open>Agents\<close>

definition zero_register_request :: register_input where
  "zero_register_request =
     \<lparr>ri_Mode = '''', ri_Environment = '''', ri_Role = '''', ri_Hostname = '''',
      ri_InstanceID = '''', ri_PrivateIP = '''', ri_PublicIP = None, ri_Version = '''',
      ri_Capabilities = None\<rparr>"

text \<open>The request has the fields of the input of the store.\<close>

definition register_fields :: "register_input fields" where
  "register_fields =
     [field ''mode'' ri_Mode ri_Mode_update dec_string,
      field ''environment'' ri_Environment ri_Environment_update dec_string,
      field ''role'' ri_Role ri_Role_update dec_string,
      field ''hostname'' ri_Hostname ri_Hostname_update dec_string,
      field ''instance_id'' ri_InstanceID ri_InstanceID_update dec_string,
      field ''private_ip'' ri_PrivateIP ri_PrivateIP_update dec_string,
      field ''public_ip'' ri_PublicIP ri_PublicIP_update (dec_ptr '''' dec_string),
      field ''version'' ri_Version ri_Version_update dec_string,
      field ''capabilities'' ri_Capabilities ri_Capabilities_update (dec_map JNull dec_any)]"

record register_response =
  rr_AgentID :: string
  rr_Status :: string

definition enc_register_response :: "register_response \<Rightarrow> json" where
  "enc_register_response r = JObj (
     member ''agent_id'' (enc_string (rr_AgentID r)) @
     member ''status'' (enc_string (rr_Status r)))"

text \<open>A panic of the store goes on through the handler.\<close>

definition handleRegisterAgent ::
  "moment \<Rightarrow> request \<Rightarrow> writer \<Rightarrow> store \<Rightarrow> writer \<times> store \<times> panic option" where
  "handleRegisterAgent mo req w s =
     (case decode req (dec_struct register_fields) zero_register_request of
        None \<Rightarrow> (invalid_body w, s, None)
      | Some r \<Rightarrow>
          if ri_InstanceID r = '''' \<or> ri_Environment r = '''' \<or> ri_Role r = '''' \<or> ri_Mode r = ''''
          then (Error 400 ''INVALID_REQUEST''
                  ''instance_id, environment, role and mode are required'' False w, s, None)
          else
            (case RegisterAgent r (mo_now mo) s of
               (s', Inl p) \<Rightarrow> (w, s', Some p)
             | (s', Inr agent) \<Rightarrow>
                 (JSON 200 (enc_register_response
                    \<lparr>rr_AgentID = ag_ID agent, rr_Status = ''registered''\<rparr>) w, s', None)))"

record heartbeat_response =
  hr_Status :: string
  hr_ServerTime :: time

definition enc_heartbeat_response :: "heartbeat_response \<Rightarrow> json" where
  "enc_heartbeat_response r = JObj (
     member ''status'' (enc_string (hr_Status r)) @
     member ''server_time'' (enc_time (hr_ServerTime r)))"

definition handleHeartbeat :: "moment \<Rightarrow> request \<Rightarrow> writer \<Rightarrow> store \<Rightarrow> writer \<times> store" where
  "handleHeartbeat mo req w s =
     (let agentID = URLParam req ''agentID'' in
      case decode req dec_raw None of
        None \<Rightarrow> (invalid_body w, s)
      | Some raw \<Rightarrow>
          (case Heartbeat agentID raw (mo_now mo) s of
             (s', Inl _) \<Rightarrow> (Error 404 ''NOT_FOUND'' ''agent not found'' False w, s')
           | (s', Inr _) \<Rightarrow>
               (JSON 200 (enc_heartbeat_response
                  \<lparr>hr_Status = ''accepted'', hr_ServerTime = mo_later mo\<rparr>) w, s')))"

section \<open>Commands\<close>

definition handleListPendingCommands ::
  "moment \<Rightarrow> request \<Rightarrow> writer \<Rightarrow> store \<Rightarrow> writer \<times> store" where
  "handleListPendingCommands mo req w s =
     (let agentID = URLParam req ''agentID'' in
      if GetAgent agentID s = None
      then (Error 404 ''NOT_FOUND'' ''agent not found'' False w, s)
      else (let cmds = ListPendingByAgent (mo_commands mo) agentID s
            in (JSON 200 (enc_slice enc_command cmds) w, s)))"

text \<open>The answer to an error of the store: 404 for an unknown command, 409 for any other.\<close>

definition command_error :: "store_error \<Rightarrow> writer \<Rightarrow> writer" where
  "command_error err w =
     (case err of
        ErrNotFound \<Rightarrow> Error 404 ''NOT_FOUND'' ''command not found'' False w
      | _ \<Rightarrow> Error 409 ''CONFLICT'' (err_text err) False w)"

record claim_response =
  clr_ID :: string
  clr_Status :: string
  clr_ClaimedBy :: string
  clr_ClaimedAt :: "time option"

definition enc_claim_response :: "claim_response \<Rightarrow> json" where
  "enc_claim_response r = JObj (
     member ''id'' (enc_string (clr_ID r)) @
     member ''status'' (enc_string (clr_Status r)) @
     member ''claimed_by'' (enc_string (clr_ClaimedBy r)) @
     member_omit (clr_ClaimedAt r = None) ''claimed_at'' (enc_ptr enc_time (clr_ClaimedAt r)))"

definition handleClaimCommand :: "moment \<Rightarrow> request \<Rightarrow> writer \<Rightarrow> store \<Rightarrow> writer \<times> store" where
  "handleClaimCommand mo req w s =
     (let agentID = URLParam req ''agentID''; commandID = URLParam req ''commandID'' in
      case ClaimCommand commandID agentID (mo_now mo) s of
        (s', Inl err) \<Rightarrow> (command_error err w, s')
      | (s', Inr cmd) \<Rightarrow>
          (JSON 200 (enc_claim_response
             \<lparr>clr_ID = cmd_ID cmd, clr_Status = cmd_Status cmd, clr_ClaimedBy = cmd_ClaimedBy cmd,
              clr_ClaimedAt = cmd_ClaimedAt cmd\<rparr>) w, s'))"

record start_response =
  sr_ID :: string
  sr_Status :: string
  sr_StartedAt :: "time option"

definition enc_start_response :: "start_response \<Rightarrow> json" where
  "enc_start_response r = JObj (
     member ''id'' (enc_string (sr_ID r)) @
     member ''status'' (enc_string (sr_Status r)) @
     member_omit (sr_StartedAt r = None) ''started_at'' (enc_ptr enc_time (sr_StartedAt r)))"

definition handleStartCommand :: "moment \<Rightarrow> request \<Rightarrow> writer \<Rightarrow> store \<Rightarrow> writer \<times> store" where
  "handleStartCommand mo req w s =
     (let agentID = URLParam req ''agentID''; commandID = URLParam req ''commandID'' in
      case StartCommand commandID agentID (mo_now mo) s of
        (s', Inl err) \<Rightarrow> (command_error err w, s')
      | (s', Inr cmd) \<Rightarrow>
          (JSON 200 (enc_start_response
             \<lparr>sr_ID = cmd_ID cmd, sr_Status = cmd_Status cmd, sr_StartedAt = cmd_StartedAt cmd\<rparr>) w, s'))"

record command_report_request =
  crr_Status :: string
  crr_DeploymentID :: string
  crr_Result :: "json option"
  crr_Error :: "report_error option"

definition zero_command_report_request :: command_report_request where
  "zero_command_report_request =
     \<lparr>crr_Status = '''', crr_DeploymentID = '''', crr_Result = None, crr_Error = None\<rparr>"

definition command_report_request_fields :: "command_report_request fields" where
  "command_report_request_fields =
     [field ''status'' crr_Status crr_Status_update dec_string,
      field ''deployment_id'' crr_DeploymentID crr_DeploymentID_update dec_string,
      field ''result'' crr_Result crr_Result_update dec_raw,
      field ''error'' crr_Error crr_Error_update
        (dec_ptr zero_report_error (dec_struct report_error_fields))]"

definition handleReportCommand :: "moment \<Rightarrow> request \<Rightarrow> writer \<Rightarrow> store \<Rightarrow> writer \<times> store" where
  "handleReportCommand mo req w s =
     (let agentID = URLParam req ''agentID''; commandID = URLParam req ''commandID'' in
      case decode req (dec_struct command_report_request_fields) zero_command_report_request of
        None \<Rightarrow> (invalid_body w, s)
      | Some r \<Rightarrow>
          (case ReportCommand commandID
                  \<lparr>rci_AgentID = agentID, rci_DeploymentID = crr_DeploymentID r,
                   rci_Status = crr_Status r, rci_Result = crr_Result r, rci_Error = crr_Error r\<rparr>
                  (mo_now mo) (mo_later mo) s of
             (s', Inl err) \<Rightarrow> (command_error err w, s')
           | (s', Inr _) \<Rightarrow> (JSON 200 (status_map ''accepted'') w, s')))"

section \<open>Desired state\<close>

definition handleGetDesiredState :: "moment \<Rightarrow> request \<Rightarrow> writer \<Rightarrow> store \<Rightarrow> writer \<times> store" where
  "handleGetDesiredState mo req w s =
     (let agentID = URLParam req ''agentID'' in
      case GetAgent agentID s of
        None \<Rightarrow> (Error 404 ''NOT_FOUND'' ''agent not found'' False w, s)
      | Some agent \<Rightarrow>
          (JSON 200 (enc_desired_state (GetDesiredState (ag_Environment agent) s)) w, s))"

record desired_report_request =
  drq_Status :: string
  drq_DesiredStateVersion :: int
  drq_Type :: string
  drq_Environment :: string
  drq_RoutesTotal :: int
  drq_ValidatedRoutes :: int
  drq_FailedRoutes :: int
  drq_Error :: "report_error option"

definition zero_desired_report_request :: desired_report_request where
  "zero_desired_report_request =
     \<lparr>drq_Status = '''', drq_DesiredStateVersion = 0, drq_Type = '''', drq_Environment = '''',
      drq_RoutesTotal = 0, drq_ValidatedRoutes = 0, drq_FailedRoutes = 0, drq_Error = None\<rparr>"

definition desired_report_request_fields :: "desired_report_request fields" where
  "desired_report_request_fields =
     [field ''status'' drq_Status drq_Status_update dec_string,
      field ''desired_state_version'' drq_DesiredStateVersion drq_DesiredStateVersion_update dec_int,
      field ''type'' drq_Type drq_Type_update dec_string,
      field ''environment'' drq_Environment drq_Environment_update dec_string,
      field ''routes_total'' drq_RoutesTotal drq_RoutesTotal_update dec_int,
      field ''validated_routes'' drq_ValidatedRoutes drq_ValidatedRoutes_update dec_int,
      field ''failed_routes'' drq_FailedRoutes drq_FailedRoutes_update dec_int,
      field ''error'' drq_Error drq_Error_update
        (dec_ptr zero_report_error (dec_struct report_error_fields))]"

definition handleDesiredStateReport ::
  "moment \<Rightarrow> request \<Rightarrow> writer \<Rightarrow> store \<Rightarrow> writer \<times> store" where
  "handleDesiredStateReport mo req w s =
     (let agentID = URLParam req ''agentID'' in
      case decode req (dec_struct desired_report_request_fields) zero_desired_report_request of
        None \<Rightarrow> (invalid_body w, s)
      | Some r \<Rightarrow>
          (case ApplyDesiredStateReport (mo_deployments mo)
                  \<lparr>dri_AgentID = agentID, dri_DesiredStateVersion = drq_DesiredStateVersion r,
                   dri_Type = drq_Type r, dri_Environment = drq_Environment r,
                   dri_Status = drq_Status r, dri_RoutesTotal = drq_RoutesTotal r,
                   dri_ValidatedRoutes = drq_ValidatedRoutes r,
                   dri_FailedRoutes = drq_FailedRoutes r, dri_Error = drq_Error r\<rparr>
                  (mo_now mo) (mo_later mo) s of
             (s', _, Some (ErrFutureVersion _)) \<Rightarrow>
               (Error 409 ''INVALID_VERSION'' ''reported version is ahead of current'' False w, s')
           | (s', _, Some err) \<Rightarrow> (Error 500 ''INTERNAL_ERROR'' (err_text err) False w, s')
           | (s', _, None) \<Rightarrow> (JSON 200 (status_map ''accepted'') w, s')))"

end
