(* ===== verification/Config.thy ===== *)
theory Config
  imports Go_Fmt
begin

text \<open>
  \<open>internal/config/config.go\<close>: the configuration, read from the environment of the process.
  The environment is a map; \<open>os.Getenv\<close> gives the empty string for a name that is not set.
\<close>

record config =
  cfg_Port :: string
  cfg_AuthEnabled :: bool
  cfg_Token :: string
  cfg_Environment :: string
  cfg_StateFile :: string
  cfg_StateSaveIntervalSeconds :: int

definition os_Getenv :: "string gomap \<Rightarrow> string \<Rightarrow> string" where
  "os_Getenv env k = lookup_or '''' env k"

definition getEnv :: "string gomap \<Rightarrow> string \<Rightarrow> string \<Rightarrow> string" where
  "getEnv env key fallback =
     (let v = os_Getenv env key in if v \<noteq> '''' then v else fallback)"

definition getEnvInt :: "string gomap \<Rightarrow> string \<Rightarrow> int \<Rightarrow> int" where
  "getEnvInt env key fallback =
     (let v = os_Getenv env key in
      if v \<noteq> '''' then (case parse_int v of Some n \<Rightarrow> n | None \<Rightarrow> fallback) else fallback)"

definition LoadConfig :: "string gomap \<Rightarrow> config" where
  "LoadConfig env =
     \<lparr>cfg_Port = getEnv env ''DEVEX_FAKE_PORT'' ''8080'',
      cfg_AuthEnabled = (getEnv env ''DEVEX_FAKE_AUTH_ENABLED'' ''false'' = ''true''),
      cfg_Token = getEnv env ''DEVEX_FAKE_TOKEN'' ''dev-token'',
      cfg_Environment = getEnv env ''DEVEX_FAKE_ENVIRONMENT'' ''dev'',
      cfg_StateFile = getEnv env ''DEVEX_FAKE_STATE_FILE'' '''',
      cfg_StateSaveIntervalSeconds =
        getEnvInt env ''DEVEX_FAKE_STATE_SAVE_INTERVAL_SECONDS'' 2\<rparr>"

section \<open>Lemmas\<close>

lemma getEnv_nonempty: "fallback \<noteq> '''' \<Longrightarrow> getEnv env key fallback \<noteq> ''''"
  by (simp add: getEnv_def Let_def)

lemma getEnv_cases:
  "getEnv env key fallback =
     (case fmlookup env key of Some v \<Rightarrow> if v = '''' then fallback else v | None \<Rightarrow> fallback)"
  by (simp add: getEnv_def os_Getenv_def lookup_or_def Let_def split: option.split)

lemma getEnvInt_range: "in_int64 fallback \<Longrightarrow> in_int64 (getEnvInt env key fallback)"
  using parse_int_range by (simp add: getEnvInt_def Let_def split: option.split)

lemma fmt_d_nonempty [simp]: "fmt_d n \<noteq> ''''"
  by (simp add: fmt_d_def)

lemma getEnvInt_printed:
  "fmlookup env key = Some (fmt_d n) \<Longrightarrow> in_int64 n \<Longrightarrow> getEnvInt env key fallback = n"
  by (simp add: getEnvInt_def os_Getenv_def lookup_or_def Let_def parse_int_fmt_d)

text \<open>
  C37: whatever the environment holds, the server has a port, a token that is not empty and an
  environment of its own, and an interval that fits an \<open>int\<close>; a variable that is set to the
  empty string counts as not set, and the authentication is on only for the exact text
  \<open>true\<close>.
\<close>

theorem config_is_usable:
  "cfg_Port (LoadConfig env) \<noteq> '''' \<and> cfg_Token (LoadConfig env) \<noteq> '''' \<and>
   cfg_Environment (LoadConfig env) \<noteq> '''' \<and>
   in_int64 (cfg_StateSaveIntervalSeconds (LoadConfig env)) \<and>
   (cfg_AuthEnabled (LoadConfig env) = (fmlookup env ''DEVEX_FAKE_AUTH_ENABLED'' = Some ''true'')) \<and>
   LoadConfig (fmfilter (\<lambda>k. fmlookup env k \<noteq> Some '''') env) = LoadConfig env"
proof -
  have same: "os_Getenv (fmfilter (\<lambda>k. fmlookup env k \<noteq> Some '''') env) k = os_Getenv env k" for k
    by (simp add: os_Getenv_def lookup_or_def split: option.split)
  have "LoadConfig (fmfilter (\<lambda>k. fmlookup env k \<noteq> Some '''') env) = LoadConfig env"
    by (simp add: LoadConfig_def getEnv_def getEnvInt_def same)
  moreover have "in_int64 (cfg_StateSaveIntervalSeconds (LoadConfig env))"
    using getEnvInt_range [of 2] by (simp add: LoadConfig_def in_int64_def min_int_def max_int_def)
  moreover have "cfg_AuthEnabled (LoadConfig env) =
      (fmlookup env ''DEVEX_FAKE_AUTH_ENABLED'' = Some ''true'')"
    by (auto simp: LoadConfig_def getEnv_cases split: option.split)
  ultimately show ?thesis by (simp add: LoadConfig_def getEnv_nonempty)
qed

end
