(* ===== verification/Testing_Api.thy ===== *)
theory Testing_Api
  imports Http Config Persistence
begin

text \<open>
  The testing endpoints, \<open>internal/api/handlers_testing.go\<close>: they create the work of the
  agents, list what the store holds, and reset it.
\<close>

definition timeoutDeploy :: int where "timeoutDeploy = 600"
definition timeoutStop :: int where "timeoutStop = 60"
definition timeoutRemove :: int where "timeoutRemove = 120"
definition timeoutCleanup :: int where "timeoutCleanup = 300"

section \<open>Deploy\<close>

record deploy_request =
  dq_TargetAgentRole :: string
  dq_Application :: string
  dq_Environment :: string
  dq_Image :: string
  dq_ContainerName :: string
  dq_ContainerInternalPort :: int
  dq_HealthCheckPath :: string
  dq_RequiresRoute :: bool
  dq_Host :: string
  dq_EnvironmentVariables :: "string gomap option"

definition zero_deploy_request :: deploy_request where
  "zero_deploy_request =
     \<lparr>dq_TargetAgentRole = '''', dq_Application = '''', dq_Environment = '''', dq_Image = '''',
      dq_ContainerName = '''', dq_ContainerInternalPort = 0, dq_HealthCheckPath = '''',
      dq_RequiresRoute = False, dq_Host = '''', dq_EnvironmentVariables = None\<rparr>"

definition deploy_request_fields :: "deploy_request fields" where
  "deploy_request_fields =
     [field ''target_agent_role'' dq_TargetAgentRole dq_TargetAgentRole_update dec_string,
      field ''application'' dq_Application dq_Application_update dec_string,
      field ''environment'' dq_Environment dq_Environment_update dec_string,
      field ''image'' dq_Image dq_Image_update dec_string,
      field ''container_name'' dq_ContainerName dq_ContainerName_update dec_string,
      field ''container_internal_port'' dq_ContainerInternalPort dq_ContainerInternalPort_update dec_int,
      field ''health_check_path'' dq_HealthCheckPath dq_HealthCheckPath_update dec_string,
      field ''requires_route'' dq_RequiresRoute dq_RequiresRoute_update dec_bool,
      field ''host'' dq_Host dq_Host_update dec_string,
      field ''environment_variables'' dq_EnvironmentVariables dq_EnvironmentVariables_update
        (dec_map '''' dec_string)]"

record deploy_response =
  dpr_DeploymentID :: string
  dpr_CommandID :: string
  dpr_TargetAgentID :: string
  dpr_Status :: string

definition enc_deploy_response :: "deploy_response \<Rightarrow> json" where
  "enc_deploy_response r = JObj (
     member ''deployment_id'' (enc_string (dpr_DeploymentID r)) @
     member ''command_id'' (enc_string (dpr_CommandID r)) @
     member ''target_agent_id'' (enc_string (dpr_TargetAgentID r)) @
     member ''status'' (enc_string (dpr_Status r)))"

text \<open>The custom labels are never set: the map is nil and its loop has no iteration.\<close>

definition handleTestingDeploy ::
  "config \<Rightarrow> moment \<Rightarrow> request \<Rightarrow> writer \<Rightarrow> store \<Rightarrow> writer \<times> store" where
  "handleTestingDeploy cfg mo req w s =
     (case decode req (dec_struct deploy_request_fields) zero_deploy_request of
        None \<Rightarrow> (invalid_body w, s)
      | Some r \<Rightarrow>
          if dq_Application r = '''' \<or> dq_Image r = '''' \<or> dq_TargetAgentRole r = ''''
          then (Error 400 ''INVALID_REQUEST''
                  ''application, image and target_agent_role are required'' False w, s)
          else
            (let r1 = (if dq_Environment r = '''' then r\<lparr>dq_Environment := cfg_Environment cfg\<rparr>
                       else r) in
             case FindAgentByEnvironmentRole (mo_agents mo) (dq_Environment r1)
                    (dq_TargetAgentRole r1) s of
               None \<Rightarrow> (Error 404 ''AGENT_NOT_FOUND''
                          ''no agent registered for the given environment and role'' False w, s)
             | Some agent \<Rightarrow>
                 (let (s', dep, cmd) = InitDeploy []
                        \<lparr>di_Application = dq_Application r1, di_Environment = dq_Environment r1,
                         di_Image = dq_Image r1, di_Host = dq_Host r1,
                         di_TargetAgentID = ag_ID agent, di_ContainerName = dq_ContainerName r1,
                         di_ContainerInternalPort = dq_ContainerInternalPort r1,
                         di_HealthCheckPath = dq_HealthCheckPath r1,
                         di_RequiresRoute = dq_RequiresRoute r1,
                         di_EnvironmentVariables = or_make (dq_EnvironmentVariables r1),
                         di_CustomLabels = fmempty, di_CommandTimeoutSeconds = timeoutDeploy\<rparr>
                        (mo_now mo) s
                  in (JSON 200 (enc_deploy_response
                        \<lparr>dpr_DeploymentID = dep_ID dep, dpr_CommandID = cmd_ID cmd,
                         dpr_TargetAgentID = ag_ID agent, dpr_Status = ''pending''\<rparr>) w, s'))))"

section \<open>Stop and remove\<close>

record stop_request =
  sq_TargetAgentID :: string
  sq_DeploymentID :: string
  sq_ContainerName :: string
  sq_StopTimeoutSeconds :: int

definition zero_stop_request :: stop_request where
  "zero_stop_request =
     \<lparr>sq_TargetAgentID = '''', sq_DeploymentID = '''', sq_ContainerName = '''',
      sq_StopTimeoutSeconds = 0\<rparr>"

definition stop_request_fields :: "stop_request fields" where
  "stop_request_fields =
     [field ''target_agent_id'' sq_TargetAgentID sq_TargetAgentID_update dec_string,
      field ''deployment_id'' sq_DeploymentID sq_DeploymentID_update dec_string,
      field ''container_name'' sq_ContainerName sq_ContainerName_update dec_string,
      field ''stop_timeout_seconds'' sq_StopTimeoutSeconds sq_StopTimeoutSeconds_update dec_int]"

record command_response =
  cor_CommandID :: string
  cor_DeploymentID :: string
  cor_TargetAgentID :: string
  cor_Status :: string

definition enc_command_response :: "command_response \<Rightarrow> json" where
  "enc_command_response r = JObj (
     member ''command_id'' (enc_string (cor_CommandID r)) @
     member_omit (cor_DeploymentID r = '''') ''deployment_id'' (enc_string (cor_DeploymentID r)) @
     member ''target_agent_id'' (enc_string (cor_TargetAgentID r)) @
     member ''status'' (enc_string (cor_Status r)))"

definition handleTestingStop :: "moment \<Rightarrow> request \<Rightarrow> writer \<Rightarrow> store \<Rightarrow> writer \<times> store" where
  "handleTestingStop mo req w s =
     (case decode req (dec_struct stop_request_fields) zero_stop_request of
        None \<Rightarrow> (invalid_body w, s)
      | Some r \<Rightarrow>
          if sq_DeploymentID r = ''''
          then (Error 400 ''INVALID_REQUEST'' ''deployment_id is required'' False w, s)
          else
            (case GetDeployment (sq_DeploymentID r) s of
               None \<Rightarrow> (Error 404 ''DEPLOYMENT_NOT_FOUND'' ''deployment not found'' False w, s)
             | Some dep \<Rightarrow>
                 (let containerName = (if sq_ContainerName r = '''' then dep_ContainerName dep
                                       else sq_ContainerName r);
                      r1 = (if sq_TargetAgentID r = ''''
                            then r\<lparr>sq_TargetAgentID := dep_TargetAgentID dep\<rparr> else r);
                      stopTimeout = (if sq_StopTimeoutSeconds r1 \<le> 0 then timeoutStop
                                     else sq_StopTimeoutSeconds r1);
                      payload = enc_stop_payload
                        \<lparr>spl_DeploymentID = sq_DeploymentID r1, spl_ContainerName = containerName,
                         spl_StopTimeoutSeconds = stopTimeout\<rparr>;
                      (s', cmd) = CreateCommand
                        \<lparr>cc_Type = ''STOP_APPLICATION'', cc_DeploymentID = sq_DeploymentID r1,
                         cc_TargetAgentID = sq_TargetAgentID r1, cc_TimeoutSeconds = timeoutStop,
                         cc_Payload = Some payload\<rparr> (mo_now mo) s
                  in (JSON 200 (enc_command_response
                        \<lparr>cor_CommandID = cmd_ID cmd, cor_DeploymentID = sq_DeploymentID r1,
                         cor_TargetAgentID = sq_TargetAgentID r1, cor_Status = ''pending''\<rparr>) w, s'))))"

record remove_request =
  rmq_TargetAgentID :: string
  rmq_DeploymentID :: string
  rmq_ContainerName :: string
  rmq_ReleasePort :: bool

definition zero_remove_request :: remove_request where
  "zero_remove_request =
     \<lparr>rmq_TargetAgentID = '''', rmq_DeploymentID = '''', rmq_ContainerName = '''',
      rmq_ReleasePort = False\<rparr>"

definition remove_request_fields :: "remove_request fields" where
  "remove_request_fields =
     [field ''target_agent_id'' rmq_TargetAgentID rmq_TargetAgentID_update dec_string,
      field ''deployment_id'' rmq_DeploymentID rmq_DeploymentID_update dec_string,
      field ''container_name'' rmq_ContainerName rmq_ContainerName_update dec_string,
      field ''release_port'' rmq_ReleasePort rmq_ReleasePort_update dec_bool]"

definition handleTestingRemove :: "moment \<Rightarrow> request \<Rightarrow> writer \<Rightarrow> store \<Rightarrow> writer \<times> store" where
  "handleTestingRemove mo req w s =
     (case decode req (dec_struct remove_request_fields) zero_remove_request of
        None \<Rightarrow> (invalid_body w, s)
      | Some r \<Rightarrow>
          if rmq_DeploymentID r = ''''
          then (Error 400 ''INVALID_REQUEST'' ''deployment_id is required'' False w, s)
          else
            (case GetDeployment (rmq_DeploymentID r) s of
               None \<Rightarrow> (Error 404 ''DEPLOYMENT_NOT_FOUND'' ''deployment not found'' False w, s)
             | Some dep \<Rightarrow>
                 (let containerName = (if rmq_ContainerName r = '''' then dep_ContainerName dep
                                       else rmq_ContainerName r);
                      r1 = (if rmq_TargetAgentID r = ''''
                            then r\<lparr>rmq_TargetAgentID := dep_TargetAgentID dep\<rparr> else r);
                      payload = enc_remove_payload
                        \<lparr>rpl_DeploymentID = rmq_DeploymentID r1, rpl_ContainerName = containerName,
                         rpl_ReleasePort = rmq_ReleasePort r1\<rparr>;
                      (s', cmd) = CreateCommand
                        \<lparr>cc_Type = ''REMOVE_DEPLOYMENT'', cc_DeploymentID = rmq_DeploymentID r1,
                         cc_TargetAgentID = rmq_TargetAgentID r1, cc_TimeoutSeconds = timeoutRemove,
                         cc_Payload = Some payload\<rparr> (mo_now mo) s
                  in (JSON 200 (enc_command_response
                        \<lparr>cor_CommandID = cmd_ID cmd, cor_DeploymentID = rmq_DeploymentID r1,
                         cor_TargetAgentID = rmq_TargetAgentID r1, cor_Status = ''pending''\<rparr>) w, s'))))"

section \<open>Cleanup\<close>

record cleanup_request =
  cq_TargetAgentRole :: string
  cq_Environment :: string
  cq_OlderThanSeconds :: int

definition zero_cleanup_request :: cleanup_request where
  "zero_cleanup_request =
     \<lparr>cq_TargetAgentRole = '''', cq_Environment = '''', cq_OlderThanSeconds = 0\<rparr>"

definition cleanup_request_fields :: "cleanup_request fields" where
  "cleanup_request_fields =
     [field ''target_agent_role'' cq_TargetAgentRole cq_TargetAgentRole_update dec_string,
      field ''environment'' cq_Environment cq_Environment_update dec_string,
      field ''older_than_seconds'' cq_OlderThanSeconds cq_OlderThanSeconds_update dec_int]"

definition handleTestingCleanupDraining ::
  "config \<Rightarrow> moment \<Rightarrow> request \<Rightarrow> writer \<Rightarrow> store \<Rightarrow> writer \<times> store" where
  "handleTestingCleanupDraining cfg mo req w s =
     (case decode req (dec_struct cleanup_request_fields) zero_cleanup_request of
        None \<Rightarrow> (invalid_body w, s)
      | Some r \<Rightarrow>
          if cq_TargetAgentRole r = ''''
          then (Error 400 ''INVALID_REQUEST'' ''target_agent_role is required'' False w, s)
          else
            (let r1 = (if cq_Environment r = '''' then r\<lparr>cq_Environment := cfg_Environment cfg\<rparr>
                       else r);
                 r2 = (if cq_OlderThanSeconds r1 \<le> 0 then r1\<lparr>cq_OlderThanSeconds := timeoutCleanup\<rparr>
                       else r1) in
             case FindAgentByEnvironmentRole (mo_agents mo) (cq_Environment r2)
                    (cq_TargetAgentRole r2) s of
               None \<Rightarrow> (Error 404 ''AGENT_NOT_FOUND''
                          ''no agent registered for the given environment and role'' False w, s)
             | Some agent \<Rightarrow>
                 (let payload = enc_cleanup_payload
                        \<lparr>cpl_Environment = cq_Environment r2,
                         cpl_OlderThanSeconds = cq_OlderThanSeconds r2\<rparr>;
                      (s', cmd) = CreateCommand
                        \<lparr>cc_Type = ''CLEANUP_DRAINING'', cc_DeploymentID = '''',
                         cc_TargetAgentID = ag_ID agent, cc_TimeoutSeconds = timeoutCleanup,
                         cc_Payload = Some payload\<rparr> (mo_now mo) s
                  in (JSON 200 (enc_command_response
                        \<lparr>cor_CommandID = cmd_ID cmd, cor_DeploymentID = '''',
                         cor_TargetAgentID = ag_ID agent, cor_Status = ''pending''\<rparr>) w, s'))))"

section \<open>Listings\<close>

definition handleTestingListAgents :: "moment \<Rightarrow> request \<Rightarrow> writer \<Rightarrow> store \<Rightarrow> writer \<times> store" where
  "handleTestingListAgents mo req w s =
     (JSON 200 (enc_slice enc_agent (ListAgents (mo_agents mo) s)) w, s)"

definition handleTestingListCommands :: "moment \<Rightarrow> request \<Rightarrow> writer \<Rightarrow> store \<Rightarrow> writer \<times> store" where
  "handleTestingListCommands mo req w s =
     (let cmds = ListCommands (mo_commands mo) (query_Get ''status'' req) (query_Get ''type'' req)
                   (query_Get ''agent_id'' req) s
      in (JSON 200 (enc_slice enc_command cmds) w, s))"

definition handleTestingListDeployments ::
  "moment \<Rightarrow> request \<Rightarrow> writer \<Rightarrow> store \<Rightarrow> writer \<times> store" where
  "handleTestingListDeployments mo req w s =
     (JSON 200 (enc_slice enc_deployment (ListDeployments (mo_deployments mo) s)) w, s)"

definition handleTestingListReports :: "moment \<Rightarrow> request \<Rightarrow> writer \<Rightarrow> store \<Rightarrow> writer \<times> store" where
  "handleTestingListReports mo req w s =
     (JSON 200 (enc_slice enc_command_report (ListCommandReports s)) w, s)"

definition handleTestingDesiredState ::
  "moment \<Rightarrow> request \<Rightarrow> writer \<Rightarrow> store \<Rightarrow> writer \<times> store" where
  "handleTestingDesiredState mo req w s =
     (let env = query_Get ''environment'' req in
      if env \<noteq> '''' then (JSON 200 (enc_desired_state (GetDesiredState env s)) w, s)
      else (JSON 200 (enc_map (\<lambda>j. j)
              (fmupd ''desired_states''
                (enc_map enc_desired_state (GetAllDesiredStates (mo_desired mo) s)) fmempty)) w, s))"

definition handleTestingDesiredStateReports ::
  "moment \<Rightarrow> request \<Rightarrow> writer \<Rightarrow> store \<Rightarrow> writer \<times> store" where
  "handleTestingDesiredStateReports mo req w s =
     (JSON 200 (enc_slice enc_desired_state_report (ListDesiredStateReports s)) w, s)"

text \<open>
  \<open>Debug\<close> hands out the two slices of reports as the store has them: nil, written as \<open>null\<close>,
  as long as nothing has been appended since the start or a reset. The model of the store
  does not tell a nil slice from an empty one, so the caller says which they are.
\<close>

definition counters_view :: "counters \<Rightarrow> counters_snapshot" where
  "counters_view c =
     \<lparr>cs_AgentByEnvironmentRole = Some (AgentByEnvironmentRole c),
      cs_CommandCount = CommandCount c, cs_DeploymentCount = DeploymentCount c,
      cs_RouteCount = RouteCount c,
      cs_DesiredStateVersionByEnvironment = Some (DesiredStateVersionByEnvironment c)\<rparr>"

definition enc_nslice :: "bool \<Rightarrow> ('v \<Rightarrow> json) \<Rightarrow> 'v list \<Rightarrow> json" where
  "enc_nslice isnil f xs = (if isnil \<and> xs = [] then JNull else enc_slice f xs)"

definition Debug :: "bool \<Rightarrow> bool \<Rightarrow> store \<Rightarrow> json gomap" where
  "Debug reports_nil desired_reports_nil s =
     fmap_of_list
       [(''agents'', enc_map enc_agent (Agents s)),
        (''agent_index'', enc_map enc_string (AgentIndex s)),
        (''commands'', enc_map enc_command (Commands s)),
        (''deployments'', enc_map enc_deployment (Deployments s)),
        (''command_reports'', enc_nslice reports_nil enc_command_report (CommandReports s)),
        (''desired_states'', enc_map enc_desired_state (DesiredStates s)),
        (''desired_state_reports'',
           enc_nslice desired_reports_nil enc_desired_state_report (DesiredStateReports s)),
        (''counters'', enc_counters (counters_view (Counters s)))]"

definition handleTestingDebug ::
  "bool \<Rightarrow> bool \<Rightarrow> moment \<Rightarrow> request \<Rightarrow> writer \<Rightarrow> store \<Rightarrow> writer \<times> store" where
  "handleTestingDebug reports_nil desired_reports_nil mo req w s =
     (JSON 200 (enc_map (\<lambda>j. j) (Debug reports_nil desired_reports_nil s)) w, s)"

section \<open>Reset\<close>

text \<open>
  The store is emptied and the state file removed; a removal that fails is logged and changes
  nothing else. A file that is not there is not an error.
\<close>

definition handleTestingReset ::
  "config \<Rightarrow> bool \<Rightarrow> writer \<Rightarrow> store \<times> fs \<Rightarrow> writer \<times> store \<times> fs" where
  "handleTestingReset cfg remove_fails w sf =
     (let (s, f) = sf;
          s' = Reset s;
          f' = (if cfg_StateFile cfg \<noteq> '''' \<and> \<not> remove_fails
                then fs_remove (cfg_StateFile cfg) f else f)
      in (JSON 200 (status_map ''reset'') w, s', f'))"

end
