(* ===== verification/Router.thy ===== *)
theory Router
  imports Agent_Api Testing_Api
begin

text \<open>
  \<open>internal/api/router.go\<close> and \<open>internal/api/middleware.go\<close>: the table of the routes, the two
  middlewares of the program and the way a request takes through them.

  The \<open>chi\<close> package is not part of the repository. Its mux is a parameter of the model: a
  function from a table of routes, a method and a path to what the mux finds, with its
  answers to a request nothing is found for and its answer to a panic.
\<close>

section \<open>The state of the server\<close>

record world =
  wd_store :: store
  wd_files :: fs

text \<open>
  A handler writes the response and changes the state of the server; a panic in it is handed
  on, with what it has written and changed by then.
\<close>

type_synonym served = "writer \<times> world \<times> panic option"

type_synonym http_handler = "request \<Rightarrow> writer \<Rightarrow> world \<Rightarrow> served"

text \<open>What the model of the store and the file system leaves open, for one request.\<close>

record chance =
  ch_moment :: moment
  ch_reports_nil :: bool
  ch_desired_reports_nil :: bool
  ch_remove_fails :: bool

section \<open>Middleware\<close>

definition corsMiddleware :: "http_handler \<Rightarrow> http_handler" where
  "corsMiddleware serve_next req w wd =
     (let w1 = set_header ''Access-Control-Allow-Origin'' ''*'' w;
          w2 = set_header ''Access-Control-Allow-Methods''
                 ''GET, POST, PUT, PATCH, DELETE, OPTIONS'' w1;
          w3 = set_header ''Access-Control-Allow-Headers'' ''Content-Type, Authorization'' w2
      in if rq_method req = ''OPTIONS'' then (WriteHeader 204 w3, wd, None)
         else serve_next req w3 wd)"

definition authMiddleware :: "config \<Rightarrow> http_handler \<Rightarrow> http_handler" where
  "authMiddleware cfg serve_next req w wd =
     (if \<not> cfg_AuthEnabled cfg then serve_next req w wd
      else if header_Get ''Authorization'' req \<noteq> ''Bearer '' @ cfg_Token cfg
      then (Error 401 ''AUTHENTICATION_FAILED'' ''Invalid or missing token'' False w, wd, None)
      else serve_next req w wd)"

section \<open>Health\<close>

record health_response =
  he_Status :: string
  he_Timestamp :: time

definition enc_health_response :: "health_response \<Rightarrow> json" where
  "enc_health_response r = JObj (
     member ''status'' (enc_string (he_Status r)) @
     member ''timestamp'' (enc_time (he_Timestamp r)))"

definition handleHealth :: "moment \<Rightarrow> http_handler" where
  "handleHealth mo req w wd =
     (JSON 200 (enc_health_response \<lparr>he_Status = ''ok'', he_Timestamp = mo_now mo\<rparr>) w, wd, None)"

section \<open>The table of the routes\<close>

text \<open>The handlers by name: the closures \<open>NewRouter\<close> registers.\<close>

datatype endpoint =
    EpHealth
  | EpRegister | EpHeartbeat | EpPending | EpClaim | EpStart | EpReport | EpDesired | EpDesiredReport
  | EpDeploy | EpStop | EpRemove | EpCleanup | EpAgents | EpCommands | EpDeployments | EpReports
  | EpDesiredStates | EpDesiredReports | EpDebug | EpReset

datatype subrouter = ApiRouter | TestingRouter

datatype target = Endpoint endpoint | Mounted subrouter

text \<open>A route: its method, \<open>None\<close> for a subrouter, its pattern and what it leads to.\<close>

type_synonym route_entry = "string option \<times> string \<times> target"

definition get :: "string \<Rightarrow> endpoint \<Rightarrow> route_entry" where
  "get pattern ep = (Some ''GET'', pattern, Endpoint ep)"

definition post :: "string \<Rightarrow> endpoint \<Rightarrow> route_entry" where
  "post pattern ep = (Some ''POST'', pattern, Endpoint ep)"

definition top_routes :: "route_entry list" where
  "top_routes =
     [get ''/health'' EpHealth,
      (None, ''/api'', Mounted ApiRouter),
      (None, ''/testing'', Mounted TestingRouter)]"

definition api_routes :: "route_entry list" where
  "api_routes =
     [post ''/agents/register'' EpRegister,
      post ''/agents/{agentID}/heartbeat'' EpHeartbeat,
      get ''/agents/{agentID}/commands/pending'' EpPending,
      post ''/agents/{agentID}/commands/{commandID}/claim'' EpClaim,
      post ''/agents/{agentID}/commands/{commandID}/start'' EpStart,
      post ''/agents/{agentID}/commands/{commandID}/report'' EpReport,
      get ''/agents/{agentID}/desired-state'' EpDesired,
      post ''/agents/{agentID}/desired-state/report'' EpDesiredReport]"

definition testing_routes :: "route_entry list" where
  "testing_routes =
     [post ''/commands/deploy'' EpDeploy,
      post ''/commands/stop'' EpStop,
      post ''/commands/remove'' EpRemove,
      post ''/commands/cleanup-draining'' EpCleanup,
      get ''/agents'' EpAgents,
      get ''/commands'' EpCommands,
      get ''/deployments'' EpDeployments,
      get ''/reports'' EpReports,
      get ''/desired-state'' EpDesiredStates,
      get ''/desired-state/reports'' EpDesiredReports,
      get ''/debug'' EpDebug,
      post ''/reset'' EpReset]"

definition routes_in :: "subrouter \<Rightarrow> route_entry list" where
  "routes_in sub = (case sub of ApiRouter \<Rightarrow> api_routes | TestingRouter \<Rightarrow> testing_routes)"

section \<open>The handlers behind the routes\<close>

definition on_store :: "(writer \<Rightarrow> store \<Rightarrow> writer \<times> store) \<Rightarrow> writer \<Rightarrow> world \<Rightarrow> served" where
  "on_store h w wd =
     (let (w', s') = h w (wd_store wd) in (w', wd\<lparr>wd_store := s'\<rparr>, None))"

definition serve_register :: "moment \<Rightarrow> http_handler" where
  "serve_register mo req w wd =
     (let (w', s', p) = handleRegisterAgent mo req w (wd_store wd)
      in (w', wd\<lparr>wd_store := s'\<rparr>, p))"

definition serve_reset :: "config \<Rightarrow> bool \<Rightarrow> http_handler" where
  "serve_reset cfg remove_fails req w wd =
     (let (w', s', f') = handleTestingReset cfg remove_fails w (wd_store wd, wd_files wd)
      in (w', \<lparr>wd_store = s', wd_files = f'\<rparr>, None))"

definition serve_endpoint :: "config \<Rightarrow> chance \<Rightarrow> endpoint \<Rightarrow> http_handler" where
  "serve_endpoint cfg ch ep req =
     (let mo = ch_moment ch in
      case ep of
        EpHealth \<Rightarrow> handleHealth mo req
      | EpRegister \<Rightarrow> serve_register mo req
      | EpHeartbeat \<Rightarrow> on_store (handleHeartbeat mo req)
      | EpPending \<Rightarrow> on_store (handleListPendingCommands mo req)
      | EpClaim \<Rightarrow> on_store (handleClaimCommand mo req)
      | EpStart \<Rightarrow> on_store (handleStartCommand mo req)
      | EpReport \<Rightarrow> on_store (handleReportCommand mo req)
      | EpDesired \<Rightarrow> on_store (handleGetDesiredState mo req)
      | EpDesiredReport \<Rightarrow> on_store (handleDesiredStateReport mo req)
      | EpDeploy \<Rightarrow> on_store (handleTestingDeploy cfg mo req)
      | EpStop \<Rightarrow> on_store (handleTestingStop mo req)
      | EpRemove \<Rightarrow> on_store (handleTestingRemove mo req)
      | EpCleanup \<Rightarrow> on_store (handleTestingCleanupDraining cfg mo req)
      | EpAgents \<Rightarrow> on_store (handleTestingListAgents mo req)
      | EpCommands \<Rightarrow> on_store (handleTestingListCommands mo req)
      | EpDeployments \<Rightarrow> on_store (handleTestingListDeployments mo req)
      | EpReports \<Rightarrow> on_store (handleTestingListReports mo req)
      | EpDesiredStates \<Rightarrow> on_store (handleTestingDesiredState mo req)
      | EpDesiredReports \<Rightarrow> on_store (handleTestingDesiredStateReports mo req)
      | EpDebug \<Rightarrow> on_store
          (handleTestingDebug (ch_reports_nil ch) (ch_desired_reports_nil ch) mo req)
      | EpReset \<Rightarrow> serve_reset cfg (ch_remove_fails ch) req)"

section \<open>The mux\<close>

text \<open>
  What a table gives for a method and a path: a route with the parameters of its pattern and,
  for a subrouter, the rest of the path; no route of that path; or none of that method.
\<close>

datatype found =
    Found target (found_params: "string gomap") (found_rest: string)
  | PathNotFound
  | MethodNotAllowed

record chi =
  chi_find :: "route_entry list \<Rightarrow> string \<Rightarrow> string \<Rightarrow> found"
  chi_not_found :: "writer \<Rightarrow> writer"
  chi_not_allowed :: "writer \<Rightarrow> writer"
  chi_recover :: "writer \<Rightarrow> writer"

definition routeHTTP ::
  "chi \<Rightarrow> (endpoint \<Rightarrow> http_handler) \<Rightarrow> (subrouter \<Rightarrow> string \<Rightarrow> http_handler) \<Rightarrow> route_entry list \<Rightarrow>
   string \<Rightarrow> http_handler" where
  "routeHTTP chi endpoints subrouters table path req w wd =
     (case chi_find chi table (rq_method req) path of
        Found (Endpoint ep) params rest \<Rightarrow>
          endpoints ep (req\<lparr>rq_params := rq_params req ++\<^sub>f params\<rparr>) w wd
      | Found (Mounted sub) params rest \<Rightarrow>
          subrouters sub rest (req\<lparr>rq_params := rq_params req ++\<^sub>f params\<rparr>) w wd
      | PathNotFound \<Rightarrow> (chi_not_found chi w, wd, None)
      | MethodNotAllowed \<Rightarrow> (chi_not_allowed chi w, wd, None))"

text \<open>A subrouter has no subrouters of its own.\<close>

definition no_subrouter :: "subrouter \<Rightarrow> string \<Rightarrow> http_handler" where
  "no_subrouter sub path req w wd = (w, wd, None)"

definition serve_sub :: "chi \<Rightarrow> config \<Rightarrow> chance \<Rightarrow> subrouter \<Rightarrow> string \<Rightarrow> http_handler" where
  "serve_sub chi cfg ch sub path =
     (let routed = routeHTTP chi (serve_endpoint cfg ch) no_subrouter (routes_in sub) path in
      case sub of
        ApiRouter \<Rightarrow> authMiddleware cfg routed
      | TestingRouter \<Rightarrow> routed)"

text \<open>The recoverer answers a panic and ends it; the logger has no effect.\<close>

definition recoverer :: "chi \<Rightarrow> http_handler \<Rightarrow> http_handler" where
  "recoverer chi serve_next req w wd =
     (case serve_next req w wd of
        (w', wd', None) \<Rightarrow> (w', wd', None)
      | (w', wd', Some p) \<Rightarrow> (chi_recover chi w', wd', None))"

definition NewRouter :: "chi \<Rightarrow> config \<Rightarrow> chance \<Rightarrow> http_handler" where
  "NewRouter chi cfg ch req =
     recoverer chi (corsMiddleware
       (routeHTTP chi (serve_endpoint cfg ch) (serve_sub chi cfg ch) top_routes (rq_path req))) req"

text \<open>
  What the program relies on: what the mux finds is a route of the table, registered for the
  method of the request or for all methods.
\<close>

definition chi_sound :: "chi \<Rightarrow> bool" where
  "chi_sound chi \<longleftrightarrow> (\<forall>table method path tgt params rest.
     chi_find chi table method path = Found tgt params rest \<longrightarrow>
       (\<exists>m pattern. (m, pattern, tgt) \<in> set table \<and> (m = None \<or> m = Some method)))"

text \<open>A request as the server sees it: on a new writer, without parameters yet.\<close>

definition serve :: "chi \<Rightarrow> config \<Rightarrow> chance \<Rightarrow> request \<Rightarrow> world \<Rightarrow> writer \<times> world" where
  "serve chi cfg ch req wd =
     (let (w, wd', p) = NewRouter chi cfg ch (req\<lparr>rq_params := fmempty\<rparr>) new_writer wd in (w, wd'))"

end
