(* ===== verification/Api_Steps.thy ===== *)
theory Api_Steps
  imports Router Store_Machine
begin

text \<open>
  What a request does to the state of the server: every handler performs at most one operation
  of the store machine, and what all handlers keep, every request keeps, whatever way the mux
  sends it.
\<close>

section \<open>The store after a handler\<close>

lemma handleClaimCommand_store:
  "snd (handleClaimCommand mo req w s) =
     claimed (URLParam req ''commandID'') (URLParam req ''agentID'') (mo_now mo) s"
  by (simp add: handleClaimCommand_def claimed_def Let_def split: prod.split sum.split)

lemma handleStartCommand_store:
  "snd (handleStartCommand mo req w s) =
     started (URLParam req ''commandID'') (URLParam req ''agentID'') (mo_now mo) s"
  by (simp add: handleStartCommand_def started_def Let_def split: prod.split sum.split)

definition command_report_input :: "string \<Rightarrow> command_report_request \<Rightarrow> report_command_input" where
  "command_report_input agentID r =
     \<lparr>rci_AgentID = agentID, rci_DeploymentID = crr_DeploymentID r, rci_Status = crr_Status r,
      rci_Result = crr_Result r, rci_Error = crr_Error r\<rparr>"

lemma handleReportCommand_store:
  "snd (handleReportCommand mo req w s) =
     (case decode req (dec_struct command_report_request_fields) zero_command_report_request of
        None \<Rightarrow> s
      | Some r \<Rightarrow> finished (URLParam req ''commandID'')
          (command_report_input (URLParam req ''agentID'') r) (mo_now mo) (mo_later mo) s)"
  by (simp add: handleReportCommand_def finished_def command_report_input_def Let_def
      split: prod.split sum.split option.split)

lemma handleHeartbeat_store:
  "snd (handleHeartbeat mo req w s) =
     (case decode req dec_raw None of
        None \<Rightarrow> s
      | Some raw \<Rightarrow> beaten (URLParam req ''agentID'') raw (mo_now mo) s)"
  by (simp add: handleHeartbeat_def beaten_def Let_def split: prod.split sum.split option.split)

definition desired_report_input :: "string \<Rightarrow> desired_report_request \<Rightarrow> report_input" where
  "desired_report_input agentID r =
     \<lparr>dri_AgentID = agentID, dri_DesiredStateVersion = drq_DesiredStateVersion r,
      dri_Type = drq_Type r, dri_Environment = drq_Environment r, dri_Status = drq_Status r,
      dri_RoutesTotal = drq_RoutesTotal r, dri_ValidatedRoutes = drq_ValidatedRoutes r,
      dri_FailedRoutes = drq_FailedRoutes r, dri_Error = drq_Error r\<rparr>"

lemma handleDesiredStateReport_store:
  "snd (handleDesiredStateReport mo req w s) =
     (case decode req (dec_struct desired_report_request_fields) zero_desired_report_request of
        None \<Rightarrow> s
      | Some r \<Rightarrow> reported (mo_deployments mo)
          (desired_report_input (URLParam req ''agentID'') r) (mo_now mo) (mo_later mo) s)"
  by (simp add: handleDesiredStateReport_def reported_def desired_report_input_def Let_def
      split: prod.split option.split store_error.split)

lemma handleRegisterAgent_store:
  "fst (snd (handleRegisterAgent mo req w s)) = s \<or>
   (\<exists>r. fst (snd (handleRegisterAgent mo req w s)) = registered r (mo_now mo) s)"
  unfolding handleRegisterAgent_def registered_def case_prod_beta
  by (auto split: sum.split option.split)

definition deploy_input_for :: "config \<Rightarrow> deploy_request \<Rightarrow> string \<Rightarrow> deploy_input" where
  "deploy_input_for cfg r agentID =
     \<lparr>di_Application = dq_Application r,
      di_Environment = (if dq_Environment r = '''' then cfg_Environment cfg else dq_Environment r),
      di_Image = dq_Image r, di_Host = dq_Host r, di_TargetAgentID = agentID,
      di_ContainerName = dq_ContainerName r,
      di_ContainerInternalPort = dq_ContainerInternalPort r,
      di_HealthCheckPath = dq_HealthCheckPath r, di_RequiresRoute = dq_RequiresRoute r,
      di_EnvironmentVariables = or_make (dq_EnvironmentVariables r), di_CustomLabels = fmempty,
      di_CommandTimeoutSeconds = timeoutDeploy\<rparr>"

lemma handleTestingDeploy_cases:
  "handleTestingDeploy cfg mo req w s =
     (case decode req (dec_struct deploy_request_fields) zero_deploy_request of
        None \<Rightarrow> (invalid_body w, s)
      | Some r \<Rightarrow>
          if dq_Application r = '''' \<or> dq_Image r = '''' \<or> dq_TargetAgentRole r = ''''
          then (Error 400 ''INVALID_REQUEST''
                  ''application, image and target_agent_role are required'' False w, s)
          else
            (case FindAgentByEnvironmentRole (mo_agents mo)
                    (if dq_Environment r = '''' then cfg_Environment cfg else dq_Environment r)
                    (dq_TargetAgentRole r) s of
               None \<Rightarrow> (Error 404 ''AGENT_NOT_FOUND''
                          ''no agent registered for the given environment and role'' False w, s)
             | Some agent \<Rightarrow>
                 (let x = InitDeploy [] (deploy_input_for cfg r (ag_ID agent)) (mo_now mo) s in
                  (JSON 200 (enc_deploy_response
                     \<lparr>dpr_DeploymentID = dep_ID (fst (snd x)), dpr_CommandID = cmd_ID (snd (snd x)),
                      dpr_TargetAgentID = ag_ID agent, dpr_Status = ''pending''\<rparr>) w, fst x))))"
proof (cases "decode req (dec_struct deploy_request_fields) zero_deploy_request")
  case (Some r)
  show ?thesis
    by (cases "dq_Environment r = ''''")
      (simp_all add: Some handleTestingDeploy_def Let_def case_prod_beta deploy_input_for_def
        split: option.split)
qed (simp add: handleTestingDeploy_def)

lemma handleTestingDeploy_store:
  "snd (handleTestingDeploy cfg mo req w s) = s \<or>
   (\<exists>inp. di_CustomLabels inp = fmempty \<and>
      snd (handleTestingDeploy cfg mo req w s) = deployed [] inp (mo_now mo) s)"
proof -
  have "di_CustomLabels (deploy_input_for cfg r a) = fmempty" for r a
    by (simp add: deploy_input_for_def)
  then show ?thesis
    by (auto simp: handleTestingDeploy_cases Let_def deployed_def split: option.split)
qed

lemma handleTestingStop_store:
  "snd (handleTestingStop mo req w s) = s \<or>
   (\<exists>inp. snd (handleTestingStop mo req w s) = created inp (mo_now mo) s)"
  unfolding handleTestingStop_def Let_def created_def case_prod_beta
  by (auto split: option.split)

lemma handleTestingRemove_store:
  "snd (handleTestingRemove mo req w s) = s \<or>
   (\<exists>inp. snd (handleTestingRemove mo req w s) = created inp (mo_now mo) s)"
  unfolding handleTestingRemove_def Let_def created_def case_prod_beta
  by (auto split: option.split)

lemma handleTestingCleanupDraining_store:
  "snd (handleTestingCleanupDraining cfg mo req w s) = s \<or>
   (\<exists>inp. snd (handleTestingCleanupDraining cfg mo req w s) = created inp (mo_now mo) s)"
  unfolding handleTestingCleanupDraining_def Let_def created_def case_prod_beta
  by (auto split: option.split)

lemmas reader_defs = handleListPendingCommands_def handleGetDesiredState_def
  handleTestingListAgents_def handleTestingListCommands_def handleTestingListDeployments_def
  handleTestingListReports_def handleTestingDesiredState_def handleTestingDesiredStateReports_def
  handleTestingDebug_def handleHealth_def

lemma reader_store [simp]:
  "snd (handleListPendingCommands mo req w s) = s" "snd (handleGetDesiredState mo req w s) = s"
  "snd (handleTestingListAgents mo req w s) = s" "snd (handleTestingListCommands mo req w s) = s"
  "snd (handleTestingListDeployments mo req w s) = s" "snd (handleTestingListReports mo req w s) = s"
  "snd (handleTestingDesiredState mo req w s) = s"
  "snd (handleTestingDesiredStateReports mo req w s) = s"
  "snd (handleTestingDebug b c mo req w s) = s"
  by (simp_all add: reader_defs Let_def split: option.split)

lemma on_store_world: "fst (snd (on_store h w wd)) = wd\<lparr>wd_store := snd (h w (wd_store wd))\<rparr>"
  by (simp add: on_store_def case_prod_beta)

section \<open>Readers\<close>

definition reader :: "endpoint \<Rightarrow> bool" where
  "reader ep \<longleftrightarrow> ep \<in> {EpHealth, EpPending, EpDesired, EpAgents, EpCommands, EpDeployments,
     EpReports, EpDesiredStates, EpDesiredReports, EpDebug}"

definition all_routes :: "route_entry list" where
  "all_routes = top_routes @ api_routes @ testing_routes"

lemma only_post_writes:
  "(Some m, pattern, Endpoint ep) \<in> set all_routes \<Longrightarrow> m \<noteq> ''POST'' \<Longrightarrow> reader ep"
  by (auto simp: all_routes_def top_routes_def api_routes_def testing_routes_def get_def post_def
      reader_def)

lemma reader_world: "reader ep \<Longrightarrow> fst (snd (serve_endpoint cfg ch ep req w wd)) = wd"
  by (auto simp: reader_def serve_endpoint_def on_store_world handleHealth_def Let_def)

section \<open>One operation for one request\<close>

definition store_moves :: "store \<Rightarrow> store \<Rightarrow> bool" where
  "store_moves s t \<longleftrightarrow> t = s \<or> store_step s t"

lemma store_moves_intros:
  "store_moves s s" "op_step s t \<Longrightarrow> store_moves s t" "store_moves s (Reset s)"
  by (auto simp: store_moves_def intro: store_step.intros)

lemma iter_order_empty [simp]: "iter_order [] fmempty"
  by (simp add: iter_order_def)

lemma endpoint_moves:
  assumes "moment_ok (ch_moment ch) (wd_store wd)"
  shows "store_moves (wd_store wd) (wd_store (fst (snd (serve_endpoint cfg ch ep req w wd))))"
proof -
  let ?mo = "ch_moment ch" and ?s = "wd_store wd"
  have ord: "iter_order (mo_deployments ?mo) (Deployments ?s)"
    using assms by (simp add: moment_ok_def)
  have lift: "store_moves ?s (wd_store (fst (snd (on_store h w wd))))"
    if "store_moves ?s (snd (h w ?s))" for h
    using that by (simp add: on_store_world)
  have reg: "store_moves ?s (fst (snd (handleRegisterAgent ?mo req w ?s)))"
    using handleRegisterAgent_store [of ?mo req w ?s] store_moves_intros op_register by metis
  have dep: "store_moves ?s (snd (handleTestingDeploy cfg ?mo req w ?s))"
    using handleTestingDeploy_store [of cfg ?mo req w ?s] store_moves_intros op_deploy
      iter_order_empty by metis
  have new: "store_moves ?s (snd (handleTestingStop ?mo req w ?s))"
    "store_moves ?s (snd (handleTestingRemove ?mo req w ?s))"
    "store_moves ?s (snd (handleTestingCleanupDraining cfg ?mo req w ?s))"
    using handleTestingStop_store [of ?mo req w ?s] handleTestingRemove_store [of ?mo req w ?s]
      handleTestingCleanupDraining_store [of cfg ?mo req w ?s] store_moves_intros op_create
    by metis+
  have upd: "store_moves ?s (snd (handleHeartbeat ?mo req w ?s))"
    "store_moves ?s (snd (handleClaimCommand ?mo req w ?s))"
    "store_moves ?s (snd (handleStartCommand ?mo req w ?s))"
    "store_moves ?s (snd (handleReportCommand ?mo req w ?s))"
    "store_moves ?s (snd (handleDesiredStateReport ?mo req w ?s))"
    by (auto simp: handleHeartbeat_store handleClaimCommand_store handleStartCommand_store
        handleReportCommand_store handleDesiredStateReport_store split: option.split
        intro: store_moves_intros op_step.intros ord)
  show ?thesis
  proof (cases "reader ep")
    case True
    then show ?thesis by (simp add: reader_world store_moves_intros)
  next
    case False
    then show ?thesis
      by (cases ep) (simp_all add: serve_endpoint_def reader_def Let_def lift dep new upd reg
          serve_register_def serve_reset_def handleTestingReset_def case_prod_beta
          store_moves_intros)
  qed
qed

section \<open>From the handlers to the server\<close>

lemma endpoint_method: "(m, pattern, Endpoint ep) \<in> set all_routes \<Longrightarrow> \<exists>v. m = Some v"
  by (auto simp: all_routes_def top_routes_def api_routes_def testing_routes_def get_def post_def)

lemma tables: "set top_routes \<subseteq> set all_routes" "set (routes_in sub) \<subseteq> set all_routes"
  unfolding all_routes_def routes_in_def set_append by (blast, cases sub, auto)

lemma chi_foundD:
  assumes "chi_sound chi" and "chi_find chi table method path = Found (Endpoint ep) ps rest"
    and "set table \<subseteq> set all_routes"
  shows "\<exists>pattern. (Some method, pattern, Endpoint ep) \<in> set all_routes"
  using assms endpoint_method unfolding chi_sound_def by blast

text \<open>The writer a handler is given: the one of the connection with the headers of CORS.\<close>

definition cors_writer :: writer where
  "cors_writer =
     set_header ''Access-Control-Allow-Headers'' ''Content-Type, Authorization''
     (set_header ''Access-Control-Allow-Methods'' ''GET, POST, PUT, PATCH, DELETE, OPTIONS''
     (set_header ''Access-Control-Allow-Origin'' ''*'' new_writer))"

lemma cors_writer_simps [simp]:
  "fresh_writer cors_writer" "w_sent cors_writer = None" "w_body cors_writer = []"
  by (simp_all add: cors_writer_def set_header_def new_writer_def fresh_writer_def)

text \<open>
  What the mux makes of a request: it reaches a handler, with some parameters, it is stopped
  by the authentication in front of one of the official routes, or no route is found.
\<close>

datatype routed = Reaches endpoint "string gomap" | Unauthorized | NoRoute | NoMethod

definition unauthorized :: "config \<Rightarrow> request \<Rightarrow> bool" where
  "unauthorized cfg req \<longleftrightarrow> cfg_AuthEnabled cfg \<and>
     header_Get ''Authorization'' req \<noteq> ''Bearer '' @ cfg_Token cfg"

definition routed_sub :: "chi \<Rightarrow> subrouter \<Rightarrow> request \<Rightarrow> string \<Rightarrow> string gomap \<Rightarrow> routed" where
  "routed_sub chi sub req rest ps =
     (case chi_find chi (routes_in sub) (rq_method req) rest of
        Found (Endpoint ep) ps' _ \<Rightarrow> Reaches ep (ps ++\<^sub>f ps')
      | Found (Mounted _) _ _ \<Rightarrow> NoRoute
      | PathNotFound \<Rightarrow> NoRoute
      | MethodNotAllowed \<Rightarrow> NoMethod)"

definition routed :: "chi \<Rightarrow> config \<Rightarrow> request \<Rightarrow> routed" where
  "routed chi cfg req =
     (case chi_find chi top_routes (rq_method req) (rq_path req) of
        Found (Endpoint ep) ps _ \<Rightarrow> Reaches ep ps
      | Found (Mounted ApiRouter) ps rest \<Rightarrow>
          if unauthorized cfg req then Unauthorized else routed_sub chi ApiRouter req rest ps
      | Found (Mounted TestingRouter) ps rest \<Rightarrow> routed_sub chi TestingRouter req rest ps
      | PathNotFound \<Rightarrow> NoRoute
      | MethodNotAllowed \<Rightarrow> NoMethod)"

lemma no_nested_subrouter:
  assumes "chi_sound chi"
  shows "chi_find chi (routes_in sub) m path \<noteq> Found (Mounted sub') ps rest"
proof
  assume "chi_find chi (routes_in sub) m path = Found (Mounted sub') ps rest"
  then obtain v pattern where "(v, pattern, Mounted sub') \<in> set (routes_in sub)"
    using assms unfolding chi_sound_def by blast
  then show False
    by (cases sub) (auto simp: routes_in_def api_routes_def testing_routes_def get_def post_def)
qed

lemma serve_sub_routed:
  assumes "chi_sound chi"
  shows "routeHTTP chi (serve_endpoint cfg ch) no_subrouter (routes_in sub) rest
      (req\<lparr>rq_params := fmempty ++\<^sub>f ps\<rparr>) w wd =
    (case routed_sub chi sub req rest ps of
       Reaches ep qs \<Rightarrow> serve_endpoint cfg ch ep (req\<lparr>rq_params := qs\<rparr>) w wd
     | Unauthorized \<Rightarrow> (w, wd, None)
     | NoRoute \<Rightarrow> (chi_not_found chi w, wd, None)
     | NoMethod \<Rightarrow> (chi_not_allowed chi w, wd, None))"
  using no_nested_subrouter [OF assms, of sub "rq_method req" rest]
  by (simp add: routeHTTP_def routed_sub_def split: found.split target.split)

text \<open>The way of a request, in one equation.\<close>

lemma NewRouter_routed:
  assumes "chi_sound chi"
  shows "NewRouter chi cfg ch (req\<lparr>rq_params := fmempty\<rparr>) new_writer wd =
    (if rq_method req = ''OPTIONS'' then (WriteHeader 204 cors_writer, wd, None)
     else case routed chi cfg req of
       Reaches ep ps \<Rightarrow> recoverer chi (serve_endpoint cfg ch ep) (req\<lparr>rq_params := ps\<rparr>) cors_writer wd
     | Unauthorized \<Rightarrow>
         (Error 401 ''AUTHENTICATION_FAILED'' ''Invalid or missing token'' False cors_writer, wd, None)
     | NoRoute \<Rightarrow> (chi_not_found chi cors_writer, wd, None)
     | NoMethod \<Rightarrow> (chi_not_allowed chi cors_writer, wd, None))"
proof -
  let ?req = "req\<lparr>rq_params := fmempty\<rparr>"
  let ?inner = "routeHTTP chi (serve_endpoint cfg ch) (serve_sub chi cfg ch) top_routes (rq_path req)"
  have sub: "serve_sub chi cfg ch sub rest (?req\<lparr>rq_params := fmempty ++\<^sub>f ps\<rparr>) w wd =
      (if sub = ApiRouter \<and> unauthorized cfg req
       then (Error 401 ''AUTHENTICATION_FAILED'' ''Invalid or missing token'' False w, wd, None)
       else routeHTTP chi (serve_endpoint cfg ch) no_subrouter (routes_in sub) rest
              (req\<lparr>rq_params := fmempty ++\<^sub>f ps\<rparr>) w wd)" for sub rest ps w
    by (cases sub) (simp_all add: serve_sub_def Let_def authMiddleware_def unauthorized_def header_Get_def)
  have "?inner ?req w wd =
      (case routed chi cfg req of
         Reaches ep ps \<Rightarrow> serve_endpoint cfg ch ep (req\<lparr>rq_params := ps\<rparr>) w wd
       | Unauthorized \<Rightarrow>
           (Error 401 ''AUTHENTICATION_FAILED'' ''Invalid or missing token'' False w, wd, None)
       | NoRoute \<Rightarrow> (chi_not_found chi w, wd, None)
       | NoMethod \<Rightarrow> (chi_not_allowed chi w, wd, None))" for w
    using sub serve_sub_routed [OF assms]
    by (simp add: routeHTTP_def routed_def routed_sub_def split: found.split target.split subrouter.split)
  then show ?thesis
    by (simp add: NewRouter_def recoverer_def corsMiddleware_def cors_writer_def Let_def
        split: routed.split)
qed

lemma routed_endpoint:
  assumes "chi_sound chi" and "routed chi cfg req = Reaches ep ps"
  shows "\<exists>pattern. (Some (rq_method req), pattern, Endpoint ep) \<in> set all_routes"
  using assms(2) chi_foundD [OF assms(1)] tables
  unfolding routed_def routed_sub_def
  by (auto split: found.splits target.splits subrouter.splits if_splits)

text \<open>A request that reaches a handler, and one that does not.\<close>

definition recovered :: "chi \<Rightarrow> writer \<times> world \<times> panic option \<Rightarrow> writer" where
  "recovered chi r = (case r of (w, _, None) \<Rightarrow> w | (w, _, Some _) \<Rightarrow> chi_recover chi w)"

lemma recovered_simps [simp]:
  "recovered chi (w, wd, None) = w" "recovered chi (w, wd, Some p) = chi_recover chi w"
  by (simp_all add: recovered_def)

lemma serve_reaches:
  assumes "chi_sound chi" and "routed chi cfg req = Reaches ep ps" and "rq_method req \<noteq> ''OPTIONS''"
  shows "serve chi cfg ch req wd =
    (recovered chi (serve_endpoint cfg ch ep (req\<lparr>rq_params := ps\<rparr>) cors_writer wd),
     fst (snd (serve_endpoint cfg ch ep (req\<lparr>rq_params := ps\<rparr>) cors_writer wd)))"
  using assms(2,3)
  by (simp add: serve_def NewRouter_routed [OF assms(1)] recoverer_def recovered_def case_prod_beta
      split: option.split)

lemma serve_stopped:
  assumes "chi_sound chi"
    and "\<not> (\<exists>ep ps. routed chi cfg req = Reaches ep ps \<and> rq_method req \<noteq> ''OPTIONS'')"
  shows "snd (serve chi cfg ch req wd) = wd"
    and "fst (serve chi cfg ch req wd) =
      (if rq_method req = ''OPTIONS'' then WriteHeader 204 cors_writer
       else case routed chi cfg req of
         Unauthorized \<Rightarrow>
           Error 401 ''AUTHENTICATION_FAILED'' ''Invalid or missing token'' False cors_writer
       | NoRoute \<Rightarrow> chi_not_found chi cors_writer
       | _ \<Rightarrow> chi_not_allowed chi cors_writer)"
  using assms(2)
  by (auto simp: serve_def NewRouter_routed [OF assms(1)] split: routed.split)

text \<open>
  A relation between the states before and after a request that every handler keeps on the
  routes it is registered for.
\<close>

locale handler_relation =
  fixes R :: "config \<Rightarrow> chance \<Rightarrow> string \<Rightarrow> world \<Rightarrow> world \<Rightarrow> bool"
  assumes unchanged: "R cfg ch m wd wd"
    and endpoint: "(Some (rq_method req), pattern, Endpoint ep) \<in> set all_routes \<Longrightarrow>
      R cfg ch (rq_method req) wd (fst (snd (serve_endpoint cfg ch ep req w wd)))"
begin

lemma serve_relation:
  assumes "chi_sound chi" and "serve chi cfg ch req wd = (w, wd')"
  shows "R cfg ch (rq_method req) wd wd'"
proof (cases "\<exists>ep ps. routed chi cfg req = Reaches ep ps \<and> rq_method req \<noteq> ''OPTIONS''")
  case True
  then obtain ep ps where ep: "routed chi cfg req = Reaches ep ps" "rq_method req \<noteq> ''OPTIONS''"
    by blast
  obtain pattern where "(Some (rq_method req), pattern, Endpoint ep) \<in> set all_routes"
    using routed_endpoint [OF assms(1) ep(1)] by blast
  from endpoint [of "req\<lparr>rq_params := ps\<rparr>", simplified, OF this, of cfg ch wd cors_writer]
  show ?thesis using assms(2) by (simp add: serve_reaches [OF assms(1) ep])
next
  case False
  then have "wd' = wd"
    using serve_stopped [OF assms(1), of cfg req ch wd] assms(2) by simp
  then show ?thesis by (simp add: unchanged)
qed

end

interpretation readers: handler_relation "\<lambda>cfg ch m wd wd'. m \<noteq> ''POST'' \<longrightarrow> wd' = wd"
  by unfold_locales (auto dest: only_post_writes simp: reader_world)

interpretation mover: handler_relation
  "\<lambda>cfg ch m wd wd'. moment_ok (ch_moment ch) (wd_store wd) \<longrightarrow>
     store_moves (wd_store wd) (wd_store wd')"
  by unfold_locales (simp_all add: store_moves_intros endpoint_moves)

end
