(* ===== verification/Api_Answers.thy ===== *)
theory Api_Answers
  imports Api_Steps
begin

text \<open>
  How the handlers answer: every handler sends one status with one document, and what an
  error status says of the store.
\<close>

section \<open>Errors of the store\<close>

lemma ClaimCommand_error: "ClaimCommand cid a now s = (t, Inl e) \<Longrightarrow> t = s"
  by (auto simp: ClaimCommand_def Let_def split: option.splits if_splits)

lemma StartCommand_error: "StartCommand cid a now s = (t, Inl e) \<Longrightarrow> t = s"
  by (auto simp: StartCommand_def Let_def split: option.splits if_splits)

lemma ReportCommand_error: "ReportCommand cid inp now now' s = (t, Inl e) \<Longrightarrow> t = s"
  by (auto simp: ReportCommand_def Let_def split: option.splits if_splits)

lemma Heartbeat_error: "Heartbeat k raw now s = (t, Inl e) \<Longrightarrow> t = s"
  by (auto simp: Heartbeat_def Let_def split: option.splits)

lemma RegisterAgent_panic: "agents_ok s \<Longrightarrow> RegisterAgent i now s = (t, Inl p) \<Longrightarrow> False"
  using agents_okD(2)
  by (fastforce simp: RegisterAgent_def Let_def split: option.splits)

lemmas store_errors = ClaimCommand_error StartCommand_error ReportCommand_error Heartbeat_error

section \<open>Answers\<close>

text \<open>
  A handler answers 200, or it answers with one of the errors 400, 404 and 409 and leaves the
  store alone.
\<close>

definition sound_answer :: "store \<Rightarrow> writer \<times> store \<Rightarrow> bool" where
  "sound_answer s r \<longleftrightarrow>
     status_of (fst r) = Some 200 \<or>
     status_of (fst r) \<in> {Some 400, Some 404, Some 409} \<and> snd r = s"

named_theorems answers

lemma sound_answer_intros [intro]:
  "w_sent w = None \<Longrightarrow> sound_answer s (JSON 200 j w, t)"
  "w_sent w = None \<Longrightarrow> sound_answer s (invalid_body w, s)"
  "w_sent w = None \<Longrightarrow> sound_answer s (Error 400 c m b w, s)"
  "w_sent w = None \<Longrightarrow> sound_answer s (Error 404 c m b w, s)"
  "w_sent w = None \<Longrightarrow> sound_answer s (Error 409 c m b w, s)"
  "w_sent w = None \<Longrightarrow> sound_answer s (command_error e w, s)"
  by (simp_all add: sound_answer_def invalid_body_def command_error_def split: store_error.split)

lemma handleHeartbeat_answer [answers]:
  "w_sent w = None \<Longrightarrow> sound_answer s (handleHeartbeat mo req w s)"
  by (auto simp: handleHeartbeat_def Let_def dest!: store_errors
      split: option.split prod.split sum.split)

lemma handleClaimCommand_answer [answers]:
  "w_sent w = None \<Longrightarrow> sound_answer s (handleClaimCommand mo req w s)"
  by (auto simp: handleClaimCommand_def Let_def dest!: store_errors
      split: option.split prod.split sum.split)

lemma handleStartCommand_answer [answers]:
  "w_sent w = None \<Longrightarrow> sound_answer s (handleStartCommand mo req w s)"
  by (auto simp: handleStartCommand_def Let_def dest!: store_errors
      split: option.split prod.split sum.split)

lemma handleReportCommand_answer [answers]:
  "w_sent w = None \<Longrightarrow> sound_answer s (handleReportCommand mo req w s)"
  by (auto simp: handleReportCommand_def Let_def dest!: store_errors
      split: option.split prod.split sum.split)

lemma handleTestingDeploy_answer [answers]:
  "w_sent w = None \<Longrightarrow> sound_answer s (handleTestingDeploy cfg mo req w s)"
  by (auto simp: handleTestingDeploy_cases Let_def split: option.split)

lemma handleTestingStop_answer [answers]:
  "w_sent w = None \<Longrightarrow> sound_answer s (handleTestingStop mo req w s)"
  unfolding handleTestingStop_def Let_def case_prod_beta by (auto split: option.split)

lemma handleTestingRemove_answer [answers]:
  "w_sent w = None \<Longrightarrow> sound_answer s (handleTestingRemove mo req w s)"
  unfolding handleTestingRemove_def Let_def case_prod_beta by (auto split: option.split)

lemma handleTestingCleanupDraining_answer [answers]:
  "w_sent w = None \<Longrightarrow> sound_answer s (handleTestingCleanupDraining cfg mo req w s)"
  unfolding handleTestingCleanupDraining_def Let_def case_prod_beta by (auto split: option.split)

lemma reader_answers [answers]:
  assumes "w_sent w = None"
  shows "sound_answer s (handleListPendingCommands mo req w s)"
    "sound_answer s (handleGetDesiredState mo req w s)"
    "sound_answer s (handleTestingListAgents mo req w s)"
    "sound_answer s (handleTestingListCommands mo req w s)"
    "sound_answer s (handleTestingListDeployments mo req w s)"
    "sound_answer s (handleTestingListReports mo req w s)"
    "sound_answer s (handleTestingDesiredState mo req w s)"
    "sound_answer s (handleTestingDesiredStateReports mo req w s)"
    "sound_answer s (handleTestingDebug b c mo req w s)"
  using assms by (auto simp: reader_defs Let_def split: option.split)

text \<open>A report on the desired state that is refused is recorded all the same.\<close>

lemma handleDesiredStateReport_answer:
  assumes "w_sent w = None"
  shows "sound_answer s (handleDesiredStateReport mo req w s) \<or>
    status_of (fst (handleDesiredStateReport mo req w s)) = Some 409 \<and>
    (\<exists>r. dr_Invalid r \<and> snd (handleDesiredStateReport mo req w s) =
       s\<lparr>DesiredStateReports := DesiredStateReports s @ [r]\<rparr>)"
proof (cases "decode req (dec_struct desired_report_request_fields) zero_desired_report_request")
  case None
  then show ?thesis using assms by (auto simp: handleDesiredStateReport_def)
next
  case (Some r)
  show ?thesis
  proof (cases "current_version (drq_Environment r) s < drq_DesiredStateVersion r")
    case True
    then show ?thesis
      using assms Some
      by (intro disjI2) (simp add: handleDesiredStateReport_def ApplyDesiredStateReport_def Let_def,
          rule exI, rule conjI [rotated], rule refl, simp)
  next
    case False
    then show ?thesis
      using assms Some
      by (auto simp: handleDesiredStateReport_def ApplyDesiredStateReport_def Let_def)
  qed
qed

section \<open>All handlers\<close>

lemma on_store_answer:
  assumes "sound_answer (wd_store wd) (h w (wd_store wd))" and "on_store h w wd = (w', wd', p)"
  shows "p = None \<and> (status_of w' = Some 200 \<or>
    status_of w' \<in> {Some 400, Some 404, Some 409} \<and> wd' = wd)"
  using assms by (auto simp: on_store_def sound_answer_def split: prod.splits)

lemma endpoint_answer:
  assumes ok: "agents_ok (wd_store wd)" and w: "w_sent w = None"
    and r: "serve_endpoint cfg ch ep req w wd = (w', wd', p)"
  shows "p = None \<and> (status_of w' = Some 200 \<or>
    status_of w' \<in> {Some 400, Some 404, Some 409} \<and> (wd' = wd \<or>
      ep = EpDesiredReport \<and> status_of w' = Some 409 \<and> (\<exists>x. dr_Invalid x \<and> wd' = wd\<lparr>wd_store :=
        (wd_store wd)\<lparr>DesiredStateReports := DesiredStateReports (wd_store wd) @ [x]\<rparr>\<rparr>)))"
proof -
  have plain: ?thesis if "serve_endpoint cfg ch ep req w wd = on_store h w wd"
    "sound_answer (wd_store wd) (h w (wd_store wd))" for h
    using on_store_answer [of wd h w w' wd' p, OF that(2)] r that(1) by auto
  show ?thesis
  proof (cases ep)
    case EpHealth
    then show ?thesis using r w by (auto simp: serve_endpoint_def handleHealth_def)
  next
    case EpRegister
    then show ?thesis
      using r w RegisterAgent_panic [OF ok]
      by (auto simp: serve_endpoint_def serve_register_def handleRegisterAgent_def invalid_body_def Let_def
          split: option.splits prod.splits sum.splits if_splits)
  next
    case EpDesiredReport
    then show ?thesis
      using r handleDesiredStateReport_answer [OF w, of "wd_store wd" "ch_moment ch" req]
      by (auto simp: serve_endpoint_def on_store_def sound_answer_def Let_def split: prod.splits)
  next
    case EpReset
    then show ?thesis
      using r w by (auto simp: serve_endpoint_def serve_reset_def handleTestingReset_def Let_def)
  qed (rule plain, simp add: serve_endpoint_def Let_def, rule answers [OF w])+
qed

end
