(* ===== verification/Api_Examples.thy ===== *)
theory Api_Examples
  imports Api_Answers Examples
begin

text \<open>
  A mux that compares paths segment by segment, to show that the hypothesis on the mux can
  hold and to run requests: a pattern segment in braces takes any segment, a mounted pattern
  takes a prefix of the path and passes on the rest. And the world of the example run.
\<close>

fun path_segments :: "string \<Rightarrow> string list" where
  "path_segments [] = [[]]"
| "path_segments (c # cs) =
     (if c = CHR ''/'' then [] # path_segments cs
      else (case path_segments cs of s # ss \<Rightarrow> (c # s) # ss | [] \<Rightarrow> [[c]]))"

definition segment_param :: "string \<Rightarrow> string option" where
  "segment_param p = (if p \<noteq> [] \<and> hd p = CHR 0x7B then Some (butlast (tl p)) else None)"

fun match_segments :: "bool \<Rightarrow> string list \<Rightarrow> string list \<Rightarrow> (string gomap \<times> string list) option" where
  "match_segments prefix [] qs = (if qs = [] \<or> prefix then Some (fmempty, qs) else None)"
| "match_segments prefix (p # ps) [] = None"
| "match_segments prefix (p # ps) (q # qs) =
     (case segment_param p of
        Some x \<Rightarrow>
          (case match_segments prefix ps qs of
             Some (m, rest) \<Rightarrow> Some (fmupd x q m, rest)
           | None \<Rightarrow> None)
      | None \<Rightarrow> if p = q then match_segments prefix ps qs else None)"

fun segment_find :: "route_entry list \<Rightarrow> string \<Rightarrow> string \<Rightarrow> found" where
  "segment_find [] method path = PathNotFound"
| "segment_find ((m, pattern, tgt) # table) method path =
     (case match_segments (m = None) (path_segments pattern) (path_segments path) of
        Some (ps, rest) \<Rightarrow>
          if m = None \<or> m = Some method then Found tgt ps (concat (map (\<lambda>s. CHR ''/'' # s) rest))
          else segment_find table method path
      | None \<Rightarrow> segment_find table method path)"

definition segment_chi :: chi where
  "segment_chi =
     \<lparr>chi_find = segment_find,
      chi_not_found = WriteHeader 404,
      chi_not_allowed = WriteHeader 405,
      chi_recover = WriteHeader 500\<rparr>"

lemma segment_find_sound:
  "segment_find table method path = Found tgt ps rest \<Longrightarrow>
   \<exists>m pattern. (m, pattern, tgt) \<in> set table \<and> (m = None \<or> m = Some method)"
proof (induction table)
  case (Cons entry table)
  obtain m pattern tgt' where e: "entry = (m, pattern, tgt')" by (cases entry)
  have "segment_find table method path = Found tgt ps rest \<or>
      tgt' = tgt \<and> (m = None \<or> m = Some method)"
    using Cons.prems by (simp add: e split: option.splits if_split_asm prod.splits)
  then show ?case using Cons.IH by (auto simp: e)
qed simp

lemma segment_chi_sound [simp]: "chi_sound segment_chi"
  using segment_find_sound by (simp add: chi_sound_def segment_chi_def)

text \<open>Requests without headers, query and body.\<close>

definition plain_request :: "string \<Rightarrow> string \<Rightarrow> request" where
  "plain_request method path =
     \<lparr>rq_method = method, rq_path = path, rq_query = [], rq_headers = fmempty,
      rq_params = fmempty, rq_body = None\<rparr>"

definition ex_cfg :: config where
  "ex_cfg = (LoadConfig fmempty)\<lparr>cfg_StateFile := ''s.json''\<rparr>"

definition ex_locked :: config where
  "ex_locked = ex_cfg\<lparr>cfg_AuthEnabled := True, cfg_Token := ''secret''\<rparr>"

definition ex_world :: "store \<Rightarrow> world" where
  "ex_world s = \<lparr>wd_store = s, wd_files = fs_empty\<rparr>"

lemma segment_routes [simp]:
  "routed segment_chi cfg (plain_request ''GET'' ''/health'') = Reaches EpHealth fmempty"
  "routed segment_chi ex_cfg (plain_request ''GET'' ''/api/agents/agent-dev-api-001/commands/pending'') =
     Reaches EpPending (fmupd ''agentID'' ''agent-dev-api-001'' fmempty)"
  "routed segment_chi cfg (plain_request ''POST'' ''/testing/reset'') = Reaches EpReset fmempty"
  "routed segment_chi cfg (plain_request ''GET'' ''/testing/reset'') = NoRoute"
  "routed segment_chi ex_locked
     (plain_request ''POST'' ''/api/agents/agent-dev-api-001/commands/cmd-001/claim'') = Unauthorized"
  "routed segment_chi ex_cfg
     (plain_request ''POST'' ''/api/agents/agent-dev-api-001/commands/cmd-001/claim'') =
     Reaches EpClaim (fmupd ''agentID'' ''agent-dev-api-001'' (fmupd ''commandID'' ''cmd-001'' fmempty))"
  "routed segment_chi ex_cfg
     (plain_request ''POST'' ''/api/agents/agent-dev-api-001/commands/cmd-009/claim'') =
     Reaches EpClaim (fmupd ''agentID'' ''agent-dev-api-001'' (fmupd ''commandID'' ''cmd-009'' fmempty))"
  by (simp_all add: routed_def routed_sub_def plain_request_def segment_chi_def top_routes_def
      routes_in_def api_routes_def testing_routes_def get_def post_def segment_param_def
      unauthorized_def ex_cfg_def ex_locked_def LoadConfig_def getEnv_def os_Getenv_def
      lookup_or_def header_Get_def)

definition ex_deploy_request :: request where
  "ex_deploy_request = (plain_request ''POST'' ''/testing/commands/deploy'')\<lparr>rq_body := Some (JObj
     [(''application'', JStr ''billing''), (''image'', JStr ''api:v1''), (''target_agent_role'', JStr ''api'')])\<rparr>"

lemma ex_deploy_decoded:
  "decode ex_deploy_request (dec_struct deploy_request_fields) zero_deploy_request =
     Some (zero_deploy_request\<lparr>dq_Application := ''billing'', dq_Image := ''api:v1'',
       dq_TargetAgentRole := ''api''\<rparr>)"
  by (simp add: decode_def ex_deploy_request_def plain_request_def dec_struct_def deploy_request_fields_def
      find_field_def field_def dec_string_def)

lemma ex_deploy_routed: "routed segment_chi ex_cfg ex_deploy_request = Reaches EpDeploy fmempty"
  by (simp add: routed_def routed_sub_def ex_deploy_request_def plain_request_def segment_chi_def
      top_routes_def routes_in_def testing_routes_def get_def post_def segment_param_def)

end
