(* ===== verification/Restart.thy ===== *)
theory Restart
  imports Api_Examples
begin

text \<open>
  A restart is invisible: the store that comes back from the state file differs from the one
  that was saved in raw messages that were nil and have become \<open>null\<close>. Two stores are the same
  up to reading when reading makes them equal; every operation and every handler keeps that
  relation, and no answer but that of the debug endpoint, which tells a nil slice from an empty
  one, tells the two apart.
\<close>

definition same_read :: "store \<Rightarrow> store \<Rightarrow> bool" where
  "same_read s t \<longleftrightarrow> store_read s = store_read t"

section \<open>Reading\<close>

lemma agent_read_fields [simp]:
  "ag_ID (agent_read a) = ag_ID a" "ag_Environment (agent_read a) = ag_Environment a"
  "ag_Role (agent_read a) = ag_Role a"
  by (simp_all add: agent_read_def)

lemma command_read_fields [simp]:
  "cmd_ID (command_read c) = cmd_ID c" "cmd_Type (command_read c) = cmd_Type c"
  "cmd_Status (command_read c) = cmd_Status c" "cmd_ClaimedBy (command_read c) = cmd_ClaimedBy c"
  "cmd_ClaimedAt (command_read c) = cmd_ClaimedAt c" "cmd_StartedAt (command_read c) = cmd_StartedAt c"
  "cmd_TargetAgentID (command_read c) = cmd_TargetAgentID c"
  "cmd_DeploymentID (command_read c) = cmd_DeploymentID c"
  by (simp_all add: command_read_def)

lemma read_idem [simp]: "agent_read (agent_read a) = agent_read a" "command_read (command_read c) = command_read c"
  by (simp_all add: agent_read_def command_read_def)

lemma store_read_selects [simp]:
  "Agents (store_read s) = fmmap agent_read (Agents s)" "AgentIndex (store_read s) = AgentIndex s"
  "Commands (store_read s) = fmmap command_read (Commands s)"
  "Deployments (store_read s) = Deployments s" "CommandReports (store_read s) = CommandReports s"
  "DesiredStates (store_read s) = DesiredStates s"
  "DesiredStateReports (store_read s) = DesiredStateReports s" "Counters (store_read s) = Counters s"
  by (simp_all add: store_read_def)

lemma store_read_idem [simp]: "store_read (store_read s) = store_read s"
  by (simp add: store_read_def fmap.map_comp comp_def)

lemma store_read_puts [simp]:
  "store_read (put_agent k a s) = put_agent k (agent_read a) (store_read s)"
  "store_read (put_command k c s) = put_command k (command_read c) (store_read s)"
  "store_read (put_deployment k d s) = put_deployment k d (store_read s)"
  "store_read (put_desired k ds s) = put_desired k ds (store_read s)"
  by (simp_all add: store_read_def put_defs fmmap_fmupd)

lemma store_read_updates [simp]:
  "store_read (s\<lparr>Counters := c\<rparr>) = (store_read s)\<lparr>Counters := c\<rparr>"
  "store_read (s\<lparr>CommandReports := rs\<rparr>) = (store_read s)\<lparr>CommandReports := rs\<rparr>"
  "store_read (s\<lparr>DesiredStateReports := rs'\<rparr>) = (store_read s)\<lparr>DesiredStateReports := rs'\<rparr>"
  "store_read (s\<lparr>AgentIndex := ix\<rparr>) = (store_read s)\<lparr>AgentIndex := ix\<rparr>"
  "store_read (s\<lparr>Deployments := ds\<rparr>) = (store_read s)\<lparr>Deployments := ds\<rparr>"
  "store_read (s\<lparr>Agents := ags\<rparr>) = (store_read s)\<lparr>Agents := fmmap agent_read ags\<rparr>"
  by (simp_all add: store_read_def)

section \<open>The routes\<close>

text \<open>The operations on deployments and routes neither read nor write agents and commands.\<close>

lemma getOrCreate_read:
  "getOrCreateDesiredState e (store_read s) =
     (store_read (fst (getOrCreateDesiredState e s)), snd (getOrCreateDesiredState e s))"
  by (simp add: getOrCreateDesiredState_def Let_def split: option.split)

lemma increment_read: "incrementDesiredState e (store_read s) = store_read (incrementDesiredState e s)"
  by (simp add: incrementDesiredState_def getOrCreate_read Let_def case_prod_beta)

lemma removeRoute_read: "removeRoute e r (store_read s) = store_read (removeRoute e r s)"
  by (simp add: removeRoute_def split: option.split)

lemma upsertRoute_read:
  "upsertRoute e h p u d hc (store_read s) =
     (store_read (fst (upsertRoute e h p u d hc s)), snd (upsertRoute e h p u d hc s))"
  by (simp add: upsertRoute_def getOrCreateDesiredState_def Let_def split: option.split prod.split)

lemma applySucceeded_read:
  "applySucceeded cmd dep res now (store_read s) = store_read (applySucceeded cmd dep res now s)"
  unfolding applySucceeded_def Let_def case_prod_beta
  by (simp add: upsertRoute_read increment_read removeRoute_read
      flip: store_read_puts split: option.split)

section \<open>The operations\<close>

lemma read_updates [simp]:
  "command_read (c\<lparr>cmd_Status := st\<rparr>) = (command_read c)\<lparr>cmd_Status := st\<rparr>"
  "command_read (c\<lparr>cmd_ClaimedBy := a\<rparr>) = (command_read c)\<lparr>cmd_ClaimedBy := a\<rparr>"
  "command_read (c\<lparr>cmd_ClaimedAt := t\<rparr>) = (command_read c)\<lparr>cmd_ClaimedAt := t\<rparr>"
  "command_read (c\<lparr>cmd_StartedAt := t\<rparr>) = (command_read c)\<lparr>cmd_StartedAt := t\<rparr>"
  "command_read (c\<lparr>cmd_FinishedAt := t\<rparr>) = (command_read c)\<lparr>cmd_FinishedAt := t\<rparr>"
  by (simp_all add: command_read_def)

lemma ClaimCommand_read:
  "ClaimCommand cid a now (store_read s) =
     (store_read (fst (ClaimCommand cid a now s)), map_sum id command_read (snd (ClaimCommand cid a now s)))"
  by (simp add: ClaimCommand_def Let_def split: option.split)

lemma StartCommand_read:
  "StartCommand cid a now (store_read s) =
     (store_read (fst (StartCommand cid a now s)), map_sum id command_read (snd (StartCommand cid a now s)))"
  by (simp add: StartCommand_def Let_def split: option.split)

lemma effective_dep_read [simp]: "effective_dep inp (command_read c) = effective_dep inp c"
  by (simp add: effective_dep_def)

lemma applySucceeded_type:
  "cmd_Type c' = cmd_Type c \<Longrightarrow> applySucceeded c' dep res now s = applySucceeded c dep res now s"
  by (simp add: applySucceeded_def)

lemma ReportCommand_read:
  "ReportCommand cid inp now now' (store_read s) =
     (store_read (fst (ReportCommand cid inp now now' s)), snd (ReportCommand cid inp now now' s))"
proof (cases "fmlookup (Commands s) cid")
  case (Some c)
  have "applySucceeded (command_read (c\<lparr>cmd_FinishedAt := Some now, cmd_Status := ''succeeded''\<rparr>)) dep res t u =
      applySucceeded (c\<lparr>cmd_FinishedAt := Some now, cmd_Status := ''succeeded''\<rparr>) dep res t u" for dep res t u
    by (rule applySucceeded_type) simp
  then show ?thesis
    by (simp add: ReportCommand_def Some Let_def flip: applySucceeded_read split: option.split)
qed (simp add: ReportCommand_def)

lemma report_read:
  "ApplyDesiredStateReport ord inp t now (store_read s) =
     (store_read (fst (ApplyDesiredStateReport ord inp t now s)), snd (ApplyDesiredStateReport ord inp t now s))"
  by (simp add: ApplyDesiredStateReport_def current_version_def Let_def)

lemma InitDeploy_read:
  "snd (InitDeploy ord inp now (store_read s)) = snd (InitDeploy ord inp now s)"
  "store_read (fst (InitDeploy ord inp now (store_read s))) = store_read (fst (InitDeploy ord inp now s))"
  by (simp_all add: InitDeploy_def Let_def)

lemma CreateCommand_read:
  "snd (CreateCommand inp now (store_read s)) = snd (CreateCommand inp now s)"
  "store_read (fst (CreateCommand inp now (store_read s))) = store_read (fst (CreateCommand inp now s))"
  by (simp_all add: CreateCommand_def Let_def)

lemma Heartbeat_read:
  "map_sum id agent_read (snd (Heartbeat k raw now (store_read s))) = map_sum id agent_read (snd (Heartbeat k raw now s))"
  "store_read (fst (Heartbeat k raw now (store_read s))) = store_read (fst (Heartbeat k raw now s))"
  by (simp_all add: Heartbeat_def Let_def agent_read_def split: option.split)

lemma fmmap_read_idem [simp]: "fmmap agent_read (fmmap agent_read m) = fmmap agent_read m"
  by (simp add: fmap.map_comp comp_def)

lemma agent_read_again:
  "agent_read ((agent_read b)\<lparr>ag_Hostname := h, ag_Version := v, ag_PrivateIP := p, ag_PublicIP := q,
     ag_Capabilities := c, ag_Status := st, ag_LastSeenAt := t\<rparr>) =
   agent_read (b\<lparr>ag_Hostname := h, ag_Version := v, ag_PrivateIP := p, ag_PublicIP := q,
     ag_Capabilities := c, ag_Status := st, ag_LastSeenAt := t\<rparr>)"
  by (simp add: agent_read_def)

lemma RegisterAgent_read:
  "map_sum id agent_read (snd (RegisterAgent i now (store_read s))) = map_sum id agent_read (snd (RegisterAgent i now s))"
  "store_read (fst (RegisterAgent i now (store_read s))) = store_read (fst (RegisterAgent i now s))"
  by (simp_all add: RegisterAgent_def Let_def fmmap_fmupd agent_read_again split: option.split)

lemma find_agent_read:
  "FindAgentByEnvironmentRole ord e r (store_read s) =
     map_option agent_read (FindAgentByEnvironmentRole ord e r s)"
proof -
  have "find P (map agent_read xs) = map_option agent_read (find (\<lambda>a. P (agent_read a)) xs)" for P xs
    by (induction xs) simp_all
  then show ?thesis by (simp add: FindAgentByEnvironmentRole_def range_values_fmmap)
qed

lemma list_read:
  "ListPendingByAgent ord a (store_read s) = map command_read (ListPendingByAgent ord a s)"
  "ListCommands ord st ty a (store_read s) = map command_read (ListCommands ord st ty a s)"
  "ListAgents ord (store_read s) = map agent_read (ListAgents ord s)"
  by (simp_all add: ListPendingByAgent_def ListCommands_def ListAgents_def range_values_fmmap filter_map
      comp_def)

section \<open>The handlers\<close>

definition reads_same :: "(writer \<Rightarrow> store \<Rightarrow> writer \<times> store) \<Rightarrow> bool" where
  "reads_same h \<longleftrightarrow> (\<forall>w s. fst (h w (store_read s)) = fst (h w s) \<and>
     store_read (snd (h w (store_read s))) = store_read (snd (h w s)))"

named_theorems same_answers

lemma enc_slice_read [simp]:
  "enc_slice enc_agent (map agent_read xs) = enc_slice enc_agent xs"
  "enc_slice enc_command (map command_read cs) = enc_slice enc_command cs"
  by (simp_all add: enc_slice_def enc_agent_read enc_command_read)

lemma reader_same [same_answers]:
  "reads_same (handleListPendingCommands mo req)" "reads_same (handleGetDesiredState mo req)"
  "reads_same (handleTestingListAgents mo req)" "reads_same (handleTestingListCommands mo req)"
  "reads_same (handleTestingListDeployments mo req)" "reads_same (handleTestingListReports mo req)"
  "reads_same (handleTestingDesiredState mo req)" "reads_same (handleTestingDesiredStateReports mo req)"
  by (simp_all add: reads_same_def reader_defs Let_def list_read GetAgent_def ListDeployments_def
      ListCommandReports_def GetDesiredState_def GetAllDesiredStates_def ListDesiredStateReports_def
      split: option.split)

lemma writer_same [same_answers]:
  "reads_same (handleClaimCommand mo req)" "reads_same (handleStartCommand mo req)"
  "reads_same (handleReportCommand mo req)" "reads_same (handleDesiredStateReport mo req)"
  by (simp_all add: reads_same_def handleClaimCommand_def handleStartCommand_def handleReportCommand_def
      handleDesiredStateReport_def ClaimCommand_read StartCommand_read ReportCommand_read report_read
      Let_def case_prod_beta split: sum.split option.split store_error.split)

lemma sum_same:
  assumes "map_sum id f x = map_sum id f y"
  shows "(\<exists>e. x = Inl e \<and> y = Inl e) \<or> (\<exists>a b. x = Inr a \<and> y = Inr b \<and> f a = f b)"
  using assms by (cases x; cases y) auto

lemma handleHeartbeat_same [same_answers]: "reads_same (handleHeartbeat mo req)"
  unfolding reads_same_def
proof (intro allI)
  fix w s
  let ?h = "\<lambda>s. case decode req dec_raw None of None \<Rightarrow> (s, Inl ErrNotFound)
    | Some raw \<Rightarrow> Heartbeat (URLParam req ''agentID'') raw (mo_now mo) s"
  show "fst (handleHeartbeat mo req w (store_read s)) = fst (handleHeartbeat mo req w s) \<and>
      store_read (snd (handleHeartbeat mo req w (store_read s))) = store_read (snd (handleHeartbeat mo req w s))"
  proof (cases "decode req dec_raw None")
    case (Some raw)
    note h = Heartbeat_read [of "URLParam req ''agentID''" raw "mo_now mo" s]
    show ?thesis
      using h(2) sum_same [OF h(1)]
      by (auto simp: handleHeartbeat_def Some Let_def case_prod_beta split: sum.split)
  qed (simp add: handleHeartbeat_def)
qed

lemma creator_same [same_answers]:
  "reads_same (handleTestingDeploy cfg mo req)" "reads_same (handleTestingStop mo req)"
  "reads_same (handleTestingRemove mo req)" "reads_same (handleTestingCleanupDraining cfg mo req)"
  unfolding reads_same_def handleTestingDeploy_cases handleTestingStop_def handleTestingRemove_def
    handleTestingCleanupDraining_def Let_def case_prod_beta
  by (simp_all add: find_agent_read InitDeploy_read CreateCommand_read GetDeployment_def split: option.split)

section \<open>The server\<close>

definition world_read :: "world \<Rightarrow> world" where
  "world_read wd = wd\<lparr>wd_store := store_read (wd_store wd)\<rparr>"

lemma on_store_same:
  assumes "reads_same h"
  shows "fst (on_store h w (world_read wd)) = fst (on_store h w wd) \<and>
    snd (snd (on_store h w (world_read wd))) = snd (snd (on_store h w wd)) \<and>
    world_read (fst (snd (on_store h w (world_read wd)))) = world_read (fst (snd (on_store h w wd)))"
  using assms by (simp add: reads_same_def on_store_def world_read_def case_prod_beta)

lemma handleRegisterAgent_same:
  "fst (handleRegisterAgent mo req w (store_read s)) = fst (handleRegisterAgent mo req w s)"
  "snd (snd (handleRegisterAgent mo req w (store_read s))) = snd (snd (handleRegisterAgent mo req w s))"
  "store_read (fst (snd (handleRegisterAgent mo req w (store_read s)))) =
     store_read (fst (snd (handleRegisterAgent mo req w s)))"
proof -
  have same: "ag_ID a = ag_ID b" if "agent_read a = agent_read b" for a b
    using arg_cong [OF that, of ag_ID] by simp
  have "fst (handleRegisterAgent mo req w (store_read s)) = fst (handleRegisterAgent mo req w s) \<and>
    snd (snd (handleRegisterAgent mo req w (store_read s))) = snd (snd (handleRegisterAgent mo req w s)) \<and>
    store_read (fst (snd (handleRegisterAgent mo req w (store_read s)))) =
      store_read (fst (snd (handleRegisterAgent mo req w s)))"
  proof (cases "decode req (dec_struct register_fields) zero_register_request")
    case (Some r)
    note h = RegisterAgent_read [of r "mo_now mo" s]
    from sum_same [OF h(1)] show ?thesis
    proof (elim disjE exE conjE)
      fix e assume "snd (RegisterAgent r (mo_now mo) (store_read s)) = Inl e"
        "snd (RegisterAgent r (mo_now mo) s) = Inl e"
      then show ?thesis
        using h(2) by (simp add: handleRegisterAgent_def Some case_prod_beta)
    next
      fix a b assume "snd (RegisterAgent r (mo_now mo) (store_read s)) = Inr a"
        "snd (RegisterAgent r (mo_now mo) s) = Inr b" "agent_read a = agent_read b"
      then show ?thesis
        using h(2) same [of a b] by (simp add: handleRegisterAgent_def Some case_prod_beta)
    qed
  qed (simp add: handleRegisterAgent_def)
  then show "fst (handleRegisterAgent mo req w (store_read s)) = fst (handleRegisterAgent mo req w s)"
    "snd (snd (handleRegisterAgent mo req w (store_read s))) = snd (snd (handleRegisterAgent mo req w s))"
    "store_read (fst (snd (handleRegisterAgent mo req w (store_read s)))) =
       store_read (fst (snd (handleRegisterAgent mo req w s)))"
    by blast+
qed

lemma endpoint_same:
  assumes "ep \<noteq> EpDebug"
  shows "fst (serve_endpoint cfg ch ep req w (world_read wd)) = fst (serve_endpoint cfg ch ep req w wd) \<and>
    snd (snd (serve_endpoint cfg ch ep req w (world_read wd))) = snd (snd (serve_endpoint cfg ch ep req w wd)) \<and>
    world_read (fst (snd (serve_endpoint cfg ch ep req w (world_read wd)))) =
      world_read (fst (snd (serve_endpoint cfg ch ep req w wd)))"
proof (cases ep)
  case EpHealth
  then show ?thesis by (simp add: serve_endpoint_def handleHealth_def world_read_def)
next
  case EpReset
  then show ?thesis
    by (simp add: serve_endpoint_def serve_reset_def handleTestingReset_def world_read_def Reset_New Let_def)
next
  case EpRegister
  then show ?thesis
    using handleRegisterAgent_same [of "ch_moment ch" req w "wd_store wd"]
    by (simp add: serve_endpoint_def serve_register_def world_read_def Let_def case_prod_beta)
next
  case EpDebug
  then show ?thesis using assms by simp
qed (simp only: serve_endpoint_def Let_def endpoint.case, rule on_store_same, rule same_answers)+

text \<open>
  Two servers whose stores are the same up to reading answer every request but a debug request
  alike, and stay the same up to reading.
\<close>

definition same_world :: "world \<Rightarrow> world \<Rightarrow> bool" where
  "same_world v wd \<longleftrightarrow> world_read v = world_read wd"

lemma endpoint_bisimulation:
  assumes "same_world v wd" and "ep \<noteq> EpDebug"
  shows "fst (serve_endpoint cfg ch ep req w v) = fst (serve_endpoint cfg ch ep req w wd)"
    and "snd (snd (serve_endpoint cfg ch ep req w v)) = snd (snd (serve_endpoint cfg ch ep req w wd))"
    and "same_world (fst (snd (serve_endpoint cfg ch ep req w v))) (fst (snd (serve_endpoint cfg ch ep req w wd)))"
  using assms endpoint_same [OF assms(2), of cfg ch req w v] endpoint_same [OF assms(2), of cfg ch req w wd]
  unfolding same_world_def by simp_all

lemma debug_same:
  assumes "same_world v wd"
  shows "same_world (fst (snd (serve_endpoint cfg ch EpDebug req w v)))
    (fst (snd (serve_endpoint cfg ch EpDebug req w wd)))"
  using assms reader_world [of EpDebug] by (simp add: reader_def)

lemma serve_bisimulation:
  assumes "chi_sound chi" and "same_world v wd"
  shows "same_world (snd (serve chi cfg ch req v)) (snd (serve chi cfg ch req wd))"
    and "(\<And>ps. routed chi cfg req \<noteq> Reaches EpDebug ps) \<Longrightarrow>
      fst (serve chi cfg ch req v) = fst (serve chi cfg ch req wd)"
proof -
  show "same_world (snd (serve chi cfg ch req v)) (snd (serve chi cfg ch req wd))"
  proof (cases "\<exists>ep ps. routed chi cfg req = Reaches ep ps \<and> rq_method req \<noteq> ''OPTIONS''")
    case True
    then obtain ep ps where r: "routed chi cfg req = Reaches ep ps" "rq_method req \<noteq> ''OPTIONS''" by blast
    show ?thesis
      using endpoint_bisimulation(3) [OF assms(2)] debug_same [OF assms(2)]
      by (cases "ep = EpDebug") (simp_all add: serve_reaches [OF assms(1) r])
  next
    case False
    then show ?thesis using assms(2) serve_stopped(1) [OF assms(1) False] by simp
  qed
  show "fst (serve chi cfg ch req v) = fst (serve chi cfg ch req wd)"
    if "\<And>ps. routed chi cfg req \<noteq> Reaches EpDebug ps"
  proof (cases "\<exists>ep ps. routed chi cfg req = Reaches ep ps \<and> rq_method req \<noteq> ''OPTIONS''")
    case True
    then obtain ep ps where r: "routed chi cfg req = Reaches ep ps" "rq_method req \<noteq> ''OPTIONS''" by blast
    then have "ep \<noteq> EpDebug" using that by auto
    note same = endpoint_bisimulation(1,2) [OF assms(2) this, of cfg ch "req\<lparr>rq_params := ps\<rparr>" cors_writer]
    show ?thesis
      by (simp add: serve_reaches [OF assms(1) r] recovered_def case_prod_beta same split: option.split)
  next
    case False
    then show ?thesis using serve_stopped(2) [OF assms(1) False] by simp
  qed
qed

text \<open>A session: requests one after the other, each with its answer.\<close>

fun session :: "chi \<Rightarrow> config \<Rightarrow> (chance \<times> request) list \<Rightarrow> world \<Rightarrow> writer list" where
  "session chi cfg [] wd = []"
| "session chi cfg ((ch, req) # rs) wd =
     (let (w, wd') = serve chi cfg ch req wd in w # session chi cfg rs wd')"

lemma session_bisimulation:
  assumes "chi_sound chi" and "same_world v wd"
    and "\<And>ch req ps. (ch, req) \<in> set rs \<Longrightarrow> routed chi cfg req \<noteq> Reaches EpDebug ps"
  shows "session chi cfg rs v = session chi cfg rs wd"
  using assms(2,3)
proof (induction rs arbitrary: v wd)
  case (Cons r rs)
  obtain ch req where r: "r = (ch, req)" by fastforce
  have "fst (serve chi cfg ch req v) = fst (serve chi cfg ch req wd)"
    by (rule serve_bisimulation(2) [OF assms(1) Cons.prems(1)]) (rule Cons.prems(2) [of ch], simp add: r)
  moreover have "session chi cfg rs (snd (serve chi cfg ch req v)) =
      session chi cfg rs (snd (serve chi cfg ch req wd))"
    by (rule Cons.IH [OF serve_bisimulation(1) [OF assms(1) Cons.prems(1)]])
      (rule Cons.prems(2), rule list.set_intros(2))
  ultimately show ?case by (simp add: r case_prod_beta)
qed simp

text \<open>
  C8: no client can tell a restart: a server that is started again from the state file saved
  last gives to every sequence of requests, debug requests aside, the answers the server that
  was stopped would have given.
\<close>

theorem restart_is_invisible:
  assumes "chi_sound chi" and "fs_ok f" and "loop_orders_ok os s" and "snapshot_ok (take_Snapshot os s)"
    and "path \<noteq> ''''" and "Save fault path (take_Snapshot os s) f = (g, None)"
    and "\<And>ch req ps. (ch, req) \<in> set rs \<Longrightarrow> routed chi cfg req \<noteq> Reaches EpDebug ps"
  shows "session chi cfg rs \<lparr>wd_store = boot path (os_ReadFile False g path), wd_files = g\<rparr> =
    session chi cfg rs \<lparr>wd_store = s, wd_files = g\<rparr>"
proof -
  have "boot path (os_ReadFile False g path) = store_read s"
    using boot_saved [OF assms(2-6)] .
  then have "same_world \<lparr>wd_store = boot path (os_ReadFile False g path), wd_files = g\<rparr>
      \<lparr>wd_store = s, wd_files = g\<rparr>"
    by (simp add: same_world_def world_read_def)
  from session_bisimulation [OF assms(1) this assms(7)] show ?thesis .
qed

theorem restart_is_invisible_witness:
  "\<exists>os g. Save NoFault ''s.json'' (take_Snapshot os store_New) fs_empty = (g, None) \<and>
     (\<forall>ch ch'. session segment_chi ex_cfg
        [(ch, ex_deploy_request), (ch', plain_request ''GET'' ''/health'')]
        \<lparr>wd_store = boot ''s.json'' (os_ReadFile False g ''s.json''), wd_files = g\<rparr> =
      session segment_chi ex_cfg
        [(ch, ex_deploy_request), (ch', plain_request ''GET'' ''/health'')]
        \<lparr>wd_store = store_New, wd_files = g\<rparr>)"
proof -
  obtain os where os: "loop_orders_ok os store_New" using loop_orders_exist by blast
  have ok: "fs_ok fs_empty" by (simp add: fs_ok_def fs_empty_def)
  note snap = snapshot_ok_New [OF os]
  obtain g where g: "Save NoFault ''s.json'' (take_Snapshot os store_New) fs_empty = (g, None)"
    using save_content(2) [OF ok surjective_pairing, of NoFault "''s.json''"] by (metis prod.collapse)
  show ?thesis
    by (intro exI conjI allI, rule g, rule restart_is_invisible [OF segment_chi_sound ok os snap _ g])
      (auto simp: ex_deploy_routed)
qed

end
