(* ===== verification/Api_Properties.thy ===== *)
theory Api_Properties
  imports Api_Examples
begin

text \<open>
  The properties of the server as its clients see it: requests and their answers, over every
  mux that only finds registered routes.
\<close>

section \<open>Runs of requests\<close>

inductive request_step :: "chi \<Rightarrow> config \<Rightarrow> world \<Rightarrow> world \<Rightarrow> bool" for chi :: chi and cfg :: config where
  one_request: "moment_ok (ch_moment ch) (wd_store wd) \<Longrightarrow> serve chi cfg ch req wd = (w, wd') \<Longrightarrow>
    request_step chi cfg wd wd'"

lemma requests_are_steps:
  assumes "chi_sound chi" and "(request_step chi cfg ^^ n) wd0 wd"
  shows "\<exists>k \<le> n. (store_step ^^ k) (wd_store wd0) (wd_store wd)"
  using assms(2)
proof (induction n arbitrary: wd)
  case (Suc n)
  then obtain v where v: "(request_step chi cfg ^^ n) wd0 v" "request_step chi cfg v wd" by auto
  from v(2) have "store_moves (wd_store v) (wd_store wd)"
    by cases (use mover.serve_relation [OF assms(1)] in fastforce)
  moreover obtain k where k: "k \<le> n" "(store_step ^^ k) (wd_store wd0) (wd_store v)"
    using Suc.IH [OF v(1)] by blast
  ultimately consider "(store_step ^^ k) (wd_store wd0) (wd_store wd)"
    | "(store_step ^^ Suc k) (wd_store wd0) (wd_store wd)"
    by (auto simp: store_moves_def)
  then show ?case using k(1) by (meson Suc_le_mono le_SucI)
qed auto

lemma requests_ok:
  assumes "chi_sound chi" and "(request_step chi cfg ^^ n) (ex_world store_New) wd" and "int n \<le> max_int"
  shows "store_ok (wd_store wd)"
proof -
  obtain k where k: "k \<le> n" "(store_step ^^ k) store_New (wd_store wd)"
    using requests_are_steps [OF assms(1,2)] by (auto simp: ex_world_def)
  then show ?thesis using store_machine.run_inv [OF k(2)] assms(3) by simp
qed

text \<open>
  C3: the server refines the store machine: whatever requests come, in whatever order, with
  whatever bodies, the store they leave is one that at most as many operations of the store
  lead to, and so it is well formed as long as no counter can have overflowed.
\<close>

theorem server_refines_store:
  assumes "chi_sound chi" and "(request_step chi cfg ^^ n) wd0 wd" and "wd_store wd0 = store_New"
  shows "\<exists>k \<le> n. (store_step ^^ k) store_New (wd_store wd) \<and>
    (int n \<le> max_int \<longrightarrow> store_ok (wd_store wd))"
proof -
  obtain k where k: "k \<le> n" "(store_step ^^ k) store_New (wd_store wd)"
    using requests_are_steps [OF assms(1,2)] assms(3) by auto
  then have "int n \<le> max_int \<longrightarrow> store_ok (wd_store wd)"
    using store_machine.run_inv [OF k(2)] by simp
  with k show ?thesis by blast
qed

lemma ex_request_step:
  "\<exists>ch. moment_ok (ch_moment ch) (wd_store wd) \<and> ch_remove_fails ch = False \<and>
     request_step chi cfg wd (snd (serve chi cfg ch req wd))"
proof -
  obtain mo where mo: "moment_ok mo (wd_store wd)" using moment_exists by blast
  let ?ch = "\<lparr>ch_moment = mo, ch_reports_nil = True, ch_desired_reports_nil = True,
      ch_remove_fails = False\<rparr>"
  have "request_step chi cfg wd (snd (serve chi cfg ?ch req wd))"
    by (rule one_request [OF _ prod.collapse [symmetric]]) (simp add: mo)
  then show ?thesis using mo by (intro exI [of _ ?ch]) simp
qed

theorem server_refines_store_witness:
  "\<exists>wd. (request_step segment_chi ex_cfg ^^ 1) (ex_world store_New) wd \<and> store_ok (wd_store wd)"
proof -
  obtain wd where wd: "(request_step segment_chi ex_cfg ^^ 1) (ex_world store_New) wd"
    using ex_request_step [of "ex_world store_New" segment_chi ex_cfg] unfolding relpowp_1 by blast
  have "wd_store (ex_world store_New) = store_New" by (simp add: ex_world_def)
  from server_refines_store [OF segment_chi_sound wd this] wd show ?thesis
    by (auto simp: max_int_def)
qed

text \<open>
  C30: only a POST changes anything: after a request of any other method the store and the
  files are what they were. A preflight request, whatever its path, is answered with 204, the
  three headers of CORS, no other header and no body.
\<close>

theorem only_post_changes:
  assumes "chi_sound chi" and "serve chi cfg ch req wd = (w, wd')" and "rq_method req \<noteq> ''POST''"
  shows "wd' = wd \<and> (rq_method req = ''OPTIONS'' \<longrightarrow> status_of w = Some 204 \<and> w_body w = [] \<and>
    (\<forall>k. sent_header k w =
       (if k = ''Access-Control-Allow-Origin'' then Some ''*''
        else if k = ''Access-Control-Allow-Methods'' then Some ''GET, POST, PUT, PATCH, DELETE, OPTIONS''
        else if k = ''Access-Control-Allow-Headers'' then Some ''Content-Type, Authorization''
        else None)))"
proof -
  have "wd' = wd" using readers.serve_relation [OF assms(1,2)] assms(3) by simp
  moreover have "w = WriteHeader 204 cors_writer" if "rq_method req = ''OPTIONS''"
    using serve_stopped(2) [OF assms(1), of cfg req ch wd] that assms(2) by simp
  ultimately show ?thesis
    by (simp add: WriteHeader_def status_of_def sent_header_def)
      (simp add: cors_writer_def set_header_def new_writer_def)
qed

theorem only_post_changes_witness:
  "\<forall>ch. snd (serve segment_chi ex_cfg ch (plain_request ''GET'' ''/health'') (ex_world ex_8)) = ex_world ex_8 \<and>
     sent_header ''Access-Control-Allow-Methods''
       (fst (serve segment_chi ex_cfg ch (plain_request ''OPTIONS'' ''/testing/reset'') (ex_world ex_8))) =
     Some ''GET, POST, PUT, PATCH, DELETE, OPTIONS''"
proof
  fix ch
  note post = only_post_changes [OF segment_chi_sound prod.collapse [symmetric]]
  show "snd (serve segment_chi ex_cfg ch (plain_request ''GET'' ''/health'') (ex_world ex_8)) = ex_world ex_8 \<and>
      sent_header ''Access-Control-Allow-Methods''
        (fst (serve segment_chi ex_cfg ch (plain_request ''OPTIONS'' ''/testing/reset'') (ex_world ex_8))) =
      Some ''GET, POST, PUT, PATCH, DELETE, OPTIONS''"
    using post [of "plain_request ''GET'' ''/health''" ex_cfg ch "ex_world ex_8"]
      post [of "plain_request ''OPTIONS'' ''/testing/reset''" ex_cfg ch "ex_world ex_8"]
    by (simp add: plain_request_def)
qed

section \<open>Authentication\<close>

text \<open>
  C21: with the authentication on, a request to the official API that does not carry the token
  is answered with 401 and changes nothing, whatever its method but OPTIONS, its path and its
  body.
\<close>

theorem auth_guards_api:
  assumes "chi_sound chi" and "serve chi cfg ch req wd = (w, wd')" and "rq_method req \<noteq> ''OPTIONS''"
    and "chi_find chi top_routes (rq_method req) (rq_path req) = Found (Mounted ApiRouter) ps rest"
    and "cfg_AuthEnabled cfg" and "header_Get ''Authorization'' req \<noteq> ''Bearer '' @ cfg_Token cfg"
  shows "wd' = wd \<and>
    answered 401 (error_json ''AUTHENTICATION_FAILED'' ''Invalid or missing token'') cors_writer w"
proof -
  have "routed chi cfg req = Unauthorized"
    using assms(4-6) by (simp add: routed_def unauthorized_def)
  then show ?thesis
    using serve_stopped [OF assms(1), of cfg req ch wd] assms(2,3) Error_answers [of cors_writer]
    by simp
qed

theorem auth_guards_api_witness:
  "\<forall>ch. status_of (fst (serve segment_chi ex_locked ch
     (plain_request ''POST'' ''/api/agents/agent-dev-api-001/commands/cmd-001/claim'') (ex_world ex_2))) =
     Some 401"
proof
  fix ch
  let ?req = "plain_request ''POST'' ''/api/agents/agent-dev-api-001/commands/cmd-001/claim''"
  have "chi_find segment_chi top_routes (rq_method ?req) (rq_path ?req) =
      Found (Mounted ApiRouter) fmempty ''/agents/agent-dev-api-001/commands/cmd-001/claim''"
    by (simp add: plain_request_def segment_chi_def top_routes_def get_def segment_param_def)
  from auth_guards_api [OF segment_chi_sound prod.collapse [symmetric] _ this,
    of ex_locked ch "ex_world ex_2"]
  show "status_of (fst (serve segment_chi ex_locked ch ?req (ex_world ex_2))) = Some 401"
    by (auto simp: plain_request_def ex_locked_def header_Get_def dest: answered_status)
qed

text \<open>The handlers read nothing of the configuration but the environment and the state file.\<close>

lemma serve_endpoint_cfg:
  "serve_endpoint (cfg\<lparr>cfg_AuthEnabled := b, cfg_Token := t\<rparr>) ch ep req w wd =
     serve_endpoint cfg ch ep req w wd"
proof -
  have e: "cfg_Environment (cfg\<lparr>cfg_AuthEnabled := b, cfg_Token := t\<rparr>) = cfg_Environment cfg"
    "cfg_StateFile (cfg\<lparr>cfg_AuthEnabled := b, cfg_Token := t\<rparr>) = cfg_StateFile cfg"
    by simp_all
  have h: "handleTestingDeploy (cfg\<lparr>cfg_AuthEnabled := b, cfg_Token := t\<rparr>) = handleTestingDeploy cfg"
    "handleTestingCleanupDraining (cfg\<lparr>cfg_AuthEnabled := b, cfg_Token := t\<rparr>) =
       handleTestingCleanupDraining cfg"
    by (intro ext; simp only: handleTestingDeploy_def handleTestingCleanupDraining_def e)+
  show ?thesis
    by (cases ep) (simp_all add: serve_endpoint_def serve_reset_def handleTestingReset_def h e)
qed

text \<open>
  C31: the health check and the testing endpoints are public: their answer and their effect
  depend neither on whether the authentication is on nor on the token.
\<close>

theorem testing_is_public:
  assumes "chi_sound chi"
    and "\<not> (\<exists>ps rest. chi_find chi top_routes (rq_method req) (rq_path req) =
      Found (Mounted ApiRouter) ps rest)"
  shows "serve chi (cfg\<lparr>cfg_AuthEnabled := b, cfg_Token := t\<rparr>) ch req wd = serve chi cfg ch req wd"
proof -
  have same: "routed chi (cfg\<lparr>cfg_AuthEnabled := b, cfg_Token := t\<rparr>) req = routed chi cfg req"
    using assms(2) by (auto simp: routed_def split: found.split target.split subrouter.split)
  show ?thesis
  proof (cases "\<exists>ep ps. routed chi cfg req = Reaches ep ps \<and> rq_method req \<noteq> ''OPTIONS''")
    case True
    then obtain ep ps where r: "routed chi cfg req = Reaches ep ps" "rq_method req \<noteq> ''OPTIONS''" by blast
    show ?thesis
      using serve_reaches [OF assms(1) r, of ch wd] serve_reaches [OF assms(1) _ r(2), of
          "cfg\<lparr>cfg_AuthEnabled := b, cfg_Token := t\<rparr>" ep ps ch wd] r(1)
      by (simp add: same serve_endpoint_cfg)
  next
    case False
    then show ?thesis
      using serve_stopped [OF assms(1) False, of ch wd]
        serve_stopped [OF assms(1), of "cfg\<lparr>cfg_AuthEnabled := b, cfg_Token := t\<rparr>" req ch wd]
      by (intro prod_eqI) (simp_all add: same)
  qed
qed

theorem testing_is_public_witness:
  "\<forall>ch. serve segment_chi ex_locked ch (plain_request ''POST'' ''/testing/reset'') (ex_world ex_8) =
     serve segment_chi (ex_locked\<lparr>cfg_AuthEnabled := False, cfg_Token := ''x''\<rparr>) ch
       (plain_request ''POST'' ''/testing/reset'') (ex_world ex_8)"
proof
  fix ch
  let ?req = "plain_request ''POST'' ''/testing/reset''"
  have "chi_find segment_chi top_routes (rq_method ?req) (rq_path ?req) =
      Found (Mounted TestingRouter) fmempty ''/reset''"
    by (simp add: plain_request_def segment_chi_def top_routes_def get_def segment_param_def)
  then show "serve segment_chi ex_locked ch ?req (ex_world ex_8) =
      serve segment_chi (ex_locked\<lparr>cfg_AuthEnabled := False, cfg_Token := ''x''\<rparr>) ch ?req (ex_world ex_8)"
    by (intro testing_is_public [symmetric, OF segment_chi_sound]) simp
qed

section \<open>Failures\<close>

text \<open>
  C13: the server never fails: after any run of requests from a new store, a request that
  reaches a handler is answered with 200, 400, 404 or 409; no handler panics and none answers
  with an internal error.
\<close>

theorem server_never_fails:
  assumes "chi_sound chi" and "(request_step chi cfg ^^ n) wd0 wd" and "wd_store wd0 = store_New"
    and "int n \<le> max_int" and "routed chi cfg req = Reaches ep ps" and "rq_method req \<noteq> ''OPTIONS''"
    and "serve chi cfg ch req wd = (w, wd')"
  shows "\<exists>status \<in> {200, 400, 404, 409}. status_of w = Some status"
proof -
  obtain k where "k \<le> n" "(store_step ^^ k) store_New (wd_store wd)"
    using requests_are_steps [OF assms(1,2)] assms(3) by auto
  then have "agents_ok (wd_store wd)"
    using store_okD(1) [OF store_machine.run_inv] assms(4) by simp
  moreover obtain v p where "serve_endpoint cfg ch ep (req\<lparr>rq_params := ps\<rparr>) cors_writer wd = (v, wd', p)"
      "w = recovered chi (v, wd', p)"
    using serve_reaches [OF assms(1,5,6), of ch wd] assms(7) by (metis prod.collapse prod.inject)
  ultimately show ?thesis using endpoint_answer [of wd cors_writer] by fastforce
qed

theorem server_never_fails_witness:
  "\<forall>ch. \<exists>status \<in> {200, 400, 404, 409}. status_of (fst (serve segment_chi ex_cfg ch
     (plain_request ''GET'' ''/api/agents/agent-dev-api-001/commands/pending'') (ex_world store_New))) =
       Some status"
proof
  fix ch
  let ?req = "plain_request ''GET'' ''/api/agents/agent-dev-api-001/commands/pending''"
  have "(request_step segment_chi ex_cfg ^^ 0) (ex_world store_New) (ex_world store_New)" by simp
  from server_never_fails [OF segment_chi_sound this _ _ segment_routes(2) _ prod.collapse [symmetric]]
  show "\<exists>status \<in> {200, 400, 404, 409}.
      status_of (fst (serve segment_chi ex_cfg ch ?req (ex_world store_New))) = Some status"
    by (simp add: ex_world_def plain_request_def max_int_def)
qed

text \<open>
  C14: an error changes nothing: a request on a well-formed store that is answered with
  anything but 200 leaves the store and the files as they were, except that a report on a
  desired state of the future is refused with 409 and still recorded as invalid.
\<close>

theorem errors_change_nothing:
  assumes "chi_sound chi" and "store_ok (wd_store wd)" and "serve chi cfg ch req wd = (w, wd')"
    and "status_of w \<noteq> Some 200"
  shows "wd' = wd \<or> status_of w = Some 409 \<and> (\<exists>ps r. routed chi cfg req = Reaches EpDesiredReport ps \<and>
    dr_Invalid r \<and> wd' = wd\<lparr>wd_store := (wd_store wd)\<lparr>DesiredStateReports :=
      DesiredStateReports (wd_store wd) @ [r]\<rparr>\<rparr>)"
proof (cases "\<exists>ep ps. routed chi cfg req = Reaches ep ps \<and> rq_method req \<noteq> ''OPTIONS''")
  case True
  then obtain ep ps where r: "routed chi cfg req = Reaches ep ps" "rq_method req \<noteq> ''OPTIONS''" by blast
  obtain v p where v: "serve_endpoint cfg ch ep (req\<lparr>rq_params := ps\<rparr>) cors_writer wd = (v, wd', p)"
      "w = recovered chi (v, wd', p)"
    using serve_reaches [OF assms(1) r, of ch wd] assms(3) by (metis prod.collapse prod.inject)
  from endpoint_answer [OF store_okD(1) [OF assms(2)] _ v(1)] v(2) assms(4) r(1)
  show ?thesis by auto
next
  case False
  then show ?thesis using serve_stopped(1) [OF assms(1), of cfg req ch wd] assms(3) by simp
qed

theorem errors_change_nothing_witness:
  "\<forall>ch. snd (serve segment_chi ex_locked ch
     (plain_request ''POST'' ''/api/agents/agent-dev-api-001/commands/cmd-001/claim'') (ex_world ex_5)) =
     ex_world ex_5"
proof
  fix ch
  let ?req = "plain_request ''POST'' ''/api/agents/agent-dev-api-001/commands/cmd-001/claim''"
  have "store_ok (wd_store (ex_world ex_5))" using ex_ok by (simp add: ex_world_def)
  moreover have "status_of (fst (serve segment_chi ex_locked ch ?req (ex_world ex_5))) = Some 401"
    using serve_stopped(2) [OF segment_chi_sound, of ex_locked ?req ch "ex_world ex_5"]
    by (simp add: plain_request_def segment_routes(5) [unfolded plain_request_def])
  ultimately show "snd (serve segment_chi ex_locked ch ?req (ex_world ex_5)) = ex_world ex_5"
    using errors_change_nothing [OF segment_chi_sound _ prod.collapse [symmetric],
        of "ex_world ex_5" ex_locked ch ?req]
    by simp
qed

section \<open>Reset\<close>

text \<open>
  C32: a reset is always answered with 200 and leaves a new store. When its removal of the state
  file succeeds, the state file is gone, and a start right after it, without a save in between,
  begins with a new store; when it fails, which is only logged, the files are as before. No
  other file is touched in either case.
\<close>

theorem reset_is_final:
  assumes "chi_sound chi" and "routed chi cfg req = Reaches EpReset ps" and "rq_method req \<noteq> ''OPTIONS''"
    and "serve chi cfg ch req wd = (w, wd')"
  shows "answered 200 (status_map ''reset'') cors_writer w \<and> wd_store wd' = store_New \<and>
    (\<forall>q. fs_content (wd_files wd') q =
       (if q = cfg_StateFile cfg \<and> q \<noteq> '''' \<and> \<not> ch_remove_fails ch then None else fs_content (wd_files wd) q)) \<and>
    (\<not> ch_remove_fails ch \<longrightarrow>
       boot (cfg_StateFile cfg) (os_ReadFile False (wd_files wd') (cfg_StateFile cfg)) = store_New)"
proof -
  have gone: "fs_content (fs_remove p f) q = (if q = p then None else fs_content f q)" for p f q
    by (simp add: fs_content_def fs_remove_def)
  show ?thesis
    using serve_reaches [OF assms(1-3), of ch wd] assms(4) JSON_answers [of cors_writer]
    by (auto simp: serve_endpoint_def serve_reset_def handleTestingReset_def Reset_New boot_def
        os_ReadFile_def Load_def Let_def gone)
qed

theorem reset_is_final_witness:
  "\<forall>ch. wd_store (snd (serve segment_chi ex_cfg ch (plain_request ''POST'' ''/testing/reset'')
     (ex_world ex_8))) = store_New \<and>
   fs_content (wd_files (snd (serve segment_chi ex_cfg ch (plain_request ''POST'' ''/testing/reset'')
     (ex_world ex_8)))) ''s.json'' = None"
  using reset_is_final [OF segment_chi_sound segment_routes(3) _ prod.collapse [symmetric], of ex_cfg]
  by (simp add: plain_request_def ex_world_def fs_empty_def fs_content_def)

section \<open>What an agent is told\<close>

lemma decode_params [simp]: "decode (req\<lparr>rq_params := ps\<rparr>) d z = decode req d z"
  by (simp add: decode_def)

lemma URLParam_params [simp]: "URLParam (req\<lparr>rq_params := ps\<rparr>) k = lookup_or '''' ps k"
  by (simp add: URLParam_def)

lemma JSON_body [simp]: "w_body w = [] \<Longrightarrow> w_body (JSON st j w) = [j]"
  by (simp add: JSON_def write_json_def WriteHeader_def set_header_def Let_def split: option.split)

lemma pending_list:
  assumes "store_ok s" and "iter_order ord (Commands s)"
  shows "distinct (ListPendingByAgent ord a s)"
    and "set (ListPendingByAgent ord a s) =
      {c. \<exists>k. GetCommand k s = Some c \<and> has_phase Pending c \<and> cmd_TargetAgentID c = a}"
proof -
  have "\<And>k c. fmlookup (Commands s) k = Some c \<Longrightarrow> cmd_ID c = k"
    using store_okD(3) [OF assms(1)] by (simp add: commands_ok_def)
  then show "distinct (ListPendingByAgent ord a s)"
    using distinct_range_values [OF assms(2), of cmd_ID] by (simp add: ListPendingByAgent_def)
  show "set (ListPendingByAgent ord a s) =
      {c. \<exists>k. GetCommand k s = Some c \<and> has_phase Pending c \<and> cmd_TargetAgentID c = a}"
    using set_range_values_order [OF assms(2)]
    by (auto simp: ListPendingByAgent_def GetCommand_def has_phase_def)
qed

text \<open>
  C28: an agent that asks for its pending commands is given each of them once and no other
  command, whatever the order the commands are visited in; an agent the server does not know
  is answered with 404.
\<close>

theorem pending_lists_own:
  assumes "chi_sound chi" and "routed chi cfg req = Reaches EpPending ps" and "rq_method req \<noteq> ''OPTIONS''"
    and "store_ok (wd_store wd)" and "moment_ok (ch_moment ch) (wd_store wd)"
    and "serve chi cfg ch req wd = (w, wd')"
  shows "case GetAgent (lookup_or '''' ps ''agentID'') (wd_store wd) of
      None \<Rightarrow> status_of w = Some 404
    | Some a \<Rightarrow> status_of w = Some 200 \<and> (\<exists>cs. w_body w = [enc_slice enc_command cs] \<and> distinct cs \<and>
        set cs = {c. \<exists>k. GetCommand k (wd_store wd) = Some c \<and> has_phase Pending c \<and>
          cmd_TargetAgentID c = lookup_or '''' ps ''agentID''})"
proof -
  have ord: "iter_order (mo_commands (ch_moment ch)) (Commands (wd_store wd))"
    using assms(5) by (simp add: moment_ok_def)
  let ?cs = "ListPendingByAgent (mo_commands (ch_moment ch)) (lookup_or '''' ps ''agentID'') (wd_store wd)"
  have "w = (if GetAgent (lookup_or '''' ps ''agentID'') (wd_store wd) = None
      then Error 404 ''NOT_FOUND'' ''agent not found'' False cors_writer
      else JSON 200 (enc_slice enc_command ?cs) cors_writer)"
    using serve_reaches [OF assms(1-3), of ch wd] assms(6)
    by (simp add: serve_endpoint_def on_store_def handleListPendingCommands_def Let_def split: if_splits)
  then show ?thesis
    using pending_list [OF assms(4) ord, of "lookup_or '''' ps ''agentID''"]
    by (auto split: option.split)
qed

theorem pending_lists_own_witness:
  "\<exists>ch. w_body (fst (serve segment_chi ex_cfg ch
     (plain_request ''GET'' ''/api/agents/agent-dev-api-001/commands/pending'') (ex_world ex_2))) =
     [enc_slice enc_command [ex_c1]]"
proof -
  let ?req = "plain_request ''GET'' ''/api/agents/agent-dev-api-001/commands/pending''"
  obtain mo where mo: "moment_ok mo ex_2" using moment_exists by blast
  let ?ch = "\<lparr>ch_moment = mo, ch_reports_nil = True, ch_desired_reports_nil = True,
      ch_remove_fails = False\<rparr>"
  have ok: "store_ok (wd_store (ex_world ex_2))"
    using ex_ok_2 by (simp add: ex_world_def)
  have a: "\<exists>a. GetAgent ''agent-dev-api-001'' ex_2 = Some a" by (simp add: GetAgent_def)
  have cs: "{c. \<exists>k. GetCommand k ex_2 = Some c \<and> has_phase Pending c \<and>
      cmd_TargetAgentID c = ''agent-dev-api-001''} = {ex_c1}"
    by (auto simp: GetCommand_def has_phase_def ex_agent_def split: if_splits)
  have one: "xs = [c]" if "distinct xs" "set xs = {c}" for xs :: "command list" and c
    using that by (cases xs; cases "tl xs") auto
  show ?thesis
    using pending_lists_own [OF segment_chi_sound segment_routes(2) _ ok _ prod.collapse [symmetric], of ?ch]
      mo a cs one by (intro exI [of _ ?ch]) (auto simp: ex_world_def plain_request_def lookup_or_def)
qed

text \<open>The text after \<open>conflict: \<close> in the answer to a claim that is refused.\<close>

definition claim_conflict :: "command \<Rightarrow> string" where
  "claim_conflict c =
     (if has_phase Pending c then ''command belongs to agent '' @ cmd_TargetAgentID c
      else if has_phase Claimed c then ''already claimed by '' @ cmd_ClaimedBy c
      else ''command status is '' @ cmd_Status c)"

text \<open>
  C29: a claim over HTTP, with status, headers and body on every branch: 404 and the code
  \<open>NOT_FOUND\<close> when there is no such command; 200 when the command is pending and targeted at the
  agent or already claimed by it, with the identifier of the agent and the time of the first
  claim in the answer; 409 and the code \<open>CONFLICT\<close> otherwise, with a message that says whom the
  command belongs to, who has claimed it, or the status it has. The store has changed by that
  claim.
\<close>

theorem claim_answer:
  assumes "chi_sound chi" and "routed chi cfg req = Reaches EpClaim ps" and "rq_method req \<noteq> ''OPTIONS''"
    and "serve chi cfg ch req wd = (w, wd')"
    and "lookup_or '''' ps ''agentID'' = a" and "lookup_or '''' ps ''commandID'' = cid"
  shows "wd' = wd\<lparr>wd_store := claimed cid a (mo_now (ch_moment ch)) (wd_store wd)\<rparr> \<and>
    (case GetCommand cid (wd_store wd) of
       None \<Rightarrow> answered 404 (error_json ''NOT_FOUND'' ''command not found'') cors_writer w
     | Some c \<Rightarrow>
         if has_phase Pending c \<and> cmd_TargetAgentID c = a \<or> has_phase Claimed c \<and> cmd_ClaimedBy c = a
         then answered 200 (enc_claim_response
           \<lparr>clr_ID = cmd_ID c, clr_Status = ''claimed'', clr_ClaimedBy = a,
            clr_ClaimedAt = (if has_phase Pending c then Some (mo_now (ch_moment ch)) else cmd_ClaimedAt c)\<rparr>)
           cors_writer w
         else answered 409 (error_json ''CONFLICT'' (''conflict: '' @ claim_conflict c)) cors_writer w)"
proof -
  note s = serve_reaches [OF assms(1-3), of ch wd]
  have "wd' = wd\<lparr>wd_store := claimed cid a (mo_now (ch_moment ch)) (wd_store wd)\<rparr>"
    using s assms(4) handleClaimCommand_store [of "ch_moment ch" "req\<lparr>rq_params := ps\<rparr>" cors_writer]
    by (auto simp: serve_endpoint_def on_store_world assms(5,6))
  moreover have w: "w = fst (handleClaimCommand (ch_moment ch) (req\<lparr>rq_params := ps\<rparr>) cors_writer (wd_store wd))"
    using s assms(4) by (simp add: serve_endpoint_def on_store_def case_prod_beta)
  moreover note answers = JSON_answers [of cors_writer] Error_answers [of cors_writer]
  have "case GetCommand cid (wd_store wd) of
       None \<Rightarrow> answered 404 (error_json ''NOT_FOUND'' ''command not found'') cors_writer w
     | Some c \<Rightarrow>
         if has_phase Pending c \<and> cmd_TargetAgentID c = a \<or> has_phase Claimed c \<and> cmd_ClaimedBy c = a
         then answered 200 (enc_claim_response
           \<lparr>clr_ID = cmd_ID c, clr_Status = ''claimed'', clr_ClaimedBy = a,
            clr_ClaimedAt = (if has_phase Pending c then Some (mo_now (ch_moment ch)) else cmd_ClaimedAt c)\<rparr>)
           cors_writer w
         else answered 409 (error_json ''CONFLICT'' (''conflict: '' @ claim_conflict c)) cors_writer w"
    unfolding w
    by (auto simp: handleClaimCommand_def ClaimCommand_def GetCommand_def Let_def command_error_def claim_conflict_def
        has_phase_def assms(5,6) answers split: option.split)
  ultimately show ?thesis by simp
qed

theorem claim_answer_witness:
  "\<forall>ch. status_of (fst (serve segment_chi ex_cfg ch
      (plain_request ''POST'' ''/api/agents/agent-dev-api-001/commands/cmd-001/claim'') (ex_world ex_2))) = Some 200 \<and>
    answered 404 (error_json ''NOT_FOUND'' ''command not found'') cors_writer (fst (serve segment_chi ex_cfg ch
      (plain_request ''POST'' ''/api/agents/agent-dev-api-001/commands/cmd-009/claim'') (ex_world ex_2)))"
proof
  fix ch
  have m: "rq_method (plain_request ''POST'' p) \<noteq> ''OPTIONS''" for p by (simp add: plain_request_def)
  note r1 = segment_routes(6) and r9 = segment_routes(7)
  show "status_of (fst (serve segment_chi ex_cfg ch
      (plain_request ''POST'' ''/api/agents/agent-dev-api-001/commands/cmd-001/claim'') (ex_world ex_2))) = Some 200 \<and>
    answered 404 (error_json ''NOT_FOUND'' ''command not found'') cors_writer (fst (serve segment_chi ex_cfg ch
      (plain_request ''POST'' ''/api/agents/agent-dev-api-001/commands/cmd-009/claim'') (ex_world ex_2)))"
    using claim_answer [OF segment_chi_sound r1 m prod.collapse [symmetric] refl refl, of ch "ex_world ex_2"]
      claim_answer [OF segment_chi_sound r9 m prod.collapse [symmetric] refl refl, of ch "ex_world ex_2"]
    by (auto simp: ex_world_def GetCommand_def lookup_or_def has_phase_def ex_agent_def dest: answered_status)
qed

lemma InitDeploy_result:
  assumes "InitDeploy ord inp now s = (t, dep, cmd)"
  shows "GetDeployment (dep_ID dep) t = Some dep" "GetCommand (cmd_ID cmd) t = Some cmd"
    "dep_Application dep = di_Application inp" "dep_Environment dep = di_Environment inp"
    "cmd_DeploymentID cmd = dep_ID dep" "cmd_TargetAgentID cmd = di_TargetAgentID inp"
    "cmd_Status cmd = ''pending''"
  using InitDeploy_store [of ord inp now s] InitDeploy_deployment [of ord inp now s]
    InitDeploy_command [of ord inp now s]
  by (auto simp: assms GetDeployment_def GetCommand_def)

lemma deploy_target:
  assumes "store_ok s" and "iter_order ord (Agents s)" and "GetAgent k s = Some a"
    and "ag_Environment a = e" and "ag_Role a = r"
  obtains b where "FindAgentByEnvironmentRole ord e r s = Some b" "GetAgent (ag_ID b) s = Some b"
    "ag_Environment b = e" "ag_Role b = r"
proof -
  obtain b where b: "FindAgentByEnvironmentRole ord e r s = Some b"
    using find_agent_complete [OF assms(2), of e r] assms(3-5)
    by (cases "FindAgentByEnvironmentRole ord e r s") (auto simp: GetAgent_def)
  obtain k' where k': "fmlookup (Agents s) k' = Some b" "ag_Environment b = e" "ag_Role b = r"
    using find_agent_sound [OF b] by blast
  have "ag_ID b = k'"
    using agents_okD(1) [OF store_okD(1) [OF assms(1)] k'(1)] by (simp add: agent_ok_def)
  with that b k' show ?thesis by (simp add: GetAgent_def)
qed

text \<open>
  C22: a deployment that is asked for reaches its agent: when the body names an application, an
  image and a role, and an agent of that role is registered in the environment of the request,
  or of the configuration when the request names none, the answer is 200 with the identifiers
  of a new deployment and of a command for such an agent, and whenever the list of the pending
  commands of that agent is built next, the command is on it.
\<close>

theorem deploy_reaches_agent:
  assumes "chi_sound chi" and "routed chi cfg req = Reaches EpDeploy ps" and "rq_method req \<noteq> ''OPTIONS''"
    and "store_ok (wd_store wd)" and "moment_ok (ch_moment ch) (wd_store wd)"
    and "serve chi cfg ch req wd = (w, wd')"
    and "decode req (dec_struct deploy_request_fields) zero_deploy_request = Some r"
    and "dq_Application r \<noteq> ''''" and "dq_Image r \<noteq> ''''" and "dq_TargetAgentRole r \<noteq> ''''"
    and "e = (if dq_Environment r = '''' then cfg_Environment cfg else dq_Environment r)"
    and "GetAgent k (wd_store wd) = Some a" and "ag_Environment a = e" and "ag_Role a = dq_TargetAgentRole r"
  shows "\<exists>b dep cmd. GetAgent (ag_ID b) (wd_store wd) = Some b \<and> ag_Environment b = e \<and>
    ag_Role b = dq_TargetAgentRole r \<and> status_of w = Some 200 \<and>
    w_body w = [enc_deploy_response \<lparr>dpr_DeploymentID = dep_ID dep, dpr_CommandID = cmd_ID cmd,
      dpr_TargetAgentID = ag_ID b, dpr_Status = ''pending''\<rparr>] \<and>
    GetDeployment (dep_ID dep) (wd_store wd') = Some dep \<and> dep_Application dep = dq_Application r \<and>
    dep_Environment dep = e \<and> cmd_DeploymentID cmd = dep_ID dep \<and>
    (\<forall>ord. iter_order ord (Commands (wd_store wd')) \<longrightarrow>
       cmd \<in> set (ListPendingByAgent ord (ag_ID b) (wd_store wd')))"
proof -
  let ?mo = "ch_moment ch" and ?s = "wd_store wd"
  have ord: "iter_order (mo_agents ?mo) (Agents ?s)" using assms(5) by (simp add: moment_ok_def)
  obtain b where b: "FindAgentByEnvironmentRole (mo_agents ?mo) e (dq_TargetAgentRole r) ?s = Some b"
      "GetAgent (ag_ID b) ?s = Some b" "ag_Environment b = e" "ag_Role b = dq_TargetAgentRole r"
    using deploy_target [OF assms(4) ord assms(12-14)] .
  obtain t dep cmd where x: "InitDeploy [] (deploy_input_for cfg r (ag_ID b)) (mo_now ?mo) ?s = (t, dep, cmd)"
    by (metis prod.collapse)
  have h: "handleTestingDeploy cfg ?mo (req\<lparr>rq_params := ps\<rparr>) cors_writer ?s =
      (JSON 200 (enc_deploy_response \<lparr>dpr_DeploymentID = dep_ID dep, dpr_CommandID = cmd_ID cmd,
         dpr_TargetAgentID = ag_ID b, dpr_Status = ''pending''\<rparr>) cors_writer, t)"
    using assms(7-11) b(1) by (simp add: handleTestingDeploy_cases x)
  have w: "wd_store wd' = t"
      "w = JSON 200 (enc_deploy_response \<lparr>dpr_DeploymentID = dep_ID dep, dpr_CommandID = cmd_ID cmd,
         dpr_TargetAgentID = ag_ID b, dpr_Status = ''pending''\<rparr>) cors_writer"
    using serve_reaches [OF assms(1-3), of ch wd] assms(6) h
    by (auto simp: serve_endpoint_def on_store_def Let_def)
  note res = InitDeploy_result [OF x]
  have "\<forall>ord. iter_order ord (Commands t) \<longrightarrow> cmd \<in> set (ListPendingByAgent ord (ag_ID b) t)"
    using res(2,6,7) by (auto simp: ListPendingByAgent_def set_range_values_order GetCommand_def deploy_input_for_def)
  moreover have "dep_Application dep = dq_Application r" "dep_Environment dep = e"
    using res(3,4) assms(11) by (simp_all add: deploy_input_for_def)
  ultimately show ?thesis
    using b(2-4) res(1,5) by (intro exI [of _ b] exI [of _ dep] exI [of _ cmd]) (simp add: w)
qed

theorem deploy_reaches_agent_witness:
  "\<exists>ch. status_of (fst (serve segment_chi ex_cfg ch ex_deploy_request (ex_world ex_1))) = Some 200"
proof -
  obtain mo where mo: "moment_ok mo ex_1" using moment_exists by blast
  let ?ch = "\<lparr>ch_moment = mo, ch_reports_nil = True, ch_desired_reports_nil = True,
      ch_remove_fails = False\<rparr>"
  note r = ex_deploy_routed
  have env: "''dev'' = (if dq_Environment (zero_deploy_request\<lparr>dq_Application := ''billing'', dq_Image := ''api:v1'',
       dq_TargetAgentRole := ''api''\<rparr>) = '''' then cfg_Environment ex_cfg else ''dev'')"
    by (simp add: zero_deploy_request_def ex_cfg_def LoadConfig_def getEnv_def os_Getenv_def lookup_or_def)
  have a: "GetAgent ''agent-dev-api-001'' (wd_store (ex_world ex_1)) = Some ex_a1"
    by (simp add: GetAgent_def ex_world_def)
  show ?thesis
    using deploy_reaches_agent [OF segment_chi_sound r _ _ _ prod.collapse [symmetric] ex_deploy_decoded
        _ _ _ _ a, of ?ch "''dev''"] mo ex_ok(1) env
    by (intro exI [of _ ?ch])
      (auto simp: ex_world_def ex_a1_def ex_deploy_request_def plain_request_def zero_deploy_request_def)
qed

end
