(* ===== verification/Lifecycle.thy ===== *)
theory Lifecycle
  imports Store_Properties Api_Properties
begin

text \<open>
  The way of a deployment through all components: from the request for it to the route its
  gateway serves.
\<close>

lemma claim_pending:
  assumes "GetCommand k s = Some c" and "has_phase Pending c" and "cmd_TargetAgentID c = a"
  shows "\<exists>c'. snd (ClaimCommand k a now s) = Inr c' \<and> GetCommand k (claimed k a now s) = Some c' \<and>
    has_phase Claimed c' \<and> cmd_ClaimedBy c' = a \<and> cmd_Type c' = cmd_Type c \<and>
    cmd_DeploymentID c' = cmd_DeploymentID c"
  using assms by (simp add: GetCommand_def claimed_commands ClaimCommand_def has_phase_def Let_def)

lemma start_claimed:
  assumes "GetCommand k s = Some c" and "has_phase Claimed c" and "cmd_ClaimedBy c = a"
  shows "\<exists>c'. snd (StartCommand k a now s) = Inr c' \<and> GetCommand k (started k a now s) = Some c' \<and>
    has_phase Running c' \<and> cmd_Type c' = cmd_Type c \<and> cmd_DeploymentID c' = cmd_DeploymentID c"
  using assms by (simp add: GetCommand_def started_commands StartCommand_def has_phase_def Let_def)

lemma start_deployment:
  "GetDeployment k s = Some d \<Longrightarrow>
   \<exists>d'. GetDeployment k (started cid a now s) = Some d' \<and> dep_RequiresRoute d' = dep_RequiresRoute d \<and>
     dep_Host d' = dep_Host d \<and> dep_Environment d' = dep_Environment d"
  by (auto simp: GetDeployment_def started_deployments split: option.split)

lemma report_running_deploy:
  assumes ok: "store_ok s" and room: "route_room s"
    and cmd: "GetCommand cid s = Some cmd" "cmd_Type cmd = ''DEPLOY_APPLICATION''" "has_phase Running cmd"
    and inp: "rci_Status inp = ''succeeded''" "effective_dep inp cmd = k"
    and dep: "GetDeployment k s = Some d" "wants_route d" "dep_Environment d = e" "dep_Host d = h"
  shows "\<exists>r d'. (\<exists>q. snd (ReportCommand cid inp now now' s) = Inr q) \<and>
    route_for (finished cid inp now now' s) e h = Some r \<and>
    rt_Upstream r = result_upstream (rci_Result inp) \<and> rt_DeploymentID r = k \<and>
    GetDeployment k (finished cid inp now now' s) = Some d' \<and> dep_Status d' = ''route_pending'' \<and>
    dep_Environment d' = e \<and> dep_RouteID d' = rt_ID r"
proof -
  let ?q = "close_command cid inp cmd now s"
  have look: "fmlookup (Commands s) cid = Some cmd" "fmlookup (Deployments ?q) k = Some d"
    using cmd(1) dep(1) by (simp_all add: GetCommand_def GetDeployment_def)
  have acc: "accepts_report cmd inp" using cmd inp by (simp add: accepts_report_def final_status_def)
  have type: "cmd_Type (cmd\<lparr>cmd_FinishedAt := Some now, cmd_Status := ''succeeded''\<rparr>) =
      ''DEPLOY_APPLICATION''" using cmd(2) by simp
  have qok: "routes_ok ?q" "RouteCount (Counters ?q) < max_int" "current_version e ?q < max_int"
    using store_okD(2) [OF ok] room by (simp_all add: route_room_def)
  have fin: "finished cid inp now now' s = applySucceeded
      (cmd\<lparr>cmd_FinishedAt := Some now, cmd_Status := ''succeeded''\<rparr>) k (rci_Result inp) now' ?q"
    using report_accepted(1) [OF look(1) acc] inp by simp
  note pub = gateway.upsert_publish(1) [OF qok] gateway.upsert_target
  show ?thesis
    using report_accepted(2) [OF look(1) acc] pub dep(3,4)
    unfolding fin succeeded_deploy_routed [OF type look(2) dep(2)]
    by (intro exI [of _ "snd (publish_route k d (rci_Result inp) ?q)"])
      (simp add: publish_route_def GetDeployment_def)
qed

text \<open>
  C1: a deployment that needs a route goes live: when its target agent claims and starts the
  command and reports success, and a gateway then reports the version it polled as applied,
  every one of these operations succeeds, the deployment ends as \<open>route_active\<close>, and the
  desired state of its environment has a route for its host that points to the address and
  port the agent reported.
\<close>

theorem deployment_goes_live:
  assumes ok: "store_ok s" and room: "CommandCount (Counters s) < max_int"
      "DeploymentCount (Counters s) < max_int" "route_room s"
    and inp: "di_RequiresRoute inp" "di_Host inp \<noteq> ''''" "di_TargetAgentID inp = a" "di_Environment inp = e"
    and s1: "InitDeploy ord inp t1 s = (s1, dep, cmd)"
    and s2: "ClaimCommand (cmd_ID cmd) a t2 s1 = (s2, o2)"
    and s3: "StartCommand (cmd_ID cmd) a t3 s2 = (s3, o3)"
    and s4: "ReportCommand (cmd_ID cmd) rep t4 t5 s3 = (s4, o4)"
    and rep: "rci_Status rep = ''succeeded''" "rci_DeploymentID rep \<in> {'''', dep_ID dep}"
    and s5: "ApplyDesiredStateReport ord' g t6 t7 s4 = (s5, r5, o5)" "iter_order ord' (Deployments s4)"
    and g: "dri_Environment g = e" "dri_Status g = ''applied''"
      "dri_DesiredStateVersion g = ds_Version (GetDesiredState e s4)"
  shows "\<exists>c2 c3 c4 d r. o2 = Inr c2 \<and> o3 = Inr c3 \<and> o4 = Inr c4 \<and> o5 = None \<and>
    GetDeployment (dep_ID dep) s5 = Some d \<and> dep_Status d = ''route_active'' \<and>
    r \<in> set (ds_Routes (GetDesiredState e s5)) \<and> rt_Host r = di_Host inp \<and> rt_ID r = dep_RouteID d \<and>
    rt_DeploymentID r = dep_ID dep \<and> rt_Upstream r = result_upstream (rci_Result rep)"
proof -
  let ?c = "cmd_ID cmd" and ?k = "dep_ID dep"
  have st: "s1 = deployed ord inp t1 s" "s2 = claimed ?c a t2 s1" "s3 = started ?c a t3 s2"
    "s4 = finished ?c rep t4 t5 s3" "s5 = reported ord' g t6 t7 s4"
    using s1 s2 s3 s4 s5 by (simp_all add: deployed_def claimed_def started_def finished_def reported_def)
  have ok3: "store_ok s3"
    unfolding st by (intro started_ok claimed_ok deployed_ok ok room)
  have room3: "route_room s3"
    using room(3) by (simp add: st route_room_def current_version_def)
  note res = InitDeploy_result [OF s1]
  have "has_phase Pending cmd" using res(7) by (simp add: has_phase_def)
  from claim_pending [OF res(2) this, of a t2] inp(3) res(6) obtain c2 where
    c2: "o2 = Inr c2" "GetCommand ?c s2 = Some c2" "has_phase Claimed c2" "cmd_ClaimedBy c2 = a"
      "cmd_Type c2 = cmd_Type cmd" "cmd_DeploymentID c2 = cmd_DeploymentID cmd"
    using s2 by (auto simp: st(2))
  from start_claimed [OF c2(2-4), of t3] obtain c3 where
    c3: "o3 = Inr c3" "GetCommand ?c s3 = Some c3" "has_phase Running c3" "cmd_Type c3 = cmd_Type c2"
      "cmd_DeploymentID c3 = cmd_DeploymentID c2"
    using s3 by (auto simp: st(3))
  have "GetDeployment ?k s2 = Some dep" using res(1) by (simp add: st(2) GetDeployment_def)
  from start_deployment [OF this, of ?c a t3] obtain d3 where
    d3: "GetDeployment ?k s3 = Some d3" "dep_RequiresRoute d3 = dep_RequiresRoute dep"
      "dep_Host d3 = dep_Host dep" "dep_Environment d3 = dep_Environment dep"
    by (auto simp: st(3))
  have new: "dep_RequiresRoute dep" "dep_Host dep = di_Host inp" "cmd_Type cmd = ''DEPLOY_APPLICATION''"
    using InitDeploy_deployment [of ord inp t1 s] InitDeploy_command [of ord inp t1 s] s1 inp(1) by auto
  have "wants_route d3" "dep_Environment d3 = e" "dep_Host d3 = di_Host inp"
    using d3 new(1,2) inp(2,4) res(4) by (simp_all add: wants_route_def)
  moreover have "effective_dep rep c3 = ?k"
    using rep(2) c3(5) c2(6) res(5) by (auto simp: effective_dep_def)
  ultimately obtain r d4 c4 where
    r: "o4 = Inr c4" "route_for s4 e (di_Host inp) = Some r" "rt_Upstream r = result_upstream (rci_Result rep)"
      "rt_DeploymentID r = ?k" "GetDeployment ?k s4 = Some d4" "dep_Status d4 = ''route_pending''"
      "dep_Environment d4 = e" "dep_RouteID d4 = rt_ID r"
    using report_running_deploy [where k = ?k and e = e and h = "di_Host inp" and now = t4 and now' = t5,
        OF ok3 room3 c3(2) _ c3(3) rep(1) _ d3(1)] c3(4) c2(5) new(3) s4 by (auto simp: st(4))
  have ok4: "routes_ok s4"
    unfolding st(4) by (rule store_okD(2) [OF finished_ok [OF ok3 room3]])
  have mem: "r \<in> set (ds_Routes (GetDesiredState e s5)) \<and> rt_Host r = di_Host inp"
    using r(2) route_for_iff [OF ok4] by (simp add: GetDesiredState_routes routes_of_def st(5))
  have "o5 = None" using s5(1) g by (auto simp: ApplyDesiredStateReport_def Let_def GetDesiredState_version split: if_splits)
  moreover have "GetDeployment ?k s5 = Some (settle_deployment e ''applied'' t7 d4)"
    using r(5) g settle_loop_fmmap [OF s5(2)]
    by (simp add: GetDeployment_def st(5) reported_deployments GetDesiredState_version)
  ultimately show ?thesis
    using c2(1) c3(1) r mem by (auto simp: settle_deployment_def)
qed

theorem deployment_goes_live_witness:
  "\<exists>ord d. GetDeployment ''dep-001''
      (reported ord (ex_applied\<lparr>dri_DesiredStateVersion := 1\<rparr>) 20 21 ex_5) = Some d \<and>
    dep_Status d = ''route_active''"
proof -
  obtain ord where ord: "iter_order ord (Deployments ex_5)" using iter_order_exists by blast
  have init: "InitDeploy [] ex_dep 2 ex_1 = (ex_2, ex_d1, ex_c1)"
    by (simp add: ex_2_def deployed_def ex_d1_def ex_c1_def)
  have steps: "ClaimCommand (cmd_ID ex_c1) ex_agent 3 ex_2 = (ex_3, snd (ClaimCommand ''cmd-001'' ex_agent 3 ex_2))"
    "StartCommand (cmd_ID ex_c1) ex_agent 4 ex_3 = (ex_4, snd (StartCommand ''cmd-001'' ex_agent 4 ex_3))"
    "ReportCommand (cmd_ID ex_c1) (ex_report ''3001'') 5 6 ex_4 =
      (ex_5, snd (ReportCommand ''cmd-001'' (ex_report ''3001'') 5 6 ex_4))"
    by (simp_all add: ex_3_def ex_4_def ex_5_def claimed_def started_def finished_def)
  obtain r err where g: "ApplyDesiredStateReport ord (ex_applied\<lparr>dri_DesiredStateVersion := 1\<rparr>) 20 21 ex_5 =
      (reported ord (ex_applied\<lparr>dri_DesiredStateVersion := 1\<rparr>) 20 21 ex_5, r, err)"
    by (metis reported_def prod.collapse)
  have room: "route_room ex_1" "CommandCount (Counters ex_1) < max_int" "DeploymentCount (Counters ex_1) < max_int"
    by (simp_all add: route_room_def current_version_def max_int_def)
  show ?thesis
    using deployment_goes_live [OF ex_ok(1) room(2,3,1) _ _ _ _ init steps _ _ g ord, of "''dev''"]
    by (auto simp: ex_dep_def ex_applied_def GetDesiredState_version current_version_def)
qed

end
