(* ===== verification/Savable.thy ===== *)
theory Savable
  imports Api_Steps
begin

text \<open>
  What the server can hold, the state file can carry: the strings are valid UTF-8, the numbers
  fit their width and the times are of the years 1 to 9999. Every operation of the store keeps
  that, and the body of a request has it: what \<open>encoding/json\<close> decodes is valid UTF-8, whatever
  the bytes of the body were. The one exception is the identifier of the agent in a report, which
  comes from the path as it is; the file carries it with the invalid bytes replaced.
\<close>

section \<open>UTF-8\<close>

lemma if_le: "x \<le> n \<Longrightarrow> y \<le> n \<Longrightarrow> (if b then x else y) \<le> (n :: nat)"
  by simp

lemma utf8_seq_le: "utf8_seq s \<le> length s"
proof (cases s)
  case (Cons c cs)
  show ?thesis
    unfolding Cons utf8_seq.simps(2) Let_def
    by (cases cs; cases "tl cs"; cases "tl (tl cs)")
      (simp_all only: list.case list.sel, (intro if_le; simp)+)
qed simp

lemma list_upto_four:
  obtains "xs = []" | a where "xs = [a]" | a b where "xs = [a, b]" | a b c where "xs = [a, b, c]"
    | a b c d ys where "xs = a # b # c # d # ys"
  by (metis list.exhaust)

lemma utf8_seq_append: "0 < utf8_seq s \<Longrightarrow> utf8_seq (s @ t) = utf8_seq s"
  by (cases s rule: list_upto_four)
    (simp_all only: utf8_seq.simps append.simps list.case Let_def split: if_split_asm, simp_all)

text \<open>The replacement character is a sequence of its own, so it never stands for itself.\<close>

lemma utf8_Cons_seq: "utf8 (c # cs) \<Longrightarrow> 0 < utf8_seq (c # cs)"
proof (rule ccontr)
  assume u: "utf8 (c # cs)" and z: "\<not> 0 < utf8_seq (c # cs)"
  then have e: "[CHR 0xEF, CHR 0xBF, CHR 0xBD] @ coerce_utf8 cs = c # cs"
    by (simp add: utf8_def)
  then have "c = CHR 0xEF" "cs = CHR 0xBF # CHR 0xBD # coerce_utf8 cs" by simp_all
  then obtain r where "c = CHR 0xEF" "cs = CHR 0xBF # CHR 0xBD # r" by blast
  then have "utf8_seq (c # cs) = 3"
    by (simp add: utf8_seq.simps in_range_def of_char_of)
  with z show False by simp
qed

lemma coerce_append: "utf8 s \<Longrightarrow> coerce_utf8 (s @ t) = s @ coerce_utf8 t"
proof (induction s rule: coerce_utf8.induct)
  case (2 c cs)
  let ?k = "utf8_seq (c # cs)"
  have k: "0 < ?k" "?k \<le> length (c # cs)"
    using utf8_Cons_seq [OF 2(3)] utf8_seq_le [of "c # cs"] by simp_all
  have k': "utf8_seq (c # cs @ t) = ?k" using utf8_seq_append [OF k(1), of t] by simp
  have "coerce_utf8 (drop (?k - 1) cs) = drop (?k - 1) cs"
  proof -
    have "take ?k (c # cs) @ coerce_utf8 (drop (?k - 1) cs) = take ?k (c # cs) @ drop ?k (c # cs)"
      using 2(3) k(1) unfolding utf8_def coerce_utf8.simps(2) Let_def by simp
    then show ?thesis using k(1) by (simp add: drop_Cons')
  qed
  then have "coerce_utf8 (drop (?k - 1) cs @ t) = drop (?k - 1) cs @ coerce_utf8 t"
    using 2(2) k(1) by (simp add: utf8_def)
  moreover have "take ?k (c # cs @ t) = take ?k (c # cs)"
    using k(2) by (simp add: take_Cons')
  moreover have "drop (?k - 1) (cs @ t) = drop (?k - 1) cs @ t"
    using k(2) by simp
  moreover have "take ?k (c # cs) @ drop (?k - 1) cs = c # cs"
    using k(1) by (metis append_take_drop_id drop_Cons' not_gr_zero)
  ultimately show ?case
    using k(1) k' by (simp add: Let_def)
qed simp

lemma utf8_Nil [simp]: "utf8 []"
  by (simp add: utf8_def)

lemma utf8_append [intro]: "utf8 s \<Longrightarrow> utf8 t \<Longrightarrow> utf8 (s @ t)"
  by (simp add: utf8_def coerce_append [unfolded utf8_def])

text \<open>What the encoder makes of a string is valid.\<close>

lemma utf8_seq_take: "0 < utf8_seq s \<Longrightarrow> utf8_seq (take (utf8_seq s) s) = utf8_seq s"
  by (cases s rule: list_upto_four)
    (simp_all only: utf8_seq.simps append.simps list.case Let_def split: if_split_asm,
     simp_all add: utf8_seq.simps)

lemma utf8_take:
  assumes "0 < utf8_seq s"
  shows "utf8 (take (utf8_seq s) s)"
proof -
  let ?k = "utf8_seq s"
  have len: "length (take ?k s) = ?k" using utf8_seq_le [of s] by simp
  with assms obtain d ds where d: "take ?k s = d # ds" by (cases "take ?k s") auto
  have "utf8_seq (d # ds) = ?k" "length ds = ?k - 1" using utf8_seq_take [OF assms] len d by simp_all
  with assms show ?thesis unfolding utf8_def d by (simp add: take_Cons')
qed

lemma utf8_coerce [simp]: "utf8 (coerce_utf8 s)"
proof (induction s rule: coerce_utf8.induct)
  case (2 c cs)
  have "utf8 [CHR 0xEF, CHR 0xBF, CHR 0xBD]"
    by (simp add: utf8_def utf8_seq.simps in_range_def is_ascii_def of_char_of)
  with 2 show ?case using utf8_take [of "c # cs"] by (auto simp: Let_def simp del: append_Cons)
qed simp

lemma utf8_ascii: "list_all is_ascii s \<Longrightarrow> utf8 s"
  by (simp add: utf8_def coerce_utf8_ascii)

lemma utf8_Cons [simp]: "is_ascii c \<Longrightarrow> utf8 (c # s) = utf8 s"
  by (simp add: utf8_def)

lemma digit_ascii: "is_digit c \<Longrightarrow> is_ascii c"
  by (simp add: is_digit_def is_ascii_def)

lemma utf8_digits: "\<forall>c \<in> set s. is_digit c \<Longrightarrow> utf8 s"
  by (rule utf8_ascii) (auto simp: list_all_iff digit_ascii)

lemma utf8_fmt [simp]: "utf8 (fmt_d n)" "utf8 (fmt_03d n)"
  by (auto simp: fmt_d_def fmt_03d_def intro!: utf8_digits pad_zero_digits nat_digits_are_digits)

lemma utf8_ids [simp]:
  "utf8 (ids_Command n)" "utf8 (ids_Deployment n)" "utf8 (ids_Route n)"
  "utf8 e \<Longrightarrow> utf8 r \<Longrightarrow> utf8 (ids_Agent e r n)"
  by (simp_all add: ids_Command_def ids_Deployment_def ids_Route_def ids_Agent_def utf8_append)

section \<open>Documents and what is decoded from them\<close>

text \<open>
  A document as the decoder sees it: its strings and names are valid UTF-8, since the scanner
  of \<open>encoding/json\<close> replaces every byte that is not.
\<close>

fun json_text_ok :: "json \<Rightarrow> bool" where
  "json_text_ok (JStr s) = utf8 s"
| "json_text_ok (JArr js) = list_all json_text_ok js"
| "json_text_ok (JObj kvs) = list_all (\<lambda>kv. utf8 (fst kv) \<and> json_text_ok (snd kv)) kvs"
| "json_text_ok _ = True"

definition dec_keeps :: "('a \<Rightarrow> bool) \<Rightarrow> 'a decoder \<Rightarrow> bool" where
  "dec_keeps P d \<longleftrightarrow> (\<forall>old j. P old \<longrightarrow> json_text_ok j \<longrightarrow> P (snd (d old j)))"

named_theorems keeps

lemma dec_keepsI: "(\<And>old j. P old \<Longrightarrow> json_text_ok j \<Longrightarrow> P (snd (d old j))) \<Longrightarrow> dec_keeps P d"
  by (simp add: dec_keeps_def)

lemma dec_keepsD: "dec_keeps P d \<Longrightarrow> P old \<Longrightarrow> json_text_ok j \<Longrightarrow> P (snd (d old j))"
  by (simp add: dec_keeps_def)

lemma keeps_string [keeps]: "dec_keeps utf8 dec_string"
  by (rule dec_keepsI) (auto simp: dec_string_def split: json.split)

lemma keeps_int [keeps]: "dec_keeps in_int64 dec_int"
  by (rule dec_keepsI) (auto simp: dec_int_def parse_int_range split: json.split option.split)

lemma keeps_bool [keeps]: "dec_keeps (\<lambda>_. True) dec_bool"
  by (rule dec_keepsI) simp

lemma keeps_raw [keeps]: "dec_keeps (ptr_ok json_text_ok) dec_raw"
  by (rule dec_keepsI) (simp add: dec_raw_def ptr_ok_def)

lemma keeps_any [keeps]: "dec_keeps (\<lambda>_. True) dec_any"
  by (rule dec_keepsI) simp

lemma keeps_ptr [keeps]:
  assumes "dec_keeps P d" and "P z"
  shows "dec_keeps (ptr_ok P) (dec_ptr z d)"
  by (rule dec_keepsI)
    (use assms in \<open>auto simp: dec_ptr_def ptr_ok_def dec_keeps_def case_prod_beta split: json.split option.split\<close>)

lemma keeps_entries:
  assumes "dec_keeps P d" and "P z"
  shows "list_all (\<lambda>kv. utf8 (fst kv) \<and> json_text_ok (snd kv)) kvs \<Longrightarrow> map_ok P m \<Longrightarrow>
    map_ok P (snd (dec_entries z d kvs (b, m)))"
proof (induction kvs arbitrary: b m)
  case (Cons kv kvs)
  obtain k j where kv: "kv = (k, j)" by fastforce
  have "map_ok P (fmupd k (snd (d z j)) m)"
    using Cons.prems dec_keepsD [OF assms, of j] by (simp add: kv map_ok_def)
  then show ?case using Cons.IH Cons.prems(1) by (simp add: kv case_prod_beta)
qed simp

lemma keeps_map [keeps]:
  assumes "dec_keeps P d" and "P z"
  shows "dec_keeps (nmap_ok P) (dec_map z d)"
proof (rule dec_keepsI)
  fix old j assume "nmap_ok P old" "json_text_ok j"
  moreover have "map_ok P fmempty" by (simp add: map_ok_def)
  ultimately show "nmap_ok P (snd (dec_map z d old j))"
    using keeps_entries [OF assms]
    by (auto simp: dec_map_def nmap_ok_def case_prod_beta split: json.split option.split)
qed

lemma keeps_members:
  assumes "\<And>n d. (n, d) \<in> set fs \<Longrightarrow> dec_keeps P d"
  shows "list_all (\<lambda>kv. utf8 (fst kv) \<and> json_text_ok (snd kv)) kvs \<Longrightarrow> P r \<Longrightarrow>
    P (snd (dec_members fs kvs (b, r)))"
proof (induction kvs arbitrary: b r)
  case (Cons kv kvs)
  obtain k j where kv: "kv = (k, j)" by fastforce
  have "dec_keeps P d" if "find_field fs k = Some d" for d
    using that by (auto simp: find_field_def split: option.splits dest!: map_of_SomeD intro: assms)
  then show ?case
    using Cons by (auto simp: kv case_prod_beta dec_keeps_def split: option.split)
qed simp

lemma keeps_struct:
  assumes "list_all (\<lambda>f. dec_keeps P (snd f)) fs"
  shows "dec_keeps P (dec_struct fs)"
proof (rule dec_keepsI)
  fix old j assume "P old" "json_text_ok j"
  moreover have "dec_keeps P d" if "(n, d) \<in> set fs" for n d
    using assms that by (auto simp: list_all_iff)
  ultimately show "P (snd (dec_struct fs old j))"
    using keeps_members [of fs P] by (auto simp: dec_struct_def split: json.split)
qed

lemma keeps_field:
  assumes "dec_keeps Q d" and "\<And>r. P r \<Longrightarrow> Q (g r)"
    and "\<And>r v. P r \<Longrightarrow> Q v \<Longrightarrow> P (upd (\<lambda>_. v) r)"
  shows "dec_keeps P (snd (field name g upd d))"
  by (rule dec_keepsI) (simp add: field_def case_prod_beta assms dec_keepsD [OF assms(1)])

lemma keeps_decode:
  assumes "dec_keeps P d" and "P z" and "pred_option json_text_ok (rq_body req)" and "decode req d z = Some v"
  shows "P v"
proof -
  obtain j where j: "rq_body req = Some j" using assms(4) by (auto simp: decode_def split: option.splits)
  then have "v = snd (d z j)" using assms(4) by (auto simp: decode_def split: prod.splits if_splits)
  then show ?thesis using assms(1-3) j by (simp add: dec_keeps_def)
qed

lemma keeps_unmarshal:
  "dec_keeps P d \<Longrightarrow> P z \<Longrightarrow> ptr_ok json_text_ok raw \<Longrightarrow> P (unmarshal_lax d z raw)"
  by (auto simp: unmarshal_lax_def dec_keeps_def ptr_ok_def split: option.split)

section \<open>The inputs of the operations\<close>

definition register_text_ok :: "register_input \<Rightarrow> bool" where
  "register_text_ok i \<longleftrightarrow>
     list_all utf8 [ri_Mode i, ri_Environment i, ri_Role i, ri_Hostname i, ri_InstanceID i,
       ri_PrivateIP i, ri_Version i] \<and>
     ptr_ok utf8 (ri_PublicIP i) \<and> nmap_ok (\<lambda>_. True) (ri_Capabilities i)"

definition heartbeat_text_ok :: "heartbeat_core \<Rightarrow> bool" where
  "heartbeat_text_ok h \<longleftrightarrow> list_all utf8 [hb_Status h, hb_Version h, hb_PrivateIP h]"

definition result_text_ok :: "deploy_result \<Rightarrow> bool" where
  "result_text_ok r \<longleftrightarrow> utf8 (res_RuntimePrivateIP r) \<and> in_int64 (res_HostPort r)"

text \<open>The rules for the fields, by the type of the field.\<close>

named_theorems keep_fields

lemmas plain_fields [keep_fields] = keeps_field [OF keeps_string] keeps_field [OF keeps_int]
  keeps_field [OF keeps_bool] keeps_field [OF keeps_raw]
  keeps_field [OF keeps_ptr [OF keeps_string utf8_Nil]]
  keeps_field [OF keeps_map [OF keeps_any TrueI]]
  keeps_field [OF keeps_map [OF keeps_string utf8_Nil]]

lemma register_keeps [keeps]: "dec_keeps register_text_ok (dec_struct register_fields)"
  unfolding register_fields_def
  by (intro keeps_struct; simp only: list.pred_inject; intro conjI TrueI keep_fields)
    (simp_all add: register_text_ok_def)

lemma heartbeat_keeps [keeps]: "dec_keeps heartbeat_text_ok (dec_struct heartbeat_fields)"
  unfolding heartbeat_fields_def
  by (intro keeps_struct; simp only: list.pred_inject; intro conjI TrueI keep_fields)
    (simp_all add: heartbeat_text_ok_def)

definition command_report_request_text_ok :: "command_report_request \<Rightarrow> bool" where
  "command_report_request_text_ok r \<longleftrightarrow>
     utf8 (crr_Status r) \<and> utf8 (crr_DeploymentID r) \<and> ptr_ok json_text_ok (crr_Result r) \<and>
     ptr_ok report_error_text_ok (crr_Error r)"

definition desired_report_request_text_ok :: "desired_report_request \<Rightarrow> bool" where
  "desired_report_request_text_ok r \<longleftrightarrow>
     list_all utf8 [drq_Status r, drq_Type r, drq_Environment r] \<and>
     list_all in_int64 [drq_DesiredStateVersion r, drq_RoutesTotal r, drq_ValidatedRoutes r,
       drq_FailedRoutes r] \<and>
     ptr_ok report_error_text_ok (drq_Error r)"

definition deploy_request_text_ok :: "deploy_request \<Rightarrow> bool" where
  "deploy_request_text_ok r \<longleftrightarrow>
     list_all utf8 [dq_TargetAgentRole r, dq_Application r, dq_Environment r, dq_Image r,
       dq_ContainerName r, dq_HealthCheckPath r, dq_Host r] \<and>
     in_int64 (dq_ContainerInternalPort r) \<and> nmap_ok utf8 (dq_EnvironmentVariables r)"

definition stop_request_text_ok :: "stop_request \<Rightarrow> bool" where
  "stop_request_text_ok r \<longleftrightarrow>
     list_all utf8 [sq_TargetAgentID r, sq_DeploymentID r, sq_ContainerName r] \<and>
     in_int64 (sq_StopTimeoutSeconds r)"

definition remove_request_text_ok :: "remove_request \<Rightarrow> bool" where
  "remove_request_text_ok r \<longleftrightarrow>
     list_all utf8 [rmq_TargetAgentID r, rmq_DeploymentID r, rmq_ContainerName r]"

lemma result_keeps [keeps]: "dec_keeps result_text_ok (dec_struct deploy_result_fields)"
  unfolding deploy_result_fields_def
  by (intro keeps_struct; simp only: list.pred_inject; intro conjI TrueI keep_fields)
    (simp_all add: result_text_ok_def)

lemma report_error_keeps [keeps]: "dec_keeps report_error_text_ok (dec_struct report_error_fields)"
  unfolding report_error_fields_def
  by (intro keeps_struct; simp only: list.pred_inject; intro conjI TrueI keep_fields)
    (simp_all add: report_error_text_ok_def)

lemma zero_text_ok [simp]:
  "register_text_ok zero_register_request" "heartbeat_text_ok zero_heartbeat"
  "result_text_ok zero_result" "report_error_text_ok zero_report_error"
  "command_report_request_text_ok zero_command_report_request"
  "desired_report_request_text_ok zero_desired_report_request"
  "deploy_request_text_ok zero_deploy_request" "stop_request_text_ok zero_stop_request"
  "remove_request_text_ok zero_remove_request"
  by (simp_all add: register_text_ok_def zero_register_request_def heartbeat_text_ok_def zero_heartbeat_def
      result_text_ok_def zero_result_def report_error_text_ok_def zero_report_error_def
      command_report_request_text_ok_def zero_command_report_request_def
      desired_report_request_text_ok_def zero_desired_report_request_def deploy_request_text_ok_def
      zero_deploy_request_def stop_request_text_ok_def zero_stop_request_def
      remove_request_text_ok_def zero_remove_request_def ptr_ok_def nmap_ok_def
      in_int64_def min_int_def max_int_def)

lemmas error_field [keep_fields] = keeps_field [OF keeps_ptr [OF report_error_keeps zero_text_ok(4)]]

lemma command_report_keeps [keeps]:
  "dec_keeps command_report_request_text_ok (dec_struct command_report_request_fields)"
  unfolding command_report_request_fields_def
  by (intro keeps_struct; simp only: list.pred_inject; intro conjI TrueI keep_fields)
    (simp_all add: command_report_request_text_ok_def)

lemma desired_report_keeps [keeps]:
  "dec_keeps desired_report_request_text_ok (dec_struct desired_report_request_fields)"
  unfolding desired_report_request_fields_def
  by (intro keeps_struct; simp only: list.pred_inject; intro conjI TrueI keep_fields)
    (simp_all add: desired_report_request_text_ok_def)

lemma deploy_keeps [keeps]: "dec_keeps deploy_request_text_ok (dec_struct deploy_request_fields)"
  unfolding deploy_request_fields_def
  by (intro keeps_struct; simp only: list.pred_inject; intro conjI TrueI keep_fields)
    (simp_all add: deploy_request_text_ok_def)

lemma stop_keeps [keeps]: "dec_keeps stop_request_text_ok (dec_struct stop_request_fields)"
  unfolding stop_request_fields_def
  by (intro keeps_struct; simp only: list.pred_inject; intro conjI TrueI keep_fields)
    (simp_all add: stop_request_text_ok_def)

lemma remove_keeps [keeps]: "dec_keeps remove_request_text_ok (dec_struct remove_request_fields)"
  unfolding remove_request_fields_def
  by (intro keeps_struct; simp only: list.pred_inject; intro conjI TrueI keep_fields)
    (simp_all add: remove_request_text_ok_def)

section \<open>The store\<close>

text \<open>A store the state file carries without a change.\<close>

definition savable :: "store \<Rightarrow> bool" where
  "savable s \<longleftrightarrow>
     map_ok agent_text_ok (Agents s) \<and> map_ok utf8 (AgentIndex s) \<and>
     map_ok command_text_ok (Commands s) \<and> map_ok deployment_text_ok (Deployments s) \<and>
     list_all command_report_text_ok (CommandReports s) \<and>
     map_ok desired_state_text_ok (DesiredStates s) \<and>
     list_all desired_state_report_text_ok (DesiredStateReports s) \<and>
     map_ok in_int64 (AgentByEnvironmentRole (Counters s)) \<and>
     list_all in_int64 [CommandCount (Counters s), DeploymentCount (Counters s), RouteCount (Counters s)] \<and>
     map_ok in_int64 (DesiredStateVersionByEnvironment (Counters s))"

lemma savable_snapshot:
  assumes "loop_orders_ok os s"
  shows "snapshot_ok (take_Snapshot os s) = savable s"
  using assms
  by (simp add: snapshot_ok_def take_Snapshot_def loop_orders_ok_def copy_map_ident Let_def savable_def
      nmap_ok_def counters_text_ok_def SchemaVersion_def in_int64_def min_int_def max_int_def)

text \<open>
  The identifier of the agent in the path of a report is recorded without being looked up, so it
  can be any string, and the file has it with the bytes that are not UTF-8 replaced.
\<close>

definition report_coerced :: "command_report \<Rightarrow> command_report" where
  "report_coerced r = r\<lparr>cr_AgentID := coerce_utf8 (cr_AgentID r)\<rparr>"

definition desired_report_coerced :: "desired_state_report \<Rightarrow> desired_state_report" where
  "desired_report_coerced r = r\<lparr>dr_AgentID := coerce_utf8 (dr_AgentID r)\<rparr>"

definition coerced :: "store \<Rightarrow> store" where
  "coerced s = s\<lparr>CommandReports := map report_coerced (CommandReports s),
     DesiredStateReports := map desired_report_coerced (DesiredStateReports s)\<rparr>"

definition storable :: "store \<Rightarrow> bool" where
  "storable s \<longleftrightarrow> savable (coerced s)"

lemma coerced_simps [simp]:
  "Agents (coerced s) = Agents s" "AgentIndex (coerced s) = AgentIndex s" "Commands (coerced s) = Commands s"
  "Deployments (coerced s) = Deployments s" "DesiredStates (coerced s) = DesiredStates s"
  "Counters (coerced s) = Counters s" "CommandReports (coerced s) = map report_coerced (CommandReports s)"
  "DesiredStateReports (coerced s) = map desired_report_coerced (DesiredStateReports s)"
  by (simp_all add: coerced_def)

lemmas storable_iff = storable_def savable_def

lemma coerced_savable:
  assumes "savable s"
  shows "coerced s = s"
proof -
  have "report_coerced r = r" if "r \<in> set (CommandReports s)" for r
    using assms that by (auto simp: savable_def list_all_iff report_coerced_def command_report_text_ok_def utf8_def)
  moreover have "desired_report_coerced r = r" if "r \<in> set (DesiredStateReports s)" for r
    using assms that
    by (auto simp: savable_def list_all_iff desired_report_coerced_def desired_state_report_text_ok_def utf8_def)
  ultimately show ?thesis by (simp add: coerced_def map_idI)
qed

lemma savable_storable: "savable s \<Longrightarrow> storable s"
  by (simp add: storable_def coerced_savable)

text \<open>The file cannot tell a store from the one with the strings replaced.\<close>

lemma enc_report_coerced [simp]:
  "enc_command_report (report_coerced r) = enc_command_report r"
  "enc_desired_state_report (desired_report_coerced q) = enc_desired_state_report q"
  by (simp_all add: enc_command_report_def report_coerced_def enc_desired_state_report_def
      desired_report_coerced_def enc_string_def utf8_coerce [unfolded utf8_def])

lemma snapshot_coerced: "enc_snapshot (take_Snapshot os (coerced s)) = enc_snapshot (take_Snapshot os s)"
  by (simp add: enc_snapshot_def take_Snapshot_def Let_def enc_slice_def comp_def)

lemma loop_orders_coerced [simp]: "loop_orders_ok os (coerced s) = loop_orders_ok os s"
  by (simp add: loop_orders_ok_def)

lemma in_int64_s64 [simp]: "in_int64 (s64 n)" "in_int64 0"
  by (simp_all add: in_int64_def s64_range) (simp_all add: min_int_def max_int_def)

lemma map_ok_simps [simp]:
  "map_ok P fmempty" "utf8 k \<Longrightarrow> P v \<Longrightarrow> map_ok P m \<Longrightarrow> map_ok P (fmupd k v m)"
  by (simp_all add: map_ok_def)

lemma map_okD: "map_ok P m \<Longrightarrow> fmlookup m k = Some v \<Longrightarrow> utf8 k \<and> P v"
  by (simp add: map_ok_def)

lemma storable_New: "storable store_New"
  by (simp add: storable_iff store_New_def zero_counters_def)

lemma storable_puts [simp]:
  "storable s \<Longrightarrow> utf8 k \<Longrightarrow> agent_text_ok a \<Longrightarrow> storable (put_agent k a s)"
  "storable s \<Longrightarrow> utf8 k \<Longrightarrow> command_text_ok c \<Longrightarrow> storable (put_command k c s)"
  "storable s \<Longrightarrow> utf8 k \<Longrightarrow> deployment_text_ok d \<Longrightarrow> storable (put_deployment k d s)"
  "storable s \<Longrightarrow> utf8 k \<Longrightarrow> desired_state_text_ok ds \<Longrightarrow> storable (put_desired k ds s)"
  by (simp_all add: storable_iff)

lemma storable_reports [simp]:
  "storable s \<Longrightarrow> command_report_text_ok (report_coerced r) \<Longrightarrow>
     storable (s\<lparr>CommandReports := CommandReports s @ [r]\<rparr>)"
  "storable s \<Longrightarrow> desired_state_report_text_ok (desired_report_coerced q) \<Longrightarrow>
     storable (s\<lparr>DesiredStateReports := DesiredStateReports s @ [q]\<rparr>)"
  by (simp_all add: storable_iff)

lemma storable_counters [simp]:
  "storable s \<Longrightarrow> in_int64 n \<Longrightarrow> storable (s\<lparr>Counters := (Counters s)\<lparr>CommandCount := n\<rparr>\<rparr>)"
  "storable s \<Longrightarrow> in_int64 n \<Longrightarrow> in_int64 m \<Longrightarrow>
     storable (s\<lparr>Counters := (Counters s)\<lparr>DeploymentCount := n, CommandCount := m\<rparr>\<rparr>)"
  "storable s \<Longrightarrow> in_int64 n \<Longrightarrow> storable (s\<lparr>Counters := (Counters s)\<lparr>RouteCount := n\<rparr>\<rparr>)"
  "storable s \<Longrightarrow> in_int64 n \<Longrightarrow> utf8 e \<Longrightarrow> storable (s\<lparr>Counters := (Counters s)
     \<lparr>DesiredStateVersionByEnvironment := fmupd e n (DesiredStateVersionByEnvironment (Counters s))\<rparr>\<rparr>)"
  by (simp_all add: storable_iff)

lemma storableD:
  assumes "storable s"
  shows "fmlookup (Agents s) k = Some a \<Longrightarrow> utf8 k \<and> agent_text_ok a"
    "fmlookup (AgentIndex s) k = Some i \<Longrightarrow> utf8 i"
    "fmlookup (Commands s) k = Some c \<Longrightarrow> utf8 k \<and> command_text_ok c"
    "fmlookup (Deployments s) k = Some d \<Longrightarrow> utf8 k \<and> deployment_text_ok d"
    "fmlookup (DesiredStates s) k = Some ds \<Longrightarrow> utf8 k \<and> desired_state_text_ok ds"
  using assms by (auto simp: storable_iff map_ok_def)

lemma in_int64_version: "storable s \<Longrightarrow> in_int64 (current_version e s)"
  using storableD(5) by (auto simp: current_version_def desired_state_text_ok_def split: option.split)

section \<open>The operations\<close>

text \<open>The ways into the store from a request: strings, numbers and times that can be saved.\<close>

lemma registered_storable:
  assumes "storable s" "register_text_ok i" "time_ok now"
  shows "storable (registered i now s)"
proof (cases "fmlookup (AgentIndex s) (agentKey (ri_InstanceID i) (ri_Mode i) (ri_Environment i) (ri_Role i))")
  case None
  have key: "utf8 (agentKey (ri_InstanceID i) (ri_Mode i) (ri_Environment i) (ri_Role i))"
    "utf8 (env_role_key (ri_Environment i) (ri_Role i))"
    using assms(2) by (simp_all add: agentKey_def env_role_key_def register_text_ok_def utf8_append)
  show ?thesis
    using assms key
    by (simp add: registered_def RegisterAgent_def None Let_def storable_iff agent_text_ok_def register_text_ok_def)
next
  case (Some k)
  show ?thesis
  proof (cases "fmlookup (Agents s) k")
    case None
    then show ?thesis using assms by (simp add: registered_def RegisterAgent_def Some)
  next
    case a: (Some a)
    show ?thesis
      using assms storableD(1) [OF assms(1) a]
      by (simp add: registered_def RegisterAgent_def Some a Let_def agent_text_ok_def register_text_ok_def)
  qed
qed

lemma beaten_storable:
  assumes "storable s" "ptr_ok json_text_ok raw" "time_ok now"
  shows "storable (beaten k raw now s)"
proof (cases "fmlookup (Agents s) k")
  case (Some a)
  have "heartbeat_text_ok (unmarshal_lax (dec_struct heartbeat_fields) zero_heartbeat raw)"
    by (rule keeps_unmarshal [OF heartbeat_keeps _ assms(2)]) simp
  then show ?thesis
    using assms storableD(1) [OF assms(1) Some]
    by (simp add: beaten_def Heartbeat_def Some Let_def heartbeat_text_ok_def agent_text_ok_def)
qed (use assms in \<open>simp add: beaten_def Heartbeat_def\<close>)

definition deploy_text_ok :: "deploy_input \<Rightarrow> bool" where
  "deploy_text_ok i \<longleftrightarrow>
     list_all utf8 [di_Application i, di_Environment i, di_Image i, di_Host i, di_TargetAgentID i,
       di_ContainerName i, di_HealthCheckPath i] \<and>
     in_int64 (di_ContainerInternalPort i) \<and> in_int64 (di_CommandTimeoutSeconds i)"

lemma utf8_deploy_ids [simp]: "utf8 (fst (deploy_ids s))" "utf8 (snd (deploy_ids s))"
  by (simp_all add: deploy_ids_def)

lemma deployed_storable:
  assumes "storable s" "deploy_text_ok i" "time_ok now"
  shows "storable (deployed ord i now s)"
proof -
  have "utf8 (container_name_for i (fst (deploy_ids s)))"
    using assms(2) by (simp add: container_name_for_def deploy_text_ok_def utf8_append)
  moreover obtain p where "snd (snd (InitDeploy ord i now s)) =
      \<lparr>cmd_ID = snd (deploy_ids s), cmd_Type = ''DEPLOY_APPLICATION'',
       cmd_DeploymentID = fst (deploy_ids s), cmd_TargetAgentID = di_TargetAgentID i,
       cmd_Status = ''pending'', cmd_TimeoutSeconds = di_CommandTimeoutSeconds i,
       cmd_Payload = Some p, cmd_CreatedAt = now, cmd_ClaimedAt = None, cmd_StartedAt = None,
       cmd_FinishedAt = None, cmd_ClaimedBy = ''''\<rparr>"
    using InitDeploy_command by blast
  ultimately show ?thesis
    using assms
    by (simp add: deployed_def InitDeploy_store InitDeploy_deployment
        deploy_text_ok_def deployment_text_ok_def command_text_ok_def ptr_ok_def)
qed

lemma created_storable:
  assumes "storable s" "list_all utf8 [cc_Type i, cc_DeploymentID i, cc_TargetAgentID i]"
    "in_int64 (cc_TimeoutSeconds i)" "time_ok now"
  shows "storable (created i now s)"
  using assms
  by (simp add: created_def CreateCommand_store CreateCommand_command command_text_ok_def ptr_ok_def)

lemma claimed_storable:
  assumes "storable s" "time_ok now"
  shows "storable (claimed k a now s)"
proof (cases "fmlookup (Commands s) k")
  case (Some c)
  then show ?thesis
    using assms storableD(3) [OF assms(1) Some]
    by (auto simp: claimed_def ClaimCommand_def Let_def command_text_ok_def ptr_ok_def)
qed (use assms in \<open>simp add: claimed_def ClaimCommand_def\<close>)

lemma started_storable:
  assumes "storable s" "time_ok now"
  shows "storable (started k a now s)"
proof (cases "fmlookup (Commands s) k")
  case (Some c)
  have "deployment_text_ok (d\<lparr>dep_Status := ''deploying'', dep_UpdatedAt := now\<rparr>)"
    if "fmlookup (Deployments s) i = Some d" for i d
    using storableD(4) [OF assms(1) that] assms(2) by (simp add: deployment_text_ok_def)
  moreover have "command_text_ok (c\<lparr>cmd_Status := ''running'', cmd_StartedAt := Some now\<rparr>)"
    using storableD(3) [OF assms(1) Some] assms(2) by (simp add: command_text_ok_def ptr_ok_def)
  ultimately show ?thesis
    using assms storableD(3) [OF assms(1) Some] storableD(4) [OF assms(1)]
    by (auto simp: started_def StartCommand_def Some Let_def split: option.split)
qed (use assms in \<open>simp add: started_def StartCommand_def\<close>)

lemma reported_storable:
  assumes "storable s" "list_all utf8 [dri_Environment i, dri_Type i, dri_Status i]"
    "list_all in_int64 [dri_DesiredStateVersion i, dri_RoutesTotal i, dri_ValidatedRoutes i, dri_FailedRoutes i]"
    "ptr_ok report_error_text_ok (dri_Error i)" "time_ok t" "time_ok now" "iter_order ord (Deployments s)"
  shows "storable (reported ord i t now s)"
proof -
  have settle: "deployment_text_ok (settle_deployment e st now d)" if "deployment_text_ok d" for e st d
    using that assms(6) by (auto simp: settle_deployment_def deployment_text_ok_def)
  have "map_ok deployment_text_ok (fmmap (settle_deployment e st now) (Deployments s))" for e st
    using storableD(4) [OF assms(1)] settle by (auto simp: map_ok_def)
  then show ?thesis
    using assms in_int64_version [OF assms(1)]
    by (simp add: reported_def ApplyDesiredStateReport_def Let_def settle_loop_fmmap storable_iff
        desired_state_report_text_ok_def desired_report_coerced_def)
qed

subsection \<open>Reports of commands\<close>

lemma getOrCreate_storable:
  assumes "storable s" "utf8 e" "getOrCreateDesiredState e s = (t, ds)"
  shows "storable t \<and> desired_state_text_ok ds"
proof -
  have "desired_state_text_ok (empty_desired_state e)"
    using assms(2) by (simp add: empty_desired_state_def desired_state_text_ok_def)
  then show ?thesis
    using assms storableD(5) [OF assms(1)]
    by (auto simp: getOrCreateDesiredState_def Let_def split: option.splits)
qed

lemma increment_storable:
  assumes "storable s" "utf8 e"
  shows "storable (incrementDesiredState e s)"
proof -
  obtain t ds where t: "getOrCreateDesiredState e s = (t, ds)" by fastforce
  show ?thesis
    using getOrCreate_storable [OF assms t] assms(2)
    by (simp add: incrementDesiredState_def t Let_def desired_state_text_ok_def storable_iff)
qed

lemma removeRoute_storable: "storable s \<Longrightarrow> storable (removeRoute e i s)"
  using storableD(5)
  by (auto simp: removeRoute_def desired_state_text_ok_def list_all_iff split: option.split)

lemma update_host_route_text_ok:
  assumes "update_host_route h u d rs = Some (rs', r)" "list_all route_text_ok rs" "utf8 u" "utf8 d"
  shows "list_all route_text_ok rs' \<and> route_text_ok r"
  using update_host_route_Some [OF assms(1)] assms(2-4) by (auto simp: route_text_ok_def)

lemma upsertRoute_storable:
  assumes "storable s" "list_all utf8 [e, h, p, u, d, hc]"
  shows "storable (fst (upsertRoute e h p u d hc s)) \<and> route_text_ok (snd (upsertRoute e h p u d hc s))"
proof (cases "\<exists>ds rs r. fmlookup (DesiredStates s) e = Some ds \<and>
    update_host_route h u d (ds_Routes ds) = Some (rs, r)")
  case True
  then obtain ds rs r where ds: "fmlookup (DesiredStates s) e = Some ds"
    "update_host_route h u d (ds_Routes ds) = Some (rs, r)" by blast
  then show ?thesis
    using assms storableD(5) [OF assms(1) ds(1)] update_host_route_text_ok [OF ds(2)]
    by (simp add: upsertRoute_def desired_state_text_ok_def)
next
  case False
  then have none: "(case fmlookup (DesiredStates s) e of None \<Rightarrow> None
      | Some ds \<Rightarrow> map_option (\<lambda>(rs, r). (ds\<lparr>ds_Routes := rs\<rparr>, r)) (update_host_route h u d (ds_Routes ds))) = None"
    by (cases "fmlookup (DesiredStates s) e")
      (simp, metis (no_types, lifting) option.simps(5) option.simps(8) option.exhaust surj_pair)
  let ?s = "s\<lparr>Counters := (Counters s)\<lparr>RouteCount := s64 (RouteCount (Counters s) + 1)\<rparr>\<rparr>"
  obtain t ds where t: "getOrCreateDesiredState e ?s = (t, ds)" by fastforce
  have "storable t \<and> desired_state_text_ok ds"
    using getOrCreate_storable [OF _ _ t] assms by simp
  then show ?thesis
    using assms by (simp add: upsertRoute_def none t Let_def desired_state_text_ok_def route_text_ok_def)
qed

lemma succeeded_storable:
  assumes "storable s" "ptr_ok json_text_ok res" "time_ok now"
  shows "storable (applySucceeded cmd k res now s)"
proof (cases "fmlookup (Deployments s) k")
  case None
  then show ?thesis using assms by (simp add: applySucceeded_def)
next
  case (Some d)
  note d = storableD(4) [OF assms(1) Some]
  have r: "result_text_ok (unmarshal_lax (dec_struct deploy_result_fields) zero_result res)"
    by (rule keeps_unmarshal [OF result_keeps _ assms(2)]) simp
  let ?r = "unmarshal_lax (dec_struct deploy_result_fields) zero_result res"
  let ?d = "d\<lparr>dep_RuntimePrivateIP := res_RuntimePrivateIP ?r, dep_HostPort := res_HostPort ?r,
      dep_Status := ''healthy'', dep_UpdatedAt := now\<rparr>"
  have "utf8 (buildUpstream (res_RuntimePrivateIP ?r) (res_HostPort ?r))"
    using r by (simp add: buildUpstream_def result_text_ok_def utf8_append)
  then have up: "list_all utf8 [dep_Environment ?d, dep_Host ?d, ''/'',
      buildUpstream (res_RuntimePrivateIP ?r) (res_HostPort ?r), k, dep_HealthCheckPath ?d]"
    using d by (simp add: deployment_text_ok_def)
  note pub = upsertRoute_storable [OF assms(1) up]
  show ?thesis
    using assms d r pub
    by (simp add: applySucceeded_def Some Let_def case_prod_beta increment_storable removeRoute_storable
        deployment_text_ok_def result_text_ok_def route_text_ok_def)
qed

definition report_text_ok :: "report_command_input \<Rightarrow> bool" where
  "report_text_ok i \<longleftrightarrow>
     list_all utf8 [rci_DeploymentID i, rci_Status i] \<and>
     ptr_ok json_text_ok (rci_Result i) \<and> ptr_ok report_error_text_ok (rci_Error i)"

lemma effective_dep_utf8: "report_text_ok i \<Longrightarrow> command_text_ok c \<Longrightarrow> utf8 (effective_dep i c)"
  by (simp add: effective_dep_def report_text_ok_def command_text_ok_def)

lemma close_command_storable:
  assumes "storable s" "report_text_ok i" "time_ok now" "fmlookup (Commands s) k = Some c"
  shows "storable (close_command k i c now s)"
proof -
  note c = storableD(3) [OF assms(1,4)]
  have "command_text_ok (c\<lparr>cmd_FinishedAt := Some now, cmd_Status := rci_Status i\<rparr>)"
    using c assms(2,3) by (simp add: command_text_ok_def ptr_ok_def report_text_ok_def)
  moreover have "utf8 (effective_dep i c)" using effective_dep_utf8 [OF assms(2)] c by blast
  ultimately show ?thesis
    using assms c
    by (simp add: close_command_def storable_iff command_report_text_ok_def report_text_ok_def report_coerced_def)
qed

lemma finished_storable:
  assumes "storable s" "report_text_ok i" "time_ok now" "time_ok now'"
  shows "storable (finished k i now now' s)"
proof (cases rule: finished_cases [of k i now now' s])
  case rejected
  then show ?thesis using assms(1) by simp
next
  case (succeeded c)
  have "storable (close_command k i c now s)"
    by (rule close_command_storable [OF assms(1-3) succeeded(1)])
  then show ?thesis
    unfolding succeeded(4)
    using assms(2,4) by (intro succeeded_storable) (simp_all add: report_text_ok_def)
next
  case (failed c)
  have close: "storable (close_command k i c now s)"
    by (rule close_command_storable [OF assms(1-3) failed(1)])
  have "deployment_text_ok (d\<lparr>dep_Status := ''failed'', dep_UpdatedAt := now\<rparr>)"
    if "fmlookup (Deployments (close_command k i c now s)) j = Some d" for j d
    using storableD(4) [OF close that] assms(3) by (simp add: deployment_text_ok_def)
  then show ?thesis
    unfolding failed(4)
    using close storableD(4) [OF close] by (auto simp: fail_deployment_def split: option.split)
qed

section \<open>Requests\<close>

text \<open>
  What is asked of a request: the clock shows a time of the years 1 to 9999 and the body is a
  document as the decoder sees it. Nothing is asked of the path and its parameters.
\<close>

definition text_ok :: "chance \<Rightarrow> request \<Rightarrow> bool" where
  "text_ok ch req \<longleftrightarrow>
     time_ok (mo_now (ch_moment ch)) \<and> time_ok (mo_later (ch_moment ch)) \<and>
     pred_option json_text_ok (rq_body req)"

definition input_ok :: "store \<Rightarrow> moment \<Rightarrow> request \<Rightarrow> bool" where
  "input_ok s mo req \<longleftrightarrow>
     storable s \<and> time_ok (mo_now mo) \<and> time_ok (mo_later mo) \<and>
     pred_option json_text_ok (rq_body req)"

lemma input_okD:
  assumes "input_ok s mo req"
  shows "storable s" "time_ok (mo_now mo)" "time_ok (mo_later mo)"
    "pred_option json_text_ok (rq_body req)"
  using assms by (simp_all add: input_ok_def)

lemma handleRegisterAgent_storable:
  assumes ok: "input_ok s mo req"
  shows "storable (fst (snd (handleRegisterAgent mo req w s)))"
proof (cases "decode req (dec_struct register_fields) zero_register_request")
  case (Some r)
  have "register_text_ok r" by (rule keeps_decode [OF register_keeps _ input_okD(4) [OF ok] Some]) simp
  then have "storable (fst (RegisterAgent r (mo_now mo) s))"
    using registered_storable [OF input_okD(1) [OF ok] _ input_okD(2) [OF ok]] by (simp add: registered_def)
  then show ?thesis using input_okD(1) [OF ok] by (simp add: handleRegisterAgent_def Some case_prod_beta split: sum.split)
qed (use input_okD(1) [OF ok] in \<open>simp add: handleRegisterAgent_def\<close>)

lemma handleHeartbeat_storable:
  assumes ok: "input_ok s mo req"
  shows "storable (snd (handleHeartbeat mo req w s))"
proof -
  have "ptr_ok json_text_ok raw" if "decode req dec_raw None = Some raw" for raw
    by (rule keeps_decode [OF keeps_raw _ input_okD(4) [OF ok] that]) (simp add: ptr_ok_def)
  then show ?thesis
    using input_okD(1-3) [OF ok] by (auto simp: handleHeartbeat_store split: option.split intro: beaten_storable)
qed

lemma handleClaimCommand_storable:
  assumes ok: "input_ok s mo req"
  shows "storable (snd (handleClaimCommand mo req w s))"
  unfolding handleClaimCommand_store by (rule claimed_storable [OF input_okD(1) [OF ok] input_okD(2) [OF ok]])

lemma handleStartCommand_storable:
  assumes ok: "input_ok s mo req"
  shows "storable (snd (handleStartCommand mo req w s))"
  unfolding handleStartCommand_store by (rule started_storable [OF input_okD(1) [OF ok] input_okD(2) [OF ok]])

lemma handleReportCommand_storable:
  assumes ok: "input_ok s mo req"
  shows "storable (snd (handleReportCommand mo req w s))"
proof (cases "decode req (dec_struct command_report_request_fields) zero_command_report_request")
  case (Some r)
  have "command_report_request_text_ok r" by (rule keeps_decode [OF command_report_keeps _ input_okD(4) [OF ok] Some]) simp
  then have "report_text_ok (command_report_input (URLParam req ''agentID'') r)"
    by (simp add: report_text_ok_def command_report_input_def command_report_request_text_ok_def)
  from finished_storable [OF input_okD(1) [OF ok] this input_okD(2,3) [OF ok]] show ?thesis by (simp add: handleReportCommand_store Some)
qed (use input_okD(1) [OF ok] in \<open>simp add: handleReportCommand_store\<close>)

lemma handleDesiredStateReport_storable:
  assumes ok: "input_ok s mo req" and "iter_order (mo_deployments mo) (Deployments s)"
  shows "storable (snd (handleDesiredStateReport mo req w s))"
proof (cases "decode req (dec_struct desired_report_request_fields) zero_desired_report_request")
  case (Some r)
  have "desired_report_request_text_ok r" by (rule keeps_decode [OF desired_report_keeps _ input_okD(4) [OF ok] Some]) simp
  then show ?thesis
    using assms(2) input_okD(1-3) [OF ok]
    by (simp add: handleDesiredStateReport_store Some reported_storable desired_report_input_def
        desired_report_request_text_ok_def)
qed (use input_okD(1) [OF ok] in \<open>simp add: handleDesiredStateReport_store\<close>)

lemma agent_id_utf8:
  assumes ok: "input_ok s mo req"
  shows "FindAgentByEnvironmentRole ord e r s = Some a \<Longrightarrow> utf8 (ag_ID a)"
proof -
  assume "FindAgentByEnvironmentRole ord e r s = Some a"
  then have "a \<in> set (range_values ord (Agents s))"
    by (auto simp: FindAgentByEnvironmentRole_def find_Some_iff)
  then obtain k where "fmlookup (Agents s) k = Some a" by (auto simp: set_range_values)
  then show ?thesis using storableD(1) [OF input_okD(1) [OF ok]] by (auto simp: agent_text_ok_def)
qed

lemma handleTestingDeploy_storable:
  assumes ok: "input_ok s mo req" and "utf8 (cfg_Environment cfg)"
  shows "storable (snd (handleTestingDeploy cfg mo req w s))"
proof (cases "decode req (dec_struct deploy_request_fields) zero_deploy_request")
  case (Some r)
  have "deploy_request_text_ok r" by (rule keeps_decode [OF deploy_keeps _ input_okD(4) [OF ok] Some]) simp
  then have "deploy_text_ok (deploy_input_for cfg r (ag_ID a))" if "utf8 (ag_ID a)" for a
    using assms(2) that
    by (simp add: deploy_text_ok_def deploy_input_for_def deploy_request_text_ok_def timeoutDeploy_def
        in_int64_def min_int_def max_int_def)
  then have "storable (fst (InitDeploy [] (deploy_input_for cfg r (ag_ID a)) (mo_now mo) s))"
    if "FindAgentByEnvironmentRole ord e role s = Some a" for ord e role a
    using deployed_storable [OF input_okD(1) [OF ok] _ input_okD(2) [OF ok]] agent_id_utf8 [OF ok that]
    unfolding deployed_def by blast
  then show ?thesis
    using input_okD(1) [OF ok]
    by (auto simp: handleTestingDeploy_cases Some Let_def split: option.split)
qed (use input_okD(1) [OF ok] in \<open>simp add: handleTestingDeploy_cases\<close>)

lemma deployment_ids_utf8:
  assumes ok: "input_ok s mo req"
  shows "GetDeployment k s = Some d \<Longrightarrow> utf8 k \<and> utf8 (dep_TargetAgentID d)"
  using storableD(4) [OF input_okD(1) [OF ok]] by (auto simp: GetDeployment_def deployment_text_ok_def)

lemma CreateCommand_storable:
  assumes ok: "input_ok s mo req"
  shows "list_all utf8 [cc_Type i, cc_DeploymentID i, cc_TargetAgentID i] \<Longrightarrow> in_int64 (cc_TimeoutSeconds i) \<Longrightarrow>
   storable (fst (CreateCommand i (mo_now mo) s))"
  using created_storable [OF input_okD(1) [OF ok] _ _ input_okD(2) [OF ok]] by (simp add: created_def)

lemma timeouts_int64 [simp]: "in_int64 timeoutStop" "in_int64 timeoutRemove" "in_int64 timeoutCleanup"
  by (simp_all add: timeoutStop_def timeoutRemove_def timeoutCleanup_def in_int64_def min_int_def max_int_def)

lemma handleTestingStop_storable:
  assumes ok: "input_ok s mo req"
  shows "storable (snd (handleTestingStop mo req w s))"
proof (cases "decode req (dec_struct stop_request_fields) zero_stop_request")
  case (Some r)
  have "stop_request_text_ok r" by (rule keeps_decode [OF stop_keeps _ input_okD(4) [OF ok] Some]) simp
  then show ?thesis
    using input_okD(1) [OF ok] deployment_ids_utf8 [OF ok]
    by (auto simp: handleTestingStop_def Some Let_def case_prod_beta stop_request_text_ok_def
        intro!: CreateCommand_storable [OF ok] split: option.split)
qed (use input_okD(1) [OF ok] in \<open>simp add: handleTestingStop_def\<close>)

lemma handleTestingRemove_storable:
  assumes ok: "input_ok s mo req"
  shows "storable (snd (handleTestingRemove mo req w s))"
proof (cases "decode req (dec_struct remove_request_fields) zero_remove_request")
  case (Some r)
  have "remove_request_text_ok r" by (rule keeps_decode [OF remove_keeps _ input_okD(4) [OF ok] Some]) simp
  then show ?thesis
    using input_okD(1) [OF ok] deployment_ids_utf8 [OF ok]
    by (auto simp: handleTestingRemove_def Some Let_def case_prod_beta remove_request_text_ok_def
        intro!: CreateCommand_storable [OF ok] split: option.split)
qed (use input_okD(1) [OF ok] in \<open>simp add: handleTestingRemove_def\<close>)

lemma handleTestingCleanupDraining_storable:
  assumes ok: "input_ok s mo req"
  shows "storable (snd (handleTestingCleanupDraining cfg mo req w s))"
  using input_okD(1) [OF ok] agent_id_utf8 [OF ok]
  by (auto simp: handleTestingCleanupDraining_def Let_def case_prod_beta
      intro!: CreateCommand_storable [OF ok] split: option.split)

lemmas handlers_storable = handleHeartbeat_storable handleClaimCommand_storable handleStartCommand_storable
  handleReportCommand_storable handleDesiredStateReport_storable handleTestingDeploy_storable
  handleTestingStop_storable handleTestingRemove_storable handleTestingCleanupDraining_storable

section \<open>The server\<close>

lemma Reset_storable: "storable (Reset s)"
  by (simp add: Reset_New storable_New)

lemma endpoint_storable:
  assumes "storable (wd_store wd)" and "moment_ok (ch_moment ch) (wd_store wd)"
    and "text_ok ch req" and "utf8 (cfg_Environment cfg)"
  shows "storable (wd_store (fst (snd (serve_endpoint cfg ch ep req w wd))))"
proof (cases "reader ep")
  case True
  then show ?thesis using assms(1) by (simp add: reader_world)
next
  case False
  have ok: "input_ok (wd_store wd) (ch_moment ch) req"
    using assms(1,3) by (simp add: input_ok_def text_ok_def)
  have ord: "iter_order (mo_deployments (ch_moment ch)) (Deployments (wd_store wd))"
    using assms(2) by (simp add: moment_ok_def)
  note h = handlers_storable [OF ok] ord assms(4) handleRegisterAgent_storable [OF ok] Reset_storable
  show ?thesis
    using False
    by (cases ep) (simp_all add: serve_endpoint_def reader_def Let_def on_store_world h
        serve_register_def serve_reset_def handleTestingReset_def case_prod_beta)
qed

text \<open>The text of a request that reaches a handler; one that does not changes nothing.\<close>

definition request_text_ok :: "chi \<Rightarrow> config \<Rightarrow> chance \<Rightarrow> request \<Rightarrow> bool" where
  "request_text_ok chi cfg ch req \<longleftrightarrow>
     (case routed chi cfg req of Reaches ep ps \<Rightarrow> text_ok ch req | _ \<Rightarrow> True)"

lemma serve_storable:
  assumes "chi_sound chi" and "utf8 (cfg_Environment cfg)" and "storable (wd_store wd)"
    and "moment_ok (ch_moment ch) (wd_store wd)" and "request_text_ok chi cfg ch req"
  shows "storable (wd_store (snd (serve chi cfg ch req wd)))"
proof (cases "\<exists>ep ps. routed chi cfg req = Reaches ep ps \<and> rq_method req \<noteq> ''OPTIONS''")
  case True
  then obtain ep ps where r: "routed chi cfg req = Reaches ep ps" "rq_method req \<noteq> ''OPTIONS''" by blast
  have "text_ok ch (req\<lparr>rq_params := ps\<rparr>)"
    using assms(5) r(1) by (simp add: request_text_ok_def text_ok_def)
  then show ?thesis
    using endpoint_storable [OF assms(3,4) _ assms(2), of "req\<lparr>rq_params := ps\<rparr>"]
    by (simp add: serve_reaches [OF assms(1) r])
next
  case False
  then show ?thesis using serve_stopped(1) [OF assms(1) False] assms(3) by simp
qed

end
