(* ===== verification/System.thy ===== *)
theory System
  imports Restart Savable Api_Properties
begin

text \<open>
  The whole program over time: \<open>main\<close> with its server, its save loop and its state file, from
  one start to the next. A step is a start, a request, a signal, a step of a save or the end of
  the process. Two savers share the temporary file: the loop and, after the signal, the final
  save of \<open>main\<close>, which does not wait for the loop. What is shown: unless the two write at the
  same time, the next start finds a store that is well formed and that was the store of the
  program before, or none; and it finds none only for one of three reasons.
\<close>

section \<open>The program\<close>

text \<open>
  How far a save has come: \<open>Save\<close> step by step. A saver that has the temporary file open knows
  its inode and whether the other one had the same inode open at the same time; if so, the bytes
  of the two may end up in the file in any mixture.
\<close>

datatype saving = Idle | Taken snapshot | Opened snapshot nat bool | Written snapshot

text \<open>The savers are that of the loop, \<open>False\<close>, and that of \<open>main\<close>, \<open>True\<close>.\<close>

record system =
  sy_store :: "store option"
  sy_stopping :: bool
  sy_savers :: "bool \<Rightarrow> saving"
  sy_files :: fs

definition sys_off :: "fs \<Rightarrow> system" where
  "sys_off f = \<lparr>sy_store = None, sy_stopping = False, sy_savers = (\<lambda>_. Idle), sy_files = f\<rparr>"

definition sys_running :: "store \<Rightarrow> fs \<Rightarrow> system" where
  "sys_running s f = \<lparr>sy_store = Some s, sy_stopping = False, sy_savers = (\<lambda>_. Idle), sy_files = f\<rparr>"

definition sys_init :: system where
  "sys_init = sys_off fs_empty"

fun has_open :: "nat \<Rightarrow> saving \<Rightarrow> bool" where
  "has_open i (Opened snap j d) = (i = j)"
| "has_open i v = False"

fun disturbed :: "saving \<Rightarrow> saving" where
  "disturbed (Opened snap j d) = Opened snap j True"
| "disturbed v = v"

definition saver_opens :: "bool \<Rightarrow> snapshot \<Rightarrow> nat \<Rightarrow> (bool \<Rightarrow> saving) \<Rightarrow> bool \<Rightarrow> saving" where
  "saver_opens b snap i v =
     (if has_open i (v (\<not> b)) then (\<lambda>_. disturbed (v (\<not> b)))(b := Opened snap i True)
      else v(b := Opened snap i False))"

text \<open>The end of a save: the loop waits for the next tick, \<open>main\<close> returns and so ends the process.\<close>

definition saver_ends :: "bool \<Rightarrow> system \<Rightarrow> system" where
  "saver_ends b y =
     (if b then sys_off (sy_files y) else y\<lparr>sy_savers := (sy_savers y)(b := Idle)\<rparr>)"

text \<open>
  After the signal the loop may still find a tick and save, and requests that are served longer
  than the shutdown waits still go on. A save may fail at any point; a process may be killed at
  any point, and \<open>main\<close> returns when there is no state file.
\<close>

inductive sys_step :: "chi \<Rightarrow> config \<Rightarrow> system \<Rightarrow> system \<Rightarrow> bool" for chi :: chi and cfg :: config where
  sys_start: "sys_step chi cfg (sys_off f)
     (sys_running (boot (cfg_StateFile cfg) (os_ReadFile fails f (cfg_StateFile cfg))) f)"
| sys_request: "sy_store y = Some s \<Longrightarrow> moment_ok (ch_moment ch) s \<Longrightarrow> request_text_ok chi cfg ch req \<Longrightarrow>
     serve chi cfg ch req \<lparr>wd_store = s, wd_files = sy_files y\<rparr> = (w, \<lparr>wd_store = t, wd_files = g\<rparr>) \<Longrightarrow>
     sys_step chi cfg y (y\<lparr>sy_store := Some t, sy_files := g\<rparr>)"
| sys_signal: "sy_store y = Some s \<Longrightarrow> sys_step chi cfg y (y\<lparr>sy_stopping := True\<rparr>)"
| sys_take: "cfg_StateFile cfg \<noteq> '''' \<Longrightarrow> sy_store y = Some s \<Longrightarrow> b \<longrightarrow> sy_stopping y \<Longrightarrow>
     sy_savers y b = Idle \<Longrightarrow> loop_orders_ok os s \<Longrightarrow>
     sys_step chi cfg y (y\<lparr>sy_savers := (sy_savers y)(b := Taken (take_Snapshot os s))\<rparr>)"
| sys_open: "sy_savers y b = Taken snap \<Longrightarrow> fs_open (tmp_name (cfg_StateFile cfg)) (sy_files y) = (g, i) \<Longrightarrow>
     sys_step chi cfg y (y\<lparr>sy_savers := saver_opens b snap i (sy_savers y), sy_files := g\<rparr>)"
| sys_write_part: "sy_savers y b = Opened snap i d \<Longrightarrow> d \<or> c = None \<Longrightarrow>
     sys_step chi cfg y (y\<lparr>sy_files := fs_write i c (sy_files y)\<rparr>)"
| sys_write: "sy_savers y b = Opened snap i d \<Longrightarrow> d \<or> c = Some (enc_snapshot snap) \<Longrightarrow>
     sys_step chi cfg y (y\<lparr>sy_savers := (sy_savers y)(b := Written snap), sy_files := fs_write i c (sy_files y)\<rparr>)"
| sys_rename: "sy_savers y b = Written snap \<Longrightarrow>
     fs_rename (tmp_name (cfg_StateFile cfg)) (cfg_StateFile cfg) (sy_files y) = Some g \<Longrightarrow>
     sys_step chi cfg y (saver_ends b (y\<lparr>sy_files := g\<rparr>))"
| sys_save_fails: "sy_savers y b \<noteq> Idle \<Longrightarrow> sys_step chi cfg y (saver_ends b y)"
| sys_kill: "sy_store y = Some s \<Longrightarrow> sys_step chi cfg y (sys_off (sy_files y))"

inductive_cases sys_stepE: "sys_step chi cfg y z"

lemma sys_selects [simp]:
  "sy_store (sys_off f) = None" "sy_savers (sys_off f) = (\<lambda>_. Idle)" "sy_files (sys_off f) = f"
  "sy_stopping (sys_off f) = False" "sy_store (sys_running s f) = Some s"
  "sy_savers (sys_running s f) = (\<lambda>_. Idle)" "sy_files (sys_running s f) = f"
  "sy_files (saver_ends b y) = sy_files y"
  "sy_savers (saver_ends b y) = (if b then (\<lambda>_. Idle) else (sy_savers y)(b := Idle))"
  "sy_store (saver_ends b y) = (if b then None else sy_store y)"
  by (simp_all add: sys_off_def sys_running_def saver_ends_def)

text \<open>
  Two savers that write at once, and two that are both between the opening of the temporary file
  and its renaming.
\<close>

fun writing :: "saving \<Rightarrow> bool" where
  "writing (Opened snap i d) = True"
| "writing v = False"

fun saving_begun :: "saving \<Rightarrow> bool" where
  "saving_begun (Opened snap i d) = True"
| "saving_begun (Written snap) = True"
| "saving_begun v = False"

definition mixing :: "system \<Rightarrow> bool" where
  "mixing y \<longleftrightarrow> writing (sy_savers y False) \<and> writing (sy_savers y True)"

definition overlapping :: "system \<Rightarrow> bool" where
  "overlapping y \<longleftrightarrow> saving_begun (sy_savers y False) \<and> saving_begun (sy_savers y True)"

definition unmixed_step :: "chi \<Rightarrow> config \<Rightarrow> system \<Rightarrow> system \<Rightarrow> bool" where
  "unmixed_step chi cfg y z \<longleftrightarrow> sys_step chi cfg y z \<and> \<not> mixing z"

definition calm_step :: "chi \<Rightarrow> config \<Rightarrow> system \<Rightarrow> system \<Rightarrow> bool" where
  "calm_step chi cfg y z \<longleftrightarrow> sys_step chi cfg y z \<and> \<not> overlapping z"

section \<open>The store a restart finds is well formed\<close>

lemma numbered_fmmap [simp]: "numbered mk c (fmmap f m) = numbered mk c m"
  by (auto simp: numbered_def)

lemma key_of_agent_read [simp]: "key_of_agent (agent_read a) = key_of_agent a"
  by (simp add: key_of_agent_def agent_read_def)

lemma command_ok_read [simp]: "command_ok (command_read c) = command_ok c"
proof -
  have "has_phase p (command_read c) = has_phase p c" "phase_fields p (command_read c) = phase_fields p c" for p
    by (cases p; simp add: has_phase_def command_read_def)+
  then show ?thesis by (simp add: command_ok_def)
qed

lemma agents_ok_read: "agents_ok s \<Longrightarrow> agents_ok (store_read s)"
  unfolding agents_ok_def agent_ok_def role_count_def by (simp, fastforce)

lemma reports_ok_read:
  assumes "reports_ok s"
  shows "reports_ok (store_read s)"
proof -
  have "count_reports k (store_read s) = reports_expected k (store_read s)" for k
    using assms by (simp add: reports_ok_def count_reports_def reports_expected_def split: option.split)
  moreover have "\<exists>c. fmlookup (Commands (store_read s)) (cr_CommandID r) = Some c \<and>
      cmd_Status c = cr_Status r \<and> cmd_FinishedAt c = Some (cr_ReceivedAt r)"
    if r: "r \<in> set (CommandReports s)" for r
  proof -
    obtain c where "fmlookup (Commands s) (cr_CommandID r) = Some c" "cmd_Status c = cr_Status r"
      "cmd_FinishedAt c = Some (cr_ReceivedAt r)"
      using assms r unfolding reports_ok_def by blast
    then show ?thesis by (intro exI [of _ "command_read c"]) (simp add: command_read_def)
  qed
  ultimately show ?thesis by (simp add: reports_ok_def)
qed

lemma store_ok_read:
  assumes "store_ok s"
  shows "store_ok (store_read s)"
proof -
  note parts = store_okD [OF assms]
  have obs: "routes_of (store_read s) = routes_of s" "route_sigs (store_read s) = route_sigs s"
    "current_version e (store_read s) = current_version e s" for e
    by (simp_all add: fun_eq_iff routes_of_def route_sigs_def current_version_def)
  have "routes_ok (store_read s)" "routes_versioned (store_read s)" "routes_served (store_read s)"
    using parts(2,6,7) by (simp_all add: routes_ok_def routes_versioned_def routes_served_def route_served_def obs)
  moreover have "commands_ok (store_read s)"
    using parts(3) by (auto simp: commands_ok_def)
  moreover have "reports_ok (store_read s)"
    using parts(4) by (rule reports_ok_read)
  moreover have "made_by (store_read s) k d (command_read c)" if "made_by s k d c" for k d c
    using that by (simp add: made_by_def)
  then have "deployments_ok (store_read s)"
    using parts(5) unfolding deployments_ok_def deployment_ok_def by (simp, blast)
  ultimately show ?thesis
    using agents_ok_read [OF parts(1)] by (simp add: store_ok_def)
qed

lemma counters_within_read [simp]: "counters_within n (store_read s) = counters_within n s"
  by (simp add: counters_within_def role_count_def current_version_def)

lemma savable_read: "savable s \<Longrightarrow> savable (store_read s)"
  by (auto simp: savable_def map_ok_def agent_text_ok_def command_text_ok_def agent_read_def command_read_def)

text \<open>The reports with their strings replaced are reports of the same commands.\<close>

lemma coerced_fields [simp]:
  "cr_CommandID (report_coerced r) = cr_CommandID r" "cr_Status (report_coerced r) = cr_Status r"
  "cr_ReceivedAt (report_coerced r) = cr_ReceivedAt r"
  by (simp_all add: report_coerced_def)

lemma store_ok_coerced:
  assumes "store_ok s"
  shows "store_ok (coerced s)"
proof -
  note parts = store_okD [OF assms]
  have obs: "routes_of (coerced s) = routes_of s" "route_sigs (coerced s) = route_sigs s"
    "current_version e (coerced s) = current_version e s" for e
    by (simp_all add: fun_eq_iff routes_of_def route_sigs_def current_version_def)
  have "count_reports k (coerced s) = reports_expected k (coerced s)" for k
    using parts(4) by (simp add: reports_ok_def count_reports_def reports_expected_def comp_def filter_map)
  then have "reports_ok (coerced s)"
    using parts(4) by (fastforce simp: reports_ok_def)
  moreover have "agents_ok (coerced s)" "commands_ok (coerced s)" "deployments_ok (coerced s)"
    using parts(1,3,5)
    by (simp_all add: agents_ok_def agent_ok_def role_count_def commands_ok_def deployments_ok_def
        deployment_ok_def made_by_def)
  moreover have "routes_ok (coerced s)" "routes_versioned (coerced s)" "routes_served (coerced s)"
    using parts(2,6,7) by (simp_all add: routes_ok_def routes_versioned_def routes_served_def route_served_def obs)
  ultimately show ?thesis by (simp add: store_ok_def)
qed

lemma counters_within_coerced [simp]: "counters_within n (coerced s) = counters_within n s"
  by (simp add: counters_within_def role_count_def current_version_def)


section \<open>The files\<close>

text \<open>
  The documents in the state file and in the temporary file, and those the savers hold, are
  snapshots with a property \<open>Q\<close>; a file may be missing or torn.
\<close>

definition doc_ok :: "(snapshot \<Rightarrow> bool) \<Rightarrow> json option option \<Rightarrow> bool" where
  "doc_ok Q c \<longleftrightarrow> c = None \<or> c = Some None \<or> (\<exists>snap. Q snap \<and> c = Some (Some (enc_snapshot snap)))"

fun saving_snap :: "saving \<Rightarrow> snapshot option" where
  "saving_snap Idle = None"
| "saving_snap (Taken snap) = Some snap"
| "saving_snap (Opened snap i d) = Some snap"
| "saving_snap (Written snap) = Some snap"

definition docs_ok :: "(snapshot \<Rightarrow> bool) \<Rightarrow> string \<Rightarrow> system \<Rightarrow> bool" where
  "docs_ok Q path y \<longleftrightarrow> (\<forall>b. pred_option Q (saving_snap (sy_savers y b))) \<and>
     doc_ok Q (fs_content (sy_files y) path) \<and> doc_ok Q (fs_content (sy_files y) (tmp_name path))"

definition undisturbed :: "system \<Rightarrow> bool" where
  "undisturbed y \<longleftrightarrow> \<not> mixing y \<and> (\<forall>b snap i d. sy_savers y b = Opened snap i d \<longrightarrow> \<not> d)"

lemma doc_ok_simps [simp]:
  "doc_ok Q None" "doc_ok Q (Some None)" "Q snap \<Longrightarrow> doc_ok Q (Some (Some (enc_snapshot snap)))"
  by (auto simp: doc_ok_def)

lemma doc_ok_mono: "doc_ok P c \<Longrightarrow> (\<And>snap. P snap \<Longrightarrow> Q snap) \<Longrightarrow> doc_ok Q c"
  by (auto simp: doc_ok_def)

lemma docs_ok_mono: "docs_ok P path y \<Longrightarrow> (\<And>snap. P snap \<Longrightarrow> Q snap) \<Longrightarrow> docs_ok Q path y"
  unfolding docs_ok_def using doc_ok_mono [of P _ Q] by (metis option.pred_mono_strong)

lemma contents_after:
  "fs_open p f = (g, i) \<Longrightarrow> fs_content g q = fs_content f q \<or> fs_content g q = Some None"
  "fs_content (fs_write i c f) q = fs_content f q \<or> fs_content (fs_write i c f) q = Some c"
  "fs_rename p q f = Some h \<Longrightarrow> p \<noteq> q \<Longrightarrow>
     fs_content h r = (if r = q then fs_content f p else if r = p then None else fs_content f r)"
  "fs_content (fs_remove p f) q = (if q = p then None else fs_content f q)"
proof -
  show "fs_open p f = (g, i) \<Longrightarrow> fs_content g q = fs_content f q \<or> fs_content g q = Some None"
    by (cases "fmlookup (fs_names f) q") (auto simp: fs_open_def fs_content_def split: option.splits if_split_asm)
  show "fs_content (fs_write i c f) q = fs_content f q \<or> fs_content (fs_write i c f) q = Some c"
    by (cases "fmlookup (fs_names f) q") (auto simp: fs_content_def fs_write_def)
qed (auto simp: fs_content_def fs_rename_def fs_remove_def split: option.splits)

lemma saver_opens_cases:
  "saver_opens b snap i v c = (if c = b then Opened snap i (has_open i (v (\<not> b)))
     else if has_open i (v c) then disturbed (v c) else v c)"
  by (cases b; cases c) (simp_all add: saver_opens_def)

lemma disturbed_simps [simp]:
  "saving_snap (disturbed v) = saving_snap v" "writing (disturbed v) = writing v"
  "saving_begun (disturbed v) = saving_begun v"
  by (cases v; simp)+

lemma has_open_writing: "has_open i v \<Longrightarrow> writing v"
  by (cases v) simp_all

lemma writing_begun: "writing v \<Longrightarrow> saving_begun v"
  by (cases v) simp_all

lemma calm_unmixed: "calm_step chi cfg y z \<Longrightarrow> unmixed_step chi cfg y z"
  using writing_begun by (auto simp: calm_step_def unmixed_step_def mixing_def overlapping_def)

lemma mixing_other: "mixing y = (writing (sy_savers y b) \<and> writing (sy_savers y (\<not> b)))"
  by (cases b) (auto simp: mixing_def)

lemma overlapping_other: "overlapping y = (saving_begun (sy_savers y b) \<and> saving_begun (sy_savers y (\<not> b)))"
  by (cases b) (auto simp: overlapping_def)

lemma request_files:
  assumes "chi_sound chi"
  shows "wd_files (snd (serve chi cfg ch req wd)) = wd_files wd \<or>
    wd_files (snd (serve chi cfg ch req wd)) = fs_remove (cfg_StateFile cfg) (wd_files wd)"
proof (cases "\<exists>ep ps. routed chi cfg req = Reaches ep ps \<and> rq_method req \<noteq> ''OPTIONS''")
  case True
  then obtain ep ps where r: "routed chi cfg req = Reaches ep ps" "rq_method req \<noteq> ''OPTIONS''" by blast
  show ?thesis
    by (cases ep) (simp_all add: serve_reaches [OF assms r] serve_endpoint_def Let_def on_store_world
        serve_register_def serve_reset_def handleTestingReset_def handleHealth_def case_prod_beta)
next
  case False
  then show ?thesis using serve_stopped(1) [OF assms False] by simp
qed

text \<open>No step without two savers writing at once disturbs a saver.\<close>

lemma undisturbed_step:
  assumes "unmixed_step chi cfg y z" and "undisturbed y"
  shows "undisturbed z"
proof -
  have z: "sys_step chi cfg y z" "\<not> mixing z" using assms(1) by (simp_all add: unmixed_step_def)
  from z(1) have "\<not> d" if "sy_savers z c = Opened snap i d" for c snap i d
  proof cases
    case (sys_open b snap' g j)
    have "\<not> has_open j (sy_savers y (\<not> b))"
      using z(2) [unfolded mixing_other [of z b]] has_open_writing [of j "sy_savers y (\<not> b)"] sys_open(1)
      by (auto simp: saver_opens_cases)
    then have v: "sy_savers z c = (if c = b then Opened snap' j False else sy_savers y c)"
      using sys_open(1) by (cases b; cases c) (auto simp: saver_opens_cases)
    show ?thesis
      using that assms(2) unfolding v undisturbed_def by (cases "c = b") auto
  qed (use that assms(2) in \<open>auto simp: undisturbed_def split: if_splits\<close>)
  with z(2) show ?thesis unfolding undisturbed_def by blast
qed

lemma docs_step:
  assumes "unmixed_step chi cfg y z" and "chi_sound chi" and "undisturbed y" and "docs_ok Q (cfg_StateFile cfg) y"
    and new: "\<And>s os. sy_store y = Some s \<Longrightarrow> loop_orders_ok os s \<Longrightarrow> Q (take_Snapshot os s)"
  shows "docs_ok Q (cfg_StateFile cfg) z"
proof -
  let ?p = "cfg_StateFile cfg"
  have z: "sys_step chi cfg y z" using assms(1) by (simp add: unmixed_step_def)
  note y = assms(4) [unfolded docs_ok_def]
  from z show ?thesis
  proof cases
    case (sys_request s ch req w t g)
    have "g = sy_files y \<or> g = fs_remove ?p (sy_files y)"
      using request_files [OF assms(2), of cfg ch req "\<lparr>wd_store = s, wd_files = sy_files y\<rparr>"] sys_request(5) by simp
    then show ?thesis using y sys_request(1) by (auto simp: docs_ok_def contents_after(4))
  next
    case (sys_take s b os)
    then show ?thesis using y new by (auto simp: docs_ok_def)
  next
    case (sys_open b snap g i)
    have "doc_ok Q (fs_content g q)" if "doc_ok Q (fs_content (sy_files y) q)" for q
      using contents_after(1) [OF sys_open(3), of q] that by (elim disjE) simp_all
    moreover have "pred_option Q (saving_snap (saver_opens b snap i (sy_savers y) c))" for c
      using y sys_open(2) by (auto simp: saver_opens_cases dest: spec [of _ b])
    ultimately show ?thesis using y sys_open(1) by (simp add: docs_ok_def)
  next
    case (sys_write_part b snap i d c)
    then have "c = None" using assms(3) by (auto simp: undisturbed_def)
    then have "doc_ok Q (fs_content (fs_write i c (sy_files y)) q)" if "doc_ok Q (fs_content (sy_files y) q)" for q
      using contents_after(2) [of i c "sy_files y" q] that by (elim disjE) simp_all
    then show ?thesis using y sys_write_part(1) by (simp add: docs_ok_def)
  next
    case (sys_write b snap i d c)
    have "c = Some (enc_snapshot snap)" using assms(3) sys_write(2,3) by (auto simp: undisturbed_def)
    moreover have "Q snap" using y sys_write(2) by (metis option.pred_inject(2) saving_snap.simps(3))
    ultimately have "doc_ok Q (fs_content (fs_write i c (sy_files y)) q)" if "doc_ok Q (fs_content (sy_files y) q)" for q
      using contents_after(2) [of i c "sy_files y" q] that by (elim disjE) simp_all
    then show ?thesis using y sys_write(1) \<open>Q snap\<close> by (simp add: docs_ok_def)
  next
    case (sys_rename b snap g)
    then show ?thesis using y by (auto simp: docs_ok_def contents_after(3) [OF sys_rename(3)])
  next
    case (sys_save_fails b)
    then show ?thesis using y by (auto simp: docs_ok_def)
  qed (use y in \<open>simp_all add: docs_ok_def\<close>)
qed

section \<open>The stores\<close>

text \<open>A store after at most \<open>n\<close> operations, and a snapshot of one.\<close>

definition state_ok :: "int \<Rightarrow> store \<Rightarrow> bool" where
  "state_ok n s \<longleftrightarrow> store_ok s \<and> counters_within n s \<and> storable s"

definition snap_ok :: "int \<Rightarrow> snapshot \<Rightarrow> bool" where
  "snap_ok n snap \<longleftrightarrow> (\<exists>s os. state_ok n s \<and> loop_orders_ok os s \<and> snap = take_Snapshot os s)"

definition stores_ok :: "string \<Rightarrow> int \<Rightarrow> system \<Rightarrow> bool" where
  "stores_ok path n y \<longleftrightarrow> pred_option (state_ok n) (sy_store y) \<and> docs_ok (snap_ok n) path y"

lemma state_ok_mono: "state_ok m s \<Longrightarrow> m \<le> n \<Longrightarrow> state_ok n s"
  using counters_within_mono by (auto simp: state_ok_def)

lemma snap_ok_mono: "snap_ok m s \<Longrightarrow> m \<le> n \<Longrightarrow> snap_ok n s"
  using state_ok_mono unfolding snap_ok_def by blast

lemma state_ok_New: "0 \<le> n \<Longrightarrow> state_ok n store_New"
  using counters_within_mono [OF counters_within_New] by (simp add: state_ok_def store_ok_New storable_New)

lemma snap_okI: "state_ok n s \<Longrightarrow> loop_orders_ok os s \<Longrightarrow> snap_ok n (take_Snapshot os s)"
  unfolding snap_ok_def by blast

text \<open>What the start makes of the state file.\<close>

definition store_back :: "store \<Rightarrow> store" where
  "store_back s = store_read (coerced s)"

lemma store_back_savable: "savable s \<Longrightarrow> store_back s = store_read s"
  by (simp add: store_back_def coerced_savable)

lemma boot_snapshot:
  assumes "storable s" and "loop_orders_ok os s" and "path \<noteq> ''''"
  shows "boot path (ReadData (Some (enc_snapshot (take_Snapshot os s)))) = store_back s"
proof -
  have os: "loop_orders_ok os (coerced s)" using assms(2) by simp
  have "snapshot_ok (take_Snapshot os (coerced s))"
    using savable_snapshot [OF os] assms(1) by (simp add: storable_def)
  moreover have "sn_SchemaVersion (snapshot_read (take_Snapshot os (coerced s))) = SchemaVersion"
    by (simp add: snapshot_read_def)
  ultimately show ?thesis
    using assms(3) Load_saved [of "take_Snapshot os (coerced s)"]
    by (simp add: boot_def restore_read [OF os] store_back_def snapshot_coerced)
qed

lemma state_ok_back: "state_ok n s \<Longrightarrow> state_ok n (store_back s)"
  using store_ok_read [OF store_ok_coerced] savable_storable [OF savable_read]
  by (simp add: state_ok_def store_back_def storable_def)

text \<open>The three reasons to start empty, and the one to start with something else.\<close>

lemma boot_cases:
  assumes "doc_ok Q (fs_content f path)"
  obtains "boot path (os_ReadFile fails f path) = store_New"
      "fails \<or> path = '''' \<or> fs_content f path = None \<or> fs_content f path = Some None"
    | snap where "Q snap" "path \<noteq> ''''" "os_ReadFile fails f path = ReadData (Some (enc_snapshot snap))"
  using assms that
  by (cases "path = ''''"; cases fails) (auto simp: doc_ok_def boot_def os_ReadFile_def Load_def)

lemma boot_state_ok:
  assumes "doc_ok (snap_ok n) (fs_content f path)" and "0 \<le> n"
  shows "state_ok n (boot path (os_ReadFile fails f path))"
  using assms(1)
proof (cases rule: boot_cases [of _ _ _ fails])
  case 1
  then show ?thesis using state_ok_New [OF assms(2)] by simp
next
  case (2 snap)
  then obtain s os where "state_ok n s" "loop_orders_ok os s" "snap = take_Snapshot os s"
    by (auto simp: snap_ok_def)
  moreover from this have "storable s" by (simp add: state_ok_def)
  ultimately show ?thesis using 2(2,3) boot_snapshot [of s os path] state_ok_back [of n s] by simp
qed

lemma request_state_ok:
  assumes "chi_sound chi" and "utf8 (cfg_Environment cfg)" and "state_ok n s" and "0 \<le> n" and "n < max_int"
    and "moment_ok (ch_moment ch) s" and "request_text_ok chi cfg ch req"
    and "serve chi cfg ch req \<lparr>wd_store = s, wd_files = f\<rparr> = (w, \<lparr>wd_store = t, wd_files = g\<rparr>)"
  shows "state_ok (n + 1) t"
proof -
  note parts = assms(3) [unfolded state_ok_def]
  have "store_moves s t"
    using mover.serve_relation [OF assms(1,8)] assms(6) by simp
  then have "store_ok t \<and> counters_within (n + 1) t"
    using parts store_step_ok store_step_within counters_within_mono [of n s "n + 1"] assms(4,5)
    unfolding store_moves_def by fastforce
  moreover have "storable t"
    using serve_storable [OF assms(1,2), of "\<lparr>wd_store = s, wd_files = f\<rparr>" ch req] parts assms(6-8) by simp
  ultimately show ?thesis by (simp add: state_ok_def)
qed

text \<open>A step keeps the stores well formed as long as no counter can overflow.\<close>

lemma stores_step:
  assumes step: "unmixed_step chi cfg y z" and "chi_sound chi" and "utf8 (cfg_Environment cfg)"
    and "undisturbed y" and "stores_ok (cfg_StateFile cfg) n y" and "0 \<le> n" and "n < max_int"
  shows "stores_ok (cfg_StateFile cfg) (n + 1) z"
proof -
  let ?p = "cfg_StateFile cfg"
  have le: "n \<le> n + 1" by simp
  note y = assms(5) [unfolded stores_ok_def]
  have docs: "docs_ok (snap_ok (n + 1)) ?p z"
    by (rule docs_step [OF step assms(2,4) docs_ok_mono [OF y [THEN conjunct2] snap_ok_mono [OF _ le]]])
      (use y state_ok_mono [OF _ le] snap_okI in auto)
  have z: "sys_step chi cfg y z" using step by (simp add: unmixed_step_def)
  have up: "pred_option (state_ok (n + 1)) (sy_store y)"
    using y state_ok_mono [OF _ le] by (auto simp: pred_option_def)
  from z have "pred_option (state_ok (n + 1)) (sy_store z)"
  proof cases
    case (sys_start f fails)
    then show ?thesis
      using y boot_state_ok [of n f ?p fails] state_ok_mono [OF _ le] assms(6) by (simp add: docs_ok_def)
  next
    case (sys_request s ch req w t g)
    then show ?thesis using y request_state_ok [OF assms(2,3) _ assms(6,7) sys_request(3-5)] by simp
  qed (use up in simp_all)
  with docs show ?thesis by (simp add: stores_ok_def)
qed

text \<open>The system as a machine whose runs keep its invariant.\<close>

definition sound_step :: "chi \<Rightarrow> config \<Rightarrow> system \<Rightarrow> system \<Rightarrow> bool" where
  "sound_step chi cfg y z \<longleftrightarrow> chi_sound chi \<and> utf8 (cfg_Environment cfg) \<and> unmixed_step chi cfg y z"

lemma docs_init [simp]: "docs_ok Q path sys_init"
  by (simp add: docs_ok_def sys_init_def fs_empty_def fs_content_def)

lemma sys_init_ok: "undisturbed sys_init" "stores_ok path 0 sys_init"
  by (simp_all add: stores_ok_def undisturbed_def mixing_def) (simp_all add: sys_init_def)

interpretation program: bounded_machine sys_init "sound_step chi cfg" undisturbed
  "\<lambda>n y. 0 \<le> n \<and> stores_ok (cfg_StateFile cfg) n y" max_int for chi cfg
  by unfold_locales
    (simp_all add: sound_step_def sys_init_ok, (blast intro: undisturbed_step stores_step)+)

lemma sound_run:
  assumes "chi_sound chi" and "utf8 (cfg_Environment cfg)" and "(unmixed_step chi cfg ^^ n) y z"
  shows "(sound_step chi cfg ^^ n) y z"
proof -
  have "sound_step chi cfg = unmixed_step chi cfg"
    using assms(1,2) by (simp add: sound_step_def fun_eq_iff)
  then show ?thesis using assms(3) by simp
qed

lemma system_ok:
  assumes "chi_sound chi" and "utf8 (cfg_Environment cfg)" and "(unmixed_step chi cfg ^^ n) sys_init y"
    and "int n \<le> max_int"
  shows "undisturbed y" and "stores_ok (cfg_StateFile cfg) (int n) y"
  using program.run_inv_within [OF sound_run [OF assms(1-3)] assms(4)] by simp_all

section \<open>Where a restart comes out\<close>

text \<open>The stores a run has gone through, in this process or in one before.\<close>

definition was_running :: "chi \<Rightarrow> config \<Rightarrow> nat \<Rightarrow> system \<Rightarrow> store \<Rightarrow> bool" where
  "was_running chi cfg n y s \<longleftrightarrow> (\<exists>m k x. (unmixed_step chi cfg ^^ m) sys_init x \<and>
     (unmixed_step chi cfg ^^ k) x y \<and> m + k = n \<and> sy_store x = Some s)"

definition is_past :: "chi \<Rightarrow> config \<Rightarrow> nat \<Rightarrow> system \<Rightarrow> snapshot \<Rightarrow> bool" where
  "is_past chi cfg n y snap \<longleftrightarrow>
     (\<exists>s os. was_running chi cfg n y s \<and> loop_orders_ok os s \<and> snap = take_Snapshot os s)"

lemma was_running_now:
  "(unmixed_step chi cfg ^^ n) sys_init y \<Longrightarrow> sy_store y = Some s \<Longrightarrow> was_running chi cfg n y s"
  unfolding was_running_def by (intro exI [of _ n] exI [of _ 0] exI [of _ y]) simp

lemma was_running_step:
  "was_running chi cfg n y s \<Longrightarrow> unmixed_step chi cfg y z \<Longrightarrow> was_running chi cfg (Suc n) z s"
  unfolding was_running_def by (metis add_Suc_right relpowp_Suc_I)

lemma is_past_step: "is_past chi cfg n y snap \<Longrightarrow> unmixed_step chi cfg y z \<Longrightarrow> is_past chi cfg (Suc n) z snap"
  unfolding is_past_def using was_running_step by blast

lemma docs_from_past:
  assumes "chi_sound chi" and "utf8 (cfg_Environment cfg)"
  shows "(unmixed_step chi cfg ^^ n) sys_init y \<Longrightarrow> int n \<le> max_int \<Longrightarrow>
    docs_ok (is_past chi cfg n y) (cfg_StateFile cfg) y"
proof (induction n arbitrary: y)
  case 0
  then have "y = sys_init" by simp
  then show ?case by simp
next
  case (Suc n)
  then obtain x where x: "(unmixed_step chi cfg ^^ n) sys_init x" "unmixed_step chi cfg x y" by auto
  have x_ok: "undisturbed x" using system_ok(1) [OF assms x(1)] Suc.prems(2) by simp
  have "docs_ok (is_past chi cfg (Suc n) y) (cfg_StateFile cfg) x"
    by (rule docs_ok_mono [OF Suc.IH [OF x(1)] is_past_step [OF _ x(2)]]) (use Suc.prems(2) in simp_all)
  moreover have "is_past chi cfg (Suc n) y (take_Snapshot os s)"
    if "sy_store x = Some s" "loop_orders_ok os s" for s os
    using was_running_step [OF was_running_now [OF x(1) that(1)] x(2)] that(2) unfolding is_past_def by blast
  ultimately show ?case
    using docs_step [OF x(2) assms(1) x_ok] by blast
qed

subsection \<open>Without an overlap\<close>

fun saving_files :: "string \<Rightarrow> saving \<Rightarrow> fs \<Rightarrow> bool" where
  "saving_files path (Opened snap i d) f \<longleftrightarrow> \<not> d \<and> fmlookup (fs_names f) (tmp_name path) = Some i"
| "saving_files path (Written snap) f \<longleftrightarrow> (\<exists>j. fs_content f (tmp_name path) = Some (Some j))"
| "saving_files path v f \<longleftrightarrow> True"

definition calm_files :: "string \<Rightarrow> system \<Rightarrow> bool" where
  "calm_files path y \<longleftrightarrow> fs_ok (sy_files y) \<and> fs_content (sy_files y) path \<noteq> Some None \<and> \<not> overlapping y \<and>
     (\<forall>b. saving_files path (sy_savers y b) (sy_files y))"

lemma saving_files_idle: "\<not> saving_begun v \<Longrightarrow> saving_files path v f"
  by (cases v) simp_all

lemma fs_remove_ok: "fs_ok f \<Longrightarrow> fs_ok (fs_remove p f)"
  by (auto simp: fs_remove_def fs_ok_def)

lemma saving_files_remove: "saving_files path v f \<Longrightarrow> saving_files path v (fs_remove path f)"
  by (cases v) (simp_all add: contents_after(4), simp add: fs_remove_def)

lemma calm_files_step:
  assumes "calm_step chi cfg y z" and "chi_sound chi" and "calm_files (cfg_StateFile cfg) y"
  shows "calm_files (cfg_StateFile cfg) z"
proof -
  let ?p = "cfg_StateFile cfg"
  have z: "sys_step chi cfg y z" "\<not> overlapping z" using assms(1) by (simp_all add: calm_step_def)
  note y = assms(3) [unfolded calm_files_def]
  have alone: "saving_files ?p (sy_savers y c) g" if "saving_begun (sy_savers y b)" "c \<noteq> b" for b c g
    using that y overlapping_other [of y b] by (intro saving_files_idle) (cases b; cases c; simp)
  from z(1) have "fs_ok (sy_files z) \<and> fs_content (sy_files z) ?p \<noteq> Some None \<and>
    (\<forall>c. saving_files ?p (sy_savers z c) (sy_files z))"
  proof cases
    case (sys_request s ch req w t g)
    have "g = sy_files y \<or> g = fs_remove ?p (sy_files y)"
      using request_files [OF assms(2), of cfg ch req "\<lparr>wd_store = s, wd_files = sy_files y\<rparr>"] sys_request(5) by simp
    then show ?thesis
      using y sys_request(1) by (auto simp: contents_after(4) fs_remove_ok saving_files_remove)
  next
    case (sys_open b snap g i)
    note o = fs_open_content [OF _ sys_open(3)]
    have idle: "\<not> saving_begun (sy_savers y (\<not> b))"
      using z(2) [unfolded overlapping_other [of z b]] sys_open(1) by (auto simp: saver_opens_cases split: if_splits)
    then have "\<not> has_open i (sy_savers y (\<not> b))" using has_open_writing writing_begun by blast
    then have v: "saver_opens b snap i (sy_savers y) c = (if c = b then Opened snap i False else sy_savers y c)" for c
      by (cases b; cases c) (auto simp: saver_opens_cases)
    have "saving_files ?p (sy_savers y c) g" if "c \<noteq> b" for c
      using idle that by (intro saving_files_idle) (cases b; cases c; simp)
    then show ?thesis using sys_open(1) y o(1) [of ?p] o(2,3) by (simp add: v)
  next
    case (sys_write_part b snap i d c)
    note names = y [THEN conjunct2, THEN conjunct2, THEN conjunct2, rule_format, of b, unfolded sys_write_part(2)]
    note wr = fs_write_content [of "sy_files y" "tmp_name ?p" i c]
    have "saving_files ?p (sy_savers y b') (fs_write i c (sy_files y))" for b'
      using names alone [of b b'] sys_write_part(2) by (cases "b' = b") (simp_all add: fs_write_def)
    then show ?thesis using sys_write_part(1) y names wr(1) [of ?p] wr(2) by simp
  next
    case (sys_write b snap i d c)
    note names = y [THEN conjunct2, THEN conjunct2, THEN conjunct2, rule_format, of b, unfolded sys_write(2)]
    note wr = fs_write_content [of "sy_files y" "tmp_name ?p" i c]
    have "c = Some (enc_snapshot snap)" using names sys_write(3) by simp
    then show ?thesis
      using sys_write(1) y names wr(1) [of ?p] wr(1) [of "tmp_name ?p"] wr(2) alone [of b] sys_write(2) by auto
  next
    case (sys_rename b snap g)
    note ren = fs_rename_content [OF _ sys_rename(3)]
    have "\<exists>j. fs_content (sy_files y) (tmp_name ?p) = Some (Some j)"
      using y sys_rename(2) by (metis saving_files.simps(2))
    then show ?thesis
      using sys_rename(1) y ren(1) [of ?p] ren(2) alone [of b] sys_rename(2) by auto
  qed (use y in auto)
  with z(2) show ?thesis by (simp add: calm_files_def)
qed

lemma calm_run_files:
  assumes "chi_sound chi" and "(calm_step chi cfg ^^ n) sys_init y"
  shows "calm_files (cfg_StateFile cfg) y"
  using assms(2)
proof (induction n arbitrary: y)
  case 0
  then have "y = sys_init" by simp
  then show ?case
    by (simp add: calm_files_def overlapping_def) (simp add: sys_init_def fs_empty_def fs_content_def fs_ok_def)
next
  case (Suc n)
  then show ?case using calm_files_step assms(1) by auto
qed

section \<open>Crashes and restarts\<close>

lemma state_ok_run:
  assumes "chi_sound chi" and "utf8 (cfg_Environment cfg)"
    and "(unmixed_step chi cfg ^^ n) sys_init y" and "int n \<le> max_int" and "sy_store y = Some s"
  shows "store_ok s \<and> storable s"
  using system_ok(2) [OF assms(1-4)] assms(5) by (simp add: stores_ok_def state_ok_def)

text \<open>
  C5: the invariant of the store survives crashes. In whatever order requests come, with whatever
  path, the loop saves, saves fail at any point, the process is signalled and saves once more
  while the loop may be in the middle of a save, is killed at any point and started again, the
  store of the running process is well formed and the state file can carry it, as long as there
  were too few steps for a counter to overflow. The one thing excluded is that the final save and
  one of the loop have the temporary file open at the same moment: then its bytes can be anything.
\<close>

theorem crash_safety:
  assumes "chi_sound chi" and "utf8 (cfg_Environment cfg)"
    and "(unmixed_step chi cfg ^^ n) sys_init y" and "int n \<le> max_int" and "sy_store y = Some s"
  shows "store_ok s \<and> storable s"
  by (rule state_ok_run [OF assms])

text \<open>
  C6: a restart finds the past, or nothing. After any run as above, a start reads the state file
  as a store that was the store of the program at some earlier moment, in this process or in one
  before, up to raw messages that were nil and bytes of a reporting agent's identifier that are
  not UTF-8; or it starts empty, and then the file could not be read, or is missing, or is torn,
  which happens only when the final save and one of the loop have overlapped.
\<close>

theorem restart_finds_the_past:
  assumes "chi_sound chi" and "utf8 (cfg_Environment cfg)"
    and "(unmixed_step chi cfg ^^ n) sys_init y" and "int n \<le> max_int" and "cfg_StateFile cfg \<noteq> ''''"
    and "boot (cfg_StateFile cfg) (os_ReadFile fails (sy_files y) (cfg_StateFile cfg)) = r"
  shows "(\<exists>s. was_running chi cfg n y s \<and> store_ok s \<and> r = store_back s) \<or>
    r = store_New \<and> (fails \<or> fs_content (sy_files y) (cfg_StateFile cfg) = None \<or>
      fs_content (sy_files y) (cfg_StateFile cfg) = Some None \<and> \<not> (calm_step chi cfg ^^ n) sys_init y)"
proof -
  have "doc_ok (is_past chi cfg n y) (fs_content (sy_files y) (cfg_StateFile cfg))"
    using docs_from_past [OF assms(1-4)] by (simp add: docs_ok_def)
  then show ?thesis
  proof (cases rule: boot_cases [of _ _ _ fails])
    case 1
    moreover have "fs_content (sy_files y) (cfg_StateFile cfg) = Some None \<Longrightarrow> \<not> (calm_step chi cfg ^^ n) sys_init y"
      using calm_run_files [OF assms(1)] by (auto simp: calm_files_def)
    ultimately show ?thesis using assms(5,6) by blast
  next
    case (2 snap)
    then obtain s os where s: "was_running chi cfg n y s" "loop_orders_ok os s" "snap = take_Snapshot os s"
      by (auto simp: is_past_def)
    then obtain m k x where m: "(unmixed_step chi cfg ^^ m) sys_init x" "m + k = n" "sy_store x = Some s"
      by (auto simp: was_running_def)
    have "store_ok s \<and> storable s" using state_ok_run [OF assms(1,2) m(1) _ m(3)] assms(4) m(2) by simp
    then show ?thesis using boot_snapshot [of s os] s 2 assms(5,6) by auto
  qed
qed

section \<open>Examples\<close>

lemma ex_cfg_text: "cfg_StateFile ex_cfg \<noteq> ''''" "utf8 (cfg_Environment ex_cfg)"
  by (simp_all add: ex_cfg_def LoadConfig_def getEnv_def os_Getenv_def lookup_or_def)

lemma fs_empty_content [simp]: "fs_ok fs_empty" "fs_content fs_empty q = None"
  by (simp_all add: fs_ok_def fs_empty_def fs_content_def)

text \<open>
  A run with an overlap: the loop has written its save when a signal comes, the final save
  truncates the temporary file, the loop renames it, the process is killed and started again.
\<close>

lemma ex_overlap_run:
  assumes "cfg_StateFile cfg \<noteq> ''''"
  shows "\<exists>y. (unmixed_step chi cfg ^^ 10) sys_init y \<and> sy_store y = Some store_New \<and>
    fs_content (sy_files y) (cfg_StateFile cfg) = Some None"
proof -
  let ?p = "cfg_StateFile cfg"
  obtain os where os: "loop_orders_ok os store_New" using loop_orders_exist by blast
  let ?snap = "take_Snapshot os store_New"
  obtain f1 i where f1: "fs_open (tmp_name ?p) fs_empty = (f1, i)" by fastforce
  note o1 = fs_open_content [OF fs_empty_content(1) f1]
  let ?f2 = "fs_write i (Some (enc_snapshot ?snap)) f1"
  note w = fs_write_content [OF o1(3,2), of "Some (enc_snapshot ?snap)"]
  obtain f3 j where f3: "fs_open (tmp_name ?p) ?f2 = (f3, j)" by fastforce
  note o3 = fs_open_content [OF w(2) f3]
  obtain f4 where f4: "fs_rename (tmp_name ?p) ?p f3 = Some f4"
    using o3(2) by (simp add: fs_rename_def)
  note r = fs_rename_content(1) [OF o3(3) f4]
  let ?r = "\<lambda>st l m f. \<lparr>sy_store = Some store_New, sy_stopping = st, sy_savers = (\<lambda>_. Idle)(False := l, True := m), sy_files = f\<rparr>"
  have boot: "boot ?p (os_ReadFile False fs_empty ?p) = store_New"
    by (simp add: boot_def os_ReadFile_def Load_def)
  have idle: "(\<lambda>_. Idle)(False := Idle, True := Idle) = (\<lambda>_. Idle)" by (simp add: fun_eq_iff)
  have [simp]: "sys_running store_New f = ?r False Idle Idle f" for f
    by (simp add: sys_running_def idle)
  have s1: "sys_step chi cfg sys_init (?r False Idle Idle fs_empty)"
    using sys_start [of chi cfg fs_empty False] by (simp add: boot sys_init_def)
  have s2: "sys_step chi cfg (?r False Idle Idle fs_empty) (?r False (Taken ?snap) Idle fs_empty)"
    using sys_take [OF assms, of "?r False Idle Idle fs_empty" store_New False os chi] os by (simp add: fun_upd_twist)
  have s3: "sys_step chi cfg (?r False (Taken ?snap) Idle fs_empty) (?r False (Opened ?snap i False) Idle f1)"
    using sys_open [of "?r False (Taken ?snap) Idle fs_empty" False ?snap cfg f1 i chi] f1
    by (simp add: saver_opens_def fun_upd_twist)
  have s4: "sys_step chi cfg (?r False (Opened ?snap i False) Idle f1) (?r False (Written ?snap) Idle ?f2)"
    using sys_write [of "?r False (Opened ?snap i False) Idle f1" False ?snap i False] by (simp add: fun_upd_twist)
  have s5: "sys_step chi cfg (?r False (Written ?snap) Idle ?f2) (?r True (Written ?snap) Idle ?f2)"
    using sys_signal [of "?r False (Written ?snap) Idle ?f2" store_New] by simp
  have s6: "sys_step chi cfg (?r True (Written ?snap) Idle ?f2) (?r True (Written ?snap) (Taken ?snap) ?f2)"
    using sys_take [OF assms, of "?r True (Written ?snap) Idle ?f2" store_New True os chi] os by simp
  have s7: "sys_step chi cfg (?r True (Written ?snap) (Taken ?snap) ?f2) (?r True (Written ?snap) (Opened ?snap j False) f3)"
    using sys_open [of "?r True (Written ?snap) (Taken ?snap) ?f2" True ?snap cfg f3 j chi] f3
    by (simp add: saver_opens_def)
  have s8: "sys_step chi cfg (?r True (Written ?snap) (Opened ?snap j False) f3) (?r True Idle (Opened ?snap j False) f4)"
    using sys_rename [of "?r True (Written ?snap) (Opened ?snap j False) f3" False ?snap cfg f4 chi] f4
    by (simp add: saver_ends_def fun_upd_twist)
  have s9: "sys_step chi cfg (?r True Idle (Opened ?snap j False) f4) (sys_off f4)"
    using sys_kill [of "?r True Idle (Opened ?snap j False) f4" store_New] by simp
  have torn: "fs_content f4 ?p = Some None" using r o3(1) by simp
  then have "boot ?p (os_ReadFile False f4 ?p) = store_New"
    by (simp add: boot_def os_ReadFile_def Load_def)
  then have s10: "sys_step chi cfg (sys_off f4) (?r False Idle Idle f4)"
    using sys_start [of chi cfg f4 False] by simp
  note steps = s1 s2 s3 s4 s5 s6 s7 s8 s9 s10
  have u: "unmixed_step chi cfg y z" if "sys_step chi cfg y z" "\<not> mixing z" for y z
    using that by (simp add: unmixed_step_def)
  have m: "\<not> mixing (?r st l m f)" if "\<not> writing l \<or> \<not> writing m" for st l m f
    using that by (auto simp: mixing_def)
  have off: "\<not> mixing (sys_off f)" for f by (simp add: mixing_def)
  have "(unmixed_step chi cfg ^^ Suc (Suc (Suc (Suc (Suc (Suc (Suc (Suc (Suc (Suc 0)))))))))) sys_init
      (?r False Idle Idle f4)"
    by (rule relpowp_Suc_I2, rule u, rule steps, (rule off | rule m, simp))+ simp
  then have "(unmixed_step chi cfg ^^ 10) sys_init (?r False Idle Idle f4)"
    by (simp only: eval_nat_numeral BitM.simps)
  then show ?thesis using torn by (intro exI [of _ "?r False Idle Idle f4"]) simp
qed

theorem crash_safety_witness:
  "\<exists>y s. (unmixed_step segment_chi ex_cfg ^^ 10) sys_init y \<and> sy_store y = Some s \<and> store_ok s \<and> storable s \<and>
     fs_content (sy_files y) (cfg_StateFile ex_cfg) = Some None"
proof -
  obtain y where y: "(unmixed_step segment_chi ex_cfg ^^ 10) sys_init y" "sy_store y = Some store_New"
    "fs_content (sy_files y) (cfg_StateFile ex_cfg) = Some None"
    using ex_overlap_run [OF ex_cfg_text(1)] by blast
  have "int 10 \<le> max_int" by (simp add: max_int_def)
  then show ?thesis
    using crash_safety [OF segment_chi_sound ex_cfg_text(2) y(1) _ y(2)] y by blast
qed

text \<open>A run whose first save is completed.\<close>

lemma ex_saved_run:
  assumes "cfg_StateFile cfg \<noteq> ''''"
  shows "\<exists>y j. (unmixed_step chi cfg ^^ 5) sys_init y \<and> fs_content (sy_files y) (cfg_StateFile cfg) = Some (Some j)"
proof -
  let ?p = "cfg_StateFile cfg"
  obtain os where os: "loop_orders_ok os store_New" using loop_orders_exist by blast
  let ?snap = "take_Snapshot os store_New"
  obtain f1 i f2 f3 where f: "fs_open (tmp_name ?p) fs_empty = (f1, i)"
    "f2 = fs_write i (Some (enc_snapshot ?snap)) f1" "fs_rename (tmp_name ?p) ?p f2 = Some f3"
    "\<And>q. fs_content f3 q = (if q = ?p then Some (Some (enc_snapshot ?snap))
       else if q = tmp_name ?p then None else fs_content fs_empty q)"
    by (rule save_steps [OF fs_empty_content(1), of ?p "enc_snapshot ?snap"]) blast
  let ?r = "\<lambda>v f. sys_running store_New f\<lparr>sy_savers := (\<lambda>_. Idle)(False := v)\<rparr>"
  have idle: "(\<lambda>_. Idle)(False := Idle) = (\<lambda>_. Idle)" by (simp add: fun_eq_iff)
  have [simp]: "sys_running store_New f\<lparr>sy_savers := \<lambda>_. Idle\<rparr> = sys_running store_New f" for f
    by (simp add: sys_running_def)
  have boot: "boot ?p (os_ReadFile False fs_empty ?p) = store_New"
    by (simp add: boot_def os_ReadFile_def Load_def)
  have s1: "sys_step chi cfg sys_init (?r Idle fs_empty)"
    using sys_start [of chi cfg fs_empty False] by (simp add: boot sys_init_def idle)
  have s2: "sys_step chi cfg (?r Idle fs_empty) (?r (Taken ?snap) fs_empty)"
    using sys_take [OF assms, of "?r Idle fs_empty" store_New False os chi] os by simp
  have s3: "sys_step chi cfg (?r (Taken ?snap) fs_empty) (?r (Opened ?snap i False) f1)"
    using sys_open [of "?r (Taken ?snap) fs_empty" False ?snap cfg f1 i chi] f(1)
    by (simp add: saver_opens_def sys_running_def)
  have s4: "sys_step chi cfg (?r (Opened ?snap i False) f1) (?r (Written ?snap) f2)"
    using sys_write [of "?r (Opened ?snap i False) f1" False ?snap i False] f(2) by (simp add: sys_running_def)
  have s5: "sys_step chi cfg (?r (Written ?snap) f2) (?r Idle f3)"
    using sys_rename [of "?r (Written ?snap) f2" False ?snap cfg f3 chi] f(3)
    by (simp add: saver_ends_def sys_running_def)
  note steps = s1 s2 s3 s4 s5
  have u: "unmixed_step chi cfg y (?r v f)" if "sys_step chi cfg y (?r v f)" for y v f
    using that by (simp add: unmixed_step_def mixing_def)
  have "(unmixed_step chi cfg ^^ Suc (Suc (Suc (Suc (Suc 0))))) sys_init (?r Idle f3)"
    by (rule relpowp_Suc_I2, rule u, rule steps)+ simp
  then have "(unmixed_step chi cfg ^^ 5) sys_init (?r Idle f3)"
    by (simp only: eval_nat_numeral BitM.simps)
  then show ?thesis using f(4) by (intro exI [of _ "?r Idle f3"]) simp
qed

theorem restart_finds_the_past_witness:
  "\<exists>y s. (unmixed_step segment_chi ex_cfg ^^ 5) sys_init y \<and> was_running segment_chi ex_cfg 5 y s \<and>
     boot (cfg_StateFile ex_cfg) (os_ReadFile False (sy_files y) (cfg_StateFile ex_cfg)) = store_back s"
proof -
  obtain y j where y: "(unmixed_step segment_chi ex_cfg ^^ 5) sys_init y"
    "fs_content (sy_files y) (cfg_StateFile ex_cfg) = Some (Some j)"
    using ex_saved_run [OF ex_cfg_text(1)] by blast
  have "int 5 \<le> max_int" by (simp add: max_int_def)
  from restart_finds_the_past [OF segment_chi_sound ex_cfg_text(2) y(1) this ex_cfg_text(1) refl, of False] y
  show ?thesis by auto
qed

section \<open>A reset that is undone\<close>

lemma request_exists:
  assumes "routed chi cfg req = Reaches ep ps" and "pred_option json_text_ok (rq_body req)"
  shows "\<exists>ch. moment_ok (ch_moment ch) s \<and> request_text_ok chi cfg ch req \<and> \<not> ch_remove_fails ch"
proof -
  obtain mo where mo: "moment_ok mo s" "mo_now mo = 0" "mo_later mo = 0" using moment_exists by metis
  have "time_ok 0" by (simp add: time_ok_def days_before_year_def)
  then show ?thesis
    using mo assms
    by (intro exI [of _ "\<lparr>ch_moment = mo, ch_reports_nil = True, ch_desired_reports_nil = True,
        ch_remove_fails = False\<rparr>"]) (simp add: request_text_ok_def text_ok_def)
qed

text \<open>
  C34: a reset can be undone. The reset removes the state file while a save that took its
  snapshot before is still writing; the rename of that save then puts the old state back in
  place, and when the process ends before the next save, the next start brings back everything
  the reset, long answered, had erased.
\<close>

theorem reset_can_be_undone:
  assumes "chi_sound chi" and "cfg_StateFile cfg \<noteq> ''''" and "fs_ok f" and "savable s"
    and "routed chi cfg req = Reaches EpReset ps" and "rq_method req \<noteq> ''OPTIONS''"
    and "pred_option json_text_ok (rq_body req)"
  shows "\<exists>y z. (sys_step chi cfg)\<^sup>*\<^sup>* (sys_running s f) y \<and>
    sy_store y = Some store_New \<and> fs_content (sy_files y) (cfg_StateFile cfg) = None \<and>
    (sys_step chi cfg)\<^sup>*\<^sup>* y z \<and> sy_store z = Some (store_read s)"
proof -
  let ?p = "cfg_StateFile cfg"
  obtain os where os: "loop_orders_ok os s" using loop_orders_exist by blast
  let ?snap = "take_Snapshot os s"
  obtain f1 i f2 where s: "fs_open (tmp_name ?p) f = (f1, i)"
    "f2 = fs_write i (Some (enc_snapshot ?snap)) f1" "fs_ok f2"
    "\<And>q. fs_content f2 q = (if q = tmp_name ?p then Some (Some (enc_snapshot ?snap)) else fs_content f q)"
    by (rule save_steps [OF assms(3), of ?p "enc_snapshot ?snap"]) blast
  let ?g = "fs_remove ?p f2"
  have g: "fs_ok ?g" "fs_content ?g (tmp_name ?p) = Some (Some (enc_snapshot ?snap))" "fs_content ?g ?p = None"
    using s(3,4) by (simp_all add: contents_after(4) fs_remove_ok)
  then obtain h where h: "fs_rename (tmp_name ?p) ?p ?g = Some h"
    by (auto simp: fs_content_def fs_rename_def)
  have hc: "fs_content h ?p = Some (Some (enc_snapshot ?snap))"
    using fs_rename_content(1) [OF g(1) h] g(2) by simp
  obtain ch where ch: "moment_ok (ch_moment ch) s" "request_text_ok chi cfg ch req" "\<not> ch_remove_fails ch"
    using request_exists [OF assms(5,7)] by blast
  have serve: "serve chi cfg ch req \<lparr>wd_store = s, wd_files = f2\<rparr> =
      (fst (serve chi cfg ch req \<lparr>wd_store = s, wd_files = f2\<rparr>), \<lparr>wd_store = store_New, wd_files = ?g\<rparr>)"
    using ch(3) assms(2)
    by (simp add: serve_reaches [OF assms(1,5,6)] serve_endpoint_def serve_reset_def handleTestingReset_def
        Reset_New Let_def)
  let ?r = "\<lambda>t v k. sys_running t k\<lparr>sy_savers := (\<lambda>_. Idle)(False := v)\<rparr>"
  have idle: "(\<lambda>_. Idle)(False := Idle) = (\<lambda>_. Idle)" by (simp add: fun_eq_iff)
  have "sys_step chi cfg (sys_running s f) (?r s (Taken ?snap) f)"
    using sys_take [OF assms(2), of "sys_running s f" s False os chi] os by simp
  moreover have "sys_step chi cfg (?r s (Taken ?snap) f) (?r s (Opened ?snap i False) f1)"
    using sys_open [of "?r s (Taken ?snap) f" False ?snap cfg f1 i chi] s(1)
    by (simp add: saver_opens_def sys_running_def)
  moreover have "sys_step chi cfg (?r s (Opened ?snap i False) f1) (?r s (Written ?snap) f2)"
    using sys_write [of "?r s (Opened ?snap i False) f1" False ?snap i False] s(2) by (simp add: sys_running_def)
  moreover have "sys_step chi cfg (?r s (Written ?snap) f2) (?r store_New (Written ?snap) ?g)"
    using sys_request [of "?r s (Written ?snap) f2" s ch chi cfg req _ store_New ?g] ch(1,2) serve
    by (simp add: sys_running_def)
  ultimately have 1: "(sys_step chi cfg)\<^sup>*\<^sup>* (sys_running s f) (?r store_New (Written ?snap) ?g)"
    by (meson converse_rtranclp_into_rtranclp rtranclp.rtrancl_refl)
  have "boot ?p (os_ReadFile False h ?p) = store_read s"
    using boot_snapshot [OF savable_storable [OF assms(4)] os assms(2)] store_back_savable [OF assms(4)]
    by (simp add: os_ReadFile_def hc)
  then have start: "sys_step chi cfg (sys_off h) (sys_running (store_read s) h)"
    using sys_start [of chi cfg h False] by simp
  have "sys_step chi cfg (?r store_New (Written ?snap) ?g) (?r store_New Idle h)"
    using sys_rename [of "?r store_New (Written ?snap) ?g" False ?snap cfg h chi] h
    by (simp add: saver_ends_def sys_running_def)
  moreover have "sys_step chi cfg (?r store_New Idle h) (sys_off h)"
    using sys_kill [of "?r store_New Idle h" store_New] by simp
  ultimately have 2: "(sys_step chi cfg)\<^sup>*\<^sup>* (?r store_New (Written ?snap) ?g) (sys_running (store_read s) h)"
    using start by (meson converse_rtranclp_into_rtranclp rtranclp.rtrancl_refl)
  show ?thesis
    using 1 2 g(3) by (intro exI [of _ "?r store_New (Written ?snap) ?g"] exI [of _ "sys_running (store_read s) h"]) simp
qed

lemma ex_1_savable: "savable ex_1"
proof -
  have "storable ex_1"
    unfolding ex_1_def
    by (rule registered_storable [OF storable_New])
      (simp_all add: ex_reg_def register_text_ok_def ptr_ok_def nmap_ok_def time_ok_def days_before_year_def)
  moreover have "coerced ex_1 = ex_1" by (simp add: coerced_def)
  ultimately show ?thesis by (simp add: storable_def)
qed

theorem reset_can_be_undone_witness:
  "\<exists>y z. (sys_step segment_chi ex_cfg)\<^sup>*\<^sup>* y z \<and> sy_store y = Some store_New \<and>
     fs_content (sy_files y) (cfg_StateFile ex_cfg) = None \<and> sy_store z = Some (store_read ex_1) \<and>
     fmlookup (AgentIndex (store_read ex_1)) ''inst-1:runtime:dev:api'' = Some ex_agent"
proof -
  let ?req = "plain_request ''POST'' ''/testing/reset''"
  have req: "rq_method ?req \<noteq> ''OPTIONS''" "pred_option json_text_ok (rq_body ?req)"
    by (simp_all add: plain_request_def)
  show ?thesis
    using reset_can_be_undone [OF segment_chi_sound ex_cfg_text(1) fs_empty_content(1) ex_1_savable segment_routes(3) req]
    by auto
qed


end
