(* ===== verification/Interleaving.thy ===== *)
theory Interleaving
  imports Restart
begin

text \<open>
  Requests at the same time. \<open>net/http\<close> serves every connection in a goroutine of its own, and
  the lock of the store makes one method of it atomic, not a handler: between two methods, and
  between a method and the encoding of what it returned, the handlers of other requests run.
  Here a handler is the sequence of its sections: a method of the store, a read of an object
  the store has handed out a pointer to, the encoding of its maps, the removal of the file.
  What is shown: run alone, the sections are the handler; run in any interleaving, they leave a
  store the store machine leads to; and encoding the live maps can bring down the process.
\<close>

section \<open>Memory\<close>

text \<open>
  A reset replaces the maps of the store by new ones. Pointers from before still lead to the
  objects of the old maps, which nothing changes any more; so the memory is the store of every
  generation, the last one the current.
\<close>

record memory =
  mem_gen :: nat
  mem_of :: "nat \<Rightarrow> store"

definition current_store :: "memory \<Rightarrow> store" where
  "current_store m = mem_of m (mem_gen m)"

definition mem_put :: "store \<Rightarrow> memory \<Rightarrow> memory" where
  "mem_put s m = m\<lparr>mem_of := (mem_of m)(mem_gen m := s)\<rparr>"

definition mem_reset :: "memory \<Rightarrow> memory" where
  "mem_reset m = \<lparr>mem_gen = Suc (mem_gen m),
     mem_of = (mem_of m)(Suc (mem_gen m) := Reset (current_store m))\<rparr>"

definition mem_at :: "store \<Rightarrow> memory" where
  "mem_at s = \<lparr>mem_gen = 0, mem_of = (\<lambda>_. s)\<rparr>"

lemma mem_simps [simp]:
  "current_store (mem_put s m) = s" "mem_gen (mem_put s m) = mem_gen m"
  "mem_of (mem_put s m) (mem_gen m) = s" "current_store (mem_reset m) = store_New"
  "current_store (mem_at s) = s" "mem_of m (mem_gen m) = current_store m"
  "mem_put (current_store m) m = m"
  by (simp_all add: current_store_def mem_put_def mem_reset_def mem_at_def Reset_New)

section \<open>Sections\<close>

text \<open>
  What a handler still has to do. A section under the lock computes the new store and the rest
  of the handler from the store it finds, the generation of that store and the moment it runs
  in; \<open>Peek\<close> reads through a pointer, \<open>Encode\<close> iterates over the maps of a generation.
\<close>

datatype prog =
    Answer writer "panic option"
  | Locked "moment \<Rightarrow> nat \<Rightarrow> store \<Rightarrow> store" "moment \<Rightarrow> nat \<Rightarrow> store \<Rightarrow> prog"
  | ResetAll prog
  | RemoveFile prog
  | Peek "(nat \<Rightarrow> store) \<Rightarrow> prog"
  | Encode nat "store \<Rightarrow> prog"

primrec exec :: "config \<Rightarrow> chance \<Rightarrow> prog \<Rightarrow> memory \<times> fs \<Rightarrow> writer \<times> (memory \<times> fs) \<times> panic option" where
  "exec cfg ch (Answer w p) mf = (w, mf, p)"
| "exec cfg ch (Locked g k) mf =
     exec cfg ch (k (ch_moment ch) (mem_gen (fst mf)) (current_store (fst mf)))
       (mem_put (g (ch_moment ch) (mem_gen (fst mf)) (current_store (fst mf))) (fst mf), snd mf)"
| "exec cfg ch (ResetAll k) mf = exec cfg ch k (mem_reset (fst mf), snd mf)"
| "exec cfg ch (RemoveFile k) mf = exec cfg ch k
     (fst mf, if ch_remove_fails ch then snd mf else fs_remove (cfg_StateFile cfg) (snd mf))"
| "exec cfg ch (Peek k) mf = exec cfg ch (k (mem_of (fst mf))) mf"
| "exec cfg ch (Encode e k) mf = exec cfg ch (k (mem_of (fst mf) e)) mf"

section \<open>The handlers\<close>

text \<open>A handler that calls one method and looks at nothing mutable afterwards.\<close>

definition one_section :: "(moment \<Rightarrow> store \<Rightarrow> writer \<times> store) \<Rightarrow> prog" where
  "one_section h = Locked (\<lambda>mo e s. snd (h mo s)) (\<lambda>mo e s. Answer (fst (h mo s)) None)"

text \<open>The objects behind the pointers of a list, read one after the other.\<close>

fun peek_all :: "((nat \<Rightarrow> store) \<Rightarrow> 'a \<Rightarrow> 'a) \<Rightarrow> 'a list \<Rightarrow> 'a list \<Rightarrow> ('a list \<Rightarrow> prog) \<Rightarrow> prog" where
  "peek_all look done [] k = k done"
| "peek_all look done (x # xs) k = Peek (\<lambda>H. peek_all look (done @ [look H x]) xs k)"

definition at_agent :: "nat \<Rightarrow> (nat \<Rightarrow> store) \<Rightarrow> agent \<Rightarrow> agent" where
  "at_agent e H a = lookup_or a (Agents (H e)) (ag_ID a)"

definition at_command :: "nat \<Rightarrow> (nat \<Rightarrow> store) \<Rightarrow> command \<Rightarrow> command" where
  "at_command e H c = lookup_or c (Commands (H e)) (cmd_ID c)"

definition at_deployment :: "nat \<Rightarrow> (nat \<Rightarrow> store) \<Rightarrow> deployment \<Rightarrow> deployment" where
  "at_deployment e H d = lookup_or d (Deployments (H e)) (dep_ID d)"

definition sections_register :: "request \<Rightarrow> writer \<Rightarrow> prog" where
  "sections_register req w = Locked (\<lambda>mo e s. fst (snd (handleRegisterAgent mo req w s)))
     (\<lambda>mo e s. Answer (fst (handleRegisterAgent mo req w s)) (snd (snd (handleRegisterAgent mo req w s))))"

definition sections_pending :: "request \<Rightarrow> writer \<Rightarrow> prog" where
  "sections_pending req w =
     (let agentID = URLParam req ''agentID'' in
      Locked (\<lambda>mo e s. s) (\<lambda>mo e s.
        if GetAgent agentID s = None then Answer (Error 404 ''NOT_FOUND'' ''agent not found'' False w) None
        else Locked (\<lambda>mo e s. s) (\<lambda>mo e s.
          peek_all (at_command e) [] (ListPendingByAgent (mo_commands mo) agentID s) (\<lambda>cmds.
            Answer (JSON 200 (enc_slice enc_command cmds) w) None))))"

definition sections_claim :: "request \<Rightarrow> writer \<Rightarrow> prog" where
  "sections_claim req w =
     (let agentID = URLParam req ''agentID''; commandID = URLParam req ''commandID'' in
      Locked (\<lambda>mo e s. fst (ClaimCommand commandID agentID (mo_now mo) s)) (\<lambda>mo e s.
        case snd (ClaimCommand commandID agentID (mo_now mo) s) of
          Inl err \<Rightarrow> Answer (command_error err w) None
        | Inr cmd \<Rightarrow> Peek (\<lambda>H. let c = at_command e H cmd in
            Answer (JSON 200 (enc_claim_response
              \<lparr>clr_ID = cmd_ID c, clr_Status = cmd_Status c, clr_ClaimedBy = cmd_ClaimedBy c,
               clr_ClaimedAt = cmd_ClaimedAt c\<rparr>) w) None)))"

definition sections_start :: "request \<Rightarrow> writer \<Rightarrow> prog" where
  "sections_start req w =
     (let agentID = URLParam req ''agentID''; commandID = URLParam req ''commandID'' in
      Locked (\<lambda>mo e s. fst (StartCommand commandID agentID (mo_now mo) s)) (\<lambda>mo e s.
        case snd (StartCommand commandID agentID (mo_now mo) s) of
          Inl err \<Rightarrow> Answer (command_error err w) None
        | Inr cmd \<Rightarrow> Peek (\<lambda>H. let c = at_command e H cmd in
            Answer (JSON 200 (enc_start_response
              \<lparr>sr_ID = cmd_ID c, sr_Status = cmd_Status c, sr_StartedAt = cmd_StartedAt c\<rparr>) w) None)))"

definition sections_desired :: "request \<Rightarrow> writer \<Rightarrow> prog" where
  "sections_desired req w =
     Locked (\<lambda>mo e s. s) (\<lambda>mo e s.
       case GetAgent (URLParam req ''agentID'') s of
         None \<Rightarrow> Answer (Error 404 ''NOT_FOUND'' ''agent not found'' False w) None
       | Some agent \<Rightarrow> Locked (\<lambda>mo e s. s) (\<lambda>mo e s.
           Answer (JSON 200 (enc_desired_state (GetDesiredState (ag_Environment agent) s)) w) None))"

definition sections_deploy :: "config \<Rightarrow> request \<Rightarrow> writer \<Rightarrow> prog" where
  "sections_deploy cfg req w =
     (case decode req (dec_struct deploy_request_fields) zero_deploy_request of
        None \<Rightarrow> Answer (invalid_body w) None
      | Some r \<Rightarrow>
          if dq_Application r = '''' \<or> dq_Image r = '''' \<or> dq_TargetAgentRole r = ''''
          then Answer (Error 400 ''INVALID_REQUEST''
                 ''application, image and target_agent_role are required'' False w) None
          else Locked (\<lambda>mo e s. s) (\<lambda>mo e s.
            case FindAgentByEnvironmentRole (mo_agents mo)
                   (if dq_Environment r = '''' then cfg_Environment cfg else dq_Environment r)
                   (dq_TargetAgentRole r) s of
              None \<Rightarrow> Answer (Error 404 ''AGENT_NOT_FOUND''
                ''no agent registered for the given environment and role'' False w) None
            | Some agent \<Rightarrow>
                Locked (\<lambda>mo e s. fst (InitDeploy [] (deploy_input_for cfg r (ag_ID agent)) (mo_now mo) s))
                  (\<lambda>mo e s. let x = snd (InitDeploy [] (deploy_input_for cfg r (ag_ID agent)) (mo_now mo) s) in
                    Answer (JSON 200 (enc_deploy_response
                      \<lparr>dpr_DeploymentID = dep_ID (fst x), dpr_CommandID = cmd_ID (snd x),
                       dpr_TargetAgentID = ag_ID agent, dpr_Status = ''pending''\<rparr>) w) None)))"

definition sections_stop :: "request \<Rightarrow> writer \<Rightarrow> prog" where
  "sections_stop req w =
     (case decode req (dec_struct stop_request_fields) zero_stop_request of
        None \<Rightarrow> Answer (invalid_body w) None
      | Some r \<Rightarrow>
          if sq_DeploymentID r = ''''
          then Answer (Error 400 ''INVALID_REQUEST'' ''deployment_id is required'' False w) None
          else Locked (\<lambda>mo e s. s) (\<lambda>mo e s.
            case GetDeployment (sq_DeploymentID r) s of
              None \<Rightarrow> Answer (Error 404 ''DEPLOYMENT_NOT_FOUND'' ''deployment not found'' False w) None
            | Some dep \<Rightarrow>
                (let containerName = (if sq_ContainerName r = '''' then dep_ContainerName dep
                                      else sq_ContainerName r);
                     target = (if sq_TargetAgentID r = '''' then dep_TargetAgentID dep
                               else sq_TargetAgentID r);
                     stopTimeout = (if sq_StopTimeoutSeconds r \<le> 0 then timeoutStop
                                    else sq_StopTimeoutSeconds r);
                     inp = \<lparr>cc_Type = ''STOP_APPLICATION'', cc_DeploymentID = sq_DeploymentID r,
                            cc_TargetAgentID = target, cc_TimeoutSeconds = timeoutStop,
                            cc_Payload = Some (enc_stop_payload
                              \<lparr>spl_DeploymentID = sq_DeploymentID r, spl_ContainerName = containerName,
                               spl_StopTimeoutSeconds = stopTimeout\<rparr>)\<rparr>
                 in Locked (\<lambda>mo e s. fst (CreateCommand inp (mo_now mo) s)) (\<lambda>mo e s.
                      Answer (JSON 200 (enc_command_response
                        \<lparr>cor_CommandID = cmd_ID (snd (CreateCommand inp (mo_now mo) s)),
                         cor_DeploymentID = sq_DeploymentID r, cor_TargetAgentID = target,
                         cor_Status = ''pending''\<rparr>) w) None))))"

definition sections_remove :: "request \<Rightarrow> writer \<Rightarrow> prog" where
  "sections_remove req w =
     (case decode req (dec_struct remove_request_fields) zero_remove_request of
        None \<Rightarrow> Answer (invalid_body w) None
      | Some r \<Rightarrow>
          if rmq_DeploymentID r = ''''
          then Answer (Error 400 ''INVALID_REQUEST'' ''deployment_id is required'' False w) None
          else Locked (\<lambda>mo e s. s) (\<lambda>mo e s.
            case GetDeployment (rmq_DeploymentID r) s of
              None \<Rightarrow> Answer (Error 404 ''DEPLOYMENT_NOT_FOUND'' ''deployment not found'' False w) None
            | Some dep \<Rightarrow>
                (let containerName = (if rmq_ContainerName r = '''' then dep_ContainerName dep
                                      else rmq_ContainerName r);
                     target = (if rmq_TargetAgentID r = '''' then dep_TargetAgentID dep
                               else rmq_TargetAgentID r);
                     inp = \<lparr>cc_Type = ''REMOVE_DEPLOYMENT'', cc_DeploymentID = rmq_DeploymentID r,
                            cc_TargetAgentID = target, cc_TimeoutSeconds = timeoutRemove,
                            cc_Payload = Some (enc_remove_payload
                              \<lparr>rpl_DeploymentID = rmq_DeploymentID r, rpl_ContainerName = containerName,
                               rpl_ReleasePort = rmq_ReleasePort r\<rparr>)\<rparr>
                 in Locked (\<lambda>mo e s. fst (CreateCommand inp (mo_now mo) s)) (\<lambda>mo e s.
                      Answer (JSON 200 (enc_command_response
                        \<lparr>cor_CommandID = cmd_ID (snd (CreateCommand inp (mo_now mo) s)),
                         cor_DeploymentID = rmq_DeploymentID r, cor_TargetAgentID = target,
                         cor_Status = ''pending''\<rparr>) w) None))))"

definition sections_cleanup :: "config \<Rightarrow> request \<Rightarrow> writer \<Rightarrow> prog" where
  "sections_cleanup cfg req w =
     (case decode req (dec_struct cleanup_request_fields) zero_cleanup_request of
        None \<Rightarrow> Answer (invalid_body w) None
      | Some r \<Rightarrow>
          if cq_TargetAgentRole r = ''''
          then Answer (Error 400 ''INVALID_REQUEST'' ''target_agent_role is required'' False w) None
          else
            (let env = (if cq_Environment r = '''' then cfg_Environment cfg else cq_Environment r);
                 age = (if cq_OlderThanSeconds r \<le> 0 then timeoutCleanup else cq_OlderThanSeconds r)
             in Locked (\<lambda>mo e s. s) (\<lambda>mo e s.
               case FindAgentByEnvironmentRole (mo_agents mo) env (cq_TargetAgentRole r) s of
                 None \<Rightarrow> Answer (Error 404 ''AGENT_NOT_FOUND''
                   ''no agent registered for the given environment and role'' False w) None
               | Some agent \<Rightarrow>
                   (let inp = \<lparr>cc_Type = ''CLEANUP_DRAINING'', cc_DeploymentID = '''',
                          cc_TargetAgentID = ag_ID agent, cc_TimeoutSeconds = timeoutCleanup,
                          cc_Payload = Some (enc_cleanup_payload
                            \<lparr>cpl_Environment = env, cpl_OlderThanSeconds = age\<rparr>)\<rparr>
                    in Locked (\<lambda>mo e s. fst (CreateCommand inp (mo_now mo) s)) (\<lambda>mo e s.
                         Answer (JSON 200 (enc_command_response
                           \<lparr>cor_CommandID = cmd_ID (snd (CreateCommand inp (mo_now mo) s)),
                            cor_DeploymentID = '''', cor_TargetAgentID = ag_ID agent,
                            cor_Status = ''pending''\<rparr>) w) None)))))"

text \<open>The listings of pointers; the reports and desired states are handed out as copies.\<close>

definition sections_agents :: "writer \<Rightarrow> prog" where
  "sections_agents w = Locked (\<lambda>mo e s. s) (\<lambda>mo e s.
     peek_all (at_agent e) [] (ListAgents (mo_agents mo) s) (\<lambda>agents.
       Answer (JSON 200 (enc_slice enc_agent agents) w) None))"

definition sections_commands :: "request \<Rightarrow> writer \<Rightarrow> prog" where
  "sections_commands req w = Locked (\<lambda>mo e s. s) (\<lambda>mo e s.
     peek_all (at_command e) []
       (ListCommands (mo_commands mo) (query_Get ''status'' req) (query_Get ''type'' req)
          (query_Get ''agent_id'' req) s) (\<lambda>cmds.
       Answer (JSON 200 (enc_slice enc_command cmds) w) None))"

definition sections_deployments :: "writer \<Rightarrow> prog" where
  "sections_deployments w = Locked (\<lambda>mo e s. s) (\<lambda>mo e s.
     peek_all (at_deployment e) [] (ListDeployments (mo_deployments mo) s) (\<lambda>deps.
       Answer (JSON 200 (enc_slice enc_deployment deps) w) None))"

text \<open>
  What \<open>Debug\<close> hands out: the maps themselves, with the slices and the numbers as they were.
\<close>

definition live_maps :: "store \<Rightarrow> store \<Rightarrow> store" where
  "live_maps s t = t\<lparr>CommandReports := CommandReports s, DesiredStateReports := DesiredStateReports s,
     Counters := (Counters s)\<lparr>AgentByEnvironmentRole := AgentByEnvironmentRole (Counters t),
       DesiredStateVersionByEnvironment := DesiredStateVersionByEnvironment (Counters t)\<rparr>\<rparr>"

definition sections_debug :: "bool \<Rightarrow> bool \<Rightarrow> writer \<Rightarrow> prog" where
  "sections_debug reports_nil desired_reports_nil w = Locked (\<lambda>mo e s. s) (\<lambda>mo e s.
     Encode e (\<lambda>t. Answer (JSON 200 (enc_map (\<lambda>j. j)
       (Debug reports_nil desired_reports_nil (live_maps s t))) w) None))"

definition sections_reset :: "config \<Rightarrow> writer \<Rightarrow> prog" where
  "sections_reset cfg w =
     (let answer = Answer (JSON 200 (status_map ''reset'') w) None in
      ResetAll (if cfg_StateFile cfg \<noteq> '''' then RemoveFile answer else answer))"

definition sections :: "config \<Rightarrow> bool \<Rightarrow> bool \<Rightarrow> endpoint \<Rightarrow> request \<Rightarrow> writer \<Rightarrow> prog" where
  "sections cfg reports_nil desired_reports_nil ep req w =
     (case ep of
        EpHealth \<Rightarrow> one_section (\<lambda>mo s. (JSON 200 (enc_health_response
          \<lparr>he_Status = ''ok'', he_Timestamp = mo_now mo\<rparr>) w, s))
      | EpRegister \<Rightarrow> sections_register req w
      | EpHeartbeat \<Rightarrow> one_section (\<lambda>mo. handleHeartbeat mo req w)
      | EpPending \<Rightarrow> sections_pending req w
      | EpClaim \<Rightarrow> sections_claim req w
      | EpStart \<Rightarrow> sections_start req w
      | EpReport \<Rightarrow> one_section (\<lambda>mo. handleReportCommand mo req w)
      | EpDesired \<Rightarrow> sections_desired req w
      | EpDesiredReport \<Rightarrow> one_section (\<lambda>mo. handleDesiredStateReport mo req w)
      | EpDeploy \<Rightarrow> sections_deploy cfg req w
      | EpStop \<Rightarrow> sections_stop req w
      | EpRemove \<Rightarrow> sections_remove req w
      | EpCleanup \<Rightarrow> sections_cleanup cfg req w
      | EpAgents \<Rightarrow> sections_agents w
      | EpCommands \<Rightarrow> sections_commands req w
      | EpDeployments \<Rightarrow> sections_deployments w
      | EpReports \<Rightarrow> one_section (\<lambda>mo. handleTestingListReports mo req w)
      | EpDesiredStates \<Rightarrow> one_section (\<lambda>mo. handleTestingDesiredState mo req w)
      | EpDesiredReports \<Rightarrow> one_section (\<lambda>mo. handleTestingDesiredStateReports mo req w)
      | EpDebug \<Rightarrow> sections_debug reports_nil desired_reports_nil w
      | EpReset \<Rightarrow> sections_reset cfg w)"

section \<open>Alone, the sections are the handler\<close>

lemma exec_peek_all:
  assumes "\<And>x. x \<in> set xs \<Longrightarrow> look (mem_of (fst mf)) x = x"
  shows "exec cfg ch (peek_all look done xs k) mf = exec cfg ch (k (done @ xs)) mf"
  using assms by (induction xs arbitrary: "done") simp_all

lemma listed:
  assumes "store_ok s"
  shows "a \<in> set (ListAgents ord s) \<Longrightarrow> fmlookup (Agents s) (ag_ID a) = Some a"
    and "c \<in> set (ListCommands ord st ty ag s) \<Longrightarrow> fmlookup (Commands s) (cmd_ID c) = Some c"
    and "c \<in> set (ListPendingByAgent ord ag s) \<Longrightarrow> fmlookup (Commands s) (cmd_ID c) = Some c"
    and "d \<in> set (ListDeployments ord s) \<Longrightarrow> fmlookup (Deployments s) (dep_ID d) = Some d"
  using agents_okD(1) [OF store_okD(1) [OF assms]] commands_okD(2) [OF store_okD(3) [OF assms]]
    deployments_okD(2) [OF store_okD(5) [OF assms]]
  by (auto simp: ListAgents_def ListCommands_def ListPendingByAgent_def ListDeployments_def
      set_range_values agent_ok_def deployment_ok_def)

lemma live_maps_same [simp]: "live_maps s s = s"
  by (simp add: live_maps_def)

lemma claimed_object:
  assumes "store_ok s" and "ClaimCommand k a now s = (t, Inr c)"
  shows "fmlookup (Commands t) (cmd_ID c) = Some c"
  using assms(2) commands_okD(2) [OF store_okD(3) [OF assms(1)], of k]
  by (auto simp: ClaimCommand_def Let_def split: option.splits if_splits)

lemma started_object:
  assumes "store_ok s" and "StartCommand k a now s = (t, Inr c)"
  shows "fmlookup (Commands t) (cmd_ID c) = Some c"
  using assms(2) commands_okD(2) [OF store_okD(3) [OF assms(1)], of k]
  by (auto simp: StartCommand_def Let_def split: option.splits if_splits)

lemma find_agent_object:
  assumes "store_ok s" and "FindAgentByEnvironmentRole ord e r s = Some a"
  shows "fmlookup (Agents s) (ag_ID a) = Some a"
  using listed(1) [OF assms(1), of a ord] assms(2)
  by (auto simp: FindAgentByEnvironmentRole_def find_Some_iff ListAgents_def)

text \<open>What a handler makes of the memory, as the sequential model sees it.\<close>

definition same_served :: "writer \<times> (memory \<times> fs) \<times> panic option \<Rightarrow> served \<Rightarrow> bool" where
  "same_served x y \<longleftrightarrow> fst x = fst y \<and> snd (snd x) = snd (snd y) \<and>
     \<lparr>wd_store = current_store (fst (fst (snd x))), wd_files = snd (fst (snd x))\<rparr> = fst (snd y)"

lemma same_servedI:
  "x = (w, (m, f), p) \<Longrightarrow> y = (w, \<lparr>wd_store = current_store m, wd_files = f\<rparr>, p) \<Longrightarrow> same_served x y"
  by (simp add: same_served_def)

lemma one_section_alone:
  "same_served (exec cfg ch (one_section h) (m, f))
     (let (w', s') = h (ch_moment ch) (current_store m) in (w', \<lparr>wd_store = s', wd_files = f\<rparr>, None))"
  by (simp add: one_section_def same_served_def case_prod_beta)

lemma claim_alone:
  assumes "store_ok (current_store m)"
  shows "same_served (exec cfg ch (sections_claim req w) (m, f))
    (on_store (handleClaimCommand (ch_moment ch) req) w \<lparr>wd_store = current_store m, wd_files = f\<rparr>)"
proof -
  obtain t r where t: "ClaimCommand (URLParam req ''commandID'') (URLParam req ''agentID'')
      (mo_now (ch_moment ch)) (current_store m) = (t, r)" by fastforce
  show ?thesis
    using claimed_object [OF assms, of "URLParam req ''commandID''" "URLParam req ''agentID''"
        "mo_now (ch_moment ch)" t] t
    by (cases r) (simp_all add: sections_claim_def same_served_def on_store_def handleClaimCommand_def
        Let_def at_command_def lookup_or_def)
qed

lemma start_alone:
  assumes "store_ok (current_store m)"
  shows "same_served (exec cfg ch (sections_start req w) (m, f))
    (on_store (handleStartCommand (ch_moment ch) req) w \<lparr>wd_store = current_store m, wd_files = f\<rparr>)"
proof -
  obtain t r where t: "StartCommand (URLParam req ''commandID'') (URLParam req ''agentID'')
      (mo_now (ch_moment ch)) (current_store m) = (t, r)" by fastforce
  show ?thesis
    using started_object [OF assms, of "URLParam req ''commandID''" "URLParam req ''agentID''"
        "mo_now (ch_moment ch)" t] t
    by (cases r) (simp_all add: sections_start_def same_served_def on_store_def handleStartCommand_def
        Let_def at_command_def lookup_or_def)
qed

lemma lists_alone:
  assumes "store_ok (current_store m)"
  shows "same_served (exec cfg ch (sections_agents w) (m, f))
      (on_store (handleTestingListAgents (ch_moment ch) req) w \<lparr>wd_store = current_store m, wd_files = f\<rparr>)"
    and "same_served (exec cfg ch (sections_commands req w) (m, f))
      (on_store (handleTestingListCommands (ch_moment ch) req) w \<lparr>wd_store = current_store m, wd_files = f\<rparr>)"
    and "same_served (exec cfg ch (sections_deployments w) (m, f))
      (on_store (handleTestingListDeployments (ch_moment ch) req) w \<lparr>wd_store = current_store m, wd_files = f\<rparr>)"
    and "same_served (exec cfg ch (sections_pending req w) (m, f))
      (on_store (handleListPendingCommands (ch_moment ch) req) w \<lparr>wd_store = current_store m, wd_files = f\<rparr>)"
  using listed [OF assms]
  by (simp_all add: sections_agents_def sections_commands_def sections_deployments_def sections_pending_def
      same_served_def on_store_def reader_defs Let_def exec_peek_all at_agent_def at_command_def
      at_deployment_def lookup_or_def)

lemma creators_alone:
  "same_served (exec cfg ch (sections_deploy cfg req w) (m, f))
     (on_store (handleTestingDeploy cfg (ch_moment ch) req) w \<lparr>wd_store = current_store m, wd_files = f\<rparr>)"
  "same_served (exec cfg ch (sections_stop req w) (m, f))
     (on_store (handleTestingStop (ch_moment ch) req) w \<lparr>wd_store = current_store m, wd_files = f\<rparr>)"
  "same_served (exec cfg ch (sections_remove req w) (m, f))
     (on_store (handleTestingRemove (ch_moment ch) req) w \<lparr>wd_store = current_store m, wd_files = f\<rparr>)"
  "same_served (exec cfg ch (sections_cleanup cfg req w) (m, f))
     (on_store (handleTestingCleanupDraining cfg (ch_moment ch) req) w \<lparr>wd_store = current_store m, wd_files = f\<rparr>)"
  by (simp_all add: sections_deploy_def handleTestingDeploy_cases sections_stop_def handleTestingStop_def
      sections_remove_def handleTestingRemove_def sections_cleanup_def handleTestingCleanupDraining_def
      same_served_def on_store_def Let_def case_prod_beta split: option.split)

lemma sections_same:
  assumes "store_ok (current_store m)"
  shows "same_served (exec cfg ch (sections cfg (ch_reports_nil ch) (ch_desired_reports_nil ch) ep req w) (m, f))
    (serve_endpoint cfg ch ep req w \<lparr>wd_store = current_store m, wd_files = f\<rparr>)"
  using claim_alone [OF assms] start_alone [OF assms] lists_alone [OF assms] creators_alone
  by (cases ep)
    (simp_all add: sections_def serve_endpoint_def Let_def same_served_def one_section_def on_store_def
      handleHealth_def case_prod_beta sections_register_def serve_register_def sections_desired_def
      reader_defs sections_debug_def sections_reset_def serve_reset_def handleTestingReset_def Reset_New
      split: option.split)

section \<open>Interleavings\<close>

text \<open>
  The server with the requests in flight, each with its endpoint and its request. A request for
  one of the endpoints \<open>allowed\<close> may come at any time; any of those in flight may do its next
  section. The runtime of Go ends the process when it sees a map being written while it is
  iterated over; whether it does is left to chance.
\<close>

record thread =
  th_endpoint :: endpoint
  th_request :: request
  th_prog :: prog

record server =
  sv_mem :: memory
  sv_files :: fs
  sv_threads :: "thread list"
  sv_dead :: bool

definition sv_start :: "fs \<Rightarrow> store \<Rightarrow> server" where
  "sv_start f s = \<lparr>sv_mem = mem_at s, sv_files = f, sv_threads = [], sv_dead = False\<rparr>"

definition set_prog :: "nat \<Rightarrow> prog \<Rightarrow> server \<Rightarrow> server" where
  "set_prog i p sv = sv\<lparr>sv_threads := (sv_threads sv)[i := (sv_threads sv ! i)\<lparr>th_prog := p\<rparr>]\<rparr>"

definition at_prog :: "server \<Rightarrow> nat \<Rightarrow> prog \<Rightarrow> bool" where
  "at_prog sv i p \<longleftrightarrow> \<not> sv_dead sv \<and> i < length (sv_threads sv) \<and> th_prog (sv_threads sv ! i) = p"

definition maps_written :: "store \<Rightarrow> store \<Rightarrow> bool" where
  "maps_written s t \<longleftrightarrow> fmdom (Agents t) \<noteq> fmdom (Agents s) \<or> AgentIndex t \<noteq> AgentIndex s \<or>
     fmdom (Commands t) \<noteq> fmdom (Commands s) \<or> fmdom (Deployments t) \<noteq> fmdom (Deployments s) \<or>
     fmdom (DesiredStates t) \<noteq> fmdom (DesiredStates s) \<or>
     AgentByEnvironmentRole (Counters t) \<noteq> AgentByEnvironmentRole (Counters s) \<or>
     DesiredStateVersionByEnvironment (Counters t) \<noteq> DesiredStateVersionByEnvironment (Counters s)"

inductive il_step :: "config \<Rightarrow> (endpoint \<Rightarrow> bool) \<Rightarrow> server \<Rightarrow> server \<Rightarrow> bool"
  for cfg :: config and allowed :: "endpoint \<Rightarrow> bool" where
  il_arrive: "\<not> sv_dead sv \<Longrightarrow> allowed ep \<Longrightarrow> il_step cfg allowed sv
     (sv\<lparr>sv_threads := sv_threads sv @ [\<lparr>th_endpoint = ep, th_request = req,
        th_prog = sections cfg b c ep req cors_writer\<rparr>]\<rparr>)"
| il_locked: "at_prog sv i (Locked g k) \<Longrightarrow> moment_ok mo (current_store (sv_mem sv)) \<Longrightarrow>
     il_step cfg allowed sv (set_prog i (k mo (mem_gen (sv_mem sv)) (current_store (sv_mem sv)))
       (sv\<lparr>sv_mem := mem_put (g mo (mem_gen (sv_mem sv)) (current_store (sv_mem sv))) (sv_mem sv)\<rparr>))"
| il_reset: "at_prog sv i (ResetAll k) \<Longrightarrow>
     il_step cfg allowed sv (set_prog i k (sv\<lparr>sv_mem := mem_reset (sv_mem sv)\<rparr>))"
| il_remove: "at_prog sv i (RemoveFile k) \<Longrightarrow> f = sv_files sv \<or> f = fs_remove (cfg_StateFile cfg) (sv_files sv) \<Longrightarrow>
     il_step cfg allowed sv (set_prog i k (sv\<lparr>sv_files := f\<rparr>))"
| il_peek: "at_prog sv i (Peek k) \<Longrightarrow>
     il_step cfg allowed sv (set_prog i (k (mem_of (sv_mem sv))) sv)"
| il_encode: "at_prog sv i (Encode e k) \<Longrightarrow>
     il_step cfg allowed sv (set_prog i (k (mem_of (sv_mem sv) e)) sv)"
| il_fatal: "at_prog sv i (Encode (mem_gen (sv_mem sv)) k') \<Longrightarrow> at_prog sv j (Locked g k) \<Longrightarrow>
     moment_ok mo (current_store (sv_mem sv)) \<Longrightarrow>
     maps_written (current_store (sv_mem sv)) (g mo (mem_gen (sv_mem sv)) (current_store (sv_mem sv))) \<Longrightarrow>
     il_step cfg allowed sv (sv\<lparr>sv_dead := True\<rparr>)"

inductive_cases il_stepE: "il_step cfg allowed sv sv'"

subsection \<open>What every section keeps\<close>

text \<open>A section under the lock does nothing or one operation of the store.\<close>

definition op_moves :: "store \<Rightarrow> store \<Rightarrow> bool" where
  "op_moves s t \<longleftrightarrow> t = s \<or> op_step s t"

lemma op_moves_intros: "op_moves s s" "op_step s t \<Longrightarrow> op_moves s t"
  by (simp_all add: op_moves_def)

lemma op_moves_store: "op_moves s t \<Longrightarrow> store_moves s t"
  by (auto simp: op_moves_def intro: store_moves_intros)

primrec moves_only :: "prog \<Rightarrow> bool" where
  "moves_only (Answer w p) = True"
| "moves_only (Locked g k) = ((\<forall>mo e s. moment_ok mo s \<longrightarrow> op_moves s (g mo e s)) \<and>
     (\<forall>mo e s. moves_only (k mo e s)))"
| "moves_only (ResetAll k) = moves_only k"
| "moves_only (RemoveFile k) = moves_only k"
| "moves_only (Peek k) = (\<forall>H. moves_only (k H))"
| "moves_only (Encode e k) = (\<forall>s. moves_only (k s))"

lemma moves_only_peek_all: "(\<And>xs. moves_only (k xs)) \<Longrightarrow> moves_only (peek_all look done xs k)"
  by (induction look "done" xs k rule: peek_all.induct) simp_all

lemma moves_claim: "op_moves s (fst (ClaimCommand c a now s))"
  using op_moves_intros(2) [OF op_claim] by (simp add: claimed_def)

lemma moves_start: "op_moves s (fst (StartCommand c a now s))"
  using op_moves_intros(2) [OF op_start] by (simp add: started_def)

lemma moves_create: "op_moves s (fst (CreateCommand i now s))"
  using op_moves_intros(2) [OF op_create] by (simp add: created_def)

lemma moves_deploy: "op_moves s (fst (InitDeploy [] (deploy_input_for cfg r a) now s))"
  using op_moves_intros(2) [OF op_deploy, of "[]" "deploy_input_for cfg r a"]
  by (simp add: deployed_def deploy_input_for_def)

lemma moves_one:
  assumes "moment_ok mo s"
  shows "op_moves s (snd (handleHeartbeat mo req w s))"
    and "op_moves s (snd (handleReportCommand mo req w s))"
    and "op_moves s (snd (handleDesiredStateReport mo req w s))"
    and "op_moves s (fst (snd (handleRegisterAgent mo req w s)))"
proof -
  have ord: "iter_order (mo_deployments mo) (Deployments s)"
    using assms by (simp add: moment_ok_def)
  show "op_moves s (snd (handleHeartbeat mo req w s))" "op_moves s (snd (handleReportCommand mo req w s))"
    "op_moves s (snd (handleDesiredStateReport mo req w s))"
    by (auto simp: handleHeartbeat_store handleReportCommand_store handleDesiredStateReport_store
        split: option.split intro: op_moves_intros op_step.intros ord)
  show "op_moves s (fst (snd (handleRegisterAgent mo req w s)))"
    using handleRegisterAgent_store [of mo req w s] op_moves_intros op_register by metis
qed

lemma sections_move: "moves_only (sections cfg b c ep req w)"
proof -
  note refl = op_moves_intros(1)
  note peek = moves_only_peek_all
  show ?thesis
    by (cases ep) (simp_all add: sections_def one_section_def moves_one moves_claim moves_start moves_create
        moves_deploy refl peek sections_register_def sections_pending_def sections_claim_def sections_start_def
        sections_desired_def sections_deploy_def sections_stop_def sections_remove_def sections_cleanup_def
        sections_agents_def sections_commands_def sections_deployments_def sections_debug_def
        sections_reset_def Let_def split: option.split sum.split)
qed

text \<open>No handler but that of the debug endpoint iterates over live maps.\<close>

primrec no_encode :: "prog \<Rightarrow> bool" where
  "no_encode (Answer w p) = True"
| "no_encode (Locked g k) = (\<forall>mo e s. no_encode (k mo e s))"
| "no_encode (ResetAll k) = no_encode k"
| "no_encode (RemoveFile k) = no_encode k"
| "no_encode (Peek k) = (\<forall>H. no_encode (k H))"
| "no_encode (Encode e k) = False"

primrec no_reset :: "prog \<Rightarrow> bool" where
  "no_reset (Answer w p) = True"
| "no_reset (Locked g k) = (\<forall>mo e s. no_reset (k mo e s))"
| "no_reset (ResetAll k) = False"
| "no_reset (RemoveFile k) = no_reset k"
| "no_reset (Peek k) = (\<forall>H. no_reset (k H))"
| "no_reset (Encode e k) = (\<forall>s. no_reset (k s))"

lemma no_peek_all:
  "(\<And>xs. no_encode (k xs)) \<Longrightarrow> no_encode (peek_all look done xs k)"
  "(\<And>xs. no_reset (k xs)) \<Longrightarrow> no_reset (peek_all look done xs k)"
  by (induction look "done" xs k rule: peek_all.induct) simp_all

lemmas sections_defs = sections_def one_section_def sections_register_def sections_pending_def
  sections_claim_def sections_start_def sections_desired_def sections_deploy_def sections_stop_def
  sections_remove_def sections_cleanup_def sections_agents_def sections_commands_def
  sections_deployments_def sections_debug_def sections_reset_def

lemma sections_no_encode: "ep \<noteq> EpDebug \<Longrightarrow> no_encode (sections cfg b c ep req w)"
  by (cases ep) (simp_all add: sections_defs no_peek_all Let_def split: option.split sum.split)

lemma sections_no_reset: "ep \<noteq> EpReset \<Longrightarrow> no_reset (sections cfg b c ep req w)"
  by (cases ep) (simp_all add: sections_defs no_peek_all Let_def split: option.split sum.split)

text \<open>
  A property of programs that the sections of the allowed endpoints have and that goes over to
  the rest of a program holds of every program in flight.
\<close>

locale kept_by_sections =
  fixes allowed :: "endpoint \<Rightarrow> bool" and P :: "prog \<Rightarrow> bool"
  assumes start: "allowed ep \<Longrightarrow> P (sections cfg b c ep req w)"
    and locked: "P (Locked g k) \<Longrightarrow> P (k mo e s)"
    and reset: "P (ResetAll k') \<Longrightarrow> P k'" and remove: "P (RemoveFile k') \<Longrightarrow> P k'"
    and peek: "P (Peek h) \<Longrightarrow> P (h H)" and encode: "P (Encode e h') \<Longrightarrow> P (h' s)"
begin

lemma step_kept:
  assumes "il_step cfg allowed sv sv'" and "\<forall>th \<in> set (sv_threads sv). P (th_prog th)"
  shows "\<forall>th \<in> set (sv_threads sv'). P (th_prog th)"
proof -
  have set: "\<forall>th \<in> set (sv_threads (set_prog i p sv2)). P (th_prog th)"
    if "at_prog sv i q" "P q \<Longrightarrow> P p" "sv_threads sv2 = sv_threads sv" for i p q sv2
  proof -
    have "P p" using that assms(2) by (auto simp: at_prog_def)
    then show ?thesis
      using assms(2) that(3) by (auto simp: set_prog_def dest!: set_update_subset_insert [THEN subsetD])
  qed
  from assms(1) show ?thesis
  proof cases
    case il_locked
    then show ?thesis by (simp only:) (rule set [OF _ locked], assumption+, simp)
  next
    case il_reset
    then show ?thesis by (simp only:) (rule set [OF _ reset], assumption+, simp)
  next
    case il_remove
    then show ?thesis by (simp only:) (rule set [OF _ remove], assumption+, simp)
  next
    case il_peek
    then show ?thesis by (simp only:) (rule set [OF _ peek], assumption+, simp)
  next
    case il_encode
    then show ?thesis by (simp only:) (rule set [OF _ encode], assumption+, simp)
  qed (use assms(2) start in auto)
qed

lemma run_kept:
  "(il_step cfg allowed ^^ n) (sv_start f s) sv \<Longrightarrow> \<forall>th \<in> set (sv_threads sv). P (th_prog th)"
proof (induction n arbitrary: sv)
  case 0
  then have "sv = sv_start f s" by simp
  then show ?case by (simp add: sv_start_def)
next
  case (Suc n)
  then show ?case using step_kept by auto
qed

end

interpretation movers: kept_by_sections allowed moves_only for allowed
  by unfold_locales (simp_all add: sections_move)

interpretation quiet: kept_by_sections "\<lambda>ep. allowed ep \<and> ep \<noteq> EpDebug" no_encode for allowed
  by unfold_locales (simp_all add: sections_no_encode)

interpretation lasting: kept_by_sections "\<lambda>ep. allowed ep \<and> ep \<noteq> EpReset" no_reset for allowed
  by unfold_locales (simp_all add: sections_no_reset)

subsection \<open>The store in an interleaving\<close>

lemma il_step_moves:
  assumes "il_step cfg allowed sv sv'" and "\<forall>th \<in> set (sv_threads sv). moves_only (th_prog th)"
  shows "store_moves (current_store (sv_mem sv)) (current_store (sv_mem sv'))"
  using assms(1)
proof cases
  case (il_locked i g k mo)
  have "moves_only (Locked g k)"
    using il_locked(2) assms(2) nth_mem [of i "sv_threads sv"] unfolding at_prog_def by metis
  then show ?thesis using il_locked op_moves_store by (simp add: set_prog_def)
next
  case il_reset
  then show ?thesis using store_moves_intros(3) by (simp add: set_prog_def Reset_New)
qed (simp_all add: set_prog_def store_moves_intros)

lemma interleaving_steps:
  assumes "(il_step cfg allowed ^^ n) (sv_start f s) sv"
  shows "\<exists>k \<le> n. (store_step ^^ k) s (current_store (sv_mem sv))"
  using assms
proof (induction n arbitrary: sv)
  case 0
  then have "sv = sv_start f s" by simp
  then show ?case by (simp add: sv_start_def)
next
  case (Suc n)
  then obtain u where u: "(il_step cfg allowed ^^ n) (sv_start f s) u" "il_step cfg allowed u sv" by auto
  have "store_moves (current_store (sv_mem u)) (current_store (sv_mem sv))"
    by (rule il_step_moves [OF u(2) movers.run_kept [OF u(1)]])
  moreover obtain k where k: "k \<le> n" "(store_step ^^ k) s (current_store (sv_mem u))"
    using Suc.IH [OF u(1)] by blast
  ultimately consider "(store_step ^^ k) s (current_store (sv_mem sv))"
    | "(store_step ^^ Suc k) s (current_store (sv_mem sv))"
    by (auto simp: store_moves_def)
  then show ?case using k(1) by (meson Suc_le_mono le_SucI)
qed

lemma interleaving_run:
  assumes "(store_step ^^ m) store_New s" and "(il_step cfg allowed ^^ n) (sv_start f s) sv"
    and "int (m + n) \<le> max_int"
  shows "store_ok (current_store (sv_mem sv))"
    and "counters_within (int (m + n)) (current_store (sv_mem sv))"
proof -
  obtain k where k: "k \<le> n" "(store_step ^^ k) s (current_store (sv_mem sv))"
    using interleaving_steps [OF assms(2)] by blast
  have run: "(store_step ^^ (m + k)) store_New (current_store (sv_mem sv))"
    using assms(1) k(2) by (auto simp: relpowp_add)
  have "int (m + k) \<le> max_int" using k(1) assms(3) by simp
  then show "store_ok (current_store (sv_mem sv))" and "counters_within (int (m + n)) (current_store (sv_mem sv))"
    using store_machine.run_inv_within [OF run] k(1) counters_within_mono [of "int (m + k)" _ "int (m + n)"]
    by auto
qed

text \<open>
  Without a request to the debug endpoint no interleaving ends in the fatal error.
\<close>

lemma not_dead_without_debug:
  assumes "(il_step cfg (\<lambda>ep. allowed ep \<and> ep \<noteq> EpDebug) ^^ n) (sv_start f s) sv"
  shows "\<not> sv_dead sv"
  using assms
proof (induction n arbitrary: sv)
  case 0
  then have "sv = sv_start f s" by simp
  then show ?case by (simp add: sv_start_def)
next
  case (Suc n)
  then obtain u where u: "(il_step cfg (\<lambda>ep. allowed ep \<and> ep \<noteq> EpDebug) ^^ n) (sv_start f s) u"
    "il_step cfg (\<lambda>ep. allowed ep \<and> ep \<noteq> EpDebug) u sv" by auto
  have quiet: "\<forall>th \<in> set (sv_threads u). no_encode (th_prog th)" by (rule quiet.run_kept [OF u(1)])
  have "\<not> at_prog u i (Encode e k)" for i e k
    using quiet nth_mem by (fastforce simp: at_prog_def)
  with u(2) show ?case
    using Suc.IH [OF u(1)] by cases (auto simp: set_prog_def)
qed

end
