(* ===== verification/Concurrency.thy ===== *)
theory Concurrency
  imports Interleaving Api_Examples
begin

text \<open>
  What holds of requests served at the same time: the store of every interleaving is one the
  store machine leads to, a command is never given to two agents, and a debug request can end the
  process.
\<close>

section \<open>Claims at the same time\<close>

definition owned :: "string \<Rightarrow> string \<Rightarrow> store \<Rightarrow> bool" where
  "owned cid a s \<longleftrightarrow> (\<exists>c. fmlookup (Commands s) cid = Some c \<and> \<not> has_phase Pending c \<and> cmd_ClaimedBy c = a)"

lemma owned_unique: "owned cid a s \<Longrightarrow> owned cid b s \<Longrightarrow> a = b"
  by (auto simp: owned_def)

lemma owned_steps:
  assumes "cmd_step\<^sup>*\<^sup>* c d" and "\<not> has_phase Pending c"
  shows "\<not> has_phase Pending d \<and> cmd_ClaimedBy d = cmd_ClaimedBy c"
  using assms(1)
proof (induction rule: rtranclp_induct)
  case (step d e)
  from step(2) show ?case
    using step(3) by cases (auto simp: has_phase_def final_status_def)
qed (use assms(2) in simp)

lemma owned_live:
  assumes "live_step s t" and "owned cid a s"
  shows "owned cid a t"
proof -
  obtain c where c: "fmlookup (Commands s) cid = Some c" "\<not> has_phase Pending c" "cmd_ClaimedBy c = a"
    using assms(2) by (auto simp: owned_def)
  obtain d where "fmlookup (Commands t) cid = Some d" "cmd_step\<^sup>*\<^sup>* c d"
    using commands_keep_live [OF assms(1)] c(1) fm_keepsD unfolding commands_keep_def by metis
  then show ?thesis using owned_steps c(2,3) by (auto simp: owned_def)
qed

lemma claim_owns:
  "ClaimCommand cid a now s = (t, Inr c) \<Longrightarrow> owned cid a t"
  by (auto simp: ClaimCommand_def Let_def owned_def has_phase_def split: option.splits if_splits)

text \<open>Where the handler of a claim can be, and what it knows there.\<close>

definition claim_at :: "store \<Rightarrow> request \<Rightarrow> prog \<Rightarrow> bool" where
  "claim_at s req p \<longleftrightarrow> p = sections_claim req cors_writer \<or>
     (\<exists>k. p = Peek k \<and> (\<forall>H. \<exists>w. k H = Answer w None) \<and>
        owned (URLParam req ''commandID'') (URLParam req ''agentID'') s) \<or>
     (\<exists>w q. p = Answer w q \<and> (status_of w = Some 200 \<longrightarrow>
        owned (URLParam req ''commandID'') (URLParam req ''agentID'') s))"

definition claims_at :: "server \<Rightarrow> bool" where
  "claims_at sv \<longleftrightarrow> (\<forall>th \<in> set (sv_threads sv). th_endpoint th = EpClaim \<longrightarrow>
     claim_at (current_store (sv_mem sv)) (th_request th) (th_prog th))"

lemma command_error_status: "w_sent w = None \<Longrightarrow> status_of (command_error err w) \<noteq> Some 200"
  by (simp add: command_error_def split: store_error.split)

lemma claim_at_mono:
  assumes "claim_at s req p" and "\<And>cid a. owned cid a s \<Longrightarrow> owned cid a t"
  shows "claim_at t req p"
  using assms unfolding claim_at_def by blast

lemma claim_at_locked:
  assumes "claim_at s req (Locked g k)"
  shows "claim_at (g mo e s) req (k mo e s)"
proof -
  let ?c = "URLParam req ''commandID''" and ?a = "URLParam req ''agentID''"
  from assms have gk: "Locked g k = sections_claim req cors_writer" by (simp add: claim_at_def)
  obtain t r where t: "ClaimCommand ?c ?a (mo_now mo) s = (t, r)" by fastforce
  show ?thesis
    using gk t claim_owns [of ?c ?a "mo_now mo" s t] command_error_status [of cors_writer]
    by (cases r) (auto simp: sections_claim_def Let_def claim_at_def)
qed

lemma claims_at_set:
  assumes "claims_at sv" and "at_prog sv i q" and "sv_threads sv2 = sv_threads sv"
    and kept: "\<And>cid a. owned cid a (current_store (sv_mem sv)) \<Longrightarrow> owned cid a (current_store (sv_mem sv2))"
    and rest: "\<And>req. claim_at (current_store (sv_mem sv)) req q \<Longrightarrow> claim_at (current_store (sv_mem sv2)) req p"
  shows "claims_at (set_prog i p sv2)"
  unfolding claims_at_def
proof (intro ballI impI)
  fix th assume th: "th \<in> set (sv_threads (set_prog i p sv2))" "th_endpoint th = EpClaim"
  have i: "i < length (sv_threads sv)" "th_prog (sv_threads sv ! i) = q" using assms(2) by (simp_all add: at_prog_def)
  from th(1) consider "th \<in> set (sv_threads sv)" | "th = (sv_threads sv ! i)\<lparr>th_prog := p\<rparr>"
    using assms(3) by (auto simp: set_prog_def dest!: set_update_subset_insert [THEN subsetD])
  then show "claim_at (current_store (sv_mem (set_prog i p sv2))) (th_request th) (th_prog th)"
  proof cases
    case 1
    then have "claim_at (current_store (sv_mem sv)) (th_request th) (th_prog th)"
      using assms(1) th(2) by (simp add: claims_at_def)
    from claim_at_mono [OF this kept] show ?thesis by (simp add: set_prog_def)
  next
    case 2
    then have "claim_at (current_store (sv_mem sv)) (th_request (sv_threads sv ! i)) q"
      using assms(1) i th(2) nth_mem by (fastforce simp: claims_at_def)
    then show ?thesis using rest 2 by (simp add: set_prog_def)
  qed
qed

lemma owned_moves:
  assumes "op_moves s t" and "store_ok s" and "counters_within (max_int - 1) s" and "owned cid a s"
  shows "owned cid a t"
  using assms owned_live by (auto simp: op_moves_def live_step_def)

lemma claims_at_step:
  assumes "il_step cfg allowed sv sv'" and "claims_at sv" and "store_ok (current_store (sv_mem sv))"
    and "counters_within (max_int - 1) (current_store (sv_mem sv))"
    and "\<forall>th \<in> set (sv_threads sv). moves_only (th_prog th)"
    and "\<forall>th \<in> set (sv_threads sv). no_reset (th_prog th)"
  shows "claims_at sv'"
  using assms(1)
proof cases
  case (il_arrive ep req b c)
  have "claim_at s req (sections cfg b c EpClaim req cors_writer)" for s
    by (simp add: claim_at_def sections_def)
  then show ?thesis using il_arrive assms(2) by (auto simp: claims_at_def)
next
  case (il_locked i g k mo)
  let ?s = "current_store (sv_mem sv)"
  have "moves_only (Locked g k)"
    using il_locked(2) assms(5) nth_mem [of i "sv_threads sv"] unfolding at_prog_def by metis
  then have "op_moves ?s (g mo (mem_gen (sv_mem sv)) ?s)" using il_locked(3) by simp
  then show ?thesis unfolding il_locked(1)
    by (intro claims_at_set [OF assms(2) il_locked(2)])
      (simp_all add: claim_at_locked owned_moves [OF _ assms(3,4)])
next
  case (il_reset i k)
  then have "no_reset (ResetAll k)"
    using assms(6) nth_mem [of i "sv_threads sv"] unfolding at_prog_def by metis
  then show ?thesis by simp
next
  case (il_remove i k f)
  show ?thesis unfolding il_remove(1)
    by (rule claims_at_set [OF assms(2) il_remove(2)]) (simp_all add: claim_at_def sections_claim_def Let_def)
next
  case (il_peek i k)
  show ?thesis unfolding il_peek(1)
    by (rule claims_at_set [OF assms(2) il_peek(2)]) (auto simp: claim_at_def sections_claim_def Let_def)
next
  case (il_encode i e k)
  show ?thesis unfolding il_encode(1)
    by (rule claims_at_set [OF assms(2) il_encode(2)]) (simp_all add: claim_at_def sections_claim_def Let_def)
next
  case il_fatal
  then show ?thesis using assms(2) by (simp add: claims_at_def)
qed

lemma claims_at_run:
  assumes "(store_step ^^ m) store_New s" and "int (m + n) \<le> max_int"
    and "(il_step cfg (\<lambda>ep. allowed ep \<and> ep \<noteq> EpReset) ^^ n) (sv_start f s) sv"
  shows "claims_at sv"
  using assms(2,3)
proof (induction n arbitrary: sv)
  case 0
  then have "sv = sv_start f s" by simp
  then show ?case by (simp add: sv_start_def claims_at_def)
next
  case (Suc n)
  then obtain u where u: "(il_step cfg (\<lambda>ep. allowed ep \<and> ep \<noteq> EpReset) ^^ n) (sv_start f s) u"
    "il_step cfg (\<lambda>ep. allowed ep \<and> ep \<noteq> EpReset) u sv" by auto
  have room: "int (m + n) \<le> max_int - 1" using Suc.prems(1) by simp
  then have ok: "store_ok (current_store (sv_mem u))" "counters_within (max_int - 1) (current_store (sv_mem u))"
    using interleaving_run [OF assms(1) u(1)] counters_within_mono by auto
  show ?case
    by (rule claims_at_step [OF u(2) _ ok movers.run_kept [OF u(1)] lasting.run_kept [OF u(1)]])
      (use Suc.IH [OF _ u(1)] room in simp)
qed

text \<open>A request in flight has been told that its agent has the command.\<close>

definition claim_granted :: "server \<Rightarrow> nat \<Rightarrow> string \<Rightarrow> string \<Rightarrow> bool" where
  "claim_granted sv i cid a \<longleftrightarrow> i < length (sv_threads sv) \<and> th_endpoint (sv_threads sv ! i) = EpClaim \<and>
     URLParam (th_request (sv_threads sv ! i)) ''commandID'' = cid \<and>
     URLParam (th_request (sv_threads sv ! i)) ''agentID'' = a \<and>
     (case th_prog (sv_threads sv ! i) of Answer w p \<Rightarrow> status_of w = Some 200 | _ \<Rightarrow> False)"

lemma claim_granted_owned:
  assumes "claims_at sv" and "claim_granted sv i cid a"
  shows "owned cid a (current_store (sv_mem sv))"
proof -
  let ?th = "sv_threads sv ! i"
  obtain w p where w: "th_prog ?th = Answer w p" "status_of w = Some 200"
    using assms(2) by (auto simp: claim_granted_def split: prog.splits)
  have "claim_at (current_store (sv_mem sv)) (th_request ?th) (Answer w p)"
    using assms w(1) nth_mem [of i "sv_threads sv"] unfolding claims_at_def claim_granted_def by metis
  then show ?thesis
    using w(2) assms(2) by (auto simp: claim_at_def claim_granted_def sections_claim_def Let_def)
qed

section \<open>Examples\<close>

definition ex_claim_request :: request where
  "ex_claim_request = (plain_request ''POST'' ''/api/agents/agent-dev-api-001/commands/cmd-001/claim'')
     \<lparr>rq_params := fmupd ''agentID'' ex_agent (fmupd ''commandID'' ''cmd-001'' fmempty)\<rparr>"

lemma ex_claim_params [simp]:
  "URLParam ex_claim_request ''agentID'' = ex_agent" "URLParam ex_claim_request ''commandID'' = ''cmd-001''"
  by (simp_all add: URLParam_def ex_claim_request_def plain_request_def lookup_or_def)

definition ex_claimed :: "time \<Rightarrow> command" where
  "ex_claimed now = ex_c1\<lparr>cmd_Status := ''claimed'', cmd_ClaimedBy := ex_agent, cmd_ClaimedAt := Some now\<rparr>"

lemma ex_claims:
  "ClaimCommand ''cmd-001'' ex_agent now ex_2 = (put_command ''cmd-001'' (ex_claimed now) ex_2, Inr (ex_claimed now))"
  "ClaimCommand ''cmd-001'' ex_agent now' (put_command ''cmd-001'' (ex_claimed now) ex_2) =
     (put_command ''cmd-001'' (ex_claimed now) ex_2, Inr (ex_claimed now))"
  by (simp_all add: ClaimCommand_def Let_def put_command_def ex_claimed_def)

lemma ex_run_2: "(store_step ^^ Suc 1) store_New ex_2"
  by (rule op_runs, rule relpowp_Suc_I [OF ex_runs(1) ex_steps(2)])

text \<open>Two requests of the agent for its command, the second begun before the first has its answer.\<close>

lemma ex_claims_run:
  "\<exists>sv. (il_step ex_cfg (\<lambda>ep. True \<and> ep \<noteq> EpReset) ^^ 6) (sv_start fs_empty ex_2) sv \<and>
     length (sv_threads sv) = 2 \<and> \<not> sv_dead sv \<and> claim_granted sv 0 ''cmd-001'' ex_agent \<and> claim_granted sv 1 ''cmd-001'' ex_agent"
proof -
  let ?A = "\<lambda>ep. True \<and> ep \<noteq> EpReset" and ?t = "\<lambda>p. \<lparr>th_endpoint = EpClaim, th_request = ex_claim_request, th_prog = p\<rparr>"
  obtain mo where mo: "moment_ok mo ex_2" using moment_exists by blast
  define s3 where "s3 = put_command ''cmd-001'' (ex_claimed (mo_now mo)) ex_2"
  obtain mo' where mo': "moment_ok mo' s3" using moment_exists by blast
  define k where "k = (\<lambda>H. let c = at_command 0 H (ex_claimed (mo_now mo)) in
     Answer (JSON 200 (enc_claim_response \<lparr>clr_ID = cmd_ID c, clr_Status = cmd_Status c,
       clr_ClaimedBy = cmd_ClaimedBy c, clr_ClaimedAt = cmd_ClaimedAt c\<rparr>) cors_writer) None)"
  define sv where "sv = (\<lambda>s p. \<lparr>sv_mem = mem_put s (mem_at ex_2), sv_files = fs_empty, sv_threads = map ?t p, sv_dead = False\<rparr>)"
  let ?q = "sections_claim ex_claim_request cors_writer"
  have put: "mem_put t (mem_put u m) = mem_put t m" for t u m by (simp add: mem_put_def)
  have mem0: "mem_gen (mem_at s) = 0" "mem_put s (mem_at s) = mem_at s" for s
    by (simp_all add: mem_at_def mem_put_def fun_upd_def)
  have arrive: "il_step ex_cfg ?A (sv s p) (sv s (p @ [?q]))" for s p
    using il_arrive [of "sv s p" ?A EpClaim ex_cfg ex_claim_request] by (simp add: sv_def sections_def)
  have locked: "il_step ex_cfg ?A (sv s p) (sv s3 (p[i := Peek k]))"
    if "i < length p" "p ! i = ?q" "s = ex_2 \<or> s = s3" for i p s
    using il_locked [of "sv s p" i _ _ "if s = ex_2 then mo else mo'" ex_cfg ?A] that mo mo'
    by (fastforce simp: at_prog_def sv_def set_prog_def sections_claim_def Let_def ex_claims s3_def put mem0 k_def map_update)
  have peek: "il_step ex_cfg ?A (sv s p) (sv s (p[i := k (mem_of (mem_put s (mem_at ex_2)))]))"
    if "i < length p" "p ! i = Peek k" for i p s
    using il_peek [of "sv s p" i k ex_cfg ?A] that by (simp add: at_prog_def sv_def set_prog_def map_update)
  let ?k = "k (mem_of (mem_put s3 (mem_at ex_2)))"
  have r: "il_step ex_cfg ?A (sv ex_2 []) (sv ex_2 [?q])" "il_step ex_cfg ?A (sv ex_2 [?q]) (sv ex_2 [?q, ?q])"
    "il_step ex_cfg ?A (sv ex_2 [?q, ?q]) (sv s3 [Peek k, ?q])"
    "il_step ex_cfg ?A (sv s3 [Peek k, ?q]) (sv s3 [Peek k, Peek k])"
    "il_step ex_cfg ?A (sv s3 [Peek k, Peek k]) (sv s3 [Peek k, ?k])"
    "il_step ex_cfg ?A (sv s3 [Peek k, ?k]) (sv s3 [?k, ?k])"
    using arrive [of ex_2 "[]"] arrive [of ex_2 "[?q]"] locked [of 0 "[?q, ?q]" ex_2] locked [of 1 "[Peek k, ?q]" s3]
      peek [of 1 "[Peek k, Peek k]" s3] peek [of 0 "[Peek k, ?k]" s3] by simp_all
  note more = relpowp_Suc_I [where P = "il_step ex_cfg ?A"]
  have "(il_step ex_cfg ?A ^^ Suc (Suc (Suc (Suc (Suc (Suc 0)))))) (sv ex_2 []) (sv s3 [?k, ?k])"
    by (intro more [OF _ r(6)] more [OF _ r(5)] more [OF _ r(4)] more [OF _ r(3)] more [OF _ r(2)]
        more [OF _ r(1)] relpowp_0_I)
  moreover have "sv ex_2 [] = sv_start fs_empty ex_2" by (simp add: sv_def sv_start_def mem0)
  ultimately have "(il_step ex_cfg ?A ^^ 6) (sv_start fs_empty ex_2) (sv s3 [?k, ?k])"
    by (simp only: eval_nat_numeral BitM.simps)
  moreover have "claim_granted (sv s3 [?k, ?k]) i ''cmd-001'' ex_agent" if "i < 2" for i
    using that by (auto simp: claim_granted_def sv_def k_def Let_def less_2_cases_iff)
  ultimately show ?thesis by (intro exI [of _ "sv s3 [?k, ?k]"]) (simp add: sv_def)
qed

section \<open>The sections and the handlers\<close>

text \<open>
  What each handler does in the model of one request after the other is what its sections do
  when no other request comes between them: the same answer, the same store, the same files,
  the same panic.
\<close>

lemma sections_alone:
  assumes "store_ok (current_store m)"
    and "exec cfg ch (sections cfg (ch_reports_nil ch) (ch_desired_reports_nil ch) ep req w) (m, f) =
      (w', (m', f'), p)"
  shows "serve_endpoint cfg ch ep req w \<lparr>wd_store = current_store m, wd_files = f\<rparr> =
    (w', \<lparr>wd_store = current_store m', wd_files = f'\<rparr>, p)"
  using sections_same [OF assms(1), of cfg ch ep req w f] assms(2)
  by (cases "serve_endpoint cfg ch ep req w \<lparr>wd_store = current_store m, wd_files = f\<rparr>")
    (simp add: same_served_def)

text \<open>
  C7: any interleaving of any number of requests leaves a store that at most as many operations
  of the store as there were sections lead to from the store at the start; so the store is well
  formed however the handlers that take the lock several times are interleaved.
\<close>

theorem interleaving_refines_store:
  assumes "(store_step ^^ m) store_New s" and "(il_step cfg allowed ^^ n) (sv_start f s) sv"
    and "int (m + n) \<le> max_int"
  shows "(\<exists>k \<le> n. (store_step ^^ k) s (current_store (sv_mem sv))) \<and> store_ok (current_store (sv_mem sv))"
  using interleaving_steps [OF assms(2)] interleaving_run(1) [OF assms] by blast

theorem interleaving_refines_store_witness:
  "\<exists>sv. (il_step ex_cfg (\<lambda>ep. True \<and> ep \<noteq> EpReset) ^^ 6) (sv_start fs_empty ex_2) sv \<and>
     claim_granted sv 0 ''cmd-001'' ex_agent \<and> (\<exists>k \<le> 6. (store_step ^^ k) ex_2 (current_store (sv_mem sv))) \<and>
     store_ok (current_store (sv_mem sv))"
proof -
  obtain sv where sv: "(il_step ex_cfg (\<lambda>ep. True \<and> ep \<noteq> EpReset) ^^ 6) (sv_start fs_empty ex_2) sv"
    "claim_granted sv 0 ''cmd-001'' ex_agent" using ex_claims_run by blast
  show ?thesis using interleaving_refines_store [OF ex_run_2 sv(1)] sv by (auto simp: max_int_def)
qed

text \<open>
  C10: of all requests that claim one command at the same time, those answered with 200 are of
  one agent, and the command is that agent's, whatever came between their sections; only a reset
  of the store, which forgets the command, is left out.
\<close>

theorem concurrent_claims_exclusive:
  assumes "(store_step ^^ m) store_New s" and "int (m + n) \<le> max_int"
    and "(il_step cfg (\<lambda>ep. allowed ep \<and> ep \<noteq> EpReset) ^^ n) (sv_start f s) sv"
    and "claim_granted sv i cid a" and "claim_granted sv j cid b"
  shows "a = b \<and> (\<exists>c. fmlookup (Commands (current_store (sv_mem sv))) cid = Some c \<and>
    \<not> has_phase Pending c \<and> cmd_ClaimedBy c = a)"
proof -
  have "owned cid a (current_store (sv_mem sv))" "owned cid b (current_store (sv_mem sv))"
    using claims_at_run [OF assms(1-3)] claim_granted_owned assms(4,5) by blast+
  then show ?thesis using owned_unique by (auto simp: owned_def)
qed

theorem concurrent_claims_exclusive_witness:
  "\<exists>sv c. claim_granted sv 0 ''cmd-001'' ex_agent \<and> claim_granted sv 1 ''cmd-001'' ex_agent \<and>
     fmlookup (Commands (current_store (sv_mem sv))) ''cmd-001'' = Some c \<and> cmd_ClaimedBy c = ex_agent"
proof -
  obtain sv where sv: "(il_step ex_cfg (\<lambda>ep. True \<and> ep \<noteq> EpReset) ^^ 6) (sv_start fs_empty ex_2) sv"
    "claim_granted sv 0 ''cmd-001'' ex_agent" "claim_granted sv 1 ''cmd-001'' ex_agent" using ex_claims_run by blast
  have "int (Suc 1 + 6) \<le> max_int" by (simp add: max_int_def)
  from concurrent_claims_exclusive [OF ex_run_2 this sv] sv show ?thesis by blast
qed

section \<open>The maps of the debug endpoint\<close>

text \<open>
  C35: \<open>Debug\<close> returns the maps of the store, not copies of them, and the handler encodes them
  after the lock is released. From any state of the server, a debug request and the registration
  of an agent not yet known can run such that the map is written while it is iterated over, which
  ends the process.
\<close>

theorem debug_can_kill_the_server:
  assumes "\<not> sv_dead sv" and "allowed EpDebug" and "allowed EpRegister"
    and "moment_ok mo (current_store (sv_mem sv))"
    and "fmdom (Agents (fst (snd (handleRegisterAgent mo req cors_writer (current_store (sv_mem sv)))))) \<noteq>
      fmdom (Agents (current_store (sv_mem sv)))"
  shows "\<exists>sv'. (il_step cfg allowed ^^ 4) sv sv' \<and> sv_dead sv'"
proof -
  let ?s = "current_store (sv_mem sv)" and ?n = "length (sv_threads sv)"
  define debug where "debug = sections_debug True True cors_writer"
  define k where "k = (\<lambda>t. Answer (JSON 200 (enc_map (\<lambda>j. j)
    (Debug True True (live_maps ?s t))) cors_writer) None)"
  define sv1 where "sv1 = sv\<lparr>sv_threads := sv_threads sv @
    [\<lparr>th_endpoint = EpDebug, th_request = req, th_prog = debug\<rparr>]\<rparr>"
  define sv2 where "sv2 = set_prog ?n (Encode (mem_gen (sv_mem sv)) k) sv1"
  define sv3 where "sv3 = sv2\<lparr>sv_threads := sv_threads sv2 @
    [\<lparr>th_endpoint = EpRegister, th_request = req, th_prog = sections_register req cors_writer\<rparr>]\<rparr>"
  have 1: "il_step cfg allowed sv sv1"
    unfolding sv1_def debug_def
    using il_arrive [of sv allowed EpDebug cfg req True True] assms(1,2) by (simp add: sections_def)
  have "at_prog sv1 ?n debug" using assms(1) by (simp add: at_prog_def sv1_def)
  then have 2: "il_step cfg allowed sv1 sv2"
    unfolding debug_def sections_debug_def
    by (drule_tac il_locked [where mo = mo and cfg = cfg and allowed = allowed])
      (use assms(4) in \<open>simp_all add: sv1_def sv2_def k_def\<close>)
  have 3: "il_step cfg allowed sv2 sv3"
    unfolding sv3_def using il_arrive [of sv2 allowed EpRegister cfg req True True] assms(1,3)
    by (simp add: sections_def sv2_def sv1_def set_prog_def)
  have mem: "sv_mem sv3 = sv_mem sv" by (simp add: sv3_def sv2_def sv1_def set_prog_def)
  have "at_prog sv3 ?n (Encode (mem_gen (sv_mem sv3)) k)" "at_prog sv3 (Suc ?n) (sections_register req cors_writer)"
    using assms(1) by (simp_all add: at_prog_def mem sv3_def sv2_def sv1_def set_prog_def nth_append)
  then have 4: "il_step cfg allowed sv3 (sv3\<lparr>sv_dead := True\<rparr>)"
    unfolding sections_register_def
    by (rule il_fatal [where mo = mo]) (use assms(4,5) in \<open>simp_all add: mem maps_written_def\<close>)
  have "(il_step cfg allowed ^^ (1 + 1 + 1 + 1)) sv (sv3\<lparr>sv_dead := True\<rparr>)"
    using 1 2 3 4 unfolding relpowp_add relpowp_1 by blast
  then have "(il_step cfg allowed ^^ 4) sv (sv3\<lparr>sv_dead := True\<rparr>)"
    by (simp only: numeral_plus_one semiring_norm one_add_one one_plus_numeral)
  then show ?thesis by (intro exI [of _ "sv3\<lparr>sv_dead := True\<rparr>"]) simp
qed

definition ex_register_request :: request where
  "ex_register_request = (plain_request ''POST'' ''/api/agents/register'')\<lparr>rq_body := Some (JObj
     [(''instance_id'', JStr ''inst-1''), (''environment'', JStr ''dev''), (''role'', JStr ''api''),
      (''mode'', JStr ''runtime'')])\<rparr>"

lemma ex_register_decoded:
  "\<exists>r. decode ex_register_request (dec_struct register_fields) zero_register_request = Some r \<and>
     ri_InstanceID r = ''inst-1'' \<and> ri_Environment r = ''dev'' \<and> ri_Role r = ''api'' \<and> ri_Mode r = ''runtime''"
  by (simp add: decode_def ex_register_request_def plain_request_def dec_struct_def register_fields_def
      find_field_def field_def dec_string_def zero_register_request_def)

lemma ex_register_adds:
  "fmdom (Agents (fst (snd (handleRegisterAgent mo ex_register_request w store_New)))) \<noteq> fmdom (Agents store_New)"
proof -
  obtain r where r: "decode ex_register_request (dec_struct register_fields) zero_register_request = Some r"
    "ri_InstanceID r = ''inst-1''" "ri_Environment r = ''dev''" "ri_Role r = ''api''" "ri_Mode r = ''runtime''"
    using ex_register_decoded by blast
  then show ?thesis
    by (simp add: handleRegisterAgent_def RegisterAgent_def store_New_def zero_counters_def Let_def lookup_or_def)
qed

theorem debug_can_kill_the_server_witness:
  "\<exists>sv. (il_step ex_cfg (\<lambda>ep. True) ^^ 4) (sv_start fs_empty store_New) sv \<and> sv_dead sv"
proof -
  let ?sv = "sv_start fs_empty store_New"
  have sv: "current_store (sv_mem ?sv) = store_New" "\<not> sv_dead ?sv" by (simp_all add: sv_start_def)
  obtain mo where mo: "moment_ok mo store_New" using moment_exists by blast
  show ?thesis
    using debug_can_kill_the_server [of ?sv "\<lambda>ep. True" mo ex_register_request ex_cfg] ex_register_adds [of mo cors_writer] mo sv
    by simp
qed

end
