(* ===== verification/Fake_App.thy ===== *)
theory Fake_App
  imports Config Response
begin

text \<open>
  The images the platform deploys in its manual tests: \<open>test/fake-app\<close>, a server with four
  endpoints, and \<open>test/fake-worker\<close>, a loop that logs, with an optional health endpoint. Both
  read their variables with a \<open>getEnv\<close> that is word for word that of the configuration. The
  \<open>http.ServeMux\<close> they register their patterns with is modelled for clean paths (no empty, \<open>.\<close>
  or \<open>..\<close> segment); other paths it redirects.
\<close>

section \<open>ServeMux\<close>

text \<open>
  A pattern \<open>GET path\<close> takes the requests \<open>GET\<close> and \<open>HEAD\<close>; a path that ends in a slash takes
  what begins with it. Of two patterns that match, the one without the slash is more specific.
  A path only other methods are registered for is answered with 405, another one with 404; the
  body of these two is a line of text, which the writer, made for JSON documents, leaves out.
\<close>

definition mux_matches :: "string \<Rightarrow> string \<Rightarrow> bool" where
  "mux_matches pattern path \<longleftrightarrow>
     (if pattern \<noteq> [] \<and> last pattern = CHR ''/'' then take (length pattern) path = pattern
      else path = pattern)"

definition mux_handler :: "(string \<times> 'h) list \<Rightarrow> string \<Rightarrow> 'h option" where
  "mux_handler table path =
     (case map_of table path of
        Some h \<Rightarrow> Some h
      | None \<Rightarrow> map_option snd (find (\<lambda>(pattern, h). mux_matches pattern path) table))"

definition mux_error :: "int \<Rightarrow> writer \<Rightarrow> writer" where
  "mux_error status w = WriteHeader status (set_header ''X-Content-Type-Options'' ''nosniff''
     (set_header ''Content-Type'' ''text/plain; charset=utf-8'' w))"

definition mux_serve :: "(string \<times> (writer \<Rightarrow> writer)) list \<Rightarrow> string \<Rightarrow> string \<Rightarrow> writer \<Rightarrow> writer" where
  "mux_serve table method path w =
     (case mux_handler table path of
        None \<Rightarrow> mux_error 404 w
      | Some h \<Rightarrow>
          if method = ''GET'' \<or> method = ''HEAD'' then h w
          else mux_error 405 (set_header ''Allow'' ''GET, HEAD'' w))"

section \<open>The fake application\<close>

record app_vars =
  av_Name :: string
  av_Version :: string
  av_Mode :: string
  av_Port :: string

definition app_getEnv :: "string gomap \<Rightarrow> string \<Rightarrow> string \<Rightarrow> string" where
  "app_getEnv env key d = (let v = os_Getenv env key in if v \<noteq> '''' then v else d)"

definition app_main :: "string gomap \<Rightarrow> app_vars" where
  "app_main env =
     \<lparr>av_Name = app_getEnv env ''APP_NAME'' ''fake-app'',
      av_Version = app_getEnv env ''APP_VERSION'' ''v1'',
      av_Mode = app_getEnv env ''APP_MODE'' ''healthy'',
      av_Port = app_getEnv env ''PORT'' ''3000''\<rparr>"

text \<open>\<open>map[string]string\<close> with the given entries, as it is encoded.\<close>

definition string_map :: "(string \<times> string) list \<Rightarrow> json" where
  "string_map es = enc_map enc_string (fmap_of_list es)"

definition app_root :: "app_vars \<Rightarrow> writer \<Rightarrow> writer" where
  "app_root v w = write_json
     (string_map [(''app'', av_Name v), (''version'', av_Version v), (''mode'', av_Mode v)])
     (set_header ''Content-Type'' ''application/json'' w)"

text \<open>The health check, with the seconds it sleeps before it answers.\<close>

definition app_health :: "app_vars \<Rightarrow> writer \<Rightarrow> writer \<times> nat" where
  "app_health v w =
     (if av_Mode v = ''broken''
      then (write_json (string_map [(''status'', ''unhealthy'')]) (WriteHeader 500 w), 0)
      else if av_Mode v = ''slow''
      then (write_json (string_map [(''status'', ''ok'')]) w, 10)
      else (write_json (string_map [(''status'', ''ok'')]) w, 0))"

definition app_version :: "app_vars \<Rightarrow> writer \<Rightarrow> writer" where
  "app_version v w = write_json (string_map [(''version'', av_Version v)])
     (set_header ''Content-Type'' ''application/json'' w)"

definition app_env :: "app_vars \<Rightarrow> writer \<Rightarrow> writer" where
  "app_env v w = write_json
     (string_map [(''APP_NAME'', av_Name v), (''APP_VERSION'', av_Version v),
        (''APP_MODE'', av_Mode v), (''PORT'', av_Port v)])
     (set_header ''Content-Type'' ''application/json'' w)"

definition app_table :: "app_vars \<Rightarrow> (string \<times> (writer \<Rightarrow> writer)) list" where
  "app_table v =
     [(''/'', app_root v), (''/health'', \<lambda>w. fst (app_health v w)), (''/version'', app_version v),
      (''/env'', app_env v)]"

definition app_serve :: "string gomap \<Rightarrow> string \<Rightarrow> string \<Rightarrow> writer" where
  "app_serve env method path = mux_serve (app_table (app_main env)) method path new_writer"

section \<open>The fake worker\<close>

record worker_vars =
  wv_Name :: string
  wv_Version :: string
  wv_Port :: string

definition worker_getEnv :: "string gomap \<Rightarrow> string \<Rightarrow> string \<Rightarrow> string" where
  "worker_getEnv env key d = (let v = os_Getenv env key in if v \<noteq> '''' then v else d)"

definition worker_main :: "string gomap \<Rightarrow> worker_vars" where
  "worker_main env =
     \<lparr>wv_Name = worker_getEnv env ''WORKER_NAME'' ''fake-worker'',
      wv_Version = worker_getEnv env ''WORKER_VERSION'' ''v1'',
      wv_Port = worker_getEnv env ''PORT'' ''''\<rparr>"

text \<open>The address and the patterns of the server the worker starts, if any.\<close>

definition worker_server :: "worker_vars \<Rightarrow> (string \<times> (string \<times> (writer \<Rightarrow> writer)) list) option" where
  "worker_server v =
     (if wv_Port v \<noteq> ''''
      then Some ('':'' @ wv_Port v, [(''/health'', write_json (string_map [(''status'', ''ok'')]))])
      else None)"

text \<open>What the loop has logged after a number of ticks.\<close>

primrec worker_log :: "worker_vars \<Rightarrow> nat \<Rightarrow> string list" where
  "worker_log v 0 = [''fake-worker started (name='' @ wv_Name v @ '' version='' @ wv_Version v @ '')'']"
| "worker_log v (Suc n) =
     worker_log v n @ [''fake-worker '' @ wv_Name v @ ''@'' @ wv_Version v @ '' processing...'']"

section \<open>What a health check sees\<close>

lemma own_getEnv: "app_getEnv = getEnv" "worker_getEnv = getEnv"
  by (simp_all add: fun_eq_iff app_getEnv_def worker_getEnv_def getEnv_def)

lemma app_routes:
  "mux_handler (app_table v) ''/health'' = Some (\<lambda>w. fst (app_health v w))"
  "mux_handler (app_table v) ''/version'' = Some (app_version v)"
  "mux_handler (app_table v) ''/env'' = Some (app_env v)"
  by (simp_all add: mux_handler_def app_table_def)

text \<open>Every other path that begins with a slash is answered as the root.\<close>

lemma app_catch_all:
  assumes "path \<notin> {''/health'', ''/version'', ''/env''}" and "path \<noteq> []" and "hd path = CHR ''/''"
  shows "mux_handler (app_table v) path = Some (app_root v)"
  using assms by (cases path) (auto simp: mux_handler_def app_table_def mux_matches_def)

lemma health_answer:
  "status_of (fst (app_health v new_writer)) = Some (if av_Mode v = ''broken'' then 500 else 200)"
  "w_body (fst (app_health v new_writer)) =
     [string_map [(''status'', if av_Mode v = ''broken'' then ''unhealthy'' else ''ok'')]]"
  "snd (app_health v w) = (if av_Mode v = ''slow'' then 10 else 0)"
  by (simp_all add: app_health_def write_json_def WriteHeader_def status_of_def new_writer_def Let_def)

text \<open>
  The mode decides what the health check of an application says: 500 when it is \<open>broken\<close>, after
  ten seconds when it is \<open>slow\<close>, and 200 at once in every other mode, a missing one included;
  the other endpoints answer 200 in every mode.
\<close>

theorem health_follows_mode:
  "status_of (app_serve env ''GET'' ''/health'') =
     Some (if fmlookup env ''APP_MODE'' = Some ''broken'' then 500 else 200) \<and>
   status_of (app_serve env ''GET'' ''/'') = Some 200 \<and> status_of (app_serve env ''GET'' ''/env'') = Some 200 \<and>
   status_of (app_serve env ''GET'' ''/version'') = Some 200 \<and>
   status_of (app_serve env ''POST'' ''/health'') = Some 405"
proof -
  have mode: "av_Mode (app_main env) = ''broken'' \<longleftrightarrow> fmlookup env ''APP_MODE'' = Some ''broken''"
    by (auto simp: app_main_def own_getEnv getEnv_cases split: option.split)
  have root: "mux_handler (app_table v) ''/'' = Some (app_root v)" for v
    by (simp add: mux_handler_def app_table_def)
  show ?thesis
    by (simp add: app_serve_def mux_serve_def app_routes root health_answer mode)
      (simp add: mux_error_def app_root_def app_env_def app_version_def write_json_def WriteHeader_def set_header_def
        status_of_def new_writer_def Let_def)
qed

text \<open>A worker serves a health endpoint exactly when it is given a port, and nothing else.\<close>

theorem worker_health_optional:
  "(worker_server (worker_main env) = None) = (\<forall>p. fmlookup env ''PORT'' = Some p \<longrightarrow> p = '''') \<and>
   (\<forall>addr table path. worker_server (worker_main env) = Some (addr, table) \<and> path \<noteq> ''/health'' \<longrightarrow>
     status_of (mux_serve table ''GET'' path new_writer) = Some 404)"
proof -
  have "wv_Port (worker_main env) = '''' \<longleftrightarrow> (\<forall>p. fmlookup env ''PORT'' = Some p \<longrightarrow> p = '''')"
    by (auto simp: worker_main_def own_getEnv getEnv_cases split: option.split)
  then show ?thesis
    by (auto simp: worker_server_def mux_serve_def mux_handler_def mux_matches_def mux_error_def WriteHeader_def
        set_header_def new_writer_def status_of_def split: if_split_asm)
qed

lemma worker_log_length: "length (worker_log v n) = Suc n"
  by (induction n) simp_all

end
